(* ===== verification/Prelude.thy ===== *)
theory Prelude
  imports Main
begin

text \<open>
  Shared ground of the development.

  Go's error interface becomes the datatype \<open>error\<close>: one constructor per way the code makes an
  error (a \<open>fmt.Errorf\<close> or \<open>errors.New\<close> with its format and operands, an aggregate of errors, the
  aggregate of a \<open>field.ErrorList\<close>, a CEL compilation error).  A Go function returning
  \<open>(T, error)\<close> becomes a HOL function into \<open>error + 'a\<close>: \<open>Inl\<close> is the error return and \<open>Inr\<close> the
  value.  A pointer that may be nil is an \<open>option\<close>.  A Go string is the list of its bytes, the
  HOL type \<open>string\<close>.

  The loops of the code that stop at the first error are \<open>map_res\<close> and \<open>fold_res\<close>, loops that
  number their elements are \<open>concat_idx\<close> and \<open>scan_idx\<close>.  Their general laws are proved here
  once; the locale \<open>seen_scan\<close> is the contract of the validators that thread a set of values
  already seen through such a loop.
\<close>

named_theorems res_simps \<open>equations that unfold error propagation\<close>
named_theorems go_defs \<open>definitions of small Go library helpers\<close>

section \<open>Errors\<close>

datatype field_error_type =
    ErrorTypeRequired | ErrorTypeInvalid | ErrorTypeDuplicate
  | ErrorTypeTooMany | ErrorTypeTooLong | ErrorTypeForbidden | ErrorTypeInternal

datatype path_elem = Child string | Index nat

type_synonym path = "path_elem list"

datatype cel_error_type = CelErrorRequired | CelErrorInvalid | CelErrorInternal

datatype error =
    Errorf string "operand list"
  | Aggregate "error list"
  | FieldErrors "field_error list"
  | CelError cel_error_type string "operand list"
and operand = OpS string | OpN nat | OpE error
and field_error = FieldError field_error_type "path_elem list" string string "operand list"

type_synonym 'a res = "error + 'a"

text \<open>The constructors of \<open>field.Error\<close>: the type, the path, the bad value and the detail.\<close>

definition field_Required :: "path \<Rightarrow> string \<Rightarrow> field_error" where
  "field_Required p d = FieldError ErrorTypeRequired p [] d []"

definition field_Invalid :: "path \<Rightarrow> string \<Rightarrow> string \<Rightarrow> field_error" where
  "field_Invalid p v d = FieldError ErrorTypeInvalid p v d []"

definition field_InvalidE :: "path \<Rightarrow> string \<Rightarrow> string \<Rightarrow> error \<Rightarrow> field_error" where
  "field_InvalidE p v d e = FieldError ErrorTypeInvalid p v d [OpE e]"

definition field_Duplicate :: "path \<Rightarrow> string \<Rightarrow> field_error" where
  "field_Duplicate p v = FieldError ErrorTypeDuplicate p v [] []"

definition field_TooMany :: "path \<Rightarrow> nat \<Rightarrow> nat \<Rightarrow> field_error" where
  "field_TooMany p n m = FieldError ErrorTypeTooMany p [] [] [OpN n, OpN m]"

definition field_TooLong :: "path \<Rightarrow> string \<Rightarrow> nat \<Rightarrow> field_error" where
  "field_TooLong p v m = FieldError ErrorTypeTooLong p v [] [OpN m]"

definition field_Forbidden :: "path \<Rightarrow> string \<Rightarrow> field_error" where
  "field_Forbidden p d = FieldError ErrorTypeForbidden p [] d []"

definition field_InternalError :: "path \<Rightarrow> error \<Rightarrow> field_error" where
  "field_InternalError p e = FieldError ErrorTypeInternal p [] [] [OpE e]"

abbreviation child :: "path \<Rightarrow> string \<Rightarrow> path" where
  "child p s \<equiv> p @ [Child s]"

abbreviation index :: "path \<Rightarrow> nat \<Rightarrow> path" where
  "index p i \<equiv> p @ [Index i]"

text \<open>\<open>ErrorList.ToAggregate\<close>: nil for an empty list.\<close>

definition ToAggregate :: "field_error list \<Rightarrow> error option" where
  "ToAggregate es = (if es = [] then None else Some (FieldErrors es))"

text \<open>\<open>utilerrors.NewAggregate\<close>: nil for an empty list.\<close>

definition NewAggregate :: "error list \<Rightarrow> error option" where
  "NewAggregate es = (if es = [] then None else Some (Aggregate es))"

lemma ToAggregate_None [simp]: "ToAggregate es = None \<longleftrightarrow> es = []"
  by (simp add: ToAggregate_def)

lemma NewAggregate_None [simp]: "NewAggregate es = None \<longleftrightarrow> es = []"
  by (simp add: NewAggregate_def)

section \<open>Error propagation\<close>

text \<open>\<open>x, err := m; if err != nil { return wrap(err) }; k(x)\<close>\<close>

definition bind_res :: "'a res \<Rightarrow> (error \<Rightarrow> error) \<Rightarrow> ('a \<Rightarrow> 'b res) \<Rightarrow> 'b res" where
  "bind_res m w k = (case m of Inl e \<Rightarrow> Inl (w e) | Inr x \<Rightarrow> k x)"

lemma bind_res_simps [simp, res_simps]:
  "bind_res (Inl e) w k = Inl (w e)"
  "bind_res (Inr x) w k = k x"
  by (simp_all add: bind_res_def)

lemma bind_res_Inr_iff [res_simps]:
  "bind_res m w k = Inr y \<longleftrightarrow> (\<exists>x. m = Inr x \<and> k x = Inr y)"
  by (cases m) simp_all

lemma bind_res_Inl_iff:
  "bind_res m w k = Inl e \<longleftrightarrow> (\<exists>e'. m = Inl e' \<and> e = w e') \<or> (\<exists>x. m = Inr x \<and> k x = Inl e)"
  by (cases m) auto

text \<open>A loop that computes one value per element and stops at the first error.\<close>

fun map_res :: "('a \<Rightarrow> 'b res) \<Rightarrow> 'a list \<Rightarrow> 'b list res" where
  "map_res f [] = Inr []"
| "map_res f (x # xs) =
     (case f x of Inl e \<Rightarrow> Inl e
      | Inr y \<Rightarrow> (case map_res f xs of Inl e \<Rightarrow> Inl e | Inr ys \<Rightarrow> Inr (y # ys)))"

lemma map_res_Inr_iff [res_simps]:
  "map_res f xs = Inr ys \<longleftrightarrow> list_all2 (\<lambda>x y. f x = Inr y) xs ys"
proof (induction xs arbitrary: ys)
  case Nil
  then show ?case by auto
next
  case (Cons x xs)
  show ?case by (cases ys) (auto simp: Cons.IH [symmetric] split: sum.splits)
qed

lemma map_res_length: "map_res f xs = Inr ys \<Longrightarrow> length ys = length xs"
  by (auto simp: map_res_Inr_iff dest: list_all2_lengthD)

lemma map_res_Inr_D: "map_res f xs = Inr ys \<Longrightarrow> x \<in> set xs \<Longrightarrow> \<exists>y \<in> set ys. f x = Inr y"
  by (induction xs arbitrary: ys) (auto split: sum.splits)

lemma map_res_total: "(\<And>x. x \<in> set xs \<Longrightarrow> \<exists>y. f x = Inr y) \<Longrightarrow> \<exists>ys. map_res f xs = Inr ys"
  by (induction xs) (auto split: sum.splits, force)

lemma map_res_Inl_D: "map_res f xs = Inl e \<Longrightarrow> \<exists>x \<in> set xs. f x = Inl e"
  by (induction xs) (auto split: sum.splits)

lemma map_res_cong [fundef_cong]:
  "xs = ys \<Longrightarrow> (\<And>x. x \<in> set ys \<Longrightarrow> f x = g x) \<Longrightarrow> map_res f xs = map_res g ys"
proof -
  assume "xs = ys" and fg: "\<And>x. x \<in> set ys \<Longrightarrow> f x = g x"
  have "map_res f ys = map_res g ys"
    using fg by (induction ys) (simp_all cong: sum.case_cong)
  with \<open>xs = ys\<close> show ?thesis by simp
qed

section \<open>Numbered loops that collect field errors\<close>

fun concat_idx :: "(nat \<Rightarrow> 'a \<Rightarrow> 'b list) \<Rightarrow> nat \<Rightarrow> 'a list \<Rightarrow> 'b list" where
  "concat_idx f i [] = []"
| "concat_idx f i (x # xs) = f i x @ concat_idx f (Suc i) xs"

lemma concat_idx_Nil_iff:
  "concat_idx f i xs = [] \<longleftrightarrow> (\<forall>k < length xs. f (i + k) (xs ! k) = [])"
proof (induction xs arbitrary: i)
  case Nil
  then show ?case by simp
next
  case (Cons x xs)
  show ?case
    by (simp add: Cons.IH All_less_Suc2)
qed

lemma concat_idx_Nil_D:
  assumes "concat_idx f i xs = []" and "x \<in> set xs"
  shows "\<exists>k. f k x = []"
  using assms unfolding concat_idx_Nil_iff by (metis in_set_conv_nth)

fun scan_idx :: "(nat \<Rightarrow> 's \<Rightarrow> 'a \<Rightarrow> 'b list \<times> 's) \<Rightarrow> nat \<Rightarrow> 's \<Rightarrow> 'a list \<Rightarrow> 'b list \<times> 's" where
  "scan_idx f i s [] = ([], s)"
| "scan_idx f i s (x # xs) =
     (let (es, s') = f i s x; (es', s'') = scan_idx f (Suc i) s' xs in (es @ es', s''))"

declare scan_idx.simps(2) [simp del]

lemma scan_idx_Cons [simp]:
  "fst (scan_idx f i s (x # xs)) = fst (f i s x) @ fst (scan_idx f (Suc i) (snd (f i s x)) xs)"
  "snd (scan_idx f i s (x # xs)) = snd (scan_idx f (Suc i) (snd (f i s x)) xs)"
  by (simp_all add: scan_idx.simps(2) split_beta)

text \<open>
  The contract of a validator that remembers what it has seen: \<open>seen\<close> reads the set off its state and
  \<open>keys x\<close> lists the values an element contributes.  If it reports no error, those values are new and
  distinct, and they are exactly what is added to the set.
\<close>

locale seen_scan =
  fixes validate :: "nat \<Rightarrow> 's \<Rightarrow> 'a \<Rightarrow> 'b list \<times> 's"
    and seen :: "'s \<Rightarrow> 'k set"
    and keys :: "'a \<Rightarrow> 'k list"
  assumes accept_new: "fst (validate i s x) = [] \<Longrightarrow>
      distinct (keys x) \<and> set (keys x) \<inter> seen s = {}"
    and accept_adds: "fst (validate i s x) = [] \<Longrightarrow>
      seen (snd (validate i s x)) = seen s \<union> set (keys x)"
begin

lemma scan_adds:
  "fst (scan_idx validate i s xs) = [] \<Longrightarrow>
     seen (snd (scan_idx validate i s xs)) = seen s \<union> set (concat (map keys xs))"
  by (induction xs arbitrary: i s) (auto dest: accept_adds)

lemma scan_distinct:
  "fst (scan_idx validate i s xs) = [] \<Longrightarrow>
     distinct (concat (map keys xs)) \<and> set (concat (map keys xs)) \<inter> seen s = {}"
proof (induction xs arbitrary: i s)
  case Nil
  then show ?case by simp
next
  case (Cons x xs)
  from Cons.prems have x: "fst (validate i s x) = []"
    and rest: "fst (scan_idx validate (Suc i) (snd (validate i s x)) xs) = []"
    by simp_all
  from Cons.IH [OF rest] accept_adds [OF x] accept_new [OF x] show ?case
    by (simp, blast)
qed

end

text \<open>
  The contract of a scan that appends, for each element it accepts, the values \<open>out x\<close> to a list in
  its state.
\<close>

locale emit_scan =
  fixes step :: "nat \<Rightarrow> 's \<Rightarrow> 'a \<Rightarrow> 'b list \<times> 's"
    and emitted :: "'s \<Rightarrow> 'o list"
    and out :: "'a \<Rightarrow> 'o list"
  assumes accept_emits: "fst (step i s x) = [] \<Longrightarrow> emitted (snd (step i s x)) = emitted s @ out x"
begin

lemma scan_emits:
  "fst (scan_idx step i s xs) = [] \<Longrightarrow>
     emitted (snd (scan_idx step i s xs)) = emitted s @ concat (map out xs)"
  by (induction xs arbitrary: i s) (simp_all add: accept_emits)

end

lemma scan_idx_each:
  "fst (scan_idx f i s xs) = [] \<Longrightarrow> x \<in> set xs \<Longrightarrow> \<exists>j s'. fst (f j s' x) = []"
  by (induction xs arbitrary: i s) auto

lemma concat_singletons: "concat (map (\<lambda>x. [f x]) xs) = map f xs"
  by (induction xs) simp_all

section \<open>Lists, options and maps\<close>

lemma list_all2_map_eq: "list_all2 (\<lambda>x y. f x = y) xs ys \<longleftrightarrow> ys = map f xs"
  by (induction xs arbitrary: ys) (auto simp: list_all2_Cons1)

lemma map_option_eq_id: "(\<And>x. f x = x) \<Longrightarrow> map_option f y = y"
  by (cases y) simp_all

text \<open>Inserting the pairs of an association list into a map from left to right.\<close>

definition map_copy :: "('k \<rightharpoonup> 'v) \<Rightarrow> ('k \<times> 'v) list \<Rightarrow> ('k \<rightharpoonup> 'v)" where
  "map_copy m kvs = foldl (\<lambda>m (k, v). m(k \<mapsto> v)) m kvs"

lemma map_copy_simps [simp]:
  "map_copy m [] = m"
  "map_copy m ((k, v) # kvs) = map_copy (m(k \<mapsto> v)) kvs"
  by (simp_all add: map_copy_def)

lemma map_copy_other: "k \<notin> fst ` set kvs \<Longrightarrow> map_copy m kvs k = m k"
  by (induction kvs arbitrary: m) auto

lemma map_copy_add: "map_copy m kvs = m ++ map_of (rev kvs)"
  by (induction kvs arbitrary: m) (auto simp: map_add_def fun_eq_iff split: option.splits)

lemma map_copy_distinct:
  "distinct (map fst kvs) \<Longrightarrow> (k, v) \<in> set kvs \<Longrightarrow> map_copy m kvs k = Some v"
proof (induction kvs arbitrary: m)
  case Nil
  then show ?case by simp
next
  case (Cons p kvs)
  obtain k' v' where p: "p = (k', v')" by (cases p)
  show ?case
  proof (cases "(k, v) = p")
    case True
    with Cons.prems p show ?thesis by (simp add: map_copy_other)
  next
    case False
    with Cons.prems p have "(k, v) \<in> set kvs" and "distinct (map fst kvs)" by auto
    then show ?thesis by (simp add: p Cons.IH)
  qed
qed

end
