(* ===== verification/Go_Text.thy ===== *)
theory Go_Text
  imports Prelude
begin

text \<open>
  The parts of Go's standard library for text that the modelled code calls: \<open>strings\<close>, UTF-8
  (\<open>unicode/utf8\<close>), quoting (\<open>strconv.Quote\<close>, the \<open>%q\<close> verb), \<open>encoding/base64\<close> in its raw URL form
  and \<open>encoding/json\<close>.  A string is the list of its bytes.  \<open>unicode.IsPrint\<close> above ASCII is a
  table of the standard library and stays a parameter, \<open>is_print\<close>.

  The JSON decoder is a lexer followed by a stack machine that consumes one token a step, so both
  terminate on every input and no fuel is needed.  Go's limit on the nesting depth (10000) is not
  modelled.
\<close>

section \<open>Package strings\<close>

definition HasPrefix :: "string \<Rightarrow> string \<Rightarrow> bool" where
  "HasPrefix s p \<longleftrightarrow> take (length p) s = p"

definition HasSuffix :: "string \<Rightarrow> string \<Rightarrow> bool" where
  "HasSuffix s p \<longleftrightarrow> length p \<le> length s \<and> drop (length s - length p) s = p"

definition TrimSuffix :: "string \<Rightarrow> string \<Rightarrow> string" where
  "TrimSuffix s p = (if HasSuffix s p then take (length s - length p) s else s)"

definition TrimRight_char :: "char \<Rightarrow> string \<Rightarrow> string" where
  "TrimRight_char c s = rev (dropWhile (\<lambda>x. x = c) (rev s))"

fun Split :: "char \<Rightarrow> string \<Rightarrow> string list" where
  "Split c [] = [[]]"
| "Split c (x # xs) =
     (if x = c then [] # Split c xs
      else (case Split c xs of [] \<Rightarrow> [[x]] | w # ws \<Rightarrow> (x # w) # ws))"

text \<open>\<open>strings.Cut\<close> at the first occurrence of a byte: before, after, and whether it occurs.\<close>

definition Cut :: "char \<Rightarrow> string \<Rightarrow> string \<times> string \<times> bool" where
  "Cut c s = (takeWhile (\<lambda>x. x \<noteq> c) s, drop 1 (dropWhile (\<lambda>x. x \<noteq> c) s), c \<in> set s)"

definition byte :: "char \<Rightarrow> nat" where
  "byte c = of_char c"

lemma byte_less [simp]: "byte c < 256"
  unfolding byte_def by (metis of_char_mod_256 mod_less_divisor zero_less_numeral)

lemma char_of_byte [simp]: "char_of (byte c) = c"
  by (simp add: byte_def)

definition ToLower_byte :: "char \<Rightarrow> char" where
  "ToLower_byte c = (if 65 \<le> byte c \<and> byte c \<le> 90 then char_of (byte c + 32) else c)"

definition ToUpper_byte :: "char \<Rightarrow> char" where
  "ToUpper_byte c = (if 97 \<le> byte c \<and> byte c \<le> 122 then char_of (byte c - 32) else c)"

lemma Split_nonempty [simp]: "Split c s \<noteq> []"
  by (induction s) (auto split: list.splits)

lemma Split_no_sep: "w \<in> set (Split c s) \<Longrightarrow> c \<notin> set w"
  by (induction s arbitrary: w) (auto split: if_splits list.splits)

section \<open>UTF-8\<close>

abbreviation RuneError :: nat where
  "RuneError \<equiv> 65533"

definition is_cont :: "nat \<Rightarrow> bool" where
  "is_cont b \<longleftrightarrow> 128 \<le> b \<and> b \<le> 191"

text \<open>\<open>utf8.DecodeRuneInString\<close>: the rune and its width, \<open>(RuneError, 1)\<close> for invalid input.\<close>

definition DecodeRune :: "string \<Rightarrow> nat \<times> nat" where
  "DecodeRune s = (case map byte (take 4 s) of
     [] \<Rightarrow> (RuneError, 0)
   | b0 # bs \<Rightarrow>
       if b0 < 128 then (b0, 1)
       else if 194 \<le> b0 \<and> b0 \<le> 223 then
         (case bs of b1 # _ \<Rightarrow>
            if is_cont b1 then ((b0 - 192) * 64 + (b1 - 128), 2) else (RuneError, 1)
          | _ \<Rightarrow> (RuneError, 1))
       else if 224 \<le> b0 \<and> b0 \<le> 239 then
         (case bs of b1 # b2 # _ \<Rightarrow>
            if (if b0 = 224 then 160 else 128) \<le> b1 \<and> b1 \<le> (if b0 = 237 then 159 else 191)
               \<and> is_cont b2
            then ((b0 - 224) * 4096 + (b1 - 128) * 64 + (b2 - 128), 3) else (RuneError, 1)
          | _ \<Rightarrow> (RuneError, 1))
       else if 240 \<le> b0 \<and> b0 \<le> 244 then
         (case bs of b1 # b2 # b3 # _ \<Rightarrow>
            if (if b0 = 240 then 144 else 128) \<le> b1 \<and> b1 \<le> (if b0 = 244 then 143 else 191)
               \<and> is_cont b2 \<and> is_cont b3
            then ((b0 - 240) * 262144 + (b1 - 128) * 4096 + (b2 - 128) * 64 + (b3 - 128), 4)
            else (RuneError, 1)
          | _ \<Rightarrow> (RuneError, 1))
       else (RuneError, 1))"

lemma DecodeRune_ascii: "byte c < 128 \<Longrightarrow> DecodeRune (c # cs) = (byte c, 1)"
  by (simp add: DecodeRune_def)

definition ValidRune :: "nat \<Rightarrow> bool" where
  "ValidRune r \<longleftrightarrow> r < 55296 \<or> (57343 < r \<and> r \<le> 1114111)"

text \<open>\<open>utf8.AppendRune\<close>: an invalid rune is written as \<open>RuneError\<close>.\<close>

definition EncodeRune :: "nat \<Rightarrow> string" where
  "EncodeRune r0 = (let r = (if ValidRune r0 then r0 else RuneError) in
     map char_of
      (if r < 128 then [r]
       else if r < 2048 then [192 + r div 64, 128 + r mod 64]
       else if r < 65536 then [224 + r div 4096, 128 + (r div 64) mod 64, 128 + r mod 64]
       else [240 + r div 262144, 128 + (r div 4096) mod 64, 128 + (r div 64) mod 64, 128 + r mod 64]))"

lemma EncodeRune_ascii: "byte c < 128 \<Longrightarrow> EncodeRune (byte c) = [c]"
  by (simp add: EncodeRune_def ValidRune_def byte_def)

lemma EncodeRune_two:
  assumes "2 \<le> x" "x \<le> 31" "y \<le> 63"
  shows "ValidRune (x * 64 + y)" "128 \<le> x * 64 + y" "EncodeRune (x * 64 + y) = map char_of [192 + x, 128 + y]"
proof -
  show "ValidRune (x * 64 + y)" "128 \<le> x * 64 + y" using assms by (simp_all add: ValidRune_def)
  moreover have "(x * 64 + y) div 64 = x" "(x * 64 + y) mod 64 = y" "x * 64 + y < 2048" using assms by simp_all
  ultimately show "EncodeRune (x * 64 + y) = map char_of [192 + x, 128 + y]"
    by (simp add: EncodeRune_def Let_def)
qed

lemma EncodeRune_three:
  assumes "x \<le> 15" "y \<le> 63" "z \<le> 63" "x = 0 \<Longrightarrow> 32 \<le> y" "x = 13 \<Longrightarrow> y \<le> 31"
  shows "ValidRune (x * 4096 + y * 64 + z)" "2048 \<le> x * 4096 + y * 64 + z"
    "EncodeRune (x * 4096 + y * 64 + z) = map char_of [224 + x, 128 + y, 128 + z]"
proof -
  have "x = 0 \<and> 32 \<le> y \<or> 1 \<le> x" using assms(4) by auto
  then show big: "2048 \<le> x * 4096 + y * 64 + z" by auto
  have "x \<le> 12 \<or> x = 13 \<and> y \<le> 31 \<or> 14 \<le> x" using assms(5) by linarith
  then show v: "ValidRune (x * 4096 + y * 64 + z)" using assms(1-3) by (auto simp: ValidRune_def)
  have eq: "x * 4096 + y * 64 + z = (x * 64 + y) * 64 + z" by simp
  have "(x * 4096 + y * 64 + z) div 64 = x * 64 + y" "(x * 4096 + y * 64 + z) mod 64 = z"
    unfolding eq using assms(3) by (simp_all only: div_mult_self3 mod_mult_self3) simp_all
  moreover from this(1) have "(x * 4096 + y * 64 + z) div 4096 = x" "((x * 4096 + y * 64 + z) div 64) mod 64 = y"
    using assms(2) div_mult2_eq [of "x * 4096 + y * 64 + z" 64 64] by simp_all
  moreover have "x * 4096 + y * 64 + z < 65536" using assms(1-3) by linarith
  ultimately show "EncodeRune (x * 4096 + y * 64 + z) = map char_of [224 + x, 128 + y, 128 + z]"
    using v big by (simp add: EncodeRune_def Let_def)
qed

lemma EncodeRune_four:
  assumes "x \<le> 4" "y \<le> 63" "z \<le> 63" "u \<le> 63" "x = 0 \<Longrightarrow> 16 \<le> y" "x = 4 \<Longrightarrow> y \<le> 15"
  shows "ValidRune (x * 262144 + y * 4096 + z * 64 + u)" "65536 \<le> x * 262144 + y * 4096 + z * 64 + u"
    "EncodeRune (x * 262144 + y * 4096 + z * 64 + u) = map char_of [240 + x, 128 + y, 128 + z, 128 + u]"
proof -
  let ?r = "x * 262144 + y * 4096 + z * 64 + u"
  have "x = 0 \<and> 16 \<le> y \<or> 1 \<le> x" using assms(5) by auto
  then show big: "65536 \<le> ?r" by auto
  have "x \<le> 3 \<or> x = 4 \<and> y \<le> 15" using assms(1,6) by linarith
  then show v: "ValidRune ?r" using assms(2-4) big by (auto simp: ValidRune_def)
  have eq: "?r = ((x * 64 + y) * 64 + z) * 64 + u" by simp
  have 1: "?r div 64 = (x * 64 + y) * 64 + z" "?r mod 64 = u"
    unfolding eq using assms(4) by (simp_all only: div_mult_self3 mod_mult_self3) simp_all
  have div: "?r div 4096 = (?r div 64) div 64" using div_mult2_eq [of ?r 64 64] by simp
  have 2: "?r div 4096 = x * 64 + y" "(?r div 64) mod 64 = z"
    unfolding div 1 using assms(3) by (simp_all only: div_mult_self3 mod_mult_self3) simp_all
  then have "?r div 262144 = x" "(?r div 4096) mod 64 = y"
    using assms(2) div_mult2_eq [of ?r 4096 64] by simp_all
  with 1 2 show "EncodeRune ?r = map char_of [240 + x, 128 + y, 128 + z, 128 + u]"
    using v big by (simp add: EncodeRune_def Let_def)
qed

text \<open>A rune that is decoded is the one whose encoding stands at the front, whatever follows it.\<close>

definition starts_with_rune :: "string \<Rightarrow> nat \<Rightarrow> nat \<Rightarrow> bool" where
  "starts_with_rune s r w \<longleftrightarrow> ValidRune r \<and> 128 \<le> r \<and> 2 \<le> w \<and> w \<le> length s \<and> EncodeRune r = take w s \<and>
     (\<forall>t. DecodeRune (take w s @ t) = (r, w))"

lemma DecodeRune_two:
  assumes "194 \<le> byte c" "byte c \<le> 223" "is_cont (byte d)"
  shows "starts_with_rune (c # d # s) ((byte c - 192) * 64 + (byte d - 128)) 2"
proof -
  have e: "192 + (byte c - 192) = byte c" "128 + (byte d - 128) = byte d" using assms by (simp_all add: is_cont_def)
  have "2 \<le> byte c - 192" "byte c - 192 \<le> 31" "byte d - 128 \<le> 63" using assms by (auto simp: is_cont_def)
  from EncodeRune_two [OF this] show ?thesis
    unfolding e using assms by (simp add: starts_with_rune_def DecodeRune_def)
qed

lemma DecodeRune_three:
  assumes "224 \<le> byte c" "byte c \<le> 239" "is_cont (byte e)"
    and "(if byte c = 224 then 160 else 128) \<le> byte d" "byte d \<le> (if byte c = 237 then 159 else 191)"
  shows "starts_with_rune (c # d # e # s) ((byte c - 224) * 4096 + (byte d - 128) * 64 + (byte e - 128)) 3"
proof -
  have eq: "224 + (byte c - 224) = byte c" "128 + (byte d - 128) = byte d" "128 + (byte e - 128) = byte e"
    using assms by (simp_all add: is_cont_def split: if_splits)
  have "byte c - 224 \<le> 15" "byte d - 128 \<le> 63" "byte e - 128 \<le> 63"
    "byte c - 224 = 0 \<Longrightarrow> 32 \<le> byte d - 128" "byte c - 224 = 13 \<Longrightarrow> byte d - 128 \<le> 31"
    using assms by (auto simp: is_cont_def split: if_splits)
  from EncodeRune_three [OF this] show ?thesis
    unfolding eq using assms by (simp add: starts_with_rune_def DecodeRune_def)
qed

lemma DecodeRune_four:
  assumes "240 \<le> byte c" "byte c \<le> 244" "is_cont (byte e)" "is_cont (byte f)"
    and "(if byte c = 240 then 144 else 128) \<le> byte d" "byte d \<le> (if byte c = 244 then 143 else 191)"
  shows "starts_with_rune (c # d # e # f # s)
    ((byte c - 240) * 262144 + (byte d - 128) * 4096 + (byte e - 128) * 64 + (byte f - 128)) 4"
proof -
  have eq: "240 + (byte c - 240) = byte c" "128 + (byte d - 128) = byte d" "128 + (byte e - 128) = byte e"
    "128 + (byte f - 128) = byte f"
    using assms by (simp_all add: is_cont_def split: if_splits)
  have "byte c - 240 \<le> 4" "byte d - 128 \<le> 63" "byte e - 128 \<le> 63" "byte f - 128 \<le> 63"
    "byte c - 240 = 0 \<Longrightarrow> 16 \<le> byte d - 128" "byte c - 240 = 4 \<Longrightarrow> byte d - 128 \<le> 15"
    using assms by (auto simp: is_cont_def split: if_splits)
  from EncodeRune_four [OF this] show ?thesis
    unfolding eq using assms by (simp add: starts_with_rune_def DecodeRune_def)
qed

lemma DecodeRune_cases:
  obtains (ascii) "byte c < 128" "DecodeRune (c # s) = (byte c, 1)"
  | (invalid) "128 \<le> byte c" "DecodeRune (c # s) = (RuneError, 1)"
  | (rune) r w where "128 \<le> byte c" "DecodeRune (c # s) = (r, w)" "starts_with_rune (c # s) r w"
proof -
  have bad: thesis if "128 \<le> byte c" "DecodeRune (c # s) = (RuneError, 1)"
    using that by (rule invalid)
  consider "byte c < 128" | "194 \<le> byte c" "byte c \<le> 223" | "224 \<le> byte c" "byte c \<le> 239"
    | "240 \<le> byte c" "byte c \<le> 244" | "128 \<le> byte c" "byte c < 194 \<or> 244 < byte c"
    by linarith
  then show thesis
  proof cases
    case 1
    then show thesis by (intro ascii) (simp_all add: DecodeRune_ascii)
  next
    case 2
    show thesis
    proof (cases "\<exists>d s'. s = d # s' \<and> is_cont (byte d)")
      case True
      then obtain d s' where d: "s = d # s'" "is_cont (byte d)" by blast
      show thesis
        by (rule rune [OF _ _ DecodeRune_two [OF 2 d(2), of s', folded d(1)]]) (use 2 d in \<open>simp_all add: DecodeRune_def\<close>)
    next
      case False
      with 2 show thesis by (intro bad) (cases s; simp add: DecodeRune_def)+
    qed
  next
    case 3
    show thesis
    proof (cases "\<exists>d e s'. s = d # e # s' \<and> (if byte c = 224 then 160 else 128) \<le> byte d \<and>
        byte d \<le> (if byte c = 237 then 159 else 191) \<and> is_cont (byte e)")
      case True
      then obtain d e s' where d: "s = d # e # s'" "(if byte c = 224 then 160 else 128) \<le> byte d"
        "byte d \<le> (if byte c = 237 then 159 else 191)" "is_cont (byte e)" by blast
      show thesis
        by (rule rune [OF _ _ DecodeRune_three [OF 3 d(4,2,3), of s', folded d(1)]]) (use 3 d in \<open>simp_all add: DecodeRune_def\<close>)
    next
      case False
      have "DecodeRune (c # s) = (RuneError, 1)"
      proof (cases s)
        case (Cons d s1)
        then show ?thesis using 3 False by (cases s1) (simp_all add: DecodeRune_def)
      qed (use 3 in \<open>simp add: DecodeRune_def\<close>)
      with 3 show thesis by (intro bad) simp_all
    qed
  next
    case 4
    show thesis
    proof (cases "\<exists>d e f s'. s = d # e # f # s' \<and> (if byte c = 240 then 144 else 128) \<le> byte d \<and>
        byte d \<le> (if byte c = 244 then 143 else 191) \<and> is_cont (byte e) \<and> is_cont (byte f)")
      case True
      then obtain d e f s' where d: "s = d # e # f # s'" "(if byte c = 240 then 144 else 128) \<le> byte d"
        "byte d \<le> (if byte c = 244 then 143 else 191)" "is_cont (byte e)" "is_cont (byte f)" by blast
      show thesis
        by (rule rune [OF _ _ DecodeRune_four [OF 4 d(4,5,2,3), of s', folded d(1)]]) (use 4 d in \<open>simp_all add: DecodeRune_def\<close>)
    next
      case False
      have "DecodeRune (c # s) = (RuneError, 1)"
      proof (cases s)
        case (Cons d s1)
        show ?thesis
        proof (cases s1)
          case (Cons e s2)
          then show ?thesis using \<open>s = d # s1\<close> 4 False by (cases s2) (simp_all add: DecodeRune_def)
        qed (use 4 \<open>s = d # s1\<close> in \<open>simp add: DecodeRune_def\<close>)
      qed (use 4 in \<open>simp add: DecodeRune_def\<close>)
      with 4 show thesis by (intro bad) simp_all
    qed
  next
    case 5
    then show thesis by (intro bad) (auto simp: DecodeRune_def)
  qed
qed

definition IsSpace :: "nat \<Rightarrow> bool" where
  "IsSpace r \<longleftrightarrow> r \<in> {9, 10, 11, 12, 13, 32, 133, 160, 5760, 8232, 8233, 8239, 8287, 12288}
     \<or> (8192 \<le> r \<and> r \<le> 8202)"

text \<open>
  \<open>strings.TrimSpace\<close> at the left end; what it does at the right end has no effect on a test for a
  non-blank first byte, the only use of it in the code.
\<close>

function TrimSpace_left :: "string \<Rightarrow> string" where
  "TrimSpace_left [] = []"
| "TrimSpace_left (c # cs) =
     (if IsSpace (fst (DecodeRune (c # cs)))
      then TrimSpace_left (drop (snd (DecodeRune (c # cs)) - 1) cs) else c # cs)"
  by pat_completeness auto
termination
  by (relation "measure length") auto

section \<open>Quoting: strconv.Quote and the verb q\<close>

definition hex_digit :: "nat \<Rightarrow> char" where
  "hex_digit n = ''0123456789abcdef'' ! (n mod 16)"

fun hex_pad :: "nat \<Rightarrow> nat \<Rightarrow> string" where
  "hex_pad 0 n = []"
| "hex_pad (Suc k) n = hex_pad k (n div 16) @ [hex_digit n]"

definition IsPrint :: "(nat \<Rightarrow> bool) \<Rightarrow> nat \<Rightarrow> bool" where
  "IsPrint is_print r \<longleftrightarrow> (if r < 128 then 32 \<le> r \<and> r \<le> 126 else is_print r)"

definition quote_rune :: "(nat \<Rightarrow> bool) \<Rightarrow> nat \<Rightarrow> string" where
  "quote_rune is_print r =
     (if r = 34 \<or> r = 92 then [CHR 0x5C, char_of r]
      else if IsPrint is_print r then EncodeRune r
      else if r = 7 then [CHR 0x5C, CHR ''a'']
      else if r = 8 then [CHR 0x5C, CHR ''b'']
      else if r = 12 then [CHR 0x5C, CHR ''f'']
      else if r = 10 then [CHR 0x5C, CHR ''n'']
      else if r = 13 then [CHR 0x5C, CHR ''r'']
      else if r = 9 then [CHR 0x5C, CHR ''t'']
      else if r = 11 then [CHR 0x5C, CHR ''v'']
      else if r < 32 \<or> r = 127 then [CHR 0x5C, CHR ''x''] @ hex_pad 2 r
      else if \<not> ValidRune r then [CHR 0x5C, CHR ''u''] @ hex_pad 4 RuneError
      else if r < 65536 then [CHR 0x5C, CHR ''u''] @ hex_pad 4 r
      else [CHR 0x5C, CHR ''U''] @ hex_pad 8 r)"

function quote_body :: "(nat \<Rightarrow> bool) \<Rightarrow> string \<Rightarrow> string" where
  "quote_body P [] = []"
| "quote_body P (c # cs) =
     (if snd (DecodeRune (c # cs)) = 1 \<and> fst (DecodeRune (c # cs)) = RuneError
      then [CHR 0x5C, CHR ''x''] @ hex_pad 2 (byte c)
      else quote_rune P (fst (DecodeRune (c # cs))))
     @ quote_body P (drop (snd (DecodeRune (c # cs)) - 1) cs)"
  by pat_completeness auto
termination
  by (relation "measure (\<lambda>(P, s). length s)") auto

definition Quote :: "(nat \<Rightarrow> bool) \<Rightarrow> string \<Rightarrow> string" where
  "Quote P s = CHR 0x22 # quote_body P s @ [CHR 0x22]"

lemma quote_body_ascii:
  "byte c < 128 \<Longrightarrow> quote_body P (c # cs) = quote_rune P (byte c) @ quote_body P cs"
  by (simp add: DecodeRune_ascii)

declare quote_body.simps(2) [simp del]

section \<open>Package encoding/base64: RawURLEncoding\<close>

definition base64_value :: "char \<Rightarrow> nat option" where
  "base64_value c = (let b = byte c in
     if 65 \<le> b \<and> b \<le> 90 then Some (b - 65)
     else if 97 \<le> b \<and> b \<le> 122 then Some (b - 71)
     else if 48 \<le> b \<and> b \<le> 57 then Some (b + 4)
     else if b = 45 then Some 62 else if b = 95 then Some 63 else None)"

fun base64_groups :: "nat list \<Rightarrow> string option" where
  "base64_groups [] = Some []"
| "base64_groups [a] = None"
| "base64_groups [a, b] = Some [char_of (a * 4 + b div 16)]"
| "base64_groups [a, b, c] = Some [char_of (a * 4 + b div 16), char_of ((b mod 16) * 16 + c div 4)]"
| "base64_groups (a # b # c # d # r) =
     map_option ((@) [char_of (a * 4 + b div 16), char_of ((b mod 16) * 16 + c div 4),
                      char_of ((c mod 4) * 64 + d)]) (base64_groups r)"

text \<open>\<open>DecodeString\<close> skips line breaks and refuses any other byte outside the alphabet.\<close>

definition base64_decode :: "string \<Rightarrow> string option" where
  "base64_decode s = (let vs = map base64_value (filter (\<lambda>c. byte c \<noteq> 10 \<and> byte c \<noteq> 13) s) in
     if None \<in> set vs then None else base64_groups (map the vs))"

end
