(* ===== verification/Go_Json.thy ===== *)
theory Go_Json
  imports Go_Text
begin

text \<open>
  \<open>encoding/json\<close>: the scanner and decoder into a tree, and the decodings into the Go types that the
  modelled code asks for (\<open>string\<close>, \<open>bool\<close>, \<open>[]string\<close>, \<open>map[string]string\<close>).  A
  \<open>json.RawMessage\<close> is kept as its bytes are read back by \<open>json.Unmarshal\<close>: \<open>Raw j\<close> for bytes
  that parse to the tree \<open>j\<close>, \<open>RawInvalid\<close> for bytes that are no JSON text.
\<close>

section \<open>String literals\<close>

definition hex_value :: "char \<Rightarrow> nat option" where
  "hex_value c = (let b = byte c in
     if 48 \<le> b \<and> b \<le> 57 then Some (b - 48)
     else if 97 \<le> b \<and> b \<le> 102 then Some (b - 87)
     else if 65 \<le> b \<and> b \<le> 70 then Some (b - 55) else None)"

fun hex4 :: "string \<Rightarrow> nat option" where
  "hex4 (a # b # c # d # _) =
     (case (hex_value a, hex_value b, hex_value c, hex_value d) of
        (Some w, Some x, Some y, Some z) \<Rightarrow> Some (((w * 16 + x) * 16 + y) * 16 + z)
      | _ \<Rightarrow> None)"
| "hex4 _ = None"

definition simple_escape :: "char \<Rightarrow> char option" where
  "simple_escape e =
     (if e = CHR 0x22 \<or> e = CHR 0x5C \<or> e = CHR ''/'' then Some e
      else if e = CHR ''b'' then Some (CHR 0x08)
      else if e = CHR ''f'' then Some (CHR 0x0C)
      else if e = CHR ''n'' then Some (CHR 0x0A)
      else if e = CHR ''r'' then Some (CHR 0x0D)
      else if e = CHR ''t'' then Some (CHR 0x09) else None)"

definition is_surrogate :: "nat \<Rightarrow> bool" where
  "is_surrogate u \<longleftrightarrow> 55296 \<le> u \<and> u \<le> 57343"

text \<open>The second half of a surrogate pair, if an escaped low surrogate follows a high one.\<close>

definition low_half :: "nat \<Rightarrow> string \<Rightarrow> nat option" where
  "low_half hi s =
     (if take 2 s = [CHR 0x5C, CHR ''u''] \<and> hi \<le> 56319
      then (case hex4 (drop 2 s) of
              Some lo \<Rightarrow> if 56320 \<le> lo \<and> lo \<le> 57343 then Some lo else None
            | None \<Rightarrow> None)
      else None)"

definition prepend :: "string \<Rightarrow> (string \<times> string) option \<Rightarrow> (string \<times> string) option" where
  "prepend p r = map_option (\<lambda>(a, b). (p @ a, b)) r"

text \<open>The contents of a string literal after its opening quote, and the input after its end.\<close>

function json_str :: "string \<Rightarrow> (string \<times> string) option" where
  "json_str [] = None"
| "json_str (c # cs) =
     (if c = CHR 0x22 then Some ([], cs)
      else if c = CHR 0x5C then
        (case cs of [] \<Rightarrow> None
         | e # rest \<Rightarrow>
            (case simple_escape e of
               Some b \<Rightarrow> prepend [b] (json_str rest)
             | None \<Rightarrow>
                if e \<noteq> CHR ''u'' then None
                else (case hex4 rest of None \<Rightarrow> None
                      | Some u \<Rightarrow>
                         if \<not> is_surrogate u then prepend (EncodeRune u) (json_str (drop 4 rest))
                         else (case low_half u (drop 4 rest) of
                                 Some lo \<Rightarrow>
                                   prepend (EncodeRune (65536 + (u - 55296) * 1024 + (lo - 56320)))
                                     (json_str (drop 10 rest))
                               | None \<Rightarrow> prepend (EncodeRune RuneError) (json_str (drop 4 rest))))))
      else if byte c < 32 then None
      else prepend (EncodeRune (fst (DecodeRune (c # cs))))
             (json_str (drop (snd (DecodeRune (c # cs)) - 1) cs)))"
  by pat_completeness auto
termination
  by (relation "measure length") auto

declare json_str.simps(2) [simp del]

lemma prepend_Some: "prepend p r = Some (a, b) \<longleftrightarrow> (\<exists>a'. r = Some (a', b) \<and> a = p @ a')"
  by (cases r) (auto simp: prepend_def)

lemma prepend_simps [simp]:
  "prepend p (Some (a, b)) = Some (p @ a, b)" "prepend p None = None"
  by (simp_all add: prepend_def)

lemma json_str_shorter: "json_str s = Some (a, r) \<Longrightarrow> length r < length s"
proof (induction "length s" arbitrary: s a rule: less_induct)
  case less
  show ?case
  proof (cases s)
    case Nil
    with less.prems show ?thesis by simp
  next
    case (Cons c cs)
    have key: "length r < Suc (length cs)"
      if "json_str t = Some (a', r)" and "length t \<le> length cs" for t a'
      using less.hyps [OF _ that(1)] that(2) Cons by simp
    show ?thesis
    proof (cases cs)
      case Nil
      with less.prems Cons show ?thesis
        by (auto simp: json_str.simps(2) prepend_Some split: if_splits)
    next
      case (Cons e rest)
      from less.prems key show ?thesis
        unfolding \<open>s = c # cs\<close> Cons json_str.simps(2)
        by (auto simp: prepend_Some split: if_splits option.splits)
    qed
  qed
qed

section \<open>Tokens\<close>

datatype json_token =
    TLBrace | TRBrace | TLBracket | TRBracket | TComma | TColon
  | TNull | TTrue | TFalse | TNum string | TStr string

datatype json =
    JNull | JBool bool | JNum string | JStr string | JArr "json list"
  | JObj "(string \<times> json) list"

definition is_digit :: "char \<Rightarrow> bool" where
  "is_digit c \<longleftrightarrow> 48 \<le> byte c \<and> byte c \<le> 57"

definition is_num_char :: "char \<Rightarrow> bool" where
  "is_num_char c \<longleftrightarrow> is_digit c \<or> c = CHR ''-'' \<or> c = CHR ''+'' \<or> c = CHR ''.''
     \<or> c = CHR ''e'' \<or> c = CHR ''E''"

definition valid_exponent :: "string \<Rightarrow> bool" where
  "valid_exponent s = (case s of [] \<Rightarrow> True
     | e # r \<Rightarrow> (e = CHR ''e'' \<or> e = CHR ''E'') \<and>
         (let d = (case r of (x # r') \<Rightarrow> if x = CHR ''+'' \<or> x = CHR ''-'' then r' else r | [] \<Rightarrow> [])
          in d \<noteq> [] \<and> list_all is_digit d))"

definition valid_fraction :: "string \<Rightarrow> bool" where
  "valid_fraction s = (case s of [] \<Rightarrow> True
     | p # r \<Rightarrow> if p = CHR ''.''
         then takeWhile is_digit r \<noteq> [] \<and> valid_exponent (dropWhile is_digit r)
         else valid_exponent s)"

definition valid_number :: "string \<Rightarrow> bool" where
  "valid_number s = (let t = (case s of (c # r) \<Rightarrow> if c = CHR ''-'' then r else s | [] \<Rightarrow> []) in
     case t of [] \<Rightarrow> False
     | c # r \<Rightarrow> if c = CHR ''0'' then valid_fraction r
         else is_digit c \<and> valid_fraction (dropWhile is_digit r))"

function json_lex :: "string \<Rightarrow> json_token list option" where
  "json_lex [] = Some []"
| "json_lex (c # cs) =
     (if byte c \<in> {9, 10, 13, 32} then json_lex cs
      else if c = CHR 0x7B then map_option ((#) TLBrace) (json_lex cs)
      else if c = CHR 0x7D then map_option ((#) TRBrace) (json_lex cs)
      else if c = CHR 0x5B then map_option ((#) TLBracket) (json_lex cs)
      else if c = CHR 0x5D then map_option ((#) TRBracket) (json_lex cs)
      else if c = CHR 0x2C then map_option ((#) TComma) (json_lex cs)
      else if c = CHR 0x3A then map_option ((#) TColon) (json_lex cs)
      else if c = CHR 0x22 then
        (case json_str cs of None \<Rightarrow> None
         | Some (s, rest) \<Rightarrow>
             if length rest < length cs then map_option ((#) (TStr s)) (json_lex rest) else None)
      else if take 3 cs = ''ull'' \<and> c = CHR ''n'' then map_option ((#) TNull) (json_lex (drop 3 cs))
      else if take 3 cs = ''rue'' \<and> c = CHR ''t'' then map_option ((#) TTrue) (json_lex (drop 3 cs))
      else if take 4 cs = ''alse'' \<and> c = CHR ''f'' then map_option ((#) TFalse) (json_lex (drop 4 cs))
      else if is_num_char c \<and> valid_number (c # takeWhile is_num_char cs) then
        map_option ((#) (TNum (c # takeWhile is_num_char cs))) (json_lex (dropWhile is_num_char cs))
      else None)"
  by pat_completeness auto
termination
  by (relation "measure length") (auto simp: length_dropWhile_le less_Suc_eq_le)

declare json_lex.simps(2) [simp del]

text \<open>
  The test on the length of the rest is always true: it is there so that termination is evident.
\<close>

lemma json_lex_str:
  "json_lex (CHR 0x22 # cs) = (case json_str cs of None \<Rightarrow> None
     | Some (s, rest) \<Rightarrow> map_option ((#) (TStr s)) (json_lex rest))"
  by (auto simp: json_lex.simps(2) byte_def dest: json_str_shorter split: option.splits)

section \<open>The parser\<close>

text \<open>
  A stack machine over tokens: \<open>mode\<close> is what the next token may be, the stack holds the arrays and
  objects that are still open, with their finished elements in reverse.
\<close>

datatype json_frame = FArr "json list" | FObj "(string \<times> json) list" string

datatype json_mode =
    WantValue | WantValueOrClose | WantKey "(string \<times> json) list" | WantKeyOrClose
  | WantColon "(string \<times> json) list" string | HaveValue json

fun value_token :: "json_token \<Rightarrow> json option" where
  "value_token TNull = Some JNull"
| "value_token TTrue = Some (JBool True)"
| "value_token TFalse = Some (JBool False)"
| "value_token (TNum s) = Some (JNum s)"
| "value_token (TStr s) = Some (JStr s)"
| "value_token _ = None"

fun close_array :: "json \<Rightarrow> json_frame list \<Rightarrow> (json \<times> json_frame list) option" where
  "close_array v (FArr vs # st) = Some (JArr (rev (v # vs)), st)"
| "close_array v _ = None"

fun close_object :: "json \<Rightarrow> json_frame list \<Rightarrow> (json \<times> json_frame list) option" where
  "close_object v (FObj ms k # st) = Some (JObj (rev ((k, v) # ms)), st)"
| "close_object v _ = None"

definition begin_value :: "json_token \<Rightarrow> json_frame list \<Rightarrow> (json_mode \<times> json_frame list) option" where
  "begin_value t st = (case t of
      TLBracket \<Rightarrow> Some (WantValueOrClose, st)
    | TLBrace \<Rightarrow> Some (WantKeyOrClose, st)
    | _ \<Rightarrow> map_option (\<lambda>v. (HaveValue v, st)) (value_token t))"

definition json_step :: "json_mode \<Rightarrow> json_frame list \<Rightarrow> json_token \<Rightarrow> (json_mode \<times> json_frame list) option" where
  "json_step m st t = (case m of
      WantValue \<Rightarrow> begin_value t st
    | WantValueOrClose \<Rightarrow>
        if t = TRBracket then Some (HaveValue (JArr []), st) else begin_value t (FArr [] # st)
    | WantKeyOrClose \<Rightarrow>
        (case t of TRBrace \<Rightarrow> Some (HaveValue (JObj []), st)
         | TStr k \<Rightarrow> Some (WantColon [] k, st) | _ \<Rightarrow> None)
    | WantKey ms \<Rightarrow> (case t of TStr k \<Rightarrow> Some (WantColon ms k, st) | _ \<Rightarrow> None)
    | WantColon ms k \<Rightarrow> if t = TColon then Some (WantValue, FObj ms k # st) else None
    | HaveValue v \<Rightarrow>
        (case t of
           TComma \<Rightarrow> (case st of
               FArr vs # st' \<Rightarrow> Some (WantValue, FArr (v # vs) # st')
             | FObj ms k # st' \<Rightarrow> Some (WantKey ((k, v) # ms), st')
             | [] \<Rightarrow> None)
         | TRBracket \<Rightarrow> map_option (\<lambda>(w, st'). (HaveValue w, st')) (close_array v st)
         | TRBrace \<Rightarrow> map_option (\<lambda>(w, st'). (HaveValue w, st')) (close_object v st)
         | _ \<Rightarrow> None))"

fun json_run :: "json_mode \<Rightarrow> json_frame list \<Rightarrow> json_token list \<Rightarrow> json option" where
  "json_run m st [] = (case (m, st) of (HaveValue v, []) \<Rightarrow> Some v | _ \<Rightarrow> None)"
| "json_run m st (t # ts) =
     (case json_step m st t of None \<Rightarrow> None | Some (m', st') \<Rightarrow> json_run m' st' ts)"

definition json_parse :: "string \<Rightarrow> json option" where
  "json_parse s = (case json_lex s of None \<Rightarrow> None | Some ts \<Rightarrow> json_run WantValue [] ts)"

lemma json_parse_string_literal:
  "json_parse (CHR 0x22 # cs) =
     (case json_str cs of Some (s, []) \<Rightarrow> Some (JStr s)
      | Some (s, r) \<Rightarrow> (case json_lex r of Some [] \<Rightarrow> Some (JStr s) | _ \<Rightarrow> None)
      | None \<Rightarrow> None)"
  by (auto simp: json_parse_def json_lex_str json_step_def begin_value_def
      split: option.splits list.splits json_token.splits)

section \<open>Decoding into Go values\<close>

datatype raw_message = Raw json | RawInvalid

definition raw_of_text :: "string \<Rightarrow> raw_message" where
  "raw_of_text s = (case json_parse s of Some j \<Rightarrow> Raw j | None \<Rightarrow> RawInvalid)"

text \<open>
  \<open>json.Unmarshal\<close> into a fresh variable.  A \<open>null\<close> leaves the variable at its zero value and is no
  error.
\<close>

fun json_to_string :: "json \<Rightarrow> string option" where
  "json_to_string (JStr s) = Some s"
| "json_to_string JNull = Some []"
| "json_to_string _ = None"

fun json_to_bool :: "json \<Rightarrow> bool option" where
  "json_to_bool (JBool b) = Some b"
| "json_to_bool JNull = Some False"
| "json_to_bool _ = None"

fun all_some :: "'a option list \<Rightarrow> 'a list option" where
  "all_some [] = Some []"
| "all_some (None # xs) = None"
| "all_some (Some x # xs) = map_option ((#) x) (all_some xs)"

fun json_to_strings :: "json \<Rightarrow> string list option" where
  "json_to_strings (JArr vs) = all_some (map json_to_string vs)"
| "json_to_strings JNull = Some []"
| "json_to_strings _ = None"

text \<open>Into a Go map: a repeated key takes its last value.\<close>

fun json_to_map :: "(json \<Rightarrow> 'a option) \<Rightarrow> json \<Rightarrow> (string \<rightharpoonup> 'a) option" where
  "json_to_map f (JObj ms) =
     map_option (\<lambda>vs. map_of (rev (zip (map fst ms) vs))) (all_some (map (f \<circ> snd) ms))"
| "json_to_map f JNull = Some Map.empty"
| "json_to_map f _ = None"

definition unmarshal_with :: "(json \<Rightarrow> 'a option) \<Rightarrow> raw_message \<Rightarrow> 'a res" where
  "unmarshal_with f r = (case r of
      RawInvalid \<Rightarrow> Inl (Errorf ''invalid character in JSON text'' [])
    | Raw j \<Rightarrow> (case f j of Some x \<Rightarrow> Inr x
                | None \<Rightarrow> Inl (Errorf ''json: cannot unmarshal value into Go value'' [])))"

lemma unmarshal_with_Inr [res_simps]:
  "unmarshal_with f r = Inr x \<longleftrightarrow> (\<exists>j. r = Raw j \<and> f j = Some x)"
  by (auto simp: unmarshal_with_def split: raw_message.splits option.splits)

text \<open>
  A key of an object selects a struct field by its name up to letter case, as Go folds it (the long
  s and the Kelvin sign fold to ASCII letters).
\<close>

function fold_name :: "string \<Rightarrow> string" where
  "fold_name [] = []"
| "fold_name (a # r) =
     (if a = CHR 0xC5 \<and> take 1 r = [CHR 0xBF] then CHR ''S'' # fold_name (drop 1 r)
      else if a = CHR 0xE2 \<and> take 2 r = [CHR 0x84, CHR 0xAA] then CHR ''K'' # fold_name (drop 2 r)
      else ToUpper_byte a # fold_name r)"
  by pat_completeness auto
termination
  by (relation "measure length") auto

definition selects_field :: "string \<Rightarrow> string \<Rightarrow> bool" where
  "selects_field name key \<longleftrightarrow> key = name \<or> fold_name key = fold_name name"

text \<open>A string field of a struct after all members were read in order; \<open>None\<close> is an error.\<close>

fun string_field :: "string \<Rightarrow> string \<Rightarrow> (string \<times> json) list \<Rightarrow> string option" where
  "string_field name cur [] = Some cur"
| "string_field name cur ((k, v) # ms) =
     (if selects_field name k then
        (case v of JStr s \<Rightarrow> string_field name s ms
         | JNull \<Rightarrow> string_field name cur ms | _ \<Rightarrow> None)
      else string_field name cur ms)"

section \<open>A quoted string read as JSON\<close>

text \<open>
  \<open>%q\<close> writes Go syntax, which JSON reads back only for the escapes both share.  Of the ASCII bytes these are
  the printable ones and those with a short escape in JSON.
\<close>

definition json_safe :: "char \<Rightarrow> bool" where
  "json_safe c \<longleftrightarrow> (32 \<le> byte c \<and> byte c \<le> 126) \<or> byte c \<in> {8, 9, 10, 12, 13}"

lemma byte_inject: "byte c = byte d \<longleftrightarrow> c = d"
  by (simp add: byte_def)

lemma byte_eq_chars:
  "byte c = 34 \<longleftrightarrow> c = CHR 0x22" "byte c = 92 \<longleftrightarrow> c = CHR 0x5C" "byte c = 8 \<longleftrightarrow> c = CHR 0x08"
  "byte c = 9 \<longleftrightarrow> c = CHR 0x09" "byte c = 10 \<longleftrightarrow> c = CHR 0x0A" "byte c = 12 \<longleftrightarrow> c = CHR 0x0C"
  "byte c = 13 \<longleftrightarrow> c = CHR 0x0D"
  by (simp_all add: byte_inject [symmetric], simp_all add: byte_def)

lemma byte_chars:
  "byte CHR 0x22 = 34" "byte CHR 0x5C = 92" "byte CHR 0x08 = 8" "byte CHR 0x09 = 9"
  "byte CHR 0x0A = 10" "byte CHR 0x0C = 12" "byte CHR 0x0D = 13"
  by (simp_all add: byte_def)

lemma json_str_simple_escape:
  "simple_escape e = Some b \<Longrightarrow> json_str (CHR 0x5C # e # r) = prepend [b] (json_str r)"
  by (subst json_str.simps(2)) simp

lemma quote_rune_short:
  "quote_rune P 34 = [CHR 0x5C, CHR 0x22]" "quote_rune P 92 = [CHR 0x5C, CHR 0x5C]"
  "quote_rune P 8 = [CHR 0x5C, CHR ''b'']" "quote_rune P 9 = [CHR 0x5C, CHR ''t'']"
  "quote_rune P 10 = [CHR 0x5C, CHR ''n'']" "quote_rune P 12 = [CHR 0x5C, CHR ''f'']"
  "quote_rune P 13 = [CHR 0x5C, CHR ''r'']"
  by (simp_all add: quote_rune_def IsPrint_def char_of_eq_iff)

lemma quote_rune_safe:
  assumes "byte c < 128" and "json_safe c"
  shows "json_str (quote_rune P (byte c) @ t) = prepend [c] (json_str t)"
proof -
  consider "byte c = 34 \<or> byte c = 92" | "byte c \<in> {8, 9, 10, 12, 13}"
    | "32 \<le> byte c" "byte c \<le> 126" "byte c \<noteq> 34" "byte c \<noteq> 92"
    using assms by (auto simp: json_safe_def)
  then show ?thesis
  proof cases
    case 1
    then show ?thesis
      by (elim disjE)
        (simp_all add: quote_rune_short json_str_simple_escape simple_escape_def byte_eq_chars byte_chars)
  next
    case 2
    then show ?thesis
      unfolding insert_iff empty_iff
      by (elim disjE FalseE)
        (simp_all add: quote_rune_short json_str_simple_escape simple_escape_def byte_eq_chars byte_chars)
  next
    case 3
    then have "c \<noteq> CHR 0x22" and "c \<noteq> CHR 0x5C" by (auto simp: byte_def)
    with 3 show ?thesis
      by (simp add: quote_rune_def IsPrint_def EncodeRune_ascii json_str.simps(2) DecodeRune_ascii)
  qed
qed

lemma quote_rune_unsafe:
  assumes "byte c < 128" and "\<not> json_safe c"
  shows "json_str (quote_rune P (byte c) @ t) = None"
proof -
  have esc: "json_str (CHR 0x5C # e # r) = None"
    if "e = CHR ''a'' \<or> e = CHR ''v'' \<or> e = CHR ''x''" for e r
    by (subst json_str.simps(2)) (use that in \<open>auto simp: simple_escape_def\<close>)
  from assms have "byte c < 32 \<or> byte c = 127" and "byte c \<notin> {8, 9, 10, 12, 13}"
    by (auto simp: json_safe_def)
  moreover from this(1) have "byte c \<noteq> 34" and "byte c \<noteq> 92" and "\<not> IsPrint P (byte c)"
    by (auto simp: IsPrint_def)
  ultimately show ?thesis
    by (simp add: quote_rune_def esc)
qed

lemma hex_value_digit: "hex_value (hex_digit n) = Some (n mod 16)"
proof -
  have "list_all (\<lambda>k. hex_value (hex_digit k) = Some k) [0..<16]" by code_simp
  then have "\<forall>k \<in> set [0..<16]. hex_value (hex_digit k) = Some k" by (simp only: list_all_iff)
  moreover have "n mod 16 \<in> set [0..<16]" by simp
  ultimately have "hex_value (hex_digit (n mod 16)) = Some (n mod 16)" by (rule bspec)
  then show ?thesis by (simp only: hex_digit_def mod_mod_trivial)
qed

lemma hex_pad_length: "length (hex_pad k n) = k"
  by (induction k n rule: hex_pad.induct) simp_all

lemma hex4_pad:
  assumes "r < 65536"
  shows "hex4 (hex_pad 4 r @ t) = Some r"
proof -
  let ?a = "r div 16 div 16 div 16"
  have pad: "hex_pad 4 r = [hex_digit ?a, hex_digit (r div 16 div 16), hex_digit (r div 16), hex_digit r]"
  proof -
    have "(4::nat) = Suc (Suc (Suc (Suc 0)))" by simp
    then show ?thesis by (simp only: hex_pad.simps append.simps)
  qed
  have "?a = r div 4096" by (simp add: div_mult2_eq [symmetric])
  then have "?a mod 16 = ?a" using assms by (simp add: less_mult_imp_div_less)
  then have "((?a mod 16 * 16 + r div 16 div 16 mod 16) * 16 + r div 16 mod 16) * 16 + r mod 16 = r"
    by (simp only: div_mult_mod_eq)
  then show ?thesis by (simp add: pad hex_value_digit)
qed

text \<open>
  Of the other runes, a printable one is written as it is, one of the first 65536 as an escape that JSON has too, and any
  other one, like an invalid byte, as an escape that JSON does not have.
\<close>

definition json_safe_rune :: "(nat \<Rightarrow> bool) \<Rightarrow> nat \<Rightarrow> bool" where
  "json_safe_rune P r \<longleftrightarrow> IsPrint P r \<or> r \<in> {8, 9, 10, 12, 13} \<or> 128 \<le> r \<and> r < 65536"

function json_safe_text :: "(nat \<Rightarrow> bool) \<Rightarrow> string \<Rightarrow> bool" where
  "json_safe_text P [] = True"
| "json_safe_text P (c # cs) \<longleftrightarrow>
     DecodeRune (c # cs) \<noteq> (RuneError, 1) \<and> json_safe_rune P (fst (DecodeRune (c # cs))) \<and>
     json_safe_text P (drop (snd (DecodeRune (c # cs)) - 1) cs)"
  by pat_completeness auto
termination
  by (relation "measure (\<lambda>(P, s). length s)") auto

declare json_safe_text.simps(2) [simp del]

lemma json_str_rune:
  assumes "128 \<le> byte c" and "starts_with_rune (c # cs) r w"
  shows "json_str (take w (c # cs) @ t) = prepend (take w (c # cs)) (json_str t)"
proof -
  obtain k where w: "w = Suc k" "k \<le> length cs" and d: "DecodeRune (take w (c # cs) @ t) = (r, w)"
    and e: "EncodeRune r = take w (c # cs)"
    using assms(2) by (cases w) (auto simp: starts_with_rune_def)
  have "c \<noteq> CHR 0x22" "c \<noteq> CHR 0x5C" using assms(1) by (auto simp: byte_def)
  then show ?thesis
    using assms(1) w d e by (simp add: json_str.simps(2))
qed

lemma quote_rune_wide:
  assumes "128 \<le> byte c" and "starts_with_rune (c # cs) r w"
  shows "json_str (quote_rune P r @ t) =
    (if json_safe_rune P r then prepend (take w (c # cs)) (json_str t) else None)"
proof -
  have r: "128 \<le> r" "ValidRune r" and e: "EncodeRune r = take w (c # cs)"
    using assms(2) by (simp_all add: starts_with_rune_def)
  consider "IsPrint P r" | "\<not> IsPrint P r" "r < 65536" | "\<not> IsPrint P r" "65536 \<le> r" by linarith
  then show ?thesis
  proof cases
    case 1
    then show ?thesis using r json_str_rune [OF assms] by (simp add: quote_rune_def e json_safe_rune_def)
  next
    case 2
    have "\<not> is_surrogate r" using r by (auto simp: ValidRune_def is_surrogate_def)
    then have "json_str (CHR 0x5C # CHR ''u'' # hex_pad 4 r @ t) = prepend (EncodeRune r) (json_str t)"
      using hex4_pad [OF 2(2), of t] by (subst json_str.simps(2)) (simp add: simple_escape_def hex_pad_length)
    with 2 r show ?thesis by (simp add: quote_rune_def e json_safe_rune_def)
  next
    case 3
    have "json_str (CHR 0x5C # CHR ''U'' # x) = None" for x
      by (subst json_str.simps(2)) (simp add: simple_escape_def)
    with 3 r show ?thesis by (simp add: quote_rune_def json_safe_rune_def)
  qed
qed

lemma json_str_Quote:
  "json_str (quote_body P s @ CHR 0x22 # rest) = (if json_safe_text P s then Some (s, rest) else None)"
proof (induction P s rule: quote_body.induct)
  case (1 P)
  show ?case by (simp add: json_str.simps(2))
next
  case (2 P c cs)
  show ?case
  proof (cases rule: DecodeRune_cases [of c cs])
    case ascii
    then have safe: "json_safe_text P (c # cs) \<longleftrightarrow> json_safe c \<and> json_safe_text P cs"
      by (auto simp: json_safe_text.simps(2) json_safe_rune_def json_safe_def IsPrint_def)
    show ?thesis
      using 2 ascii quote_rune_safe [OF ascii(1), of P] quote_rune_unsafe [OF ascii(1), of P]
      by (cases "json_safe c") (simp_all add: quote_body_ascii safe)
  next
    case invalid
    have "json_str (CHR 0x5C # CHR ''x'' # x) = None" for x
      by (subst json_str.simps(2)) (simp add: simple_escape_def)
    with invalid show ?thesis by (simp add: quote_body.simps(2) json_safe_text.simps(2))
  next
    case (rune r w)
    then have w: "2 \<le> w" "w \<le> Suc (length cs)" by (simp_all add: starts_with_rune_def)
    have q: "quote_body P (c # cs) = quote_rune P r @ quote_body P (drop (w - 1) cs)"
      using rune w by (simp add: quote_body.simps(2))
    have s: "json_safe_text P (c # cs) \<longleftrightarrow> json_safe_rune P r \<and> json_safe_text P (drop (w - 1) cs)"
      using rune w by (simp add: json_safe_text.simps(2))
    have "take w (c # cs) @ drop (w - 1) cs = c # cs" using w by (cases w) simp_all
    with 2 rune(2) show ?thesis
      by (simp add: q s quote_rune_wide [OF rune(1,3)])
  qed
qed

theorem raw_of_text_Quote:
  "raw_of_text (Quote P s) = (if json_safe_text P s then Raw (JStr s) else RawInvalid)"
  using json_str_Quote [of P s "[]"]
  by (simp add: raw_of_text_def Quote_def json_parse_string_literal)

section \<open>Plain members\<close>

definition json_plain :: "char \<Rightarrow> bool" where
  "json_plain c \<longleftrightarrow> 32 \<le> byte c \<and> byte c < 128 \<and> c \<noteq> CHR 0x22 \<and> c \<noteq> CHR 0x5C"

lemma json_str_plain:
  "list_all json_plain s \<Longrightarrow> json_str (s @ CHR 0x22 # r) = Some (s, r)"
  by (induction s) (simp_all add: json_str.simps(2) json_plain_def DecodeRune_ascii EncodeRune_ascii)

lemma json_lex_punctuation:
  "json_lex (CHR ''{'' # cs) = map_option ((#) TLBrace) (json_lex cs)"
  "json_lex (CHR ''}'' # cs) = map_option ((#) TRBrace) (json_lex cs)"
  "json_lex (CHR '':'' # cs) = map_option ((#) TColon) (json_lex cs)"
  by (simp_all add: json_lex.simps(2) byte_def)

lemma json_parse_single_member:
  assumes "list_all json_plain k" and "list_all json_plain v"
  shows "json_parse (''{'' @ CHR 0x22 # k @ CHR 0x22 # CHR '':'' # CHR 0x22 # v @ CHR 0x22 # ''}'')
    = Some (JObj [(k, JStr v)])"
  using assms
  by (simp add: json_parse_def json_lex_punctuation json_lex_str json_str_plain json_step_def begin_value_def)

section \<open>Numbers\<close>

text \<open>
  A number that is decoded into an \<open>any\<close> goes through \<open>strconv.ParseFloat\<close>, which fails when it rounds to a value that is too large for
  a \<open>float64\<close>: when it is at least halfway between the largest one and the next power of two.  One number of this kind, anywhere in the
  text, is an error of \<open>Unmarshal\<close>.  \<open>number_parts\<close> gives the digits as an integer and the power of ten it is multiplied with; like
  \<open>strconv\<close> it reads no more digits of an exponent once this has reached ten thousand.
\<close>

definition decimal :: "string \<Rightarrow> nat" where
  "decimal ds = foldl (\<lambda>n c. n * 10 + (byte c - 48)) 0 ds"

definition exponent_value :: "string \<Rightarrow> int" where
  "exponent_value s =
     (let n = \<lambda>ds. int (foldl (\<lambda>e c. if e < 10000 then e * 10 + (byte c - 48) else e) 0 ds)
      in case s of [] \<Rightarrow> 0
         | _ # [] \<Rightarrow> 0
         | _ # d # ds \<Rightarrow> if d = CHR ''-'' then - n ds else if d = CHR ''+'' then n ds else n (d # ds))"

definition number_parts :: "string \<Rightarrow> nat \<times> int" where
  "number_parts s =
     (let t = dropWhile (\<lambda>c. c = CHR ''-'') s;
          digits = takeWhile is_digit t;
          r = dropWhile is_digit t;
          fraction = (case r of p # r' \<Rightarrow> if p = CHR ''.'' then takeWhile is_digit r' else [] | [] \<Rightarrow> []);
          e = (case r of p # r' \<Rightarrow> if p = CHR ''.'' then dropWhile is_digit r' else r | [] \<Rightarrow> [])
      in (decimal (digits @ fraction), exponent_value e - int (length fraction)))"

definition float64_limit :: nat where
  "float64_limit = 2 ^ 1024 - 2 ^ 970"

definition overflows_float64 :: "string \<Rightarrow> bool" where
  "overflows_float64 s =
     (case number_parts s of (m, e) \<Rightarrow>
        if 0 \<le> e then float64_limit \<le> m * 10 ^ nat e else float64_limit * 10 ^ nat (- e) \<le> m)"

fun json_fits :: "json \<Rightarrow> bool" where
  "json_fits (JNum s) \<longleftrightarrow> \<not> overflows_float64 s"
| "json_fits (JArr vs) \<longleftrightarrow> list_all json_fits vs"
| "json_fits (JObj ms) \<longleftrightarrow> list_all (\<lambda>m. json_fits (snd m)) ms"
| "json_fits _ \<longleftrightarrow> True"

definition json_to_any :: "json \<Rightarrow> json option" where
  "json_to_any j = (if json_fits j then Some j else None)"

end
