(* ===== verification/Cel.thy ===== *)
theory Cel
  imports Go_Json
begin

text \<open>
  The expression layer of \<open>pkg/authentication/cel\<close> (with padlok's \<open>compile_patch.go\<close> and
  \<open>mapper_patch.go\<close>) and of \<open>pkg/oidc/externalclaims/cel\<close>: accessors, the compiler wrapper and the
  mapper that evaluates a list of compiled expressions.

  The expression engine itself, cel-go, is not part of the repository.  What the code calls of it is
  the record \<open>cel_engine\<close>, a parameter of the definitions: loading an environment, compiling,
  checking, building a program.  A program is the function it computes from the names that its
  activation resolves.  Of a CEL value the model keeps what the code looks at: its type and what
  \<open>Value()\<close> returns for it.
\<close>

section \<open>Values\<close>

datatype cel_val =
    CelBool bool
  | CelString string
  | CelNull
  | CelTypeVal string
  | CelList cel_backing
  | CelOther string
and cel_backing =
    AnyList "json list"
  | ValList "cel_val list"
  | StringList "string list"
  | OtherList

text \<open>
  \<open>CelOther\<close> carries the type name of a value of any other type; its \<open>Value()\<close> is neither a Go string
  nor a bool nor a list.  A list is backed by decoded JSON, by CEL values, by Go strings (what
  \<open>split\<close> gives) or by something else.
\<close>

definition TypeName :: "cel_val \<Rightarrow> string" where
  "TypeName v = (case v of
      CelBool _ \<Rightarrow> ''bool'' | CelString _ \<Rightarrow> ''string'' | CelNull \<Rightarrow> ''null_type''
    | CelTypeVal _ \<Rightarrow> ''type'' | CelList _ \<Rightarrow> ''list'' | CelOther n \<Rightarrow> n)"

text \<open>The checked assertion \<open>v.Value().(string)\<close>; the value of a type is its name.\<close>

definition value_string :: "cel_val \<Rightarrow> string option" where
  "value_string v = (case v of CelString s \<Rightarrow> Some s | CelTypeVal n \<Rightarrow> Some n | _ \<Rightarrow> None)"

definition is_BoolType :: "cel_val \<Rightarrow> bool" where
  "is_BoolType v \<longleftrightarrow> (case v of CelBool _ \<Rightarrow> True | _ \<Rightarrow> False)"

definition is_StringType :: "cel_val \<Rightarrow> bool" where
  "is_StringType v \<longleftrightarrow> (case v of CelString _ \<Rightarrow> True | _ \<Rightarrow> False)"

section \<open>Expressions as the code inspects them\<close>

text \<open>The kinds of \<open>exprpb.Expr\<close>; a nil sub-expression is \<open>None\<close>.\<close>

datatype cel_expr =
    ConstExpr "string option"
  | IdentExpr string
  | SelectExpr "cel_expr option" string
  | CallExpr "cel_expr option" string "cel_expr list"
  | ListExpr "cel_expr list"
  | StructExpr "(cel_expr option \<times> cel_expr option) list"
  | ComprehensionExpr "cel_expr option" "cel_expr option" "cel_expr option" "cel_expr option"
      "cel_expr option"

datatype cel_type = AnyType | BoolType | StringType | OtherType string

record cel_ast =
  ast_OutputType :: cel_type
  ast_Expr :: "cel_expr option"

section \<open>Activations\<close>

type_synonym claims = "string \<rightharpoonup> raw_message"

record user_info =
  ui_Name :: string
  ui_UID :: string
  ui_Groups :: "string list"
  ui_Extra :: "string \<rightharpoonup> string list"

datatype mapper_value =
    NilMapValue
  | ClaimsValue claims
  | UserInfoValue user_info
  | ResponseValue "string \<rightharpoonup> json"

record var_name_activation =
  va_name :: string
  va_value :: mapper_value

definition ResolveName :: "var_name_activation \<Rightarrow> string \<Rightarrow> mapper_value option" where
  "ResolveName v name = (if va_name v \<noteq> name then None else Some (va_value v))"

type_synonym cel_program = "(string \<Rightarrow> mapper_value option) \<Rightarrow> cel_val res"

record cel_engine =
  eng_Env :: "string \<Rightarrow> error option"
  eng_Compile :: "string \<Rightarrow> string \<Rightarrow> string + cel_ast"
  eng_AstToCheckedExpr :: "cel_ast \<Rightarrow> error option"
  eng_Program :: "string \<Rightarrow> cel_ast \<Rightarrow> cel_program res"

section \<open>Expression accessors\<close>

datatype accessor =
    ClaimMappingExpression string
  | ClaimValidationCondition string string
  | ExtraMappingExpression string string
  | UserValidationCondition string string
  | ExternalSourceMappingExpression string string
  | ExternalSourceURLExpression string string
  | ExternalSourceConditionExpression string

fun GetExpression :: "accessor \<Rightarrow> string" where
  "GetExpression (ClaimMappingExpression e) = e"
| "GetExpression (ClaimValidationCondition e _) = e"
| "GetExpression (ExtraMappingExpression _ e) = e"
| "GetExpression (UserValidationCondition e _) = e"
| "GetExpression (ExternalSourceMappingExpression _ e) = e"
| "GetExpression (ExternalSourceURLExpression _ e) = e"
| "GetExpression (ExternalSourceConditionExpression e) = e"

fun ReturnTypes :: "accessor \<Rightarrow> cel_type list" where
  "ReturnTypes (ClaimMappingExpression _) = [AnyType]"
| "ReturnTypes (ClaimValidationCondition _ _) = [BoolType]"
| "ReturnTypes (ExtraMappingExpression _ _) = [AnyType]"
| "ReturnTypes (UserValidationCondition _ _) = [BoolType]"
| "ReturnTypes (ExternalSourceMappingExpression _ _) = [AnyType]"
| "ReturnTypes (ExternalSourceURLExpression _ _) = [AnyType]"
| "ReturnTypes (ExternalSourceConditionExpression _) = [BoolType]"

section \<open>The compiler\<close>

record compilation_result =
  cr_Program :: cel_program
  cr_AST :: cel_ast
  cr_ExpressionAccessor :: accessor

abbreviation claimsVarName :: string where "claimsVarName \<equiv> ''claims''"
abbreviation userVarName :: string where "userVarName \<equiv> ''user''"
abbreviation responseVarName :: string where "responseVarName \<equiv> ''response''"

text \<open>The reason names the one return type, or all of them; the model keeps the format.\<close>

definition compile :: "cel_engine \<Rightarrow> accessor \<Rightarrow> string \<Rightarrow> compilation_result res" where
  "compile eng expressionAccessor envVarName =
     (case eng_Env eng envVarName of
        Some err \<Rightarrow> Inl (CelError CelErrorInternal ''unexpected error loading CEL environment: %v'' [OpE err])
      | None \<Rightarrow>
     (case eng_Compile eng envVarName (GetExpression expressionAccessor) of
        Inl issues \<Rightarrow> Inl (CelError CelErrorInvalid ''compilation failed: '' [OpS issues])
      | Inr ast \<Rightarrow>
     (if \<not> list_ex (\<lambda>returnType. ast_OutputType ast = returnType \<or> AnyType = returnType)
           (ReturnTypes expressionAccessor)
      then Inl (CelError CelErrorInvalid ''must evaluate to %v'' [])
      else
     (case eng_AstToCheckedExpr eng ast of
        Some err \<Rightarrow> Inl (CelError CelErrorInternal ''unexpected compilation error: '' [OpE err])
      | None \<Rightarrow>
     (case eng_Program eng envVarName ast of
        Inl err \<Rightarrow> Inl (CelError CelErrorInternal ''program instantiation failed: '' [OpE err])
      | Inr prog \<Rightarrow>
          Inr \<lparr>cr_Program = prog, cr_AST = ast, cr_ExpressionAccessor = expressionAccessor\<rparr>)))))"

definition CompileClaimsExpression :: "cel_engine \<Rightarrow> accessor \<Rightarrow> compilation_result res" where
  "CompileClaimsExpression eng a = compile eng a claimsVarName"

definition CompileUserExpression :: "cel_engine \<Rightarrow> accessor \<Rightarrow> compilation_result res" where
  "CompileUserExpression eng a = compile eng a userVarName"

definition CompileExternalSourceExpression :: "cel_engine \<Rightarrow> accessor \<Rightarrow> compilation_result res" where
  "CompileExternalSourceExpression eng a = compile eng a responseVarName"

section \<open>The mapper\<close>

record evaluation_result =
  er_EvalResult :: cel_val
  er_ExpressionAccessor :: accessor

type_synonym mapper = "compilation_result list"

record cel_mapper =
  cm_map_Username :: "mapper option"
  cm_map_Groups :: "mapper option"
  cm_map_UID :: "mapper option"
  cm_map_Extra :: "mapper option"
  cm_map_ClaimValidationRules :: "mapper option"
  cm_map_UserValidationRules :: "mapper option"

definition empty_cel_mapper :: cel_mapper where
  "empty_cel_mapper = \<lparr>cm_map_Username = None, cm_map_Groups = None, cm_map_UID = None,
     cm_map_Extra = None, cm_map_ClaimValidationRules = None, cm_map_UserValidationRules = None\<rparr>"

definition eval_one :: "var_name_activation \<Rightarrow> compilation_result \<Rightarrow> evaluation_result res" where
  "eval_one input r =
     (case cr_Program r (ResolveName input) of
        Inl err \<Rightarrow> Inl (Errorf ''expression '%s' resulted in error: %w''
          [OpS (GetExpression (cr_ExpressionAccessor r)), OpE err])
      | Inr v \<Rightarrow> Inr \<lparr>er_EvalResult = v, er_ExpressionAccessor = cr_ExpressionAccessor r\<rparr>)"

definition mapper_eval :: "mapper \<Rightarrow> var_name_activation \<Rightarrow> evaluation_result list res" where
  "mapper_eval m input = map_res (eval_one input) m"

definition EvalClaimMappings :: "mapper \<Rightarrow> mapper_value \<Rightarrow> evaluation_result list res" where
  "EvalClaimMappings m claims = mapper_eval m \<lparr>va_name = claimsVarName, va_value = claims\<rparr>"

definition EvalUser :: "mapper \<Rightarrow> mapper_value \<Rightarrow> evaluation_result list res" where
  "EvalUser m userInfo = mapper_eval m \<lparr>va_name = userVarName, va_value = userInfo\<rparr>"

definition EvalExternalClaims :: "mapper \<Rightarrow> mapper_value \<Rightarrow> evaluation_result list res" where
  "EvalExternalClaims m input = mapper_eval m \<lparr>va_name = responseVarName, va_value = input\<rparr>"

definition EvalClaimMapping :: "mapper \<Rightarrow> mapper_value \<Rightarrow> evaluation_result res" where
  "EvalClaimMapping m claims =
     (case mapper_eval m \<lparr>va_name = claimsVarName, va_value = claims\<rparr> of
        Inl err \<Rightarrow> Inl err
      | Inr results \<Rightarrow>
          (case results of [r] \<Rightarrow> Inr r
           | _ \<Rightarrow> Inl (Errorf ''expected 1 evaluation result, got %d'' [OpN (length results)])))"

section \<open>Laws\<close>

lemma empty_cel_mapper_fields [simp]:
  "cm_map_Username empty_cel_mapper = None" "cm_map_Groups empty_cel_mapper = None"
  "cm_map_UID empty_cel_mapper = None" "cm_map_Extra empty_cel_mapper = None"
  "cm_map_ClaimValidationRules empty_cel_mapper = None"
  "cm_map_UserValidationRules empty_cel_mapper = None"
  by (simp_all add: empty_cel_mapper_def)

lemma ResolveName_own [simp]:
  "ResolveName \<lparr>va_name = n, va_value = v\<rparr> m = (if n = m then Some v else None)"
  by (simp add: ResolveName_def)

lemma compile_Inr_iff:
  "compile eng a var = Inr r \<longleftrightarrow>
     eng_Env eng var = None \<and> eng_Compile eng var (GetExpression a) = Inr (cr_AST r) \<and>
     (ast_OutputType (cr_AST r) \<in> set (ReturnTypes a) \<or> AnyType \<in> set (ReturnTypes a)) \<and>
     eng_AstToCheckedExpr eng (cr_AST r) = None \<and>
     eng_Program eng var (cr_AST r) = Inr (cr_Program r) \<and> cr_ExpressionAccessor r = a"
  by (auto simp: compile_def list_ex_iff split: option.splits sum.splits if_splits)

lemma compile_accessor: "compile eng a var = Inr r \<Longrightarrow> cr_ExpressionAccessor r = a"
  by (simp add: compile_Inr_iff)

text \<open>The return types constrain only accessors that do not allow any type.\<close>

lemma compile_bool:
  "compile eng a var = Inr r \<Longrightarrow> ReturnTypes a = [BoolType] \<Longrightarrow> ast_OutputType (cr_AST r) = BoolType"
  by (auto simp: compile_Inr_iff)

lemma compile_expression_only:
  assumes "GetExpression a = GetExpression b" and "ReturnTypes a = ReturnTypes b"
  shows "(\<exists>r. compile eng a var = Inr r) \<longleftrightarrow> (\<exists>r. compile eng b var = Inr r)"
  using assms by (auto simp: compile_def split: option.splits sum.splits if_splits)

lemma eval_one_Inr_iff [res_simps]:
  "eval_one input r = Inr e \<longleftrightarrow>
     cr_Program r (ResolveName input) = Inr (er_EvalResult e) \<and>
     er_ExpressionAccessor e = cr_ExpressionAccessor r"
  by (auto simp: eval_one_def split: sum.splits)

lemma mapper_eval_accessors:
  "mapper_eval m input = Inr es \<Longrightarrow> map er_ExpressionAccessor es = map cr_ExpressionAccessor m"
  by (auto simp: mapper_eval_def res_simps list_all2_conv_all_nth intro!: nth_equalityI)

lemmas eval_defs = EvalClaimMappings_def EvalUser_def EvalExternalClaims_def

lemma EvalClaimMapping_Inr_iff [res_simps]:
  "EvalClaimMapping m c = Inr e \<longleftrightarrow> EvalClaimMappings m c = Inr [e]"
  by (auto simp: EvalClaimMapping_def EvalClaimMappings_def split: sum.splits list.splits)

lemma EvalClaimMapping_single [simp]:
  "EvalClaimMapping [r] c = eval_one \<lparr>va_name = claimsVarName, va_value = c\<rparr> r"
  by (simp add: EvalClaimMapping_def mapper_eval_def split: sum.splits)

end
