(* ===== verification/Go_Url.thy ===== *)
theory Go_Url
  imports Go_Json
begin

text \<open>
  \<open>net/url\<close> as the code uses it: \<open>PathEscape\<close>, \<open>JoinPath\<close> on relative path references (the only
  bases the code passes), \<open>Parse\<close> and \<open>URL.Port\<close>.  \<open>Parse\<close> follows Go 1.26 (the version
  of go.mod), where a host outside brackets holds at most one colon.  What \<open>Parse\<close> makes of a host
  with a bracketed IP literal is a parameter, \<open>ip_literal\<close>: the host, or \<open>None\<close> for an error.
\<close>

section \<open>Escaping\<close>

definition is_alnum :: "char \<Rightarrow> bool" where
  "is_alnum c \<longleftrightarrow> (let b = byte c in
     (97 \<le> b \<and> b \<le> 122) \<or> (65 \<le> b \<and> b \<le> 90) \<or> (48 \<le> b \<and> b \<le> 57))"

definition is_unreserved :: "char \<Rightarrow> bool" where
  "is_unreserved c \<longleftrightarrow> is_alnum c \<or> c \<in> set ''-_.~''"

definition escape_in_segment :: "char \<Rightarrow> bool" where
  "escape_in_segment c \<longleftrightarrow> \<not> is_unreserved c \<and> c \<notin> set ''$&+:=@''"

definition upper_hex :: "nat \<Rightarrow> char" where
  "upper_hex n = ''0123456789ABCDEF'' ! (n mod 16)"

definition PathEscape :: "string \<Rightarrow> string" where
  "PathEscape s = concat (map (\<lambda>c. if escape_in_segment c
      then [CHR ''%'', upper_hex (byte c div 16), upper_hex (byte c)] else [c]) s)"

section \<open>JoinPath on relative references\<close>

text \<open>\<open>path.Clean\<close> of a rooted path, as the list of its elements.\<close>

definition clean_step :: "string list \<Rightarrow> string \<Rightarrow> string list" where
  "clean_step st s = (if s = '''' \<or> s = ''.'' then st else if s = ''..'' then drop 1 st else s # st)"

definition clean_elems :: "string list \<Rightarrow> string list" where
  "clean_elems xs = rev (foldl clean_step [] xs)"

fun join_slash :: "string list \<Rightarrow> string" where
  "join_slash [] = []"
| "join_slash [x] = x"
| "join_slash (x # y # xs) = x @ CHR ''/'' # join_slash (y # xs)"

text \<open>
  \<open>EscapedPath\<close> of a URL whose path was set from a text of unreserved bytes, sub-delimiters and
  percent escapes: the text itself, except for the path \<open>*\<close>.
\<close>

definition escaped_path :: "string \<Rightarrow> string" where
  "escaped_path p = (if p = ''%2A'' then ''*'' else p)"

text \<open>A relative reference whose first element holds a colon is printed with a leading \<open>./\<close>.\<close>

definition relative_string :: "string \<Rightarrow> string" where
  "relative_string p = (if CHR '':'' \<in> set (takeWhile (\<lambda>c. c \<noteq> CHR ''/'') p) then ''./'' @ p else p)"

definition JoinPath :: "string \<Rightarrow> string \<Rightarrow> string" where
  "JoinPath base elem =
     (let p = join_slash (clean_elems (Split (CHR ''/'') base @ Split (CHR ''/'') elem));
          p' = (if HasSuffix elem ''/'' \<and> \<not> HasSuffix p ''/'' then p @ ''/'' else p)
      in relative_string (escaped_path p'))"

section \<open>Parse\<close>

record url =
  Scheme :: string
  Opaque :: string
  User :: "string option"
  Host :: string
  UrlPath :: string
  RawQuery :: string
  Fragment :: string

definition empty_url :: url where
  "empty_url = \<lparr>Scheme = [], Opaque = [], User = None, Host = [], UrlPath = [], RawQuery = [],
     Fragment = []\<rparr>"

definition escape_in_host :: "char \<Rightarrow> bool" where
  "escape_in_host c \<longleftrightarrow> \<not> is_unreserved c \<and> c \<notin> set ''!$&()*+,;=:[]<>'' \<and> c \<noteq> CHR 0x27 \<and> c \<noteq> CHR 0x22"

text \<open>\<open>unescape\<close>; in a host only a percent sign and bytes outside ASCII may be escaped.\<close>

fun unescape :: "bool \<Rightarrow> string \<Rightarrow> string option" where
  "unescape host [] = Some []"
| "unescape host (c # r) =
     (if c = CHR ''%'' then
        (case r of
           h1 # h2 # r' \<Rightarrow>
             (case (hex_value h1, hex_value h2) of
                (Some a, Some b) \<Rightarrow>
                  if host \<and> a < 8 \<and> [h1, h2] \<noteq> ''25'' then None
                  else map_option ((#) (char_of (a * 16 + b))) (unescape host r')
              | _ \<Rightarrow> None)
         | _ \<Rightarrow> None)
      else if host \<and> byte c < 128 \<and> escape_in_host c then None
      else map_option ((#) c) (unescape host r))"

definition is_letter :: "char \<Rightarrow> bool" where
  "is_letter c \<longleftrightarrow> (97 \<le> byte c \<and> byte c \<le> 122) \<or> (65 \<le> byte c \<and> byte c \<le> 90)"

text \<open>\<open>getScheme\<close>: \<open>None\<close> for a missing scheme before a colon.\<close>

definition get_scheme :: "string \<Rightarrow> (string \<times> string) option" where
  "get_scheme s =
     (let n = takeWhile (\<lambda>c. is_letter c \<or> is_digit c \<or> c \<in> set ''+-.'') s;
          r = drop (length n) s
      in if r \<noteq> [] \<and> hd r = CHR '':'' then
           (if n = [] then None else if is_letter (hd n) then Some (n, tl r) else Some ([], s))
         else Some ([], s))"

definition valid_optional_port :: "string \<Rightarrow> bool" where
  "valid_optional_port p \<longleftrightarrow> p = [] \<or> (hd p = CHR '':'' \<and> list_all is_digit (tl p))"

definition parse_host :: "(string \<Rightarrow> string option) \<Rightarrow> string \<Rightarrow> string option" where
  "parse_host ip_literal h =
     (if CHR ''['' \<in> set h then ip_literal h
      else if valid_optional_port (dropWhile (\<lambda>c. c \<noteq> CHR '':'') h) then unescape True h
      else None)"

definition valid_userinfo :: "string \<Rightarrow> bool" where
  "valid_userinfo s \<longleftrightarrow>
     list_all (\<lambda>c. is_alnum c \<or> c \<in> set ''-._:~!$&()*+,;=%@'' \<or> c = CHR 0x27) s"

definition parse_authority :: "(string \<Rightarrow> string option) \<Rightarrow> string \<Rightarrow> (string option \<times> string) option" where
  "parse_authority ip_literal a =
     (if CHR ''@'' \<notin> set a then map_option (Pair None) (parse_host ip_literal a)
      else let host = rev (takeWhile (\<lambda>c. c \<noteq> CHR ''@'') (rev a));
               user = take (length a - length host - 1) a
           in case parse_host ip_literal host of None \<Rightarrow> None
              | Some h \<Rightarrow> if valid_userinfo user
                  then map_option (\<lambda>u. (Some u, h)) (unescape False user) else None)"

definition parse_rest :: "(string \<Rightarrow> string option) \<Rightarrow> url \<Rightarrow> string \<Rightarrow> url option" where
  "parse_rest ip_literal u rest =
     (if \<not> HasPrefix rest ''/'' \<and> Scheme u \<noteq> [] then Some (u\<lparr>Opaque := rest\<rparr>)
      else if \<not> HasPrefix rest ''/'' \<and> CHR '':'' \<in> set (takeWhile (\<lambda>c. c \<noteq> CHR ''/'') rest) then None
      else if (Scheme u \<noteq> [] \<or> \<not> HasPrefix rest ''///'') \<and> HasPrefix rest ''//'' then
        (let a = takeWhile (\<lambda>c. c \<noteq> CHR ''/'') (drop 2 rest);
             p = dropWhile (\<lambda>c. c \<noteq> CHR ''/'') (drop 2 rest)
         in case parse_authority ip_literal a of None \<Rightarrow> None
            | Some (user, host) \<Rightarrow>
                map_option (\<lambda>path. u\<lparr>User := user, Host := host, UrlPath := path\<rparr>) (unescape False p))
      else map_option (\<lambda>path. u\<lparr>UrlPath := path\<rparr>) (unescape False rest))"

definition parse_no_fragment :: "(string \<Rightarrow> string option) \<Rightarrow> string \<Rightarrow> url option" where
  "parse_no_fragment ip_literal s =
     (if \<not> list_all (\<lambda>c. 32 \<le> byte c \<and> byte c \<noteq> 127) s then None
      else if s = ''*'' then Some (empty_url\<lparr>UrlPath := ''*''\<rparr>)
      else case get_scheme s of None \<Rightarrow> None
      | Some (sch, rest) \<Rightarrow>
          let u = empty_url\<lparr>Scheme := map ToLower_byte sch\<rparr>;
              (before, query, found) = Cut (CHR ''?'') rest
          in parse_rest ip_literal (u\<lparr>RawQuery := query\<rparr>) before)"

definition url_Parse :: "(string \<Rightarrow> string option) \<Rightarrow> string \<Rightarrow> url res" where
  "url_Parse ip_literal s =
     (let (u, frag, _) = Cut (CHR ''#'') s;
          r = (case parse_no_fragment ip_literal u of None \<Rightarrow> None
               | Some v \<Rightarrow> map_option (\<lambda>f. v\<lparr>Fragment := f\<rparr>) (unescape False frag))
      in case r of None \<Rightarrow> Inl (Errorf ''parse %q'' [OpS s]) | Some v \<Rightarrow> Inr v)"

text \<open>\<open>URL.Port\<close>: what follows the last colon of the host, if it is a valid port.\<close>

definition url_Port :: "url \<Rightarrow> string" where
  "url_Port u = (let h = Host u; p = rev (takeWhile (\<lambda>c. c \<noteq> CHR '':'') (rev h)) in
     if CHR '':'' \<in> set h \<and> list_all is_digit p then p else [])"

text \<open>\<open>strconv.Atoi\<close> on a string of digits (an \<open>int\<close> has 64 bits).\<close>

definition Atoi :: "string \<Rightarrow> nat res" where
  "Atoi s = (let n = foldl (\<lambda>n c. n * 10 + (byte c - 48)) 0 s in
     if s \<noteq> [] \<and> list_all is_digit s \<and> n < 2 ^ 63 then Inr n
     else Inl (Errorf ''strconv.Atoi: parsing %q'' [OpS s]))"

section \<open>Laws of JoinPath over escaped elements\<close>

lemma PathEscape_no_slash: "CHR ''/'' \<notin> set (PathEscape s)"
proof -
  have "CHR ''/'' \<noteq> upper_hex n" for n
  proof -
    have "upper_hex n \<in> set ''0123456789ABCDEF''"
      unfolding upper_hex_def by (rule nth_mem) simp
    then show ?thesis by auto
  qed
  moreover have "escape_in_segment (CHR ''/'')"
    by (simp add: escape_in_segment_def is_unreserved_def is_alnum_def byte_def)
  ultimately show ?thesis
    by (auto simp: PathEscape_def)
qed

lemma Split_no_slash: "c \<notin> set s \<Longrightarrow> Split c s = [s]"
  by (induction s) auto

lemma PathEscape_eq_Nil [simp]: "PathEscape s = [] \<longleftrightarrow> s = []"
  by (cases s) (auto simp: PathEscape_def)

lemma Split_append: "Split c (xs @ c # ys) = Split c xs @ Split c ys"
  by (induction xs) (auto split: list.splits)

lemma Split_join_slash:
  assumes "xs \<noteq> []" and "\<forall>x \<in> set xs. CHR ''/'' \<notin> set x"
  shows "Split (CHR ''/'') (join_slash xs) = xs"
  using assms
  by (induction xs rule: join_slash.induct) (auto simp: Split_no_slash Split_append)

text \<open>A segment that stays itself under cleaning.\<close>

definition ordinary_segment :: "string \<Rightarrow> bool" where
  "ordinary_segment s \<longleftrightarrow> s \<noteq> [] \<and> s \<noteq> ''.'' \<and> s \<noteq> ''..''"

lemma PathEscape_Cons:
  "PathEscape (c # s) = (if escape_in_segment c
     then CHR ''%'' # upper_hex (byte c div 16) # upper_hex (byte c) # PathEscape s
     else c # PathEscape s)"
  by (simp add: PathEscape_def)

lemma escape_in_segment_dot [simp]: "\<not> escape_in_segment CHR ''.''"
  by (simp add: escape_in_segment_def is_unreserved_def)

lemma escape_in_segment_star [simp]: "escape_in_segment CHR ''*''" "escape_in_segment CHR ''%''"
  by (simp_all add: escape_in_segment_def is_unreserved_def is_alnum_def byte_def)

lemma PathEscape_Nil [simp]: "PathEscape [] = []"
  by (simp add: PathEscape_def)

lemma PathEscape_dot_Cons:
  "PathEscape s = CHR ''.'' # t \<longleftrightarrow> (\<exists>s'. s = CHR ''.'' # s' \<and> PathEscape s' = t)"
  by (cases s) (auto simp: PathEscape_Cons)

lemma PathEscape_dot_iff:
  "PathEscape s = ''.'' \<longleftrightarrow> s = ''.''" "PathEscape s = ''..'' \<longleftrightarrow> s = ''..''"
  by (simp_all add: PathEscape_dot_Cons)

lemma PathEscape_ordinary [simp]: "ordinary_segment (PathEscape s) = ordinary_segment s"
  by (simp add: ordinary_segment_def PathEscape_dot_iff)

lemma upper_hex_in: "upper_hex n \<in> set ''0123456789ABCDEF''"
  unfolding upper_hex_def by (rule nth_mem) simp

lemma PathEscape_colon: "CHR '':'' \<in> set (PathEscape s) \<longleftrightarrow> CHR '':'' \<in> set s"
proof (induction s)
  case (Cons c s)
  have "CHR '':'' \<noteq> upper_hex n" for n using upper_hex_in [of n] by auto
  moreover have "\<not> escape_in_segment CHR '':''"
    by (simp add: escape_in_segment_def is_unreserved_def)
  ultimately show ?case by (auto simp: PathEscape_Cons Cons.IH)
qed (simp add: PathEscape_def)

lemma clean_elems_ordinary:
  assumes "list_all ordinary_segment xs"
  shows "clean_elems xs = xs"
proof -
  have "foldl clean_step st xs = rev xs @ st" for st
    using assms by (induction xs arbitrary: st) (auto simp: clean_step_def ordinary_segment_def)
  then show ?thesis by (simp add: clean_elems_def)
qed

lemma clean_elems_Nil_head: "clean_elems ([] # xs) = clean_elems xs"
  by (simp add: clean_elems_def clean_step_def)

lemma takeWhile_join_slash:
  assumes "CHR ''/'' \<notin> set x"
  shows "takeWhile (\<lambda>c. c \<noteq> CHR ''/'') (join_slash (x # xs)) = x"
  using assms by (cases xs) (auto simp: takeWhile_append)

lemma join_slash_eq_star:
  assumes "join_slash (x # xs) = ''%2A''"
  shows "x = ''%2A''"
proof (cases xs)
  case Nil
  with assms show ?thesis by simp
next
  case (Cons y ys)
  with assms have "CHR ''/'' \<in> set ''%2A''" by (metis in_set_conv_decomp join_slash.simps(3))
  then show ?thesis by simp
qed

text \<open>
  Joining one more escaped element to a path of escaped elements appends it, when all are ordinary
  and the first neither holds a colon nor is an escaped star.
\<close>

lemma JoinPath_escaped:
  assumes ord: "list_all ordinary_segment (xs @ [y])"
    and hd: "CHR '':'' \<notin> set (hd (xs @ [y]))" "hd (xs @ [y]) \<noteq> ''%2A''"
    and slash: "\<forall>x \<in> set (xs @ [y]). CHR ''/'' \<notin> set x"
  shows "JoinPath (join_slash xs) y = join_slash (xs @ [y])"
proof -
  have "clean_elems (Split CHR ''/'' (join_slash xs) @ Split CHR ''/'' y) = xs @ [y]"
  proof (cases "xs = []")
    case True
    with ord slash show ?thesis
      by (simp add: Split_no_slash clean_elems_Nil_head clean_elems_ordinary)
  next
    case False
    with ord slash show ?thesis
      by (simp add: Split_join_slash Split_no_slash clean_elems_ordinary)
  qed
  moreover have "\<not> HasSuffix y ''/''"
  proof
    assume "HasSuffix y ''/''"
    then have "CHR ''/'' \<in> set y"
      by (metis HasSuffix_def in_set_dropD list.set_intros(1))
    with slash show False by simp
  qed
  moreover obtain z zs where z: "xs @ [y] = z # zs" by (cases "xs @ [y]") auto
  moreover have "join_slash (z # zs) \<noteq> ''%2A''"
    using hd(2) join_slash_eq_star [of z zs] by (auto simp: z)
  moreover have "CHR '':'' \<notin> set (takeWhile (\<lambda>c. c \<noteq> CHR ''/'') (join_slash (z # zs)))"
    using hd(1) slash by (subst takeWhile_join_slash) (simp_all add: z)
  ultimately show ?thesis
    by (simp add: JoinPath_def escaped_path_def relative_string_def)
qed

lemma upper_hex_eq_iff: "upper_hex m = upper_hex n \<longleftrightarrow> m mod 16 = n mod 16"
  unfolding upper_hex_def by (rule nth_eq_iff_index_eq) (simp_all add: distinct_length_2_or_more)

lemma PathEscape_eq_star: "PathEscape s = ''%2A'' \<longleftrightarrow> s = ''*''"
proof
  assume s: "PathEscape s = ''%2A''"
  then obtain c s' where c: "s = c # s'" by (cases s) auto
  have "escape_in_segment c"
  proof (rule ccontr)
    assume "\<not> escape_in_segment c"
    with s c show False by (auto simp: PathEscape_Cons)
  qed
  with s c have "upper_hex (byte c div 16) = upper_hex 2" "upper_hex (byte c) = upper_hex 10" "s' = []"
    by (auto simp: PathEscape_Cons upper_hex_def)
  moreover have "byte c < 256" by simp
  then have "byte c div 16 < 16" by (simp add: less_mult_imp_div_less)
  ultimately have "byte c div 16 = 2" and "byte c mod 16 = 10" and "s' = []"
    by (simp_all add: upper_hex_eq_iff)
  then have "byte c = 42" using div_mult_mod_eq [of "byte c" 16] by simp
  then have "byte c = byte CHR ''*''" by (simp add: byte_def)
  then show "s = ''*''" using c \<open>s' = []\<close> by (simp add: byte_inject)
qed (simp add: PathEscape_Cons upper_hex_def byte_def)

text \<open>An element \<open>..\<close> is not escaped, and removes the element before it.\<close>

lemma JoinPath_dotdot:
  assumes ord: "list_all ordinary_segment (x # xs @ [y])"
    and hd: "CHR '':'' \<notin> set x" "x \<noteq> ''%2A''"
    and slash: "\<forall>z \<in> set (x # xs @ [y]). CHR ''/'' \<notin> set z"
  shows "JoinPath (join_slash (x # xs @ [y])) (PathEscape ''..'') = join_slash (x # xs)"
proof -
  have "PathEscape ''..'' = ''..''" by (simp add: PathEscape_dot_iff)
  moreover have "clean_elems ((x # xs @ [y]) @ [''..'']) = x # xs"
  proof -
    have "foldl clean_step [] (x # xs @ [y]) = rev (x # xs @ [y])"
      using clean_elems_ordinary [OF ord] unfolding clean_elems_def by (metis rev_rev_ident)
    moreover have "foldl clean_step [] ((x # xs @ [y]) @ [''..''])
        = clean_step (foldl clean_step [] (x # xs @ [y])) ''..''"
      by (simp only: foldl_append foldl.simps)
    ultimately show ?thesis by (simp add: clean_elems_def clean_step_def)
  qed
  moreover have "Split CHR ''/'' (join_slash (x # xs @ [y])) = x # xs @ [y]"
    using slash by (intro Split_join_slash) simp_all
  moreover have "join_slash (x # xs) \<noteq> ''%2A''" using hd(2) join_slash_eq_star [of x xs] by auto
  moreover have "CHR '':'' \<notin> set (takeWhile (\<lambda>c. c \<noteq> CHR ''/'') (join_slash (x # xs)))"
    using hd(1) slash by (subst takeWhile_join_slash) simp_all
  ultimately show ?thesis
    by (simp add: JoinPath_def escaped_path_def relative_string_def HasSuffix_def Split_no_slash)
qed

end
