(* ===== verification/Http.thy ===== *)
theory Http
  imports Go_Url
begin

text \<open>
  HTTP as the modelled code uses it.  The network is a parameter, \<open>env_net\<close>: the answer to a request
  as a function of everything sent before it, of the transport and of the request, so that it can be
  any deterministic peer.  Sending appends to the history, a list of events; what the code puts on
  the wire is then a statement about that list.  Calls of the token verifier, which may fetch keys of their
  own, and requests for the verifier of another issuer are events of the same list.  The other parts of the environment that are not in
  the repository are in the same record: the OAuth2 token source, PEM parsing, the printable runes
  of the \<open>unicode\<close> tables, IP literals in URLs.  The client follows redirects, as \<open>http.Client\<close> does by default:
  \<open>env_Location\<close> resolves a \<open>Location\<close> header against the URL of the request, \<open>env_same_site\<close> says whether
  the host of the new URL is the first one or a subdomain of it, \<open>env_referer\<close> gives the \<open>Referer\<close> header.
\<close>

record tls_config =
  tc_RootCAs :: "string option"
  tc_MinTLS12 :: bool

text \<open>
  An \<open>http.Transport\<close> by its \<open>TLSClientConfig\<close> (\<open>NetTransport None\<close> is the default transport), and the
  round tripper of \<open>oidc.go\<close> that rewrites the well-known URL.
\<close>

datatype transport =
    NetTransport "tls_config option"
  | DiscoveryURLRoundTripper transport url string

record http_client =
  hc_Timeout :: nat
  hc_Transport :: "transport option"

record http_request =
  rq_Method :: string
  rq_URL :: string
  rq_Header :: "(string \<times> string) list"

record http_response =
  rs_StatusCode :: nat
  rs_Location :: string
  rs_Body :: "string res"

record token_source =
  ts_ClientID :: string
  ts_ClientSecret :: string
  ts_TokenURL :: string
  ts_Scopes :: "string list"
  ts_Client :: http_client

datatype event =
    Sent "tls_config option" http_request
  | TokenAsked token_source
  | VerifyCalled string
  | VerifierAsked string

type_synonym history = "event list"

record environment =
  env_net :: "history \<Rightarrow> tls_config option \<Rightarrow> http_request \<Rightarrow> http_response option res"
  env_token :: "history \<Rightarrow> token_source \<Rightarrow> string res"
  env_pem_ok :: "string \<Rightarrow> bool"
  env_is_print :: "nat \<Rightarrow> bool"
  env_ip_literal :: "string \<Rightarrow> string option"
  env_url_String :: "url \<Rightarrow> string"
  env_Location :: "string \<Rightarrow> string \<Rightarrow> string res"
  env_same_site :: "string \<Rightarrow> string \<Rightarrow> bool"
  env_referer :: "string \<Rightarrow> string \<Rightarrow> string"

abbreviation MethodGet :: string where "MethodGet \<equiv> ''GET''"

definition NewRequest :: "environment \<Rightarrow> string \<Rightarrow> string \<Rightarrow> http_request res" where
  "NewRequest env method u =
     bind_res (url_Parse (env_ip_literal env) u) id
       (\<lambda>_. Inr \<lparr>rq_Method = method, rq_URL = u, rq_Header = []\<rparr>)"

text \<open>
  \<open>RoundTrip\<close> of a transport: the discovery round tripper replaces the URL of a GET of exactly the URL
  it was made for, and passes everything else on.
\<close>

fun RoundTrip :: "environment \<Rightarrow> transport \<Rightarrow> http_request \<Rightarrow> history
    \<Rightarrow> http_response option res \<times> history" where
  "RoundTrip env (NetTransport tls) req h = (env_net env h tls req, h @ [Sent tls req])"
| "RoundTrip env (DiscoveryURLRoundTripper base discoveryURL urlToRewrite) req h =
     (if rq_Method req = MethodGet \<and> rq_URL req = urlToRewrite
      then RoundTrip env base (req\<lparr>rq_URL := env_url_String env discoveryURL\<rparr>) h
      else RoundTrip env base req h)"

text \<open>
  What \<open>http.Client\<close> makes of a response to a GET without a body: nothing, for a response that is no redirect or
  that has no location; else the next request, with the headers of the first one, but without its
  credentials once a redirect has led to another site.
\<close>

definition is_redirect :: "http_response \<Rightarrow> bool" where
  "is_redirect resp \<longleftrightarrow> rs_StatusCode resp \<in> {301, 302, 303, 307, 308} \<and> rs_Location resp \<noteq> []"

definition redirect_headers :: "bool \<Rightarrow> string \<Rightarrow> http_request \<Rightarrow> (string \<times> string) list" where
  "redirect_headers strip referer first =
     filter (\<lambda>(name, val). \<not> (strip \<and> name = ''Authorization'')) (rq_Header first) @
     (if referer = [] then [] else [(''Referer'', referer)])"

definition redirect_of ::
  "environment \<Rightarrow> http_request \<Rightarrow> bool \<Rightarrow> http_request \<Rightarrow> http_response \<Rightarrow> (http_request \<times> bool) res option" where
  "redirect_of env first strip req resp =
     (if \<not> is_redirect resp then None
      else Some (bind_res (env_Location env (rq_URL req) (rs_Location resp))
        (\<lambda>err. Errorf ''failed to parse Location header %q: %v'' [OpS (rs_Location resp), OpE err])
        (\<lambda>u. let strip' = strip \<or> \<not> env_same_site env (rq_URL first) u
          in Inr (\<lparr>rq_Method = rq_Method req, rq_URL = u,
               rq_Header = redirect_headers strip' (env_referer env (rq_URL req) u) first\<rparr>, strip'))))"

text \<open>\<open>http.Client.Do\<close>: at most ten requests; a nil transport is the default one.\<close>

fun follow_redirects ::
  "nat \<Rightarrow> environment \<Rightarrow> transport \<Rightarrow> http_request \<Rightarrow> bool \<Rightarrow> http_request \<Rightarrow> history
    \<Rightarrow> http_response option res \<times> history" where
  "follow_redirects left env t first strip req h =
     (case RoundTrip env t req h of
        (Inl err, h1) \<Rightarrow> (Inl err, h1)
      | (Inr None, h1) \<Rightarrow> (Inr None, h1)
      | (Inr (Some resp), h1) \<Rightarrow>
     (case redirect_of env first strip req resp of
        None \<Rightarrow> (Inr (Some resp), h1)
      | Some (Inl err) \<Rightarrow> (Inl err, h1)
      | Some (Inr (req', strip')) \<Rightarrow>
     (case left of
        0 \<Rightarrow> (Inl (Errorf ''stopped after 10 redirects'' []), h1)
      | Suc n \<Rightarrow> follow_redirects n env t first strip' req' h1)))"

definition client_Do :: "environment \<Rightarrow> http_client \<Rightarrow> http_request \<Rightarrow> history
    \<Rightarrow> http_response option res \<times> history" where
  "client_Do env c req h =
     follow_redirects 9 env (case hc_Transport c of None \<Rightarrow> NetTransport None | Some t \<Rightarrow> t) req False req h"

declare follow_redirects.simps [simp del]

lemma RoundTrip_sends_one:
  "\<exists>tls req'. snd (RoundTrip env t req h) = h @ [Sent tls req'] \<and> rq_Method req' = rq_Method req
     \<and> rq_Header req' = rq_Header req"
  by (induction env t req h rule: RoundTrip.induct) auto

lemma redirect_of_keeps:
  "redirect_of env first strip req resp = Some (Inr (req', strip')) \<Longrightarrow>
     rq_Method req' = rq_Method req \<and> (strip' \<or> \<not> strip \<and> env_same_site env (rq_URL first) (rq_URL req'))"
  by (auto simp: redirect_of_def Let_def res_simps split: if_splits)

lemma redirect_of_strips:
  "redirect_of env first strip req resp = Some (Inr (req', True)) \<Longrightarrow> ''Authorization'' \<notin> fst ` set (rq_Header req')"
  by (auto simp: redirect_of_def Let_def redirect_headers_def res_simps split: if_splits)

lemma follow_redirects_history:
  "\<exists>es. snd (follow_redirects left env t first strip req h) = h @ es \<and> length es \<le> Suc left \<and>
     list_all (\<lambda>e. \<exists>tls r. e = Sent tls r \<and> rq_Method r = rq_Method req) es"
proof (induction left arbitrary: strip req h)
  case 0
  obtain tls r where sent: "snd (RoundTrip env t req h) = h @ [Sent tls r]" "rq_Method r = rq_Method req"
    using RoundTrip_sends_one by blast
  have "snd (follow_redirects 0 env t first strip req h) = snd (RoundTrip env t req h)"
    by (auto simp: follow_redirects.simps [of 0] split: prod.split sum.split option.split)
  with sent show ?case by (intro exI [of _ "[Sent tls r]"]) simp
next
  case (Suc n)
  obtain tls r where sent: "snd (RoundTrip env t req h) = h @ [Sent tls r]" "rq_Method r = rq_Method req"
    using RoundTrip_sends_one by blast
  show ?case
  proof (cases "\<exists>resp req' strip'. fst (RoundTrip env t req h) = Inr (Some resp) \<and>
      redirect_of env first strip req resp = Some (Inr (req', strip'))")
    case False
    then have "snd (follow_redirects (Suc n) env t first strip req h) = snd (RoundTrip env t req h)"
      by (auto simp: follow_redirects.simps [of "Suc n"] split: prod.split sum.split option.split)
    with sent show ?thesis by (intro exI [of _ "[Sent tls r]"]) simp
  next
    case True
    then obtain resp req' strip' h1 where run: "RoundTrip env t req h = (Inr (Some resp), h1)"
      "redirect_of env first strip req resp = Some (Inr (req', strip'))" by (metis prod.collapse)
    have "follow_redirects (Suc n) env t first strip req h = follow_redirects n env t first strip' req' h1"
      using run by (simp add: follow_redirects.simps [of "Suc n"])
    moreover obtain es where "snd (follow_redirects n env t first strip' req' h1) = h1 @ es" "length es \<le> Suc n"
      "list_all (\<lambda>e. \<exists>tls r. e = Sent tls r \<and> rq_Method r = rq_Method req') es"
      using Suc by blast
    ultimately show ?thesis
      using sent run(1) redirect_of_keeps [OF run(2)] by (intro exI [of _ "Sent tls r # es"]) auto
  qed
qed

text \<open>
  The requests over a plain transport: the first is the given one; the later ones keep its
  method, and carry its credentials only to the same site.
\<close>

lemma follow_redirects_plain:
  "\<exists>rs. snd (follow_redirects left env (NetTransport tls) first strip req h) = h @ Sent tls req # map (Sent tls) rs \<and>
     length rs \<le> left \<and>
     list_all (\<lambda>r. rq_Method r = rq_Method req \<and>
       (''Authorization'' \<in> fst ` set (rq_Header r) \<longrightarrow> env_same_site env (rq_URL first) (rq_URL r))) rs"
proof (induction left arbitrary: strip req h)
  case 0
  show ?case
    by (intro exI [of _ "[]"])
      (simp add: follow_redirects.simps [of 0] split: prod.split sum.split option.split)
next
  case (Suc n)
  show ?case
  proof (cases "\<exists>resp req' strip'. env_net env h tls req = Inr (Some resp) \<and>
      redirect_of env first strip req resp = Some (Inr (req', strip'))")
    case False
    then show ?thesis
      by (intro exI [of _ "[]"])
        (auto simp: follow_redirects.simps [of "Suc n"] split: prod.split sum.split option.split)
  next
    case True
    then obtain resp req' strip' where run: "env_net env h tls req = Inr (Some resp)"
      "redirect_of env first strip req resp = Some (Inr (req', strip'))" by blast
    let ?h1 = "h @ [Sent tls req]"
    have "follow_redirects (Suc n) env (NetTransport tls) first strip req h
        = follow_redirects n env (NetTransport tls) first strip' req' ?h1"
      using run by (simp add: follow_redirects.simps [of "Suc n"])
    moreover obtain rs where rs: "snd (follow_redirects n env (NetTransport tls) first strip' req' ?h1)
        = ?h1 @ Sent tls req' # map (Sent tls) rs" "length rs \<le> n"
      "list_all (\<lambda>r. rq_Method r = rq_Method req' \<and>
        (''Authorization'' \<in> fst ` set (rq_Header r) \<longrightarrow> env_same_site env (rq_URL first) (rq_URL r))) rs"
      using Suc [of strip' req' ?h1] by blast
    moreover have "rq_Method req' = rq_Method req" and
      "''Authorization'' \<in> fst ` set (rq_Header req') \<longrightarrow> env_same_site env (rq_URL first) (rq_URL req')"
      using redirect_of_keeps [OF run(2)] redirect_of_strips [of env first strip req resp req'] run(2)
      by (cases strip', auto)
    ultimately show ?thesis by (intro exI [of _ "req' # rs"]) (auto simp: list_all_iff)
  qed
qed

lemma NewRequest_Inr_iff [res_simps]:
  "NewRequest env m u = Inr r \<longleftrightarrow>
     (\<exists>v. url_Parse (env_ip_literal env) u = Inr v) \<and> r = \<lparr>rq_Method = m, rq_URL = u, rq_Header = []\<rparr>"
  by (auto simp: NewRequest_def res_simps)

text \<open>
  The discovery round tripper leads to one request with the method and the headers of the original;
  only a GET of the URL it was made for gets another URL.
\<close>

lemma discovery_round_trip:
  "snd (RoundTrip env (DiscoveryURLRoundTripper (NetTransport tls) disc rewrite) req h)
     = h @ [Sent tls (req\<lparr>rq_URL :=
         (if rq_Method req = MethodGet \<and> rq_URL req = rewrite then env_url_String env disc
          else rq_URL req)\<rparr>)]"
  by simp

end
