(* ===== verification/Api_Types.thy ===== *)
theory Api_Types
  imports Prelude
begin

text \<open>
  The internal configuration types of \<open>pkg/apis/authentication/types.go\<close>, one record per struct with
  its fields in the order of the source.  A pointer field is an option, a slice is a list (nil and
  empty slices are not told apart: the code only ranges over them and takes their length), the
  string enumerations keep the strings of their constants.  Field names carry a short prefix of
  their struct because HOL's selectors are global.
\<close>

record type_meta =
  tm_Kind :: string
  tm_APIVersion :: string

record tls =
  tls_CertificateAuthority :: "string option"

record client_credential_config =
  cc_ClientID :: string
  cc_ClientSecret :: string
  cc_TokenEndpoint :: string
  cc_Scopes :: "string list"
  cc_TLS :: "tls option"

record authentication =
  auth_Type :: "string option"
  auth_ClientCredential :: "client_credential_config option"

record source_url =
  surl_Hostname :: "string option"
  surl_PathExpression :: "string option"

record sourced_claim_mapping =
  scm_Name :: "string option"
  scm_Expression :: "string option"

record external_source_condition =
  esc_Expression :: "string option"

record external_claims_source =
  ecs_Authentication :: "authentication option"
  ecs_TLS :: "tls option"
  ecs_URL :: "source_url option"
  ecs_Mappings :: "sourced_claim_mapping list"
  ecs_Conditions :: "external_source_condition list"

record claim_validation_rule =
  cvr_Claim :: string
  cvr_RequiredValue :: string
  cvr_Expression :: string
  cvr_Message :: string

record prefixed_claim_or_expression =
  pce_Claim :: string
  pce_Prefix :: "string option"
  pce_Expression :: string

record claim_or_expression =
  ce_Claim :: string
  ce_Expression :: string

record extra_mapping =
  em_Key :: string
  em_ValueExpression :: string

record user_validation_rule =
  uvr_Expression :: string
  uvr_Message :: string

record claim_mappings =
  cm_Username :: prefixed_claim_or_expression
  cm_Groups :: prefixed_claim_or_expression
  cm_UID :: claim_or_expression
  cm_Extra :: "extra_mapping list"

record issuer =
  issuer_URL :: string
  issuer_DiscoveryURL :: string
  issuer_CertificateAuthority :: string
  issuer_Audiences :: "string list"
  issuer_AudienceMatchPolicy :: string

record jwt_authenticator =
  jwt_Issuer :: "issuer option"
  jwt_ClaimValidationRules :: "claim_validation_rule list"
  jwt_ClaimMappings :: "claim_mappings option"
  jwt_UserValidationRules :: "user_validation_rule list"
  jwt_ExternalClaimsSources :: "external_claims_source list"

record authentication_configuration =
  cfg_TypeMeta :: type_meta
  cfg_JWT :: "jwt_authenticator list"

section \<open>Constants\<close>

definition AudienceMatchPolicyMatchAny :: string where
  "AudienceMatchPolicyMatchAny = ''MatchAny''"

definition AuthenticationTypeRequestProvidedToken :: string where
  "AuthenticationTypeRequestProvidedToken = ''RequestProvidedToken''"

definition AuthenticationTypeClientCredential :: string where
  "AuthenticationTypeClientCredential = ''ClientCredential''"

definition TLS_IsZero :: "tls \<Rightarrow> bool" where
  "TLS_IsZero t \<longleftrightarrow> tls_CertificateAuthority t = None"

lemma authentication_types_differ [simp]:
  "AuthenticationTypeRequestProvidedToken \<noteq> AuthenticationTypeClientCredential"
  "AuthenticationTypeClientCredential \<noteq> AuthenticationTypeRequestProvidedToken"
  by (simp_all add: AuthenticationTypeRequestProvidedToken_def AuthenticationTypeClientCredential_def)

end
