(* ===== verification/Token_Getters.thy ===== *)
theory Token_Getters
  imports Http Api_Types
begin

text \<open>
  The access token getters of \<open>pkg/oidc/externalclaims/tokengetters\<close>.  A request context is the map of
  its values; the OAuth2 client-credentials token source is a parameter (\<open>env_token\<close>), asked anew on
  every call: what it caches is its own affair, since its answer may depend on the history.
\<close>

datatype ctx_value = CtxString string | CtxOther string

type_synonym ctx = "string \<rightharpoonup> ctx_value"

definition RequestProvidedTokenContextKey :: string where
  "RequestProvidedTokenContextKey = ''authentication.openshift.io/request-provided-token''"

datatype token_getter =
    Anonymous
  | RequestProvided
  | ClientCredential token_source

section \<open>GetAccessToken\<close>

definition RequestProvided_GetAccessToken :: "ctx \<Rightarrow> string res" where
  "RequestProvided_GetAccessToken ctx =
     (case ctx RequestProvidedTokenContextKey of
        None \<Rightarrow> Inl (Errorf ''getting access token: no access token present in the request context'' [])
      | Some (CtxOther t) \<Rightarrow> Inl (Errorf
          ''getting access token: expected access token in the request context to be of type string but got %T'' [OpS t])
      | Some (CtxString s) \<Rightarrow>
          if s = [] then Inl (Errorf ''getting access token: empty access token found in the request context'' [])
          else Inr s)"

definition ClientCredential_GetAccessToken ::
  "environment \<Rightarrow> token_source \<Rightarrow> history \<Rightarrow> string res \<times> history" where
  "ClientCredential_GetAccessToken env ts h =
     (bind_res (env_token env h ts) (\<lambda>e. Errorf ''getting token: %w'' [OpE e]) Inr, h @ [TokenAsked ts])"

fun GetAccessToken :: "environment \<Rightarrow> ctx \<Rightarrow> token_getter \<Rightarrow> history \<Rightarrow> string res \<times> history" where
  "GetAccessToken env ctx Anonymous h = (Inr [], h)"
| "GetAccessToken env ctx RequestProvided h = (RequestProvided_GetAccessToken ctx, h)"
| "GetAccessToken env ctx (ClientCredential ts) h = ClientCredential_GetAccessToken env ts h"

section \<open>Building a client-credential getter\<close>

abbreviation tokenEndpointRequestTimeout :: nat where
  "tokenEndpointRequestTimeout \<equiv> 1000"

definition nonempty_ca :: "string option \<Rightarrow> bool" where
  "nonempty_ca ca \<longleftrightarrow> (case ca of None \<Rightarrow> False | Some s \<Rightarrow> s \<noteq> [])"

text \<open>
  The transport is modified in place; the result is what the caller's variable refers to afterwards.
  For a nil transport the function fills in a local one, which the caller does not see.
\<close>

definition modifyTransportRootCAs ::
  "environment \<Rightarrow> tls_config option option \<Rightarrow> string option \<Rightarrow> tls_config option option res" where
  "modifyTransportRootCAs env transport certificateAuthority =
     (if \<not> nonempty_ca certificateAuthority then Inr transport
      else if \<not> env_pem_ok env (the certificateAuthority)
      then Inl (Errorf ''certificate authority does not contain any valid PEM certificates'' [])
      else Inr (map_option (\<lambda>tls. Some
             (case tls of None \<Rightarrow> \<lparr>tc_RootCAs = certificateAuthority, tc_MinTLS12 = False\<rparr>
              | Some c \<Rightarrow> c\<lparr>tc_RootCAs := certificateAuthority\<rparr>)) transport))"

definition httpClientForClientCredential :: "environment \<Rightarrow> tls option \<Rightarrow> http_client res" where
  "httpClientForClientCredential env tlsCfg =
     (let client = \<lparr>hc_Timeout = tokenEndpointRequestTimeout, hc_Transport = None\<rparr> in
      case tlsCfg of
        None \<Rightarrow> Inr client
      | Some cfg \<Rightarrow>
          bind_res (modifyTransportRootCAs env (Some None) (tls_CertificateAuthority cfg))
            (\<lambda>e. Errorf ''setting client root CAs: %w'' [OpE e])
            (\<lambda>transport. Inr (client\<lparr>hc_Transport := map_option NetTransport transport\<rparr>)))"

definition NewClientCredential ::
  "environment \<Rightarrow> client_credential_config option \<Rightarrow> history \<Rightarrow> token_getter res \<times> history" where
  "NewClientCredential env cfg h =
     (case cfg of
        None \<Rightarrow> (Inl (Errorf ''client credential configuration must not be nil'' []), h)
      | Some c \<Rightarrow>
     (case httpClientForClientCredential env (cc_TLS c) of
        Inl e \<Rightarrow> (Inl (Errorf ''building http client for client credential token endpoint: %w'' [OpE e]), h)
      | Inr httpClient \<Rightarrow>
     (let ts = \<lparr>ts_ClientID = cc_ClientID c, ts_ClientSecret = cc_ClientSecret c,
                ts_TokenURL = cc_TokenEndpoint c, ts_Scopes = cc_Scopes c, ts_Client = httpClient\<rparr>;
          (r, h') = ClientCredential_GetAccessToken env ts h
      in case r of
           Inl e \<Rightarrow> (Inl (Errorf ''getting initial access token: %v'' [OpE e]), h')
         | Inr _ \<Rightarrow> (Inr (ClientCredential ts), h'))))"

section \<open>Laws\<close>

lemma RequestProvided_Inr_iff [res_simps]:
  "RequestProvided_GetAccessToken ctx = Inr s \<longleftrightarrow>
     ctx RequestProvidedTokenContextKey = Some (CtxString s) \<and> s \<noteq> []"
  by (auto simp: RequestProvided_GetAccessToken_def split: option.splits ctx_value.splits)

text \<open>
  The contract every getter keeps towards the resolver: it sends no request of its own to the
  source, it only extends the history, and by token requests only.
\<close>

locale access_token_getter =
  fixes get :: "history \<Rightarrow> string res \<times> history"
  assumes extends: "\<exists>ts. snd (get h) = h @ map TokenAsked ts"
begin

lemma no_request: "Sent tls r \<in> set (snd (get h)) \<longleftrightarrow> Sent tls r \<in> set h"
  using extends [of h] by auto

lemma longer: "length h \<le> length (snd (get h))"
  using extends [of h] by auto

lemma keeps: "take (length h) (snd (get h)) = h"
  using extends [of h] by auto

end

lemma GetAccessToken_extends:
  "\<exists>ts. snd (GetAccessToken env ctx g h) = h @ map TokenAsked ts"
proof (cases g)
  case (ClientCredential ts)
  then have "snd (GetAccessToken env ctx g h) = h @ map TokenAsked [ts]"
    by (simp add: ClientCredential_GetAccessToken_def)
  then show ?thesis by blast
qed (simp_all add: exI [of _ "[]"])

interpretation getter: access_token_getter "GetAccessToken env ctx g" for env ctx g
  by unfold_locales (rule GetAccessToken_extends)

text \<open>
  The getter for request-provided tokens answers with a token exactly when the request context
  carries a non-empty string under its key, and then with that string; it never answers with an
  empty token.
\<close>

theorem request_provided_token_exact:
  "fst (GetAccessToken env ctx RequestProvided h) = Inr s \<longleftrightarrow>
     (s \<noteq> [] \<and> ctx RequestProvidedTokenContextKey = Some (CtxString s))"
  by (auto simp: res_simps)

text \<open>
  A client-credential getter is built only when the certificate authority, if one is set, parses
  and the token endpoint has already issued a first token; the getter then uses the configured
  identifiers, endpoint and scopes and trusts exactly the configured authority.
\<close>

theorem client_credential_built_iff:
  "fst (NewClientCredential env (Some c) h) = Inr g \<longleftrightarrow>
     (\<exists>client tok. httpClientForClientCredential env (cc_TLS c) = Inr client
        \<and> g = ClientCredential \<lparr>ts_ClientID = cc_ClientID c, ts_ClientSecret = cc_ClientSecret c,
                ts_TokenURL = cc_TokenEndpoint c, ts_Scopes = cc_Scopes c, ts_Client = client\<rparr>
        \<and> fst (GetAccessToken env ctx g h) = Inr tok)"
  by (auto simp: NewClientCredential_def ClientCredential_GetAccessToken_def bind_res_def Let_def
      split: sum.splits)

lemma client_credential_roots:
  assumes "httpClientForClientCredential env (Some cfg) = Inr client"
    and "tls_CertificateAuthority cfg = Some ca" and "ca \<noteq> []"
  shows "env_pem_ok env ca \<and>
    hc_Transport client = Some (NetTransport (Some \<lparr>tc_RootCAs = Some ca, tc_MinTLS12 = False\<rparr>))"
  using assms
  by (auto simp: httpClientForClientCredential_def modifyTransportRootCAs_def nonempty_ca_def Let_def
      bind_res_def split: if_splits sum.splits)

end
