(* ===== verification/Oidc_Claims.thy ===== *)
theory Oidc_Claims
  imports Cel Token_Getters
begin

text \<open>
  The helpers of the token authenticator (\<open>plugin/pkg/authenticator/token/oidc/oidc.go\<close> and
  \<open>oidc_patch.go\<close> under the apiserver fork) that work on the claims of a token and on the results of
  CEL expressions, and the loop that runs the claims expanders.

  A claim is the raw JSON text of its value, as \<open>json.Unmarshal\<close> reads it later (\<open>raw_message\<close>).  The
  map that Go passes by reference is returned with the result of every function that may write it.
\<close>

section \<open>Reading claims\<close>

definition hasClaim :: "claims \<Rightarrow> string \<Rightarrow> bool" where
  "hasClaim c name \<longleftrightarrow> c name \<noteq> None"

definition unmarshalClaim :: "(json \<Rightarrow> 'a option) \<Rightarrow> claims \<Rightarrow> string \<Rightarrow> 'a res" where
  "unmarshalClaim f c name =
     (case c name of None \<Rightarrow> Inl (Errorf ''claim not present'' []) | Some val \<Rightarrow> unmarshal_with f val)"

text \<open>The custom decoder of \<open>stringOrArray\<close>: an array of strings, or else one string.\<close>

definition stringOrArray :: "json \<Rightarrow> string list option" where
  "stringOrArray j = (case json_to_strings j of Some a \<Rightarrow> Some a
     | None \<Rightarrow> map_option (\<lambda>str. [str]) (json_to_string j))"

definition CredentialIDForJTI :: "string \<Rightarrow> string" where
  "CredentialIDForJTI jti = (if jti = [] then [] else ''JTI='' @ jti)"

definition getCredentialID :: "claims \<Rightarrow> string" where
  "getCredentialID c =
     (if c ''jti'' \<noteq> None then
        (case unmarshalClaim json_to_string c ''jti'' of
           Inr jti \<Rightarrow> CredentialIDForJTI jti | Inl _ \<Rightarrow> [])
      else [])"

definition newClaimsValue :: "claims \<Rightarrow> mapper_value" where
  "newClaimsValue c = ClaimsValue c"

definition newUserInfoValue :: "user_info \<Rightarrow> mapper_value" where
  "newUserInfoValue info = UserInfoValue info"

section \<open>Results of expressions\<close>

text \<open>
  The handler for values of unknown type gets what \<open>Value()\<close> returns and answers with a list, whether it
  knows the type, and an error.
\<close>

type_synonym unknown_handler = "cel_val \<Rightarrow> string list \<times> bool \<times> error option"

definition not_strings :: error where
  "not_strings = Errorf ''expression must return a string or a list of strings'' []"

text \<open>The loop over the elements of a list: non-strings are errors, empty strings are skipped.\<close>

fun collect_strings :: "('a \<Rightarrow> string option) \<Rightarrow> 'a list \<Rightarrow> string list res" where
  "collect_strings f [] = Inr []"
| "collect_strings f (v # vs) =
     (case f v of None \<Rightarrow> Inl not_strings
      | Some out \<Rightarrow>
          (case collect_strings f vs of Inl e \<Rightarrow> Inl e
           | Inr result \<Rightarrow> Inr (if out = [] then result else out # result)))"

fun native_string :: "json \<Rightarrow> string option" where
  "native_string (JStr s) = Some s"
| "native_string _ = None"

definition ask_unknown :: "unknown_handler option \<Rightarrow> cel_val \<Rightarrow> string list res" where
  "ask_unknown h v = (case h of None \<Rightarrow> Inl not_strings
     | Some f \<Rightarrow> (case f v of (out, ok, err) \<Rightarrow>
         if ok then (case err of Some e \<Rightarrow> Inl e | None \<Rightarrow> Inr out) else Inl not_strings))"

definition convertCELValueToStringList :: "cel_val \<Rightarrow> unknown_handler option \<Rightarrow> string list res" where
  "convertCELValueToStringList val unknownHandler =
     (case val of
        CelString out \<Rightarrow> if out = [] then Inr [] else Inr [out]
      | CelList b \<Rightarrow>
          (case b of
             AnyList vs \<Rightarrow> collect_strings native_string vs
           | ValList vs \<Rightarrow> collect_strings value_string vs
           | _ \<Rightarrow> ask_unknown unknownHandler val)
      | CelNull \<Rightarrow> Inr []
      | _ \<Rightarrow> ask_unknown unknownHandler val)"

fun checkValidationRulesEvaluation ::
  "evaluation_result list \<Rightarrow> (accessor \<Rightarrow> string res) \<Rightarrow> error option" where
  "checkValidationRulesEvaluation [] messageFn = None"
| "checkValidationRulesEvaluation (r # results) messageFn =
     (if \<not> is_BoolType (er_EvalResult r)
      then Some (Errorf ''validation expression must return a boolean'' [])
      else if er_EvalResult r \<noteq> CelBool True then
        (case messageFn (er_ExpressionAccessor r) of
           Inl err \<Rightarrow> Some err
         | Inr message \<Rightarrow> Some (Errorf ''validation expression '%s' failed: %s''
             [OpS (GetExpression (er_ExpressionAccessor r)), OpS message]))
      else checkValidationRulesEvaluation results messageFn)"

section \<open>Claims expanders\<close>

type_synonym claims_expander = "ctx \<Rightarrow> claims \<Rightarrow> history \<Rightarrow> error option \<times> claims \<times> history"

fun run_expanders :: "claims_expander list \<Rightarrow> ctx \<Rightarrow> claims \<Rightarrow> history
    \<Rightarrow> error option \<times> claims \<times> history" where
  "run_expanders [] ctx c h = (None, c, h)"
| "run_expanders (x # xs) ctx c h =
     (case x ctx c h of
        (Some err, c', h') \<Rightarrow> (Some err, c', h')
      | (None, c', h') \<Rightarrow> run_expanders xs ctx c' h')"

definition doClaimsExpansion :: "claims_expander list \<Rightarrow> ctx \<Rightarrow> string \<Rightarrow> claims \<Rightarrow> history
    \<Rightarrow> error option \<times> claims \<times> history" where
  "doClaimsExpansion xs ctx token c h =
     (if xs = [] then (None, c, h)
      else run_expanders xs (ctx(RequestProvidedTokenContextKey \<mapsto> CtxString token)) c h)"

section \<open>Laws\<close>

lemma unmarshalClaim_Inr_iff [res_simps]:
  "unmarshalClaim f c name = Inr x \<longleftrightarrow> (\<exists>j. c name = Some (Raw j) \<and> f j = Some x)"
  by (auto simp: unmarshalClaim_def res_simps split: option.splits)

lemma collect_strings_Inr_iff [res_simps]:
  "collect_strings f vs = Inr ys \<longleftrightarrow>
     (\<exists>ss. map f vs = map Some ss \<and> ys = filter (\<lambda>s. s \<noteq> []) ss)"
proof (induction vs arbitrary: ys)
  case Nil
  then show ?case by auto
next
  case (Cons v vs)
  show ?case
  proof (cases "f v")
    case None
    then show ?thesis by (auto simp: map_eq_Cons_conv Cons_eq_map_conv)
  next
    case (Some out)
    then have "collect_strings f (v # vs) = Inr ys \<longleftrightarrow>
        (\<exists>r. collect_strings f vs = Inr r \<and> ys = (if out = [] then r else out # r))"
      by (auto split: sum.splits)
    also have "\<dots> \<longleftrightarrow> (\<exists>ss. map f vs = map Some ss
        \<and> ys = (if out = [] then filter (\<lambda>s. s \<noteq> []) ss else out # filter (\<lambda>s. s \<noteq> []) ss))"
      by (auto simp: Cons.IH)
    also have "\<dots> \<longleftrightarrow> (\<exists>ss. map f (v # vs) = map Some ss \<and> ys = filter (\<lambda>s. s \<noteq> []) ss)"
    proof
      assume "\<exists>ss. map f vs = map Some ss
        \<and> ys = (if out = [] then filter (\<lambda>s. s \<noteq> []) ss else out # filter (\<lambda>s. s \<noteq> []) ss)"
      then obtain ss where "map f vs = map Some ss"
        and "ys = (if out = [] then filter (\<lambda>s. s \<noteq> []) ss else out # filter (\<lambda>s. s \<noteq> []) ss)" by blast
      then show "\<exists>ss. map f (v # vs) = map Some ss \<and> ys = filter (\<lambda>s. s \<noteq> []) ss"
        using Some by (intro exI [of _ "out # ss"]) simp
    qed (use Some in \<open>auto simp: map_eq_Cons_conv Cons_eq_map_conv\<close>)
    finally show ?thesis .
  qed
qed

lemma collect_strings_no_empty: "collect_strings f vs = Inr ys \<Longrightarrow> [] \<notin> set ys"
  by (auto simp: res_simps)

lemma check_rules_None_iff:
  "checkValidationRulesEvaluation rs messageFn = None \<longleftrightarrow> (\<forall>r \<in> set rs. er_EvalResult r = CelBool True)"
proof (induction rs)
  case (Cons r rs)
  then show ?case
    by (cases "er_EvalResult r") (auto simp: is_BoolType_def split: sum.splits)
qed simp

text \<open>
  Without a handler for unknown values, the strings that an expression yields are never empty.
\<close>

lemma convert_no_handler_no_empty:
  "convertCELValueToStringList v None = Inr ys \<Longrightarrow> [] \<notin> set ys"
  by (auto simp: convertCELValueToStringList_def ask_unknown_def collect_strings_no_empty
      split: cel_val.splits cel_backing.splits if_splits)

text \<open>
  The contract of a list of expanders, for facts that every expander preserves: \<open>ok\<close> is a relation
  between what goes in and what comes out.
\<close>

locale expander_invariant =
  fixes ok :: "claims \<Rightarrow> history \<Rightarrow> claims \<Rightarrow> history \<Rightarrow> bool"
    and expanders :: "claims_expander list"
  assumes ok_refl: "ok c h c h"
    and ok_trans: "ok c h c' h' \<Longrightarrow> ok c' h' c'' h'' \<Longrightarrow> ok c h c'' h''"
    and ok_step: "x \<in> set expanders \<Longrightarrow> x ctx c h = (e, c', h') \<Longrightarrow> ok c h c' h'"
    and ok_no_error: "x \<in> set expanders \<Longrightarrow> fst (x ctx c h) = None"
begin

lemma run_ok:
  "set xs \<subseteq> set expanders \<Longrightarrow> run_expanders xs ctx c h = (e, c', h') \<Longrightarrow> e = None \<and> ok c h c' h'"
proof (induction xs arbitrary: c h)
  case Nil
  then show ?case by (auto intro: ok_refl)
next
  case (Cons x xs)
  obtain e1 c1 h1 where x: "x ctx c h = (e1, c1, h1)" by (cases "x ctx c h") auto
  from Cons.prems(1) have "x \<in> set expanders" by simp
  with x ok_no_error [of x ctx c h] have "e1 = None" by simp
  with x Cons.prems Cons.IH [of c1 h1] have "e = None" and "ok c1 h1 c' h'" by auto
  with ok_step [OF \<open>x \<in> set expanders\<close> x] show ?case by (blast intro: ok_trans)
qed

lemma expansion_ok:
  "doClaimsExpansion expanders ctx token c h = (e, c', h') \<Longrightarrow> e = None \<and> ok c h c' h'"
  by (auto simp: doClaimsExpansion_def ok_refl split: if_splits dest: run_ok [OF subset_refl])

end

end
