(* ===== verification/Sample_Environment.thy ===== *)
theory Sample_Environment
  imports Oidc_Claims
begin

text \<open>
  A concrete environment and a concrete expression engine at which the properties are applied.  The
  engine knows the literals \<open>true\<close> and \<open>false\<close> (type bool), \<open>path\<close> (a list of two strings) and \<open>many\<close>
  (a list with an empty string), selects a claim for \<open>claims.\<close> followed by its name, refuses the
  empty expression, and takes any other text as a string literal.  The network answers every
  request with status 200 and an empty JSON object.
\<close>

definition sample_compile :: "string \<Rightarrow> string \<Rightarrow> string + cel_ast" where
  "sample_compile var e =
     (if e = [] then Inl ''syntax error''
      else if e = ''true'' \<or> e = ''false'' then
        Inr \<lparr>ast_OutputType = BoolType, ast_Expr = Some (IdentExpr e)\<rparr>
      else if e = ''path'' then
        Inr \<lparr>ast_OutputType = OtherType ''list'', ast_Expr = Some (ListExpr [])\<rparr>
      else if take 7 e = ''claims.'' then
        Inr \<lparr>ast_OutputType = AnyType, ast_Expr = Some (SelectExpr (Some (IdentExpr ''claims'')) (drop 7 e))\<rparr>
      else Inr \<lparr>ast_OutputType = StringType, ast_Expr = Some (ConstExpr (Some e))\<rparr>)"

definition sample_select :: "mapper_value option \<Rightarrow> string \<Rightarrow> cel_val res" where
  "sample_select v name =
     (case v of Some (ClaimsValue c) \<Rightarrow>
        (case c name of Some (Raw (JStr s)) \<Rightarrow> Inr (CelString s)
         | Some (Raw (JArr xs)) \<Rightarrow> Inr (CelList (AnyList xs))
         | Some (Raw (JBool b)) \<Rightarrow> Inr (CelBool b)
         | _ \<Rightarrow> Inl (Errorf ''no such key: %s'' [OpS name]))
      | _ \<Rightarrow> Inl (Errorf ''no such attribute'' []))"

definition sample_program :: "string \<Rightarrow> cel_ast \<Rightarrow> cel_program res" where
  "sample_program var ast =
     (case ast_Expr ast of
        Some (IdentExpr b) \<Rightarrow> Inr (\<lambda>_. Inr (CelBool (b = ''true'')))
      | Some (ListExpr _) \<Rightarrow> Inr (\<lambda>_. Inr (CelList (StringList [''v1'', ''team a''])))
      | Some (SelectExpr _ f) \<Rightarrow> Inr (\<lambda>names. sample_select (names ''claims'') f)
      | Some (ConstExpr (Some s)) \<Rightarrow> Inr (\<lambda>_. Inr (CelString s))
      | _ \<Rightarrow> Inl (Errorf ''unsupported expression'' []))"

definition sample_engine :: cel_engine where
  "sample_engine = \<lparr>eng_Env = (\<lambda>_. None), eng_Compile = sample_compile,
     eng_AstToCheckedExpr = (\<lambda>_. None), eng_Program = sample_program\<rparr>"

definition sample_env :: environment where
  "sample_env = \<lparr>
     env_net = (\<lambda>_ _ _. Inr (Some \<lparr>rs_StatusCode = 200, rs_Location = [], rs_Body = Inr ''{}''\<rparr>)),
     env_token = (\<lambda>_ _. Inr ''tok''),
     env_pem_ok = (\<lambda>s. s = ''PEM''),
     env_is_print = (\<lambda>_. False),
     env_ip_literal = (\<lambda>_. None),
     env_url_String = (\<lambda>u. ''https://'' @ Host u @ UrlPath u),
     env_Location = (\<lambda>_ loc. Inr loc), env_same_site = (\<lambda>_ _. False), env_referer = (\<lambda>_ _. [])\<rparr>"

lemmas sample_defs = sample_engine_def sample_compile_def sample_program_def sample_select_def
  compile_def CompileClaimsExpression_def CompileUserExpression_def
  CompileExternalSourceExpression_def

end
