(* ===== verification/Api_Conversion.thy ===== *)
theory Api_Conversion
  imports Api_Types
begin

text \<open>
  The authentication part of the apiserver's own configuration types
  (\<open>pkg/internal/third_party/kubernetes/apiserver/pkg/apis/apiserver/types.go\<close>) and padlok's conversion
  into them, \<open>pkg/apis/authentication/conversion/conversion.go\<close>, which the validation and the
  authenticator builder use to hand a configuration to the apiserver's code.
\<close>

section \<open>The apiserver's types\<close>

record as_anonymous_auth_config =
  as_anon_Enabled :: bool
  as_anon_Conditions :: "string list"

record as_claim_validation_rule =
  as_cvr_Claim :: string
  as_cvr_RequiredValue :: string
  as_cvr_Expression :: string
  as_cvr_Message :: string

record as_prefixed_claim_or_expression =
  as_pce_Claim :: string
  as_pce_Prefix :: "string option"
  as_pce_Expression :: string

record as_claim_or_expression =
  as_ce_Claim :: string
  as_ce_Expression :: string

record as_extra_mapping =
  as_em_Key :: string
  as_em_ValueExpression :: string

record as_user_validation_rule =
  as_uvr_Expression :: string
  as_uvr_Message :: string

record as_claim_mappings =
  as_cm_Username :: as_prefixed_claim_or_expression
  as_cm_Groups :: as_prefixed_claim_or_expression
  as_cm_UID :: as_claim_or_expression
  as_cm_Extra :: "as_extra_mapping list"

record as_issuer =
  as_issuer_URL :: string
  as_issuer_DiscoveryURL :: string
  as_issuer_CertificateAuthority :: string
  as_issuer_Audiences :: "string list"
  as_issuer_AudienceMatchPolicy :: string
  as_issuer_EgressSelectorType :: string

record as_jwt_authenticator =
  as_jwt_Issuer :: as_issuer
  as_jwt_ClaimValidationRules :: "as_claim_validation_rule list"
  as_jwt_ClaimMappings :: as_claim_mappings
  as_jwt_UserValidationRules :: "as_user_validation_rule list"

record as_authentication_configuration =
  as_cfg_JWT :: "as_jwt_authenticator list"
  as_cfg_Anonymous :: "as_anonymous_auth_config option"

text \<open>Zero values of the struct types, which the conversion returns for nil pointers.\<close>

definition zero_as_issuer :: as_issuer where
  "zero_as_issuer = \<lparr>as_issuer_URL = [], as_issuer_DiscoveryURL = [], as_issuer_CertificateAuthority = [],
     as_issuer_Audiences = [], as_issuer_AudienceMatchPolicy = [], as_issuer_EgressSelectorType = []\<rparr>"

definition zero_as_pce :: as_prefixed_claim_or_expression where
  "zero_as_pce = \<lparr>as_pce_Claim = [], as_pce_Prefix = None, as_pce_Expression = []\<rparr>"

definition zero_as_claim_mappings :: as_claim_mappings where
  "zero_as_claim_mappings = \<lparr>as_cm_Username = zero_as_pce, as_cm_Groups = zero_as_pce,
     as_cm_UID = \<lparr>as_ce_Claim = [], as_ce_Expression = []\<rparr>, as_cm_Extra = []\<rparr>"

section \<open>The conversion\<close>

definition ConvertUserValidationRulesToApiserverUserValidationRules ::
  "user_validation_rule list \<Rightarrow> as_user_validation_rule list" where
  "ConvertUserValidationRulesToApiserverUserValidationRules rules =
     map (\<lambda>rule. \<lparr>as_uvr_Expression = uvr_Expression rule, as_uvr_Message = uvr_Message rule\<rparr>) rules"

definition ConvertClaimValidationRulesToApiserverClaimValidationRules ::
  "claim_validation_rule list \<Rightarrow> as_claim_validation_rule list" where
  "ConvertClaimValidationRulesToApiserverClaimValidationRules rules =
     map (\<lambda>rule. \<lparr>as_cvr_Claim = cvr_Claim rule, as_cvr_RequiredValue = cvr_RequiredValue rule,
       as_cvr_Expression = cvr_Expression rule, as_cvr_Message = cvr_Message rule\<rparr>) rules"

definition ConvertExtraMappingsToApiserverExtraMappings ::
  "extra_mapping list \<Rightarrow> as_extra_mapping list" where
  "ConvertExtraMappingsToApiserverExtraMappings ms =
     map (\<lambda>m. \<lparr>as_em_Key = em_Key m, as_em_ValueExpression = em_ValueExpression m\<rparr>) ms"

definition ConvertClaimOrExpressionToApiserverClaimOrExpression ::
  "claim_or_expression \<Rightarrow> as_claim_or_expression" where
  "ConvertClaimOrExpressionToApiserverClaimOrExpression x =
     \<lparr>as_ce_Claim = ce_Claim x, as_ce_Expression = ce_Expression x\<rparr>"

definition ConvertPrefixedClaimOrExpressionToApiserverPrefixedClaimOrExpression ::
  "prefixed_claim_or_expression \<Rightarrow> as_prefixed_claim_or_expression" where
  "ConvertPrefixedClaimOrExpressionToApiserverPrefixedClaimOrExpression x =
     \<lparr>as_pce_Claim = pce_Claim x, as_pce_Prefix = pce_Prefix x, as_pce_Expression = pce_Expression x\<rparr>"

definition ConvertClaimMappingsToApiserverClaimMappings ::
  "claim_mappings option \<Rightarrow> as_claim_mappings" where
  "ConvertClaimMappingsToApiserverClaimMappings claimMappings =
     (case claimMappings of
        None \<Rightarrow> zero_as_claim_mappings
      | Some m \<Rightarrow> zero_as_claim_mappings
          \<lparr>as_cm_Username := ConvertPrefixedClaimOrExpressionToApiserverPrefixedClaimOrExpression (cm_Username m),
           as_cm_Groups := ConvertPrefixedClaimOrExpressionToApiserverPrefixedClaimOrExpression (cm_Groups m),
           as_cm_UID := ConvertClaimOrExpressionToApiserverClaimOrExpression (cm_UID m),
           as_cm_Extra := ConvertExtraMappingsToApiserverExtraMappings (cm_Extra m)\<rparr>)"

definition ConvertIssuerToApiserverIssuer :: "issuer option \<Rightarrow> as_issuer" where
  "ConvertIssuerToApiserverIssuer i =
     (case i of
        None \<Rightarrow> zero_as_issuer
      | Some issuer \<Rightarrow> zero_as_issuer
          \<lparr>as_issuer_URL := issuer_URL issuer,
           as_issuer_CertificateAuthority := issuer_CertificateAuthority issuer,
           as_issuer_Audiences := issuer_Audiences issuer,
           as_issuer_AudienceMatchPolicy := issuer_AudienceMatchPolicy issuer,
           as_issuer_DiscoveryURL := issuer_DiscoveryURL issuer\<rparr>)"

definition ConvertJWTAuthenticatorToApiserverJWTAuthenticator ::
  "jwt_authenticator \<Rightarrow> as_jwt_authenticator" where
  "ConvertJWTAuthenticatorToApiserverJWTAuthenticator x =
     \<lparr>as_jwt_Issuer = ConvertIssuerToApiserverIssuer (jwt_Issuer x),
      as_jwt_ClaimValidationRules =
        ConvertClaimValidationRulesToApiserverClaimValidationRules (jwt_ClaimValidationRules x),
      as_jwt_ClaimMappings = ConvertClaimMappingsToApiserverClaimMappings (jwt_ClaimMappings x),
      as_jwt_UserValidationRules =
        ConvertUserValidationRulesToApiserverUserValidationRules (jwt_UserValidationRules x)\<rparr>"

definition ConvertAuthenticationConfigurationToApiserverAuthenticationConfiguration ::
  "authentication_configuration option \<Rightarrow> as_authentication_configuration" where
  "ConvertAuthenticationConfigurationToApiserverAuthenticationConfiguration c =
     (case c of
        None \<Rightarrow> \<lparr>as_cfg_JWT = [], as_cfg_Anonymous = None\<rparr>
      | Some cfg \<Rightarrow>
          \<lparr>as_cfg_JWT = map ConvertJWTAuthenticatorToApiserverJWTAuthenticator (cfg_JWT cfg),
           as_cfg_Anonymous = None\<rparr>)"

section \<open>What the conversion keeps\<close>

lemmas convert_defs =
  ConvertUserValidationRulesToApiserverUserValidationRules_def
  ConvertClaimValidationRulesToApiserverClaimValidationRules_def
  ConvertExtraMappingsToApiserverExtraMappings_def
  ConvertClaimOrExpressionToApiserverClaimOrExpression_def
  ConvertPrefixedClaimOrExpressionToApiserverPrefixedClaimOrExpression_def
  ConvertClaimMappingsToApiserverClaimMappings_def
  ConvertIssuerToApiserverIssuer_def

lemma converted_rules [simp]:
  "map as_cvr_Claim (as_jwt_ClaimValidationRules (ConvertJWTAuthenticatorToApiserverJWTAuthenticator a))
     = map cvr_Claim (jwt_ClaimValidationRules a)"
  "map as_uvr_Expression (as_jwt_UserValidationRules (ConvertJWTAuthenticatorToApiserverJWTAuthenticator a))
     = map uvr_Expression (jwt_UserValidationRules a)"
  by (simp_all add: ConvertJWTAuthenticatorToApiserverJWTAuthenticator_def convert_defs comp_def)

lemma converted_no_egress [simp]:
  "as_issuer_EgressSelectorType (ConvertIssuerToApiserverIssuer i) = []"
  by (simp add: ConvertIssuerToApiserverIssuer_def zero_as_issuer_def split: option.split)

lemma convert_rules_inject:
  "ConvertClaimValidationRulesToApiserverClaimValidationRules xs
     = ConvertClaimValidationRulesToApiserverClaimValidationRules ys \<Longrightarrow> xs = ys"
  unfolding ConvertClaimValidationRulesToApiserverClaimValidationRules_def
  by (erule map_injective) (auto simp: inj_def)

lemma convert_user_rules_inject:
  "ConvertUserValidationRulesToApiserverUserValidationRules xs
     = ConvertUserValidationRulesToApiserverUserValidationRules ys \<Longrightarrow> xs = ys"
  unfolding ConvertUserValidationRulesToApiserverUserValidationRules_def
  by (erule map_injective) (auto simp: inj_def)

lemma convert_extra_inject:
  "ConvertExtraMappingsToApiserverExtraMappings xs
     = ConvertExtraMappingsToApiserverExtraMappings ys \<Longrightarrow> xs = ys"
  unfolding ConvertExtraMappingsToApiserverExtraMappings_def
  by (erule map_injective) (auto simp: inj_def)

lemma convert_issuer_inject:
  "ConvertIssuerToApiserverIssuer (Some i) = ConvertIssuerToApiserverIssuer (Some j) \<Longrightarrow> i = j"
  by (auto simp: ConvertIssuerToApiserverIssuer_def zero_as_issuer_def)

lemma convert_mappings_inject:
  "ConvertClaimMappingsToApiserverClaimMappings (Some m)
     = ConvertClaimMappingsToApiserverClaimMappings (Some n) \<Longrightarrow> m = n"
  by (auto simp: ConvertClaimMappingsToApiserverClaimMappings_def zero_as_claim_mappings_def
      ConvertPrefixedClaimOrExpressionToApiserverPrefixedClaimOrExpression_def
      ConvertClaimOrExpressionToApiserverClaimOrExpression_def
      intro!: claim_mappings.equality dest: convert_extra_inject)

text \<open>
  Authenticators whose issuer and claim mappings are set, and that agree on their external
  sources, are converted to the same apiserver authenticator only when they are equal: the
  conversion drops no field but the external sources.
\<close>

theorem conversion_injective:
  assumes "jwt_Issuer a \<noteq> None" and "jwt_Issuer b \<noteq> None"
    and "jwt_ClaimMappings a \<noteq> None" and "jwt_ClaimMappings b \<noteq> None"
    and "jwt_ExternalClaimsSources a = jwt_ExternalClaimsSources b"
    and "ConvertJWTAuthenticatorToApiserverJWTAuthenticator a
       = ConvertJWTAuthenticatorToApiserverJWTAuthenticator b"
  shows "a = b"
  by (rule jwt_authenticator.equality)
    (use assms in \<open>auto simp: ConvertJWTAuthenticatorToApiserverJWTAuthenticator_def
       dest: convert_rules_inject convert_user_rules_inject convert_issuer_inject convert_mappings_inject\<close>)

definition sample_authenticator :: jwt_authenticator where
  "sample_authenticator = \<lparr>jwt_Issuer = Some \<lparr>issuer_URL = ''https://idp'', issuer_DiscoveryURL = [],
       issuer_CertificateAuthority = [], issuer_Audiences = [''aud''], issuer_AudienceMatchPolicy = []\<rparr>,
     jwt_ClaimValidationRules = [],
     jwt_ClaimMappings = Some \<lparr>cm_Username = \<lparr>pce_Claim = ''sub'', pce_Prefix = Some [], pce_Expression = []\<rparr>,
       cm_Groups = \<lparr>pce_Claim = ''groups'', pce_Prefix = Some ''g:'', pce_Expression = []\<rparr>,
       cm_UID = \<lparr>ce_Claim = [], ce_Expression = []\<rparr>, cm_Extra = []\<rparr>,
     jwt_UserValidationRules = [], jwt_ExternalClaimsSources = []\<rparr>"

theorem conversion_injective_witness:
  "sample_authenticator = sample_authenticator\<lparr>jwt_ExternalClaimsSources := []\<rparr>"
  by (rule conversion_injective) (simp_all add: sample_authenticator_def)

text \<open>
  A configuration converted for the apiserver never selects an egress proxy for an issuer and never
  enables anonymous requests, whatever it says.
\<close>

theorem conversion_leaves_features_off:
  "as_cfg_Anonymous (ConvertAuthenticationConfigurationToApiserverAuthenticationConfiguration c) = None \<and>
   set (map (as_issuer_EgressSelectorType \<circ> as_jwt_Issuer)
      (as_cfg_JWT (ConvertAuthenticationConfigurationToApiserverAuthenticationConfiguration c)))
     \<subseteq> {[]}"
  by (auto simp: ConvertAuthenticationConfigurationToApiserverAuthenticationConfiguration_def
      ConvertJWTAuthenticatorToApiserverJWTAuthenticator_def split: option.split)

end
