(* ===== verification/Apiserver_Validation.thy ===== *)
theory Apiserver_Validation
  imports Sample_Environment Api_Conversion
begin

text \<open>
  The validation of an authentication configuration in the apiserver fork
  (\<open>pkg/apis/apiserver/validation/validation.go\<close>), which also compiles the expressions of an
  authenticator into its CEL mapper.  Each function returns its list of field errors; where the Go
  code threads a state or sets of values already seen, they are threaded here.

  Parameters, in the record \<open>validation_env\<close>: the CEL engine, the feature gates, certificate pools of
  client-go, the check of domain-prefixed paths of apimachinery, lower casing outside ASCII and IP
  literals in URLs.
\<close>

record validation_env =
  ve_engine :: cel_engine
  ve_structured_authn :: bool
  ve_egress_selector :: bool
  ve_anonymous_endpoints :: bool
  ve_NewPoolFromBytes :: "string \<Rightarrow> error option"
  ve_IsDomainPrefixedPath :: "path \<Rightarrow> string \<Rightarrow> field_error list"
  ve_ToLower :: "string \<Rightarrow> string"
  ve_ip_literal :: "string \<Rightarrow> string option"

section \<open>The issuer\<close>

definition validateURL :: "validation_env \<Rightarrow> string \<Rightarrow> string set \<Rightarrow> path \<Rightarrow> field_error list" where
  "validateURL ve issuerURL disallowedIssuers fldPath =
     (if issuerURL \<in> disallowedIssuers
      then [field_Invalid fldPath issuerURL ''URL must not overlap with disallowed issuers: %s''] else []) @
     (case url_Parse (ve_ip_literal ve) issuerURL of
        Inl err \<Rightarrow> [field_InvalidE fldPath issuerURL [] err]
      | Inr u \<Rightarrow>
          (if Scheme u \<noteq> ''https'' then [field_Invalid fldPath issuerURL ''URL scheme must be https''] else []) @
          (if User u \<noteq> None then [field_Invalid fldPath issuerURL ''URL must not contain a username or password''] else []) @
          (if RawQuery u \<noteq> [] then [field_Invalid fldPath issuerURL ''URL must not contain a query''] else []) @
          (if Fragment u \<noteq> [] then [field_Invalid fldPath issuerURL ''URL must not contain a fragment''] else []))"

definition validateIssuerURL :: "validation_env \<Rightarrow> string \<Rightarrow> string set \<Rightarrow> path \<Rightarrow> field_error list" where
  "validateIssuerURL ve issuerURL disallowedIssuers fldPath =
     (if issuerURL = [] then [field_Required fldPath []]
      else validateURL ve issuerURL disallowedIssuers fldPath)"

definition validateIssuerDiscoveryURL :: "validation_env \<Rightarrow> string \<Rightarrow> string \<Rightarrow> path \<Rightarrow> field_error list" where
  "validateIssuerDiscoveryURL ve issuerURL issuerDiscoveryURL fldPath =
     (if issuerDiscoveryURL = [] then []
      else
        (if \<not> ve_structured_authn ve then [field_Invalid fldPath issuerDiscoveryURL
           ''discoveryURL is not supported when StructuredAuthenticationConfiguration feature gate is disabled''] else []) @
        (if issuerURL \<noteq> [] \<and> TrimRight_char CHR ''/'' issuerURL = TrimRight_char CHR ''/'' issuerDiscoveryURL
         then [field_Invalid fldPath issuerDiscoveryURL ''discoveryURL must be different from URL''] else []) @
        validateURL ve issuerDiscoveryURL {} fldPath)"

definition audience_step :: "path \<Rightarrow> nat \<Rightarrow> string set \<Rightarrow> string \<Rightarrow> field_error list \<times> string set" where
  "audience_step fldPath i seen audience =
     ((if audience = [] then [field_Required (index fldPath i) []] else []) @
      (if audience \<in> seen then [field_Duplicate (index fldPath i) audience] else []),
      insert audience seen)"

definition validateAudiences ::
  "validation_env \<Rightarrow> string list \<Rightarrow> string \<Rightarrow> path \<Rightarrow> path \<Rightarrow> field_error list" where
  "validateAudiences ve audiences audienceMatchPolicy fldPath policyFldPath =
     (if audiences = [] then [field_Required fldPath ''at least one %s is required'']
      else
        (if length audiences > 1 \<and> \<not> ve_structured_authn ve then [field_Invalid fldPath []
           ''multiple audiences are not supported when StructuredAuthenticationConfiguration feature gate is disabled''] else []) @
        fst (scan_idx (audience_step fldPath) 0 {} audiences) @
        (if length audiences > 1 \<and> audienceMatchPolicy \<noteq> AudienceMatchPolicyMatchAny
         then [field_Invalid policyFldPath audienceMatchPolicy ''audienceMatchPolicy must be MatchAny for multiple audiences''] else []) @
        (if length audiences = 1 \<and> audienceMatchPolicy \<noteq> [] \<and> audienceMatchPolicy \<noteq> AudienceMatchPolicyMatchAny
         then [field_Invalid policyFldPath audienceMatchPolicy ''audienceMatchPolicy must be empty or MatchAny for single audience''] else []))"

definition validateCertificateAuthority :: "validation_env \<Rightarrow> string \<Rightarrow> path \<Rightarrow> field_error list" where
  "validateCertificateAuthority ve certificateAuthority fldPath =
     (if certificateAuthority = [] then []
      else (case ve_NewPoolFromBytes ve certificateAuthority of
              None \<Rightarrow> [] | Some err \<Rightarrow> [field_InvalidE fldPath ''<omitted>'' [] err]))"

definition validateEgressSelector :: "validation_env \<Rightarrow> string \<Rightarrow> path \<Rightarrow> field_error list" where
  "validateEgressSelector ve selectorType fldPath =
     (if selectorType = [] then []
      else
        (if \<not> ve_structured_authn ve then [field_Invalid fldPath selectorType
           ''egress selector is not supported when StructuredAuthenticationConfiguration feature gate is disabled''] else []) @
        (if \<not> ve_egress_selector ve then [field_Invalid fldPath selectorType
           ''egress selector is not supported when StructuredAuthenticationConfigurationEgressSelector feature gate is disabled''] else []) @
        (if selectorType = ''controlplane'' \<or> selectorType = ''cluster'' then []
         else [field_Invalid fldPath selectorType ''egress selector must be either controlplane or cluster'']))"

definition validateIssuer :: "validation_env \<Rightarrow> as_issuer \<Rightarrow> string set \<Rightarrow> path \<Rightarrow> field_error list" where
  "validateIssuer ve issuer disallowedIssuers fldPath =
     validateIssuerURL ve (as_issuer_URL issuer) disallowedIssuers (child fldPath ''url'') @
     validateIssuerDiscoveryURL ve (as_issuer_URL issuer) (as_issuer_DiscoveryURL issuer) (child fldPath ''discoveryURL'') @
     validateAudiences ve (as_issuer_Audiences issuer) (as_issuer_AudienceMatchPolicy issuer)
       (child fldPath ''audiences'') (child fldPath ''audienceMatchPolicy'') @
     validateCertificateAuthority ve (as_issuer_CertificateAuthority issuer) (child fldPath ''certificateAuthority'') @
     validateEgressSelector ve (as_issuer_EgressSelectorType issuer) (child fldPath ''egressSelectorType'')"

section \<open>Compiling an expression\<close>

text \<open>
  An error of the compiler as a field error; errors that are not CEL errors are internal.
\<close>

definition convertCELErrorToValidationError :: "path \<Rightarrow> string \<Rightarrow> error \<Rightarrow> field_error" where
  "convertCELErrorToValidationError fldPath expression err =
     (case err of
        CelError CelErrorRequired d ops \<Rightarrow> FieldError ErrorTypeRequired fldPath [] d ops
      | CelError CelErrorInvalid d ops \<Rightarrow> FieldError ErrorTypeInvalid fldPath expression d ops
      | CelError CelErrorInternal d ops \<Rightarrow> field_InternalError fldPath err
      | _ \<Rightarrow> field_InternalError fldPath (Errorf ''error is not cel error: %w'' [OpE err]))"

definition compileClaimsCELExpression ::
  "validation_env \<Rightarrow> accessor \<Rightarrow> path \<Rightarrow> field_error + compilation_result" where
  "compileClaimsCELExpression ve expression fldPath =
     (case CompileClaimsExpression (ve_engine ve) expression of
        Inl err \<Rightarrow> Inl (convertCELErrorToValidationError fldPath (GetExpression expression) err)
      | Inr r \<Rightarrow> Inr r)"

definition compileUserCELExpression ::
  "validation_env \<Rightarrow> accessor \<Rightarrow> path \<Rightarrow> field_error + compilation_result" where
  "compileUserCELExpression ve expression fldPath =
     (case CompileUserExpression (ve_engine ve) expression of
        Inl err \<Rightarrow> Inl (convertCELErrorToValidationError fldPath (GetExpression expression) err)
      | Inr r \<Rightarrow> Inr r)"

section \<open>Uses of the email claims\<close>

definition isIdentOperand :: "cel_expr option \<Rightarrow> string \<Rightarrow> bool" where
  "isIdentOperand exp operand \<longleftrightarrow> operand \<noteq> [] \<and> exp = Some (IdentExpr operand)"

definition isConstField :: "cel_expr option \<Rightarrow> string \<Rightarrow> bool" where
  "isConstField exp fld \<longleftrightarrow> fld \<noteq> [] \<and> exp = Some (ConstExpr (Some fld))"

lemma size_entry: "size_prod f g p = f (fst p) + g (snd p) + 1"
  by (cases p) simp

function has_select :: "string \<Rightarrow> string \<Rightarrow> cel_expr \<Rightarrow> bool" where
  "has_select operand fld (ConstExpr v) = False"
| "has_select operand fld (IdentExpr n) = False"
| "has_select operand fld (SelectExpr s f) =
     ((isIdentOperand s operand \<and> f = fld) \<or> (case s of None \<Rightarrow> False | Some e \<Rightarrow> has_select operand fld e))"
| "has_select operand fld (CallExpr target fn args) =
     ((target = None \<and> fn = ''_?._'' \<and> length args = 2 \<and>
         isIdentOperand (Some (args ! 0)) operand \<and> isConstField (Some (args ! 1)) fld) \<or>
      (\<exists>arg \<in> set args. has_select operand fld arg) \<or>
      (case target of None \<Rightarrow> False | Some e \<Rightarrow> has_select operand fld e))"
| "has_select operand fld (ListExpr elements) = (\<exists>e \<in> set elements. has_select operand fld e)"
| "has_select operand fld (StructExpr entries) =
     (\<exists>entry \<in> set entries.
        (case fst entry of None \<Rightarrow> False | Some e \<Rightarrow> has_select operand fld e) \<or>
        (case snd entry of None \<Rightarrow> False | Some e \<Rightarrow> has_select operand fld e))"
| "has_select operand fld (ComprehensionExpr r i l s res) =
     ((case r of None \<Rightarrow> False | Some e \<Rightarrow> has_select operand fld e) \<or>
      (case i of None \<Rightarrow> False | Some e \<Rightarrow> has_select operand fld e) \<or>
      (case l of None \<Rightarrow> False | Some e \<Rightarrow> has_select operand fld e) \<or>
      (case s of None \<Rightarrow> False | Some e \<Rightarrow> has_select operand fld e) \<or>
      (case res of None \<Rightarrow> False | Some e \<Rightarrow> has_select operand fld e))"
  by pat_completeness auto
termination
proof (relation "measure (\<lambda>(_, _, e). size e)", goal_cases)
  case (3 operand fld target fn args arg)
  then have "size arg \<le> size_list size args" by (simp add: size_list_estimation')
  then show ?case by simp
next
  case (5 operand fld elements e)
  then show ?case by (simp add: size_list_estimation' less_Suc_eq_le)
next
  case (6 operand fld entries entry e)
  then have "size e \<le> size_prod (size_option size) (size_option size) entry"
    by (simp add: size_entry)
  with 6 show ?case by (simp add: size_list_estimation' less_Suc_eq_le)
next
  case (7 operand fld entries entry e)
  then have "size e \<le> size_prod (size_option size) (size_option size) entry"
    by (simp add: size_entry)
  with 7 show ?case by (simp add: size_list_estimation' less_Suc_eq_le)
qed auto

definition hasSelectExp :: "cel_expr option \<Rightarrow> string \<Rightarrow> string \<Rightarrow> bool" where
  "hasSelectExp exp operand fld = (case exp of None \<Rightarrow> False | Some e \<Rightarrow> has_select operand fld e)"

definition usesEmailClaim :: "cel_ast \<Rightarrow> bool" where
  "usesEmailClaim ast = hasSelectExp (ast_Expr ast) ''claims'' ''email''"

definition usesEmailVerifiedClaim :: "cel_ast \<Rightarrow> bool" where
  "usesEmailVerifiedClaim ast = hasSelectExp (ast_Expr ast) ''claims'' ''email_verified''"

definition anyUsesEmailVerifiedClaim :: "compilation_result list \<Rightarrow> bool" where
  "anyUsesEmailVerifiedClaim results = list_ex (\<lambda>r. usesEmailVerifiedClaim (cr_AST r)) results"

section \<open>Claim validation rules\<close>

record validation_state =
  vs_mapper :: cel_mapper
  vs_usesEmailClaim :: bool
  vs_usesEmailVerifiedClaim :: bool

record rules_scan =
  sc_claims :: "string set"
  sc_expressions :: "string set"
  sc_results :: "compilation_result list"

definition empty_scan :: rules_scan where
  "empty_scan = \<lparr>sc_claims = {}, sc_expressions = {}, sc_results = []\<rparr>"

definition claim_rule_step :: "validation_env \<Rightarrow> path \<Rightarrow> nat \<Rightarrow> rules_scan \<Rightarrow> as_claim_validation_rule
    \<Rightarrow> field_error list \<times> rules_scan" where
  "claim_rule_step ve rulesPath i s rule =
     (let fldPath = index rulesPath i;
          claim = as_cvr_Claim rule; expression = as_cvr_Expression rule;
          gate = (if expression \<noteq> [] \<and> \<not> ve_structured_authn ve
            then [field_Invalid (child fldPath ''expression'') expression
              ''not supported when StructuredAuthenticationConfiguration feature gate is disabled''] else [])
      in
      if claim \<noteq> [] \<and> expression \<noteq> [] then
        (gate @ [field_Invalid fldPath claim ''claim and expression can't both be set''], s)
      else if claim = [] \<and> expression = [] then
        (gate @ [field_Required fldPath ''claim or expression is required''], s)
      else if claim \<noteq> [] then
        (gate @
         (if as_cvr_Message rule \<noteq> [] then [field_Invalid (child fldPath ''message'') (as_cvr_Message rule)
            ''may not be specified when claim is set''] else []) @
         (if claim \<in> sc_claims s then [field_Duplicate (child fldPath ''claim'') claim] else []),
         s\<lparr>sc_claims := insert claim (sc_claims s)\<rparr>)
      else
       (let required = (if as_cvr_RequiredValue rule \<noteq> [] then
              [field_Invalid (child fldPath ''requiredValue'') (as_cvr_RequiredValue rule)
                 ''may not be specified when expression is set''] else []) in
        if expression \<in> sc_expressions s then
          (gate @ required @ [field_Duplicate (child fldPath ''expression'') expression], s)
        else
         (let s' = s\<lparr>sc_expressions := insert expression (sc_expressions s)\<rparr> in
          case compileClaimsCELExpression ve (ClaimValidationCondition expression (as_cvr_Message rule))
                 (child fldPath ''expression'') of
            Inl err \<Rightarrow> (gate @ required @ [err], s')
          | Inr r \<Rightarrow> (gate @ required, s'\<lparr>sc_results := sc_results s' @ [r]\<rparr>))))"

definition validateClaimValidationRules :: "validation_env \<Rightarrow> validation_state \<Rightarrow> as_claim_validation_rule list
    \<Rightarrow> path \<Rightarrow> field_error list \<times> validation_state" where
  "validateClaimValidationRules ve state rules fldPath =
     (let (errs, s) = scan_idx (claim_rule_step ve fldPath) 0 empty_scan rules in
      (errs,
       if ve_structured_authn ve \<and> sc_results s \<noteq> [] then
         state\<lparr>vs_mapper := (vs_mapper state)\<lparr>cm_map_ClaimValidationRules := Some (sc_results s)\<rparr>,
               vs_usesEmailVerifiedClaim :=
                 (vs_usesEmailVerifiedClaim state \<or> anyUsesEmailVerifiedClaim (sc_results s))\<rparr>
       else state))"

section \<open>Claim mappings\<close>

definition getDomainPrefix :: "string \<Rightarrow> string" where
  "getDomainPrefix key = (if CHR ''/'' \<in> set key then takeWhile (\<lambda>c. c \<noteq> CHR ''/'') key else [])"

definition isKubernetesDomainPrefix :: "string \<Rightarrow> bool" where
  "isKubernetesDomainPrefix key =
     (let domainPrefix = getDomainPrefix key in
      if domainPrefix = ''kubernetes.io'' \<or> HasSuffix domainPrefix ''.kubernetes.io'' then True
      else if domainPrefix = ''k8s.io'' \<or> HasSuffix domainPrefix ''.k8s.io'' then True
      else False)"

definition validatePrefixClaimOrExpression :: "validation_env \<Rightarrow> as_prefixed_claim_or_expression \<Rightarrow> path \<Rightarrow> bool
    \<Rightarrow> compilation_result option \<times> field_error list" where
  "validatePrefixClaimOrExpression ve mapping fldPath claimOrExpressionRequired =
     (let claim = as_pce_Claim mapping; expression = as_pce_Expression mapping in
      if expression \<noteq> [] \<and> claim \<noteq> [] then
        (None, [field_Invalid fldPath [] ''claim and expression can't both be set''])
      else if expression = [] \<and> claim = [] \<and> claimOrExpressionRequired then
        (None, [field_Required fldPath ''claim or expression is required''])
      else if expression \<noteq> [] then
       (let prefix_errs = (case as_pce_Prefix mapping of
              Some p \<Rightarrow> [field_Invalid (child fldPath ''prefix'') p ''may not be specified when expression is set'']
            | None \<Rightarrow> [])
        in case compileClaimsCELExpression ve (ClaimMappingExpression expression) (child fldPath ''expression'') of
             Inl err \<Rightarrow> (None, prefix_errs @ [err])
           | Inr r \<Rightarrow> (Some r, prefix_errs))
      else if claim \<noteq> [] then
        (None, (if as_pce_Prefix mapping = None then [field_Required (child fldPath ''prefix'')
           ''prefix is required when claim is set. It can be set to an empty string to disable prefixing''] else []))
      else (None, []))"

definition extra_step :: "validation_env \<Rightarrow> path \<Rightarrow> nat \<Rightarrow> rules_scan \<Rightarrow> as_extra_mapping
    \<Rightarrow> field_error list \<times> rules_scan" where
  "extra_step ve mappingsPath i s mapping =
     (let fldPath = index (child mappingsPath ''extra'') i; key = as_em_Key mapping;
          errs = ve_IsDomainPrefixedPath ve (child fldPath ''key'') key @
            (if key \<noteq> ve_ToLower ve key then [field_Invalid (child fldPath ''key'') key ''must be lowercase''] else []) @
            (if isKubernetesDomainPrefix key then [field_Invalid (child fldPath ''key'') key
               ''k8s.io, kubernetes.io and their subdomains are reserved for Kubernetes use''] else [])
      in
      if key \<in> sc_expressions s then (errs @ [field_Duplicate (child fldPath ''key'') key], s)
      else
       (let s' = s\<lparr>sc_expressions := insert key (sc_expressions s)\<rparr> in
        if as_em_ValueExpression mapping = [] then
          (errs @ [field_Required (child fldPath ''valueExpression'') []], s')
        else (case compileClaimsCELExpression ve (ExtraMappingExpression key (as_em_ValueExpression mapping))
                 (child fldPath ''valueExpression'') of
            Inl err \<Rightarrow> (errs @ [err], s')
          | Inr r \<Rightarrow> (errs, s'\<lparr>sc_results := sc_results s' @ [r]\<rparr>))))"

text \<open>The four mappings in their order; each may report errors and add to the state.\<close>

definition validate_gates :: "validation_env \<Rightarrow> as_claim_mappings \<Rightarrow> path \<Rightarrow> field_error list" where
  "validate_gates ve m fldPath =
     (let off = ''not supported when StructuredAuthenticationConfiguration feature gate is disabled'' in
      if ve_structured_authn ve then []
      else
        (if as_pce_Expression (as_cm_Username m) \<noteq> [] then [field_Invalid (child (child fldPath ''username'') ''expression'')
           (as_pce_Expression (as_cm_Username m)) off] else []) @
        (if as_pce_Expression (as_cm_Groups m) \<noteq> [] then [field_Invalid (child (child fldPath ''groups'') ''expression'')
           (as_pce_Expression (as_cm_Groups m)) off] else []) @
        (if as_ce_Claim (as_cm_UID m) \<noteq> [] \<or> as_ce_Expression (as_cm_UID m) \<noteq> []
         then [field_Invalid (child fldPath ''uid'') [] (''claim mapping is '' @ off)] else []) @
        (if as_cm_Extra m \<noteq> [] then [field_Invalid (child fldPath ''extra'') [] (''claim mapping is '' @ off)] else []))"

definition validate_username :: "validation_env \<Rightarrow> validation_state \<Rightarrow> as_claim_mappings \<Rightarrow> path
    \<Rightarrow> field_error list \<times> validation_state" where
  "validate_username ve state m fldPath =
     (let (compilationResult, err) = validatePrefixClaimOrExpression ve (as_cm_Username m) (child fldPath ''username'') True in
      if err \<noteq> [] then (err, state)
      else (case compilationResult of
        Some r \<Rightarrow> if ve_structured_authn ve then ([], state
            \<lparr>vs_usesEmailClaim := (vs_usesEmailClaim state \<or> usesEmailClaim (cr_AST r)),
             vs_usesEmailVerifiedClaim := (vs_usesEmailVerifiedClaim state \<or> usesEmailVerifiedClaim (cr_AST r)),
             vs_mapper := (vs_mapper state)\<lparr>cm_map_Username := Some [r]\<rparr>\<rparr>)
          else ([], state)
      | None \<Rightarrow> ([], state)))"

definition validate_groups :: "validation_env \<Rightarrow> validation_state \<Rightarrow> as_claim_mappings \<Rightarrow> path
    \<Rightarrow> field_error list \<times> validation_state" where
  "validate_groups ve state m fldPath =
     (let (compilationResult, err) = validatePrefixClaimOrExpression ve (as_cm_Groups m) (child fldPath ''groups'') False in
      if err \<noteq> [] then (err, state)
      else (case compilationResult of
        Some r \<Rightarrow> if ve_structured_authn ve
          then ([], state\<lparr>vs_mapper := (vs_mapper state)\<lparr>cm_map_Groups := Some [r]\<rparr>\<rparr>) else ([], state)
      | None \<Rightarrow> ([], state)))"

definition validate_uid :: "validation_env \<Rightarrow> validation_state \<Rightarrow> as_claim_mappings \<Rightarrow> path
    \<Rightarrow> field_error list \<times> validation_state" where
  "validate_uid ve state m fldPath =
     (let claim = as_ce_Claim (as_cm_UID m); expression = as_ce_Expression (as_cm_UID m) in
      if claim \<noteq> [] \<and> expression \<noteq> [] then
        ([field_Invalid (child fldPath ''uid'') [] ''claim and expression can't both be set''], state)
      else if expression \<noteq> [] then
        (case compileClaimsCELExpression ve (ClaimMappingExpression expression)
               (child (child fldPath ''uid'') ''expression'') of
           Inl err \<Rightarrow> ([err], state)
         | Inr r \<Rightarrow> ([], if ve_structured_authn ve
             then state\<lparr>vs_mapper := (vs_mapper state)\<lparr>cm_map_UID := Some [r]\<rparr>\<rparr> else state))
      else ([], state))"

definition validate_extra :: "validation_env \<Rightarrow> validation_state \<Rightarrow> as_claim_mappings \<Rightarrow> path
    \<Rightarrow> field_error list \<times> validation_state" where
  "validate_extra ve state m fldPath =
     (let (errs, s) = scan_idx (extra_step ve fldPath) 0 empty_scan (as_cm_Extra m) in
      (errs,
       if ve_structured_authn ve \<and> sc_results s \<noteq> [] then
         state\<lparr>vs_mapper := (vs_mapper state)\<lparr>cm_map_Extra := Some (sc_results s)\<rparr>,
               vs_usesEmailVerifiedClaim :=
                 (vs_usesEmailVerifiedClaim state \<or> anyUsesEmailVerifiedClaim (sc_results s))\<rparr>
       else state))"

definition validateClaimMappings :: "validation_env \<Rightarrow> validation_state \<Rightarrow> as_claim_mappings \<Rightarrow> path
    \<Rightarrow> field_error list \<times> validation_state" where
  "validateClaimMappings ve state m fldPath =
     (let (e1, s1) = validate_username ve state m fldPath;
          (e2, s2) = validate_groups ve s1 m fldPath;
          (e3, s3) = validate_uid ve s2 m fldPath;
          (e4, s4) = validate_extra ve s3 m fldPath
      in (validate_gates ve m fldPath @ e1 @ e2 @ e3 @ e4 @
          (if ve_structured_authn ve \<and> vs_usesEmailClaim s4 \<and> \<not> vs_usesEmailVerifiedClaim s4
           then [field_Invalid (child (child fldPath ''username'') ''expression'') (as_pce_Expression (as_cm_Username m))
              ''claims.email_verified must be used in claimMappings.username.expression or claimMappings.extra[*].valueExpression or claimValidationRules[*].expression when claims.email is used in claimMappings.username.expression'']
           else []), s4))"

section \<open>User validation rules\<close>

definition user_rule_step :: "validation_env \<Rightarrow> path \<Rightarrow> nat \<Rightarrow> rules_scan \<Rightarrow> as_user_validation_rule
    \<Rightarrow> field_error list \<times> rules_scan" where
  "user_rule_step ve rulesPath i s rule =
     (let fldPath = index rulesPath i; expression = as_uvr_Expression rule in
      if expression = [] then ([field_Required (child fldPath ''expression'') []], s)
      else if expression \<in> sc_expressions s then
        ([field_Duplicate (child fldPath ''expression'') expression], s)
      else
       (let s' = s\<lparr>sc_expressions := insert expression (sc_expressions s)\<rparr> in
        case compileUserCELExpression ve (UserValidationCondition expression (as_uvr_Message rule))
               (child fldPath ''expression'') of
          Inl err \<Rightarrow> ([err], s')
        | Inr r \<Rightarrow> ([], s'\<lparr>sc_results := sc_results s' @ [r]\<rparr>)))"

definition validateUserValidationRules :: "validation_env \<Rightarrow> validation_state \<Rightarrow> as_user_validation_rule list
    \<Rightarrow> path \<Rightarrow> field_error list \<times> validation_state" where
  "validateUserValidationRules ve state rules fldPath =
     (let (errs, s) = scan_idx (user_rule_step ve fldPath) 0 empty_scan rules in
      ((if rules \<noteq> [] \<and> \<not> ve_structured_authn ve then [field_Invalid fldPath []
          ''user validation rules are not supported when StructuredAuthenticationConfiguration feature gate is disabled''] else []) @
       errs,
       if ve_structured_authn ve \<and> sc_results s \<noteq> []
       then state\<lparr>vs_mapper := (vs_mapper state)\<lparr>cm_map_UserValidationRules := Some (sc_results s)\<rparr>\<rparr>
       else state))"

section \<open>Authenticators and configurations\<close>

definition empty_validation_state :: validation_state where
  "empty_validation_state = \<lparr>vs_mapper = empty_cel_mapper, vs_usesEmailClaim = False, vs_usesEmailVerifiedClaim = False\<rparr>"

definition validateJWTAuthenticator :: "validation_env \<Rightarrow> as_jwt_authenticator \<Rightarrow> path \<Rightarrow> string set
    \<Rightarrow> cel_mapper \<times> field_error list" where
  "validateJWTAuthenticator ve authenticator fldPath disallowedIssuers =
     (let e1 = validateIssuer ve (as_jwt_Issuer authenticator) disallowedIssuers (child fldPath ''issuer'');
          (e2, s2) = validateClaimValidationRules ve empty_validation_state
            (as_jwt_ClaimValidationRules authenticator) (child fldPath ''claimValidationRules'');
          (e3, s3) = validateClaimMappings ve s2 (as_jwt_ClaimMappings authenticator) (child fldPath ''claimMappings'');
          (e4, s4) = validateUserValidationRules ve s3
            (as_jwt_UserValidationRules authenticator) (child fldPath ''userValidationRules'')
      in (vs_mapper s4, e1 @ e2 @ e3 @ e4))"

definition CompileAndValidateJWTAuthenticator :: "validation_env \<Rightarrow> as_jwt_authenticator \<Rightarrow> string set
    \<Rightarrow> cel_mapper \<times> field_error list" where
  "CompileAndValidateJWTAuthenticator ve authenticator disallowedIssuers =
     validateJWTAuthenticator ve authenticator [] disallowedIssuers"

record issuers_scan =
  is_issuers :: "string set"
  is_discoveryURLs :: "string set"

definition authenticator_step :: "validation_env \<Rightarrow> string set \<Rightarrow> path \<Rightarrow> nat \<Rightarrow> issuers_scan
    \<Rightarrow> as_jwt_authenticator \<Rightarrow> field_error list \<times> issuers_scan" where
  "authenticator_step ve disallowedIssuers root i s a =
     (let fldPath = index root i; url = as_issuer_URL (as_jwt_Issuer a);
          disc = as_issuer_DiscoveryURL (as_jwt_Issuer a) in
      (snd (validateJWTAuthenticator ve a fldPath disallowedIssuers) @
       (if url \<in> is_issuers s then [field_Duplicate (child (child fldPath ''issuer'') ''url'') url] else []) @
       (if disc \<noteq> [] \<and> disc \<in> is_discoveryURLs s
        then [field_Duplicate (child (child fldPath ''issuer'') ''discoveryURL'') disc] else []),
       \<lparr>is_issuers = insert url (is_issuers s),
        is_discoveryURLs = (if disc \<noteq> [] then insert disc (is_discoveryURLs s) else is_discoveryURLs s)\<rparr>))"

definition apiserver_ValidateAuthenticationConfiguration ::
  "validation_env \<Rightarrow> as_authentication_configuration \<Rightarrow> string set \<Rightarrow> field_error list" where
  "apiserver_ValidateAuthenticationConfiguration ve c disallowedIssuers =
     (let root = [Child ''jwt''] in
      if length (as_cfg_JWT c) > 64 then [field_TooMany root (length (as_cfg_JWT c)) 64]
      else
        fst (scan_idx (authenticator_step ve disallowedIssuers root) 0
          \<lparr>is_issuers = {}, is_discoveryURLs = {}\<rparr> (as_cfg_JWT c)) @
        (case as_cfg_Anonymous c of None \<Rightarrow> []
         | Some anon \<Rightarrow>
             (if \<not> ve_anonymous_endpoints ve then [field_Forbidden [Child ''anonymous'']
                ''anonymous is not supported when AnonymousAuthConfigurableEndpoints feature gate is disabled''] else []) @
             (if \<not> as_anon_Enabled anon \<and> as_anon_Conditions anon \<noteq> []
              then [field_Invalid [Child ''anonymous'', Child ''conditions''] []
                ''enabled should be set to true when conditions are defined''] else [])))"

section \<open>The scans keep their contracts\<close>

interpretation audiences: seen_scan "audience_step fldPath" "\<lambda>s. s" "\<lambda>a. [a]" for fldPath
  by unfold_locales (auto simp: audience_step_def split: if_splits)

lemma field_error_lists_Nil [simp]:
  "(if P then [] else [e]) = [] \<longleftrightarrow> P" "(if P then [e] else []) = [] \<longleftrightarrow> \<not> P"
  by auto

definition compiled :: "rules_scan \<Rightarrow> compilation_result res list" where
  "compiled s = map Inr (sc_results s)"

lemma claim_rule_step_accepts:
  assumes "fst (claim_rule_step ve p i s rule) = []"
  shows "(as_cvr_Claim rule \<noteq> [] \<and> as_cvr_Expression rule = [] \<and> as_cvr_Claim rule \<notin> sc_claims s
      \<and> snd (claim_rule_step ve p i s rule) = s\<lparr>sc_claims := insert (as_cvr_Claim rule) (sc_claims s)\<rparr>) \<or>
    (as_cvr_Claim rule = [] \<and> as_cvr_Expression rule \<noteq> [] \<and> as_cvr_Expression rule \<notin> sc_expressions s \<and>
      (\<exists>r. CompileClaimsExpression (ve_engine ve)
          (ClaimValidationCondition (as_cvr_Expression rule) (as_cvr_Message rule)) = Inr r \<and>
        snd (claim_rule_step ve p i s rule) = s\<lparr>sc_expressions := insert (as_cvr_Expression rule) (sc_expressions s),
          sc_results := sc_results s @ [r]\<rparr>))"
  using assms
  by (auto simp: claim_rule_step_def Let_def compileClaimsCELExpression_def split: if_splits sum.splits)

interpretation rule_claims: seen_scan "claim_rule_step ve p" sc_claims
  "\<lambda>rule. if as_cvr_Claim rule = [] then [] else [as_cvr_Claim rule]" for ve p
  by unfold_locales (auto dest!: claim_rule_step_accepts)

interpretation rule_expressions: seen_scan "claim_rule_step ve p" sc_expressions
  "\<lambda>rule. if as_cvr_Expression rule = [] then [] else [as_cvr_Expression rule]" for ve p
  by unfold_locales (auto dest!: claim_rule_step_accepts)

interpretation rule_results: emit_scan "claim_rule_step ve p" compiled
  "\<lambda>rule. if as_cvr_Expression rule \<noteq> [] then [CompileClaimsExpression (ve_engine ve)
     (ClaimValidationCondition (as_cvr_Expression rule) (as_cvr_Message rule))] else []" for ve p
  by unfold_locales (auto simp: compiled_def dest!: claim_rule_step_accepts)

lemma extra_step_accepts:
  assumes "fst (extra_step ve p i s mapping) = []"
  shows "ve_IsDomainPrefixedPath ve (child (index (child p ''extra'') i) ''key'') (as_em_Key mapping) = [] \<and>
    as_em_Key mapping = ve_ToLower ve (as_em_Key mapping) \<and> \<not> isKubernetesDomainPrefix (as_em_Key mapping) \<and>
    as_em_Key mapping \<notin> sc_expressions s \<and> as_em_ValueExpression mapping \<noteq> [] \<and>
    (\<exists>r. CompileClaimsExpression (ve_engine ve)
        (ExtraMappingExpression (as_em_Key mapping) (as_em_ValueExpression mapping)) = Inr r \<and>
      snd (extra_step ve p i s mapping) = s\<lparr>sc_expressions := insert (as_em_Key mapping) (sc_expressions s),
        sc_results := sc_results s @ [r]\<rparr>)"
  using assms
  by (auto simp: extra_step_def Let_def compileClaimsCELExpression_def split: if_splits sum.splits)

interpretation extra_keys: seen_scan "extra_step ve p" sc_expressions "\<lambda>m. [as_em_Key m]" for ve p
  by unfold_locales (auto dest!: extra_step_accepts)

interpretation extra_results: emit_scan "extra_step ve p" compiled
  "\<lambda>m. [CompileClaimsExpression (ve_engine ve)
     (ExtraMappingExpression (as_em_Key m) (as_em_ValueExpression m))]" for ve p
  by unfold_locales (auto simp: compiled_def dest!: extra_step_accepts)

lemma user_rule_step_accepts:
  assumes "fst (user_rule_step ve p i s rule) = []"
  shows "as_uvr_Expression rule \<noteq> [] \<and> as_uvr_Expression rule \<notin> sc_expressions s \<and>
    (\<exists>r. CompileUserExpression (ve_engine ve)
        (UserValidationCondition (as_uvr_Expression rule) (as_uvr_Message rule)) = Inr r \<and>
      snd (user_rule_step ve p i s rule) = s\<lparr>sc_expressions := insert (as_uvr_Expression rule) (sc_expressions s),
        sc_results := sc_results s @ [r]\<rparr>)"
  using assms
  by (auto simp: user_rule_step_def Let_def compileUserCELExpression_def split: if_splits sum.splits)

interpretation user_expressions: seen_scan "user_rule_step ve p" sc_expressions "\<lambda>r. [as_uvr_Expression r]" for ve p
  by unfold_locales (auto dest!: user_rule_step_accepts)

interpretation user_results: emit_scan "user_rule_step ve p" compiled
  "\<lambda>rule. [CompileUserExpression (ve_engine ve)
     (UserValidationCondition (as_uvr_Expression rule) (as_uvr_Message rule))]" for ve p
  by unfold_locales (auto simp: compiled_def dest!: user_rule_step_accepts)

lemma authenticator_step_accepts:
  assumes "fst (authenticator_step ve dis root i s a) = []"
  shows "snd (validateJWTAuthenticator ve a (index root i) dis) = [] \<and>
    as_issuer_URL (as_jwt_Issuer a) \<notin> is_issuers s \<and>
    is_issuers (snd (authenticator_step ve dis root i s a)) = insert (as_issuer_URL (as_jwt_Issuer a)) (is_issuers s)"
  using assms by (auto simp: authenticator_step_def Let_def split: if_splits)

interpretation issuers: seen_scan "authenticator_step ve dis root" is_issuers
  "\<lambda>a. [as_issuer_URL (as_jwt_Issuer a)]" for ve dis root
  by unfold_locales (auto dest!: authenticator_step_accepts)

interpretation discovery_urls: seen_scan "authenticator_step ve dis root" is_discoveryURLs
  "\<lambda>a. if as_issuer_DiscoveryURL (as_jwt_Issuer a) = [] then [] else [as_issuer_DiscoveryURL (as_jwt_Issuer a)]"
  for ve dis root
  by unfold_locales (auto simp: authenticator_step_def Let_def split: if_splits)

section \<open>What validation compiles\<close>

lemma snd_if_fst: "(case p of (x, y) \<Rightarrow> (f x y, g x y)) = (f (fst p) (snd p), g (fst p) (snd p))"
  by (cases p) simp

lemma compiled_Nil: "compiled empty_scan = []"
  by (simp add: compiled_def empty_scan_def)

lemma compiled_eq_Nil: "compiled s = [] \<longleftrightarrow> sc_results s = []"
  by (simp add: compiled_def)

text \<open>The programs that a mapper holds, as results of the compiler.\<close>

definition programs :: "mapper option \<Rightarrow> compilation_result res list option" where
  "programs m = map_option (map Inr) m"

lemma programs_simps [simp]: "programs None = None" "programs (Some rs) = Some (map Inr rs)"
  by (simp_all add: programs_def)

definition programs_or_none :: "compilation_result res list \<Rightarrow> compilation_result res list option" where
  "programs_or_none rs = (if rs = [] then None else Some rs)"

lemma claim_rules_state:
  assumes "fst (validateClaimValidationRules ve state rules p) = []" and "ve_structured_authn ve"
    and "cm_map_ClaimValidationRules (vs_mapper state) = None"
  shows "vs_mapper (snd (validateClaimValidationRules ve state rules p)) = (vs_mapper state)
      \<lparr>cm_map_ClaimValidationRules :=
        cm_map_ClaimValidationRules (vs_mapper (snd (validateClaimValidationRules ve state rules p)))\<rparr> \<and>
    programs (cm_map_ClaimValidationRules (vs_mapper (snd (validateClaimValidationRules ve state rules p)))) =
      programs_or_none [CompileClaimsExpression (ve_engine ve)
          (ClaimValidationCondition (as_cvr_Expression rule) (as_cvr_Message rule)).
        rule \<leftarrow> rules, as_cvr_Expression rule \<noteq> []]"
proof -
  let ?s = "snd (scan_idx (claim_rule_step ve p) 0 empty_scan rules)"
  have fst: "fst (scan_idx (claim_rule_step ve p) 0 empty_scan rules) = []"
    using assms(1) by (simp add: validateClaimValidationRules_def split_beta)
  have eq: "map Inr (sc_results ?s) = [CompileClaimsExpression (ve_engine ve)
          (ClaimValidationCondition (as_cvr_Expression rule) (as_cvr_Message rule)).
        rule \<leftarrow> rules, as_cvr_Expression rule \<noteq> []]"
    using rule_results.scan_emits [OF fst] by (simp add: compiled_Nil) (simp add: compiled_def)
  show ?thesis
    unfolding eq [symmetric] using assms(2,3) by (auto simp: validateClaimValidationRules_def split_beta programs_or_none_def)
qed

lemma username_state:
  assumes "fst (validate_username ve state m p) = []" and "ve_structured_authn ve"
    and "cm_map_Username (vs_mapper state) = None"
  shows "vs_mapper (snd (validate_username ve state m p)) = (vs_mapper state)
      \<lparr>cm_map_Username := cm_map_Username (vs_mapper (snd (validate_username ve state m p)))\<rparr> \<and>
    programs (cm_map_Username (vs_mapper (snd (validate_username ve state m p)))) = programs_or_none
      [CompileClaimsExpression (ve_engine ve) (ClaimMappingExpression e).
        e \<leftarrow> [as_pce_Expression (as_cm_Username m)], e \<noteq> []] \<and>
    ((as_pce_Expression (as_cm_Username m) = []) \<noteq> (as_pce_Claim (as_cm_Username m) = [])) \<and>
    (as_pce_Claim (as_cm_Username m) = [] \<longleftrightarrow> as_pce_Prefix (as_cm_Username m) = None)"
  using assms
  by (auto simp: validate_username_def validatePrefixClaimOrExpression_def compileClaimsCELExpression_def
      Let_def programs_or_none_def split: if_splits sum.splits option.splits)

lemma groups_state:
  assumes "fst (validate_groups ve state m p) = []" and "ve_structured_authn ve"
    and "cm_map_Groups (vs_mapper state) = None"
  shows "vs_mapper (snd (validate_groups ve state m p)) = (vs_mapper state)
      \<lparr>cm_map_Groups := cm_map_Groups (vs_mapper (snd (validate_groups ve state m p)))\<rparr> \<and>
    programs (cm_map_Groups (vs_mapper (snd (validate_groups ve state m p)))) = programs_or_none
      [CompileClaimsExpression (ve_engine ve) (ClaimMappingExpression e).
        e \<leftarrow> [as_pce_Expression (as_cm_Groups m)], e \<noteq> []] \<and>
    (as_pce_Expression (as_cm_Groups m) = [] \<or> as_pce_Claim (as_cm_Groups m) = [])"
  using assms
  by (auto simp: validate_groups_def validatePrefixClaimOrExpression_def compileClaimsCELExpression_def
      Let_def programs_or_none_def split: if_splits sum.splits option.splits)

lemma uid_state:
  assumes "fst (validate_uid ve state m p) = []" and "ve_structured_authn ve"
    and "cm_map_UID (vs_mapper state) = None"
  shows "vs_mapper (snd (validate_uid ve state m p)) = (vs_mapper state)
      \<lparr>cm_map_UID := cm_map_UID (vs_mapper (snd (validate_uid ve state m p)))\<rparr> \<and>
    programs (cm_map_UID (vs_mapper (snd (validate_uid ve state m p)))) = programs_or_none
      [CompileClaimsExpression (ve_engine ve) (ClaimMappingExpression e).
        e \<leftarrow> [as_ce_Expression (as_cm_UID m)], e \<noteq> []] \<and>
    (as_ce_Expression (as_cm_UID m) = [] \<or> as_ce_Claim (as_cm_UID m) = [])"
  using assms
  by (auto simp: validate_uid_def compileClaimsCELExpression_def Let_def programs_or_none_def
      split: if_splits sum.splits)

lemma extra_state:
  assumes "fst (validate_extra ve state m p) = []" and "ve_structured_authn ve"
    and "cm_map_Extra (vs_mapper state) = None"
  shows "vs_mapper (snd (validate_extra ve state m p)) = (vs_mapper state)
      \<lparr>cm_map_Extra := cm_map_Extra (vs_mapper (snd (validate_extra ve state m p)))\<rparr> \<and>
    programs (cm_map_Extra (vs_mapper (snd (validate_extra ve state m p)))) = programs_or_none
      [CompileClaimsExpression (ve_engine ve) (ExtraMappingExpression (as_em_Key x) (as_em_ValueExpression x)).
        x \<leftarrow> as_cm_Extra m] \<and>
    distinct (map as_em_Key (as_cm_Extra m)) \<and>
    list_all (\<lambda>x. \<not> isKubernetesDomainPrefix (as_em_Key x)) (as_cm_Extra m)"
proof -
  let ?s = "snd (scan_idx (extra_step ve p) 0 empty_scan (as_cm_Extra m))"
  have fst: "fst (scan_idx (extra_step ve p) 0 empty_scan (as_cm_Extra m)) = []"
    using assms(1) by (simp add: validate_extra_def split_beta)
  have eq: "map Inr (sc_results ?s) = [CompileClaimsExpression (ve_engine ve)
      (ExtraMappingExpression (as_em_Key x) (as_em_ValueExpression x)). x \<leftarrow> as_cm_Extra m]"
    using extra_results.scan_emits [OF fst] by (simp add: compiled_Nil) (simp add: compiled_def)
  have "distinct (map as_em_Key (as_cm_Extra m))"
    using extra_keys.scan_distinct [OF fst] by (simp add: concat_singletons)
  moreover have "list_all (\<lambda>x. \<not> isKubernetesDomainPrefix (as_em_Key x)) (as_cm_Extra m)"
    using scan_idx_each [OF fst] by (fastforce simp: list_all_iff dest: extra_step_accepts)
  ultimately show ?thesis
    unfolding eq [symmetric] using assms(2,3) by (auto simp: validate_extra_def split_beta programs_or_none_def)
qed

lemma user_rules_state:
  assumes "fst (validateUserValidationRules ve state rules p) = []" and "ve_structured_authn ve"
    and "cm_map_UserValidationRules (vs_mapper state) = None"
  shows "vs_mapper (snd (validateUserValidationRules ve state rules p)) = (vs_mapper state)
      \<lparr>cm_map_UserValidationRules :=
        cm_map_UserValidationRules (vs_mapper (snd (validateUserValidationRules ve state rules p)))\<rparr> \<and>
    programs (cm_map_UserValidationRules (vs_mapper (snd (validateUserValidationRules ve state rules p)))) =
      programs_or_none [CompileUserExpression (ve_engine ve)
        (UserValidationCondition (as_uvr_Expression rule) (as_uvr_Message rule)). rule \<leftarrow> rules]"
proof -
  let ?s = "snd (scan_idx (user_rule_step ve p) 0 empty_scan rules)"
  have fst: "fst (scan_idx (user_rule_step ve p) 0 empty_scan rules) = []"
    using assms(1) by (simp add: validateUserValidationRules_def split_beta)
  have eq: "map Inr (sc_results ?s) = [CompileUserExpression (ve_engine ve)
      (UserValidationCondition (as_uvr_Expression rule) (as_uvr_Message rule)). rule \<leftarrow> rules]"
    using user_results.scan_emits [OF fst] by (simp add: compiled_Nil) (simp add: compiled_def)
  show ?thesis
    unfolding eq [symmetric] using assms(2,3) by (auto simp: validateUserValidationRules_def split_beta programs_or_none_def)
qed

lemma claim_rules_compiled:
  assumes "validateClaimValidationRules ve state rules p = ([], s')" and "ve_structured_authn ve" and "cm_map_ClaimValidationRules (vs_mapper state) = None"
  obtains x where "vs_mapper s' = (vs_mapper state)\<lparr>cm_map_ClaimValidationRules := x\<rparr>"
    and "programs x = programs_or_none [CompileClaimsExpression (ve_engine ve)
          (ClaimValidationCondition (as_cvr_Expression rule) (as_cvr_Message rule)).
        rule \<leftarrow> rules, as_cvr_Expression rule \<noteq> []]"
  using claim_rules_state [of ve state rules p, unfolded assms(1) fst_conv snd_conv, OF refl assms(2,3)]
  by (elim conjE) (rule that)

lemma username_compiled:
  assumes "validate_username ve state m p = ([], s')" and "ve_structured_authn ve" and "cm_map_Username (vs_mapper state) = None"
  obtains x where "vs_mapper s' = (vs_mapper state)\<lparr>cm_map_Username := x\<rparr>"
    and "programs x = programs_or_none [CompileClaimsExpression (ve_engine ve) (ClaimMappingExpression e).
        e \<leftarrow> [as_pce_Expression (as_cm_Username m)], e \<noteq> []]"
    and "((as_pce_Expression (as_cm_Username m) = []) \<noteq> (as_pce_Claim (as_cm_Username m) = []))"
    and "(as_pce_Claim (as_cm_Username m) = [] \<longleftrightarrow> as_pce_Prefix (as_cm_Username m) = None)"
  using username_state [of ve state m p, unfolded assms(1) fst_conv snd_conv, OF refl assms(2,3)]
  by (elim conjE) (rule that)

lemma groups_compiled:
  assumes "validate_groups ve state m p = ([], s')" and "ve_structured_authn ve" and "cm_map_Groups (vs_mapper state) = None"
  obtains x where "vs_mapper s' = (vs_mapper state)\<lparr>cm_map_Groups := x\<rparr>"
    and "programs x = programs_or_none [CompileClaimsExpression (ve_engine ve) (ClaimMappingExpression e).
        e \<leftarrow> [as_pce_Expression (as_cm_Groups m)], e \<noteq> []]"
    and "as_pce_Expression (as_cm_Groups m) = [] \<or> as_pce_Claim (as_cm_Groups m) = []"
  using groups_state [of ve state m p, unfolded assms(1) fst_conv snd_conv, OF refl assms(2,3)]
  by (elim conjE) (rule that)

lemma uid_compiled:
  assumes "validate_uid ve state m p = ([], s')" and "ve_structured_authn ve" and "cm_map_UID (vs_mapper state) = None"
  obtains x where "vs_mapper s' = (vs_mapper state)\<lparr>cm_map_UID := x\<rparr>"
    and "programs x = programs_or_none [CompileClaimsExpression (ve_engine ve) (ClaimMappingExpression e).
        e \<leftarrow> [as_ce_Expression (as_cm_UID m)], e \<noteq> []]"
    and "as_ce_Expression (as_cm_UID m) = [] \<or> as_ce_Claim (as_cm_UID m) = []"
  using uid_state [of ve state m p, unfolded assms(1) fst_conv snd_conv, OF refl assms(2,3)]
  by (elim conjE) (rule that)

lemma extra_compiled:
  assumes "validate_extra ve state m p = ([], s')" and "ve_structured_authn ve" and "cm_map_Extra (vs_mapper state) = None"
  obtains x where "vs_mapper s' = (vs_mapper state)\<lparr>cm_map_Extra := x\<rparr>"
    and "programs x = programs_or_none [CompileClaimsExpression (ve_engine ve) (ExtraMappingExpression (as_em_Key x) (as_em_ValueExpression x)).
        x \<leftarrow> as_cm_Extra m]"
    and "distinct (map as_em_Key (as_cm_Extra m))"
    and "list_all (\<lambda>x. \<not> isKubernetesDomainPrefix (as_em_Key x)) (as_cm_Extra m)"
  using extra_state [of ve state m p, unfolded assms(1) fst_conv snd_conv, OF refl assms(2,3)]
  by (elim conjE) (rule that)

lemma user_rules_compiled:
  assumes "validateUserValidationRules ve state rules p = ([], s')" and "ve_structured_authn ve" and "cm_map_UserValidationRules (vs_mapper state) = None"
  obtains x where "vs_mapper s' = (vs_mapper state)\<lparr>cm_map_UserValidationRules := x\<rparr>"
    and "programs x = programs_or_none [CompileUserExpression (ve_engine ve)
        (UserValidationCondition (as_uvr_Expression rule) (as_uvr_Message rule)). rule \<leftarrow> rules]"
  using user_rules_state [of ve state rules p, unfolded assms(1) fst_conv snd_conv, OF refl assms(2,3)]
  by (elim conjE) (rule that)

section \<open>Properties\<close>

lemma append_if_Nil: "xs @ (if P then [e] else []) = [] \<longleftrightarrow> xs = [] \<and> \<not> P"
  by simp

lemma validateJWTAuthenticator_steps:
  assumes "validateJWTAuthenticator ve a p dis = (m, [])"
  obtains s2 s3 s4 where
    "validateIssuer ve (as_jwt_Issuer a) dis (child p ''issuer'') = []"
    "validateClaimValidationRules ve empty_validation_state (as_jwt_ClaimValidationRules a)
      (child p ''claimValidationRules'') = ([], s2)"
    "validateClaimMappings ve s2 (as_jwt_ClaimMappings a) (child p ''claimMappings'') = ([], s3)"
    "validateUserValidationRules ve s3 (as_jwt_UserValidationRules a) (child p ''userValidationRules'') = ([], s4)"
    "vs_mapper s4 = m"
  using assms by (auto simp: validateJWTAuthenticator_def Let_def split_beta prod_eq_iff)

lemma validateClaimMappings_steps:
  assumes "validateClaimMappings ve s m p = ([], s4)"
  obtains s1 s2 s3 where
    "validate_username ve s m p = ([], s1)" "validate_groups ve s1 m p = ([], s2)"
    "validate_uid ve s2 m p = ([], s3)" "validate_extra ve s3 m p = ([], s4)"
    "ve_structured_authn ve \<longrightarrow> vs_usesEmailClaim s4 \<longrightarrow> vs_usesEmailVerifiedClaim s4"
  using assms by (auto simp: validateClaimMappings_def Let_def split_beta prod_eq_iff split: if_splits)

lemma mapper_is_configuration:
  assumes "CompileAndValidateJWTAuthenticator ve a dis = (m, [])" and "ve_structured_authn ve"
  shows "programs (cm_map_Username m) = programs_or_none
      [CompileClaimsExpression (ve_engine ve) (ClaimMappingExpression e).
        e \<leftarrow> [as_pce_Expression (as_cm_Username (as_jwt_ClaimMappings a))], e \<noteq> []] \<and>
    programs (cm_map_Groups m) = programs_or_none
      [CompileClaimsExpression (ve_engine ve) (ClaimMappingExpression e).
        e \<leftarrow> [as_pce_Expression (as_cm_Groups (as_jwt_ClaimMappings a))], e \<noteq> []] \<and>
    programs (cm_map_UID m) = programs_or_none
      [CompileClaimsExpression (ve_engine ve) (ClaimMappingExpression e).
        e \<leftarrow> [as_ce_Expression (as_cm_UID (as_jwt_ClaimMappings a))], e \<noteq> []] \<and>
    programs (cm_map_Extra m) = programs_or_none
      [CompileClaimsExpression (ve_engine ve) (ExtraMappingExpression (as_em_Key x) (as_em_ValueExpression x)).
        x \<leftarrow> as_cm_Extra (as_jwt_ClaimMappings a)] \<and>
    programs (cm_map_ClaimValidationRules m) = programs_or_none
      [CompileClaimsExpression (ve_engine ve) (ClaimValidationCondition (as_cvr_Expression rule) (as_cvr_Message rule)).
        rule \<leftarrow> as_jwt_ClaimValidationRules a, as_cvr_Expression rule \<noteq> []] \<and>
    programs (cm_map_UserValidationRules m) = programs_or_none
      [CompileUserExpression (ve_engine ve) (UserValidationCondition (as_uvr_Expression rule) (as_uvr_Message rule)).
        rule \<leftarrow> as_jwt_UserValidationRules a]"
proof -
  from assms(1) obtain s2 s3 s4 where
    rules: "validateClaimValidationRules ve empty_validation_state (as_jwt_ClaimValidationRules a)
      (child [] ''claimValidationRules'') = ([], s2)"
    and maps: "validateClaimMappings ve s2 (as_jwt_ClaimMappings a) (child [] ''claimMappings'') = ([], s3)"
    and users: "validateUserValidationRules ve s3 (as_jwt_UserValidationRules a)
      (child [] ''userValidationRules'') = ([], s4)" and m: "vs_mapper s4 = m"
    unfolding CompileAndValidateJWTAuthenticator_def by (rule validateJWTAuthenticator_steps)
  from maps obtain t1 t2 t3 where
    t: "validate_username ve s2 (as_jwt_ClaimMappings a) (child [] ''claimMappings'') = ([], t1)"
      "validate_groups ve t1 (as_jwt_ClaimMappings a) (child [] ''claimMappings'') = ([], t2)"
      "validate_uid ve t2 (as_jwt_ClaimMappings a) (child [] ''claimMappings'') = ([], t3)"
      "validate_extra ve t3 (as_jwt_ClaimMappings a) (child [] ''claimMappings'') = ([], s3)"
    by (rule validateClaimMappings_steps)
  have e: "vs_mapper empty_validation_state = empty_cel_mapper"
    by (simp add: empty_validation_state_def)
  obtain x1 where x1: "vs_mapper s2 = empty_cel_mapper\<lparr>cm_map_ClaimValidationRules := x1\<rparr>"
    and p1: "programs x1 = programs_or_none
      [CompileClaimsExpression (ve_engine ve) (ClaimValidationCondition (as_cvr_Expression rule) (as_cvr_Message rule)).
        rule \<leftarrow> as_jwt_ClaimValidationRules a, as_cvr_Expression rule \<noteq> []]"
    by (rule claim_rules_compiled [OF rules assms(2)]) (simp_all add: e empty_cel_mapper_fields)
  obtain x2 where x2: "vs_mapper t1 = (vs_mapper s2)\<lparr>cm_map_Username := x2\<rparr>"
    and p2: "programs x2 = programs_or_none [CompileClaimsExpression (ve_engine ve) (ClaimMappingExpression e).
        e \<leftarrow> [as_pce_Expression (as_cm_Username (as_jwt_ClaimMappings a))], e \<noteq> []]"
    by (rule username_compiled [OF t(1) assms(2)]) (simp_all add: x1 empty_cel_mapper_def)
  obtain x3 where x3: "vs_mapper t2 = (vs_mapper t1)\<lparr>cm_map_Groups := x3\<rparr>"
    and p3: "programs x3 = programs_or_none [CompileClaimsExpression (ve_engine ve) (ClaimMappingExpression e).
        e \<leftarrow> [as_pce_Expression (as_cm_Groups (as_jwt_ClaimMappings a))], e \<noteq> []]"
    by (rule groups_compiled [OF t(2) assms(2)]) (simp_all add: x1 x2 empty_cel_mapper_def)
  obtain x4 where x4: "vs_mapper t3 = (vs_mapper t2)\<lparr>cm_map_UID := x4\<rparr>"
    and p4: "programs x4 = programs_or_none [CompileClaimsExpression (ve_engine ve) (ClaimMappingExpression e).
        e \<leftarrow> [as_ce_Expression (as_cm_UID (as_jwt_ClaimMappings a))], e \<noteq> []]"
    by (rule uid_compiled [OF t(3) assms(2)]) (simp_all add: x1 x2 x3 empty_cel_mapper_def)
  obtain x5 where x5: "vs_mapper s3 = (vs_mapper t3)\<lparr>cm_map_Extra := x5\<rparr>"
    and p5: "programs x5 = programs_or_none
      [CompileClaimsExpression (ve_engine ve) (ExtraMappingExpression (as_em_Key x) (as_em_ValueExpression x)).
        x \<leftarrow> as_cm_Extra (as_jwt_ClaimMappings a)]"
    by (rule extra_compiled [OF t(4) assms(2)]) (simp_all add: x1 x2 x3 x4 empty_cel_mapper_def)
  obtain x6 where x6: "m = (vs_mapper s3)\<lparr>cm_map_UserValidationRules := x6\<rparr>"
    and p6: "programs x6 = programs_or_none
      [CompileUserExpression (ve_engine ve) (UserValidationCondition (as_uvr_Expression rule) (as_uvr_Message rule)).
        rule \<leftarrow> as_jwt_UserValidationRules a]"
    by (rule user_rules_compiled [OF users assms(2)]) (simp_all add: m x1 x2 x3 x4 x5 empty_cel_mapper_def)
  show ?thesis
    unfolding p1 [symmetric] p2 [symmetric] p3 [symmetric] p4 [symmetric] p5 [symmetric] p6 [symmetric]
    by (simp add: x1 x2 x3 x4 x5 x6)
qed

text \<open>
  C32: the mapper that validation compiles for an authenticator it accepts evaluates exactly the
  authenticator's expressions: for each of the six kinds of expressions it holds the programs the
  compiler gives for the configured expressions, in their order and with their keys and messages,
  and nothing where none is configured.
\<close>

theorem validated_mapper_is_configuration:
  assumes "CompileAndValidateJWTAuthenticator ve a dis = (m, [])" and "ve_structured_authn ve"
  shows "programs (cm_map_Username m) = programs_or_none
      [CompileClaimsExpression (ve_engine ve) (ClaimMappingExpression e).
        e \<leftarrow> [as_pce_Expression (as_cm_Username (as_jwt_ClaimMappings a))], e \<noteq> []] \<and>
    programs (cm_map_Groups m) = programs_or_none
      [CompileClaimsExpression (ve_engine ve) (ClaimMappingExpression e).
        e \<leftarrow> [as_pce_Expression (as_cm_Groups (as_jwt_ClaimMappings a))], e \<noteq> []] \<and>
    programs (cm_map_UID m) = programs_or_none
      [CompileClaimsExpression (ve_engine ve) (ClaimMappingExpression e).
        e \<leftarrow> [as_ce_Expression (as_cm_UID (as_jwt_ClaimMappings a))], e \<noteq> []] \<and>
    programs (cm_map_Extra m) = programs_or_none
      [CompileClaimsExpression (ve_engine ve) (ExtraMappingExpression (as_em_Key x) (as_em_ValueExpression x)).
        x \<leftarrow> as_cm_Extra (as_jwt_ClaimMappings a)] \<and>
    programs (cm_map_ClaimValidationRules m) = programs_or_none
      [CompileClaimsExpression (ve_engine ve) (ClaimValidationCondition (as_cvr_Expression rule) (as_cvr_Message rule)).
        rule \<leftarrow> as_jwt_ClaimValidationRules a, as_cvr_Expression rule \<noteq> []] \<and>
    programs (cm_map_UserValidationRules m) = programs_or_none
      [CompileUserExpression (ve_engine ve) (UserValidationCondition (as_uvr_Expression rule) (as_uvr_Message rule)).
        rule \<leftarrow> as_jwt_UserValidationRules a]"
  by (rule mapper_is_configuration [OF assms])

definition sample_ve :: validation_env where
  "sample_ve = \<lparr>ve_engine = sample_engine, ve_structured_authn = True, ve_egress_selector = False,
     ve_anonymous_endpoints = True, ve_NewPoolFromBytes = (\<lambda>_. None),
     ve_IsDomainPrefixedPath = (\<lambda>_ _. []), ve_ToLower = map ToLower_byte, ve_ip_literal = (\<lambda>_. None)\<rparr>"

definition sample_as_jwt :: as_jwt_authenticator where
  "sample_as_jwt = \<lparr>
     as_jwt_Issuer = zero_as_issuer\<lparr>as_issuer_URL := ''https://idp'', as_issuer_Audiences := [''aud'']\<rparr>,
     as_jwt_ClaimValidationRules = [\<lparr>as_cvr_Claim = [], as_cvr_RequiredValue = [],
        as_cvr_Expression = ''true'', as_cvr_Message = ''m''\<rparr>],
     as_jwt_ClaimMappings = zero_as_claim_mappings
       \<lparr>as_cm_Username := \<lparr>as_pce_Claim = [], as_pce_Prefix = None, as_pce_Expression = ''claims.sub''\<rparr>\<rparr>,
     as_jwt_UserValidationRules = []\<rparr>"

lemma sample_url_ok:
  "url_Parse (\<lambda>_. None) ''https://idp'' = Inr \<lparr>Scheme = ''https'', Opaque = [], User = None, Host = ''idp'',
     UrlPath = [], RawQuery = [], Fragment = []\<rparr>"
  by code_simp

lemma sample_issuer_valid: "validateIssuer sample_ve (as_jwt_Issuer sample_as_jwt) {} p = []"
  by (simp add: validateIssuer_def validateIssuerURL_def validateIssuerDiscoveryURL_def validateURL_def
      validateAudiences_def audience_step_def validateCertificateAuthority_def validateEgressSelector_def
      sample_as_jwt_def sample_ve_def zero_as_issuer_def sample_url_ok)

lemma sample_valid_at: "snd (validateJWTAuthenticator sample_ve sample_as_jwt q {}) = []"
proof -
  have rules: "fst (validateClaimValidationRules sample_ve s (as_jwt_ClaimValidationRules sample_as_jwt) p) = []
    \<and> vs_usesEmailClaim (snd (validateClaimValidationRules sample_ve s (as_jwt_ClaimValidationRules sample_as_jwt) p))
      = vs_usesEmailClaim s" for s p
    by (simp add: validateClaimValidationRules_def claim_rule_step_def compileClaimsCELExpression_def
        sample_as_jwt_def sample_ve_def sample_defs empty_scan_def split_beta Let_def)
  have maps: "fst (validateClaimMappings sample_ve s (as_jwt_ClaimMappings sample_as_jwt) p) = []"
    if "\<not> vs_usesEmailClaim s" for s p
    using that
    by (simp add: validateClaimMappings_def validate_gates_def validate_username_def validate_groups_def
        validate_uid_def validate_extra_def validatePrefixClaimOrExpression_def compileClaimsCELExpression_def
        sample_as_jwt_def sample_ve_def sample_defs zero_as_claim_mappings_def zero_as_pce_def
        usesEmailClaim_def hasSelectExp_def split_beta Let_def)
  have users: "fst (validateUserValidationRules sample_ve s (as_jwt_UserValidationRules sample_as_jwt) p) = []" for s p
    by (simp add: validateUserValidationRules_def sample_as_jwt_def Let_def)
  show ?thesis
    by (simp add: validateJWTAuthenticator_def split_beta
        sample_issuer_valid rules maps users empty_validation_state_def)
qed

lemma sample_valid: "snd (CompileAndValidateJWTAuthenticator sample_ve sample_as_jwt {}) = []"
  by (simp add: CompileAndValidateJWTAuthenticator_def sample_valid_at)

theorem validated_mapper_is_configuration_witness:
  "programs (cm_map_Username (fst (CompileAndValidateJWTAuthenticator sample_ve sample_as_jwt {})))
     = Some [CompileClaimsExpression sample_engine (ClaimMappingExpression ''claims.sub'')]"
  using validated_mapper_is_configuration
    [of sample_ve sample_as_jwt "{}" "fst (CompileAndValidateJWTAuthenticator sample_ve sample_as_jwt {})"]
  by (simp add: sample_valid prod_eq_iff)
    (simp add: sample_as_jwt_def sample_ve_def zero_as_claim_mappings_def programs_or_none_def)

lemma issuer_accepted:
  assumes "CompileAndValidateJWTAuthenticator ve a dis = (m, [])"
  shows "(\<exists>u. url_Parse (ve_ip_literal ve) (as_issuer_URL (as_jwt_Issuer a)) = Inr u \<and> Scheme u = ''https'' \<and>
      User u = None \<and> RawQuery u = [] \<and> Fragment u = []) \<and>
    as_issuer_URL (as_jwt_Issuer a) \<notin> dis \<and>
    as_issuer_Audiences (as_jwt_Issuer a) \<noteq> [] \<and> distinct (as_issuer_Audiences (as_jwt_Issuer a)) \<and>
    [] \<notin> set (as_issuer_Audiences (as_jwt_Issuer a)) \<and>
    (length (as_issuer_Audiences (as_jwt_Issuer a)) = 1 \<or>
      as_issuer_AudienceMatchPolicy (as_jwt_Issuer a) = AudienceMatchPolicyMatchAny) \<and>
    (as_issuer_DiscoveryURL (as_jwt_Issuer a) = [] \<or>
      (\<exists>d. url_Parse (ve_ip_literal ve) (as_issuer_DiscoveryURL (as_jwt_Issuer a)) = Inr d \<and> Scheme d = ''https'') \<and>
      TrimRight_char CHR ''/'' (as_issuer_URL (as_jwt_Issuer a))
        \<noteq> TrimRight_char CHR ''/'' (as_issuer_DiscoveryURL (as_jwt_Issuer a)))"
proof -
  let ?i = "as_jwt_Issuer a"
  have url: "s \<notin> d \<and> (\<exists>u. url_Parse (ve_ip_literal ve) s = Inr u \<and> Scheme u = ''https'' \<and>
      User u = None \<and> RawQuery u = [] \<and> Fragment u = [])" if "validateURL ve s d p = []" for s d p
    using that by (auto simp: validateURL_def split: if_splits sum.splits)
  from assms have v: "validateIssuer ve ?i dis (child [] ''issuer'') = []"
    unfolding CompileAndValidateJWTAuthenticator_def by (rule validateJWTAuthenticator_steps)
  then have 1: "as_issuer_URL ?i \<noteq> []" "validateURL ve (as_issuer_URL ?i) dis (child (child [] ''issuer'') ''url'') = []"
    by (auto simp: validateIssuer_def validateIssuerURL_def split: if_splits)
  from v have d: "as_issuer_DiscoveryURL ?i = [] \<or>
      (validateURL ve (as_issuer_DiscoveryURL ?i) {} (child (child [] ''issuer'') ''discoveryURL'') = [] \<and>
       TrimRight_char CHR ''/'' (as_issuer_URL ?i) \<noteq> TrimRight_char CHR ''/'' (as_issuer_DiscoveryURL ?i))"
    using 1(1) by (auto simp: validateIssuer_def validateIssuerDiscoveryURL_def split: if_splits)
  from v have aud: "as_issuer_Audiences ?i \<noteq> []"
      "fst (scan_idx (audience_step (child (child [] ''issuer'') ''audiences'')) 0 {} (as_issuer_Audiences ?i)) = []"
      "length (as_issuer_Audiences ?i) > 1 \<longrightarrow> as_issuer_AudienceMatchPolicy ?i = AudienceMatchPolicyMatchAny"
    by (auto simp: validateIssuer_def validateAudiences_def split: if_splits)
  have "distinct (as_issuer_Audiences ?i)"
    using audiences.scan_distinct [OF aud(2)] by simp
  moreover have "[] \<notin> set (as_issuer_Audiences ?i)"
    using scan_idx_each [OF aud(2)] by (fastforce simp: audience_step_def)
  moreover have "length (as_issuer_Audiences ?i) = 1 \<or> as_issuer_AudienceMatchPolicy ?i = AudienceMatchPolicyMatchAny"
    using aud(1,3) by (cases "as_issuer_Audiences ?i") auto
  ultimately show ?thesis using url [OF 1(2)] url d aud(1) by metis
qed

text \<open>
  C35: an authenticator that validation accepts has an https issuer URL without user, query or fragment
  that is not disallowed, and a non-empty list of distinct, non-empty audiences; if it has more than
  one audience its match policy is \<open>MatchAny\<close>; a discovery URL, if set, is an https URL as well and
  differs from the issuer URL by more than trailing slashes.
\<close>

theorem validated_issuer:
  assumes "CompileAndValidateJWTAuthenticator ve a dis = (m, [])"
  shows "(\<exists>u. url_Parse (ve_ip_literal ve) (as_issuer_URL (as_jwt_Issuer a)) = Inr u \<and> Scheme u = ''https'' \<and>
      User u = None \<and> RawQuery u = [] \<and> Fragment u = []) \<and>
    as_issuer_URL (as_jwt_Issuer a) \<notin> dis \<and>
    as_issuer_Audiences (as_jwt_Issuer a) \<noteq> [] \<and> distinct (as_issuer_Audiences (as_jwt_Issuer a)) \<and>
    [] \<notin> set (as_issuer_Audiences (as_jwt_Issuer a)) \<and>
    (length (as_issuer_Audiences (as_jwt_Issuer a)) = 1 \<or>
      as_issuer_AudienceMatchPolicy (as_jwt_Issuer a) = AudienceMatchPolicyMatchAny) \<and>
    (as_issuer_DiscoveryURL (as_jwt_Issuer a) = [] \<or>
      (\<exists>d. url_Parse (ve_ip_literal ve) (as_issuer_DiscoveryURL (as_jwt_Issuer a)) = Inr d \<and> Scheme d = ''https'') \<and>
      TrimRight_char CHR ''/'' (as_issuer_URL (as_jwt_Issuer a))
        \<noteq> TrimRight_char CHR ''/'' (as_issuer_DiscoveryURL (as_jwt_Issuer a)))"
  using assms by (rule issuer_accepted)

theorem validated_issuer_witness:
  "as_issuer_Audiences (as_jwt_Issuer sample_as_jwt) \<noteq> []"
  using validated_issuer
    [of sample_ve sample_as_jwt "{}" "fst (CompileAndValidateJWTAuthenticator sample_ve sample_as_jwt {})"]
  by (simp add: sample_valid prod_eq_iff)

text \<open>
  In an accepted authenticator the user name comes from exactly one of a claim and an expression, the
  prefix is given exactly with a claim; groups and UID come from at most one of the two; the keys of the
  extra mappings are distinct and none of them lies in a domain reserved for Kubernetes.
\<close>

theorem validated_claim_mappings:
  assumes "CompileAndValidateJWTAuthenticator ve a dis = (m, [])" and "ve_structured_authn ve"
  shows "((as_pce_Expression (as_cm_Username (as_jwt_ClaimMappings a)) = [])
      \<noteq> (as_pce_Claim (as_cm_Username (as_jwt_ClaimMappings a)) = [])) \<and>
    (as_pce_Claim (as_cm_Username (as_jwt_ClaimMappings a)) = []
      \<longleftrightarrow> as_pce_Prefix (as_cm_Username (as_jwt_ClaimMappings a)) = None) \<and>
    (as_pce_Expression (as_cm_Groups (as_jwt_ClaimMappings a)) = []
      \<or> as_pce_Claim (as_cm_Groups (as_jwt_ClaimMappings a)) = []) \<and>
    (as_ce_Expression (as_cm_UID (as_jwt_ClaimMappings a)) = []
      \<or> as_ce_Claim (as_cm_UID (as_jwt_ClaimMappings a)) = []) \<and>
    distinct (map as_em_Key (as_cm_Extra (as_jwt_ClaimMappings a))) \<and>
    list_all (\<lambda>x. \<not> isKubernetesDomainPrefix (as_em_Key x)) (as_cm_Extra (as_jwt_ClaimMappings a))"
proof -
  let ?m = "as_jwt_ClaimMappings a" and ?p = "child [] ''claimMappings''"
  from assms(1) obtain s2 s3 where
    rules: "validateClaimValidationRules ve empty_validation_state (as_jwt_ClaimValidationRules a)
      (child [] ''claimValidationRules'') = ([], s2)"
    and maps: "validateClaimMappings ve s2 ?m ?p = ([], s3)"
    unfolding CompileAndValidateJWTAuthenticator_def by (rule validateJWTAuthenticator_steps)
  from maps obtain t1 t2 t3 where
    t: "validate_username ve s2 ?m ?p = ([], t1)" "validate_groups ve t1 ?m ?p = ([], t2)"
      "validate_uid ve t2 ?m ?p = ([], t3)" "validate_extra ve t3 ?m ?p = ([], s3)"
    by (rule validateClaimMappings_steps)
  obtain x1 where x1: "vs_mapper s2 = empty_cel_mapper\<lparr>cm_map_ClaimValidationRules := x1\<rparr>"
    by (rule claim_rules_compiled [OF rules assms(2)])
      (simp_all add: empty_validation_state_def empty_cel_mapper_fields)
  obtain x2 where x2: "vs_mapper t1 = (vs_mapper s2)\<lparr>cm_map_Username := x2\<rparr>"
    and u: "(as_pce_Expression (as_cm_Username ?m) = []) \<noteq> (as_pce_Claim (as_cm_Username ?m) = [])"
      "as_pce_Claim (as_cm_Username ?m) = [] \<longleftrightarrow> as_pce_Prefix (as_cm_Username ?m) = None"
    by (rule username_compiled [OF t(1) assms(2)]) (simp_all add: x1 empty_cel_mapper_def)
  obtain x3 where x3: "vs_mapper t2 = (vs_mapper t1)\<lparr>cm_map_Groups := x3\<rparr>"
    and g: "as_pce_Expression (as_cm_Groups ?m) = [] \<or> as_pce_Claim (as_cm_Groups ?m) = []"
    by (rule groups_compiled [OF t(2) assms(2)]) (simp_all add: x1 x2 empty_cel_mapper_def)
  obtain x4 where x4: "vs_mapper t3 = (vs_mapper t2)\<lparr>cm_map_UID := x4\<rparr>"
    and i: "as_ce_Expression (as_cm_UID ?m) = [] \<or> as_ce_Claim (as_cm_UID ?m) = []"
    by (rule uid_compiled [OF t(3) assms(2)]) (simp_all add: x1 x2 x3 empty_cel_mapper_def)
  have e: "distinct (map as_em_Key (as_cm_Extra ?m))"
    "list_all (\<lambda>x. \<not> isKubernetesDomainPrefix (as_em_Key x)) (as_cm_Extra ?m)"
    by (rule extra_compiled [OF t(4) assms(2)]; simp add: x1 x2 x3 x4 empty_cel_mapper_def)+
  from u g i e show ?thesis by blast
qed

theorem validated_claim_mappings_witness:
  "(as_pce_Claim (as_cm_Username (as_jwt_ClaimMappings sample_as_jwt)) = [])
     = (as_pce_Prefix (as_cm_Username (as_jwt_ClaimMappings sample_as_jwt)) = None)"
  using validated_claim_mappings
    [of sample_ve sample_as_jwt "{}" "fst (CompileAndValidateJWTAuthenticator sample_ve sample_as_jwt {})"]
  by (simp add: sample_valid prod_eq_iff) (simp add: sample_ve_def)

section \<open>The rule for verified emails\<close>

text \<open>The programs that may read \<open>claims.email_verified\<close>, and what the state records of them.\<close>

definition verifying_programs :: "cel_mapper \<Rightarrow> compilation_result list" where
  "verifying_programs m = concat (map (\<lambda>x. case x of None \<Rightarrow> [] | Some rs \<Rightarrow> rs)
     [cm_map_Username m, cm_map_Extra m, cm_map_ClaimValidationRules m])"

definition emails_recorded :: "validation_state \<Rightarrow> bool" where
  "emails_recorded s \<longleftrightarrow>
     (vs_usesEmailVerifiedClaim s \<longrightarrow> anyUsesEmailVerifiedClaim (verifying_programs (vs_mapper s)))"

lemma verifying_programs_cases:
  "anyUsesEmailVerifiedClaim (verifying_programs m) \<longleftrightarrow>
     (\<exists>rs. (cm_map_Username m = Some rs \<or> cm_map_Extra m = Some rs \<or> cm_map_ClaimValidationRules m = Some rs) \<and>
       anyUsesEmailVerifiedClaim rs)"
  by (auto simp: verifying_programs_def anyUsesEmailVerifiedClaim_def split: option.splits)

lemma anyUses_single: "anyUsesEmailVerifiedClaim [r] = usesEmailVerifiedClaim (cr_AST r)"
  by (simp add: anyUsesEmailVerifiedClaim_def)

lemma claim_rules_record_emails:
  assumes "validateClaimValidationRules ve empty_validation_state rules p = (e, s')"
  shows "emails_recorded s' \<and> \<not> vs_usesEmailClaim s' \<and> cm_map_Username (vs_mapper s') = None \<and>
    cm_map_Extra (vs_mapper s') = None"
  using assms
  by (auto simp: validateClaimValidationRules_def split_beta empty_validation_state_def emails_recorded_def
      verifying_programs_cases split: if_splits)

lemma username_records_emails:
  assumes "validate_username ve s m p = (e, s')" and "emails_recorded s"
    and "\<not> vs_usesEmailClaim s" and "cm_map_Username (vs_mapper s) = None"
  shows "emails_recorded s' \<and> cm_map_Extra (vs_mapper s') = cm_map_Extra (vs_mapper s) \<and>
    (\<forall>r. cm_map_Username (vs_mapper s') = Some [r] \<longrightarrow> vs_usesEmailClaim s' = usesEmailClaim (cr_AST r))"
  using assms
  by (auto simp: validate_username_def split_beta emails_recorded_def verifying_programs_cases
      anyUses_single Let_def split: if_splits option.splits)

lemma groups_keep_emails:
  assumes "validate_groups ve s m p = (e, s')"
  shows "emails_recorded s' = emails_recorded s \<and> vs_usesEmailClaim s' = vs_usesEmailClaim s \<and>
    cm_map_Username (vs_mapper s') = cm_map_Username (vs_mapper s) \<and>
    cm_map_Extra (vs_mapper s') = cm_map_Extra (vs_mapper s)"
  using assms
  by (auto simp: validate_groups_def split_beta emails_recorded_def verifying_programs_def
      Let_def split: if_splits option.splits)

lemma uid_keeps_emails:
  assumes "validate_uid ve s m p = (e, s')"
  shows "emails_recorded s' = emails_recorded s \<and> vs_usesEmailClaim s' = vs_usesEmailClaim s \<and>
    cm_map_Username (vs_mapper s') = cm_map_Username (vs_mapper s) \<and>
    cm_map_Extra (vs_mapper s') = cm_map_Extra (vs_mapper s)"
  using assms
  by (auto simp: validate_uid_def emails_recorded_def verifying_programs_def Let_def split: if_splits sum.splits)

lemma extra_records_emails:
  assumes "validate_extra ve s m p = (e, s')" and "emails_recorded s" and "cm_map_Extra (vs_mapper s) = None"
  shows "emails_recorded s' \<and> vs_usesEmailClaim s' = vs_usesEmailClaim s \<and>
    cm_map_Username (vs_mapper s') = cm_map_Username (vs_mapper s)"
  using assms
  by (auto simp: validate_extra_def split_beta emails_recorded_def verifying_programs_cases split: if_splits)

lemma user_rules_keep_programs:
  assumes "validateUserValidationRules ve s rules p = (e, s')"
  shows "verifying_programs (vs_mapper s') = verifying_programs (vs_mapper s) \<and>
    cm_map_Username (vs_mapper s') = cm_map_Username (vs_mapper s)"
  using assms
  by (auto simp: validateUserValidationRules_def split_beta verifying_programs_def split: if_splits)

text \<open>
  C31: if validation accepts an authenticator whose compiled user name expression selects
  \<open>claims.email\<close>, then some program among the user name expression, the extra expressions and the
  claim validation rules selects \<open>claims.email_verified\<close>.
\<close>

theorem email_expression_needs_verification:
  assumes "CompileAndValidateJWTAuthenticator ve a dis = (m, [])" and "ve_structured_authn ve"
    and "cm_map_Username m = Some [r]" and "usesEmailClaim (cr_AST r)"
  shows "anyUsesEmailVerifiedClaim (verifying_programs m)"
proof -
  from assms(1) obtain s2 s3 s4 where
    rules: "validateClaimValidationRules ve empty_validation_state (as_jwt_ClaimValidationRules a)
      (child [] ''claimValidationRules'') = ([], s2)"
    and maps: "validateClaimMappings ve s2 (as_jwt_ClaimMappings a) (child [] ''claimMappings'') = ([], s3)"
    and users: "validateUserValidationRules ve s3 (as_jwt_UserValidationRules a)
      (child [] ''userValidationRules'') = ([], s4)" and m: "vs_mapper s4 = m"
    unfolding CompileAndValidateJWTAuthenticator_def by (rule validateJWTAuthenticator_steps)
  from maps obtain t1 t2 t3 where
    t: "validate_username ve s2 (as_jwt_ClaimMappings a) (child [] ''claimMappings'') = ([], t1)"
      "validate_groups ve t1 (as_jwt_ClaimMappings a) (child [] ''claimMappings'') = ([], t2)"
      "validate_uid ve t2 (as_jwt_ClaimMappings a) (child [] ''claimMappings'') = ([], t3)"
      "validate_extra ve t3 (as_jwt_ClaimMappings a) (child [] ''claimMappings'') = ([], s3)"
      and verified: "ve_structured_authn ve \<longrightarrow> vs_usesEmailClaim s3 \<longrightarrow> vs_usesEmailVerifiedClaim s3"
    by (rule validateClaimMappings_steps)
  have 0: "emails_recorded s2" "\<not> vs_usesEmailClaim s2" "cm_map_Username (vs_mapper s2) = None"
    "cm_map_Extra (vs_mapper s2) = None" using claim_rules_record_emails [OF rules] by simp_all
  note 1 = username_records_emails [OF t(1) 0(1-3)]
  note 2 = groups_keep_emails [OF t(2)] and 3 = uid_keeps_emails [OF t(3)]
  have 4: "emails_recorded s3 \<and> vs_usesEmailClaim s3 = vs_usesEmailClaim t3 \<and>
    cm_map_Username (vs_mapper s3) = cm_map_Username (vs_mapper t3)"
    by (rule extra_records_emails [OF t(4)]) (simp_all add: 0 1 2 3)
  note 5 = user_rules_keep_programs [OF users]
  have "cm_map_Username (vs_mapper t1) = Some [r]" using 2 3 4 5 m assms(3) by metis
  then have "vs_usesEmailClaim s3" using 1 2 3 4 assms(4) by simp
  then have "vs_usesEmailVerifiedClaim s3" using verified assms(2) by simp
  then have "anyUsesEmailVerifiedClaim (verifying_programs (vs_mapper s3))"
    using 4 by (simp add: emails_recorded_def)
  then show ?thesis using 5 m by simp
qed

definition email_as_jwt :: as_jwt_authenticator where
  "email_as_jwt = sample_as_jwt\<lparr>as_jwt_ClaimMappings := zero_as_claim_mappings
     \<lparr>as_cm_Username := \<lparr>as_pce_Claim = [], as_pce_Prefix = None, as_pce_Expression = ''claims.email''\<rparr>,
      as_cm_Extra := [\<lparr>as_em_Key = ''example.org/verified'', as_em_ValueExpression = ''claims.email_verified''\<rparr>]\<rparr>\<rparr>"

lemma email_programs:
  obtains u x where
    "compileClaimsCELExpression sample_ve (ClaimMappingExpression ''claims.email'') q = Inr u"
    and "usesEmailClaim (cr_AST u)"
    and "compileClaimsCELExpression sample_ve
      (ExtraMappingExpression ''example.org/verified'' ''claims.email_verified'') q' = Inr x"
    and "usesEmailVerifiedClaim (cr_AST x)"
  by (simp add: compileClaimsCELExpression_def sample_ve_def sample_defs usesEmailClaim_def
      usesEmailVerifiedClaim_def hasSelectExp_def isIdentOperand_def)

lemma email_key: "\<not> isKubernetesDomainPrefix ''example.org/verified''"
  "ve_ToLower sample_ve ''example.org/verified'' = ''example.org/verified''"
  "ve_IsDomainPrefixedPath sample_ve q k = []"
  by code_simp (unfold sample_ve_def validation_env.simps, code_simp, rule refl)

lemma email_maps_valid:
  assumes "\<not> vs_usesEmailClaim s"
  obtains s' r where "validateClaimMappings sample_ve s (as_jwt_ClaimMappings email_as_jwt) p = ([], s')"
    and "cm_map_Username (vs_mapper s') = Some [r]" and "usesEmailClaim (cr_AST r)"
proof -
  let ?q = "child (child p ''username'') ''expression''"
  let ?q' = "child (index (child p ''extra'') 0) ''valueExpression''"
  obtain u x where
    c: "compileClaimsCELExpression sample_ve (ClaimMappingExpression ''claims.email'') ?q = Inr u"
      "compileClaimsCELExpression sample_ve
        (ExtraMappingExpression ''example.org/verified'' ''claims.email_verified'') ?q' = Inr x"
    and m: "usesEmailClaim (cr_AST u)" "usesEmailVerifiedClaim (cr_AST x)"
    by (rule email_programs)
  note c = c [simplified]
  let ?m = "as_jwt_ClaimMappings email_as_jwt"
  let ?s1 = "s\<lparr>vs_usesEmailClaim := True,
     vs_usesEmailVerifiedClaim := vs_usesEmailVerifiedClaim s \<or> usesEmailVerifiedClaim (cr_AST u),
     vs_mapper := (vs_mapper s)\<lparr>cm_map_Username := Some [u]\<rparr>\<rparr>"
  let ?s4 = "?s1\<lparr>vs_mapper := (vs_mapper ?s1)\<lparr>cm_map_Extra := Some [x]\<rparr>, vs_usesEmailVerifiedClaim := True\<rparr>"
  have on: "ve_structured_authn sample_ve" by (simp add: sample_ve_def)
  have fields: "as_cm_Username ?m = \<lparr>as_pce_Claim = [], as_pce_Prefix = None, as_pce_Expression = ''claims.email''\<rparr>"
    "as_cm_Groups ?m = \<lparr>as_pce_Claim = [], as_pce_Prefix = None, as_pce_Expression = []\<rparr>"
    "as_cm_UID ?m = \<lparr>as_ce_Claim = [], as_ce_Expression = []\<rparr>"
    "as_cm_Extra ?m = [\<lparr>as_em_Key = ''example.org/verified'', as_em_ValueExpression = ''claims.email_verified''\<rparr>]"
    by (simp_all add: email_as_jwt_def zero_as_claim_mappings_def zero_as_pce_def)
  have 1: "validate_username sample_ve s ?m p = ([], ?s1)"
    by (simp add: validate_username_def validatePrefixClaimOrExpression_def fields c on m)
  have 2: "validate_groups sample_ve ?s1 ?m p = ([], ?s1)" "validate_uid sample_ve ?s1 ?m p = ([], ?s1)"
    by (simp_all add: validate_groups_def validatePrefixClaimOrExpression_def validate_uid_def fields)
  have "extra_step sample_ve p 0 empty_scan
      \<lparr>as_em_Key = ''example.org/verified'', as_em_ValueExpression = ''claims.email_verified''\<rparr>
      = ([], empty_scan\<lparr>sc_expressions := {''example.org/verified''}, sc_results := [x]\<rparr>)"
    using c(2) by (simp add: extra_step_def empty_scan_def email_key Let_def)
  then have 3: "validate_extra sample_ve ?s1 ?m p = ([], ?s4)"
    using m on by (simp add: validate_extra_def fields split_beta anyUses_single)
  have "validateClaimMappings sample_ve s ?m p = ([], ?s4)"
    by (simp only: validateClaimMappings_def 1 2 3 Let_def prod.case)
      (simp add: validate_gates_def on)
  then show thesis by (rule that, simp, simp add: m)
qed

lemma email_valid:
  obtains m r where "CompileAndValidateJWTAuthenticator sample_ve email_as_jwt {} = (m, [])"
    and "cm_map_Username m = Some [r]" and "usesEmailClaim (cr_AST r)"
proof -
  let ?p = "child [] ''claimValidationRules''"
  let ?r = "validateClaimValidationRules sample_ve empty_validation_state (as_jwt_ClaimValidationRules email_as_jwt) ?p"
  have rules: "fst ?r = [] \<and> \<not> vs_usesEmailClaim (snd ?r) \<and> \<not> vs_usesEmailVerifiedClaim (snd ?r)"
    by (simp add: validateClaimValidationRules_def claim_rule_step_def compileClaimsCELExpression_def
        email_as_jwt_def sample_as_jwt_def sample_ve_def sample_defs empty_scan_def split_beta Let_def
        empty_validation_state_def anyUsesEmailVerifiedClaim_def usesEmailVerifiedClaim_def hasSelectExp_def)
  obtain s' r where maps: "validateClaimMappings sample_ve (snd ?r) (as_jwt_ClaimMappings email_as_jwt)
      (child [] ''claimMappings'') = ([], s')"
    and r: "cm_map_Username (vs_mapper s') = Some [r]" "usesEmailClaim (cr_AST r)"
    using email_maps_valid rules by metis
  have users: "validateUserValidationRules sample_ve s (as_jwt_UserValidationRules email_as_jwt) p = ([], s)" for s p
    by (simp add: validateUserValidationRules_def email_as_jwt_def sample_as_jwt_def Let_def empty_scan_def)
  have issuer: "validateIssuer sample_ve (as_jwt_Issuer email_as_jwt) {} p = []" for p
    using sample_issuer_valid by (simp add: email_as_jwt_def)
  have "CompileAndValidateJWTAuthenticator sample_ve email_as_jwt {} = (vs_mapper s', [])"
    using rules maps users issuer
    by (simp add: CompileAndValidateJWTAuthenticator_def validateJWTAuthenticator_def split_beta)
  then show thesis using r by (rule that)
qed

theorem email_expression_needs_verification_witness:
  "\<exists>m r. CompileAndValidateJWTAuthenticator sample_ve email_as_jwt {} = (m, []) \<and>
     cm_map_Username m = Some [r] \<and> usesEmailClaim (cr_AST r) \<and>
     anyUsesEmailVerifiedClaim (verifying_programs m)"
proof -
  obtain m r where m: "CompileAndValidateJWTAuthenticator sample_ve email_as_jwt {} = (m, [])"
    "cm_map_Username m = Some [r]" "usesEmailClaim (cr_AST r)"
    by (rule email_valid)
  have "ve_structured_authn sample_ve" by (simp add: sample_ve_def)
  with email_expression_needs_verification [of sample_ve email_as_jwt "{}" m r] m show ?thesis by blast
qed

section \<open>Configurations\<close>

lemma configuration_accepts:
  assumes "apiserver_ValidateAuthenticationConfiguration ve c dis = []"
  shows "length (as_cfg_JWT c) \<le> 64 \<and>
    distinct (map (\<lambda>a. as_issuer_URL (as_jwt_Issuer a)) (as_cfg_JWT c)) \<and>
    distinct (filter (\<lambda>d. d \<noteq> []) (map (\<lambda>a. as_issuer_DiscoveryURL (as_jwt_Issuer a)) (as_cfg_JWT c))) \<and>
    list_all (\<lambda>a. \<exists>i. snd (validateJWTAuthenticator ve a [Child ''jwt'', Index i] dis) = []) (as_cfg_JWT c) \<and>
    (case as_cfg_Anonymous c of None \<Rightarrow> True
     | Some anon \<Rightarrow> as_anon_Enabled anon \<or> as_anon_Conditions anon = [])"
proof -
  let ?root = "[Child ''jwt'']"
  have len: "length (as_cfg_JWT c) \<le> 64"
    using assms by (auto simp: apiserver_ValidateAuthenticationConfiguration_def Let_def split: if_splits)
  with assms have scan: "fst (scan_idx (authenticator_step ve dis ?root) 0
      \<lparr>is_issuers = {}, is_discoveryURLs = {}\<rparr> (as_cfg_JWT c)) = []"
    and anon: "case as_cfg_Anonymous c of None \<Rightarrow> True
     | Some anon \<Rightarrow> as_anon_Enabled anon \<or> as_anon_Conditions anon = []"
    by (auto simp: apiserver_ValidateAuthenticationConfiguration_def Let_def split: option.splits)
  have "distinct (map (\<lambda>a. as_issuer_URL (as_jwt_Issuer a)) (as_cfg_JWT c))"
    using issuers.scan_distinct [OF scan] by (simp add: concat_singletons)
  moreover have "concat (map (\<lambda>a. if f a = [] then [] else [f a]) xs) = filter (\<lambda>d. d \<noteq> []) (map f xs)"
    for f :: "as_jwt_authenticator \<Rightarrow> string" and xs by (induction xs) auto
  then have "distinct (filter (\<lambda>d. d \<noteq> []) (map (\<lambda>a. as_issuer_DiscoveryURL (as_jwt_Issuer a)) (as_cfg_JWT c)))"
    using discovery_urls.scan_distinct [OF scan] by simp
  moreover have "list_all (\<lambda>a. \<exists>i. snd (validateJWTAuthenticator ve a [Child ''jwt'', Index i] dis) = []) (as_cfg_JWT c)"
    using scan_idx_each [OF scan] by (fastforce simp: list_all_iff dest!: authenticator_step_accepts)
  ultimately show ?thesis using len anon by blast
qed

text \<open>
  An accepted configuration has at most 64 authenticators with pairwise distinct issuer URLs and
  pairwise distinct discovery URLs, each of them accepted on its own; anonymous conditions appear only
  when anonymous requests are enabled.
\<close>

theorem accepted_configuration:
  assumes "apiserver_ValidateAuthenticationConfiguration ve c dis = []"
  shows "length (as_cfg_JWT c) \<le> 64 \<and>
    distinct (map (\<lambda>a. as_issuer_URL (as_jwt_Issuer a)) (as_cfg_JWT c)) \<and>
    distinct (filter (\<lambda>d. d \<noteq> []) (map (\<lambda>a. as_issuer_DiscoveryURL (as_jwt_Issuer a)) (as_cfg_JWT c))) \<and>
    list_all (\<lambda>a. \<exists>i. snd (validateJWTAuthenticator ve a [Child ''jwt'', Index i] dis) = []) (as_cfg_JWT c) \<and>
    (case as_cfg_Anonymous c of None \<Rightarrow> True
     | Some anon \<Rightarrow> as_anon_Enabled anon \<or> as_anon_Conditions anon = [])"
  using assms by (rule configuration_accepts)

theorem accepted_configuration_witness:
  "list_all (\<lambda>a. \<exists>i. snd (validateJWTAuthenticator sample_ve a [Child ''jwt'', Index i] {}) = []) [sample_as_jwt]"
proof -
  have "apiserver_ValidateAuthenticationConfiguration sample_ve
      \<lparr>as_cfg_JWT = [sample_as_jwt], as_cfg_Anonymous = None\<rparr> {} = []"
    by (simp add: apiserver_ValidateAuthenticationConfiguration_def Let_def authenticator_step_def
        sample_valid_at)
  from accepted_configuration [OF this] show ?thesis by simp
qed

end
