(* ===== verification/Claims_Resolver.thy ===== *)
theory Claims_Resolver
  imports Sample_Environment
begin

text \<open>
  padlok's own core, \<open>pkg/oidc/externalclaims/resolver/resolver.go\<close>: a resolver for one external
  source, which adds the claims that the source reports for a token to the claims of the token.
  \<open>New\<close> builds it from the configuration, \<open>ExpandClaims\<close> runs it.  Log lines are left out; the early
  returns that only log are the branches that return the claims unchanged.
\<close>

record external_source_cel_mapper =
  es_URL :: mapper
  es_Conditions :: mapper
  es_Sources :: mapper

record external_claims_resolver =
  ecr_accessTokenGetter :: token_getter
  ecr_mapper :: external_source_cel_mapper
  ecr_httpClient :: http_client

section \<open>Building a resolver\<close>

abbreviation externalSourceRequestTimeout :: nat where
  "externalSourceRequestTimeout \<equiv> 500"

definition httpClientForTLSConfig :: "environment \<Rightarrow> tls option \<Rightarrow> http_client res" where
  "httpClientForTLSConfig env tlsCfg =
     (let client = \<lparr>hc_Timeout = externalSourceRequestTimeout, hc_Transport = None\<rparr> in
      case tlsCfg of None \<Rightarrow> Inr client
      | Some cfg \<Rightarrow>
          (if \<not> nonempty_ca (tls_CertificateAuthority cfg) then Inr client
           else if \<not> env_pem_ok env (the (tls_CertificateAuthority cfg))
           then Inl (Errorf ''certificate authority does not contain any valid PEM certificates'' [])
           else Inr (client\<lparr>hc_Transport := Some (NetTransport (Some
                  \<lparr>tc_RootCAs = tls_CertificateAuthority cfg, tc_MinTLS12 = True\<rparr>))\<rparr>)))"

definition compile_condition ::
  "cel_engine \<Rightarrow> string \<Rightarrow> compilation_result res" where
  "compile_condition eng e =
     bind_res (CompileClaimsExpression eng (ExternalSourceConditionExpression e))
       (\<lambda>err. Errorf ''compiling condition %q: %w'' [OpS e, OpE err]) Inr"

definition buildExternalSourceConditionMapperFromConditions ::
  "cel_engine \<Rightarrow> external_source_condition list \<Rightarrow> mapper res" where
  "buildExternalSourceConditionMapperFromConditions eng sourceConditions =
     map_res (compile_condition eng) (List.map_filter esc_Expression sourceConditions)"

definition buildURLMapperFromSourceURL :: "cel_engine \<Rightarrow> source_url option \<Rightarrow> mapper res" where
  "buildURLMapperFromSourceURL eng sourceURL =
     (case sourceURL of
        None \<Rightarrow> Inl (Errorf ''sourceURL is nil'' [])
      | Some u \<Rightarrow>
     (case surl_Hostname u of
        None \<Rightarrow> Inl (Errorf ''sourceURL.hostname is nil'' [])
      | Some hostname \<Rightarrow>
     (case surl_PathExpression u of
        None \<Rightarrow> Inl (Errorf ''sourceURL.pathExpression is nil'' [])
      | Some pathExpression \<Rightarrow>
          bind_res (CompileClaimsExpression eng (ExternalSourceURLExpression hostname pathExpression))
            (\<lambda>err. Errorf ''compiling path expression: %w'' [OpE err]) (\<lambda>r. Inr [r]))))"

definition compile_sourced_mapping :: "cel_engine \<Rightarrow> string \<times> string \<Rightarrow> compilation_result res" where
  "compile_sourced_mapping eng m =
     bind_res (CompileExternalSourceExpression eng (ExternalSourceMappingExpression (fst m) (snd m)))
       (\<lambda>err. Errorf ''compiling sourced claim mapping for claim %q: %w'' [OpS (fst m), OpE err]) Inr"

definition complete_mapping :: "sourced_claim_mapping \<Rightarrow> (string \<times> string) option" where
  "complete_mapping m =
     (case (scm_Name m, scm_Expression m) of (Some n, Some e) \<Rightarrow> Some (n, e) | _ \<Rightarrow> None)"

definition buildExternalClaimsMapperFromSourcedClaimMappings ::
  "cel_engine \<Rightarrow> sourced_claim_mapping list \<Rightarrow> mapper res" where
  "buildExternalClaimsMapperFromSourcedClaimMappings eng sourcedClaimMappings =
     map_res (compile_sourced_mapping eng) (List.map_filter complete_mapping sourcedClaimMappings)"

definition buildExternalSourceCELMapper ::
  "cel_engine \<Rightarrow> source_url option \<Rightarrow> sourced_claim_mapping list \<Rightarrow> external_source_condition list
     \<Rightarrow> external_source_cel_mapper res" where
  "buildExternalSourceCELMapper eng sourceURL sourceMappings sourceConditions =
     bind_res (buildURLMapperFromSourceURL eng sourceURL)
       (\<lambda>e. Errorf ''building external claims url mapper: %w'' [OpE e]) (\<lambda>urlMapper.
     bind_res (buildExternalClaimsMapperFromSourcedClaimMappings eng sourceMappings)
       (\<lambda>e. Errorf ''building external claims response mapper: %w'' [OpE e]) (\<lambda>externalClaimsMapper.
     bind_res (buildExternalSourceConditionMapperFromConditions eng sourceConditions)
       (\<lambda>e. Errorf ''building external claims conditions mapper: %w'' [OpE e]) (\<lambda>conditionsMapper.
     Inr \<lparr>es_URL = urlMapper, es_Conditions = conditionsMapper, es_Sources = externalClaimsMapper\<rparr>)))"

definition resolver_New :: "environment \<Rightarrow> cel_engine \<Rightarrow> token_getter \<Rightarrow> external_claims_source
    \<Rightarrow> external_claims_resolver res" where
  "resolver_New env eng accessTokenGetter source =
     bind_res (httpClientForTLSConfig env (ecs_TLS source))
       (\<lambda>e. Errorf ''building http client for external source: %w'' [OpE e]) (\<lambda>httpClient.
     bind_res (buildExternalSourceCELMapper eng (ecs_URL source) (ecs_Mappings source) (ecs_Conditions source))
       (\<lambda>e. Errorf ''building external source CEL mapper: %w'' [OpE e]) (\<lambda>mapper.
     Inr \<lparr>ecr_accessTokenGetter = accessTokenGetter, ecr_mapper = mapper, ecr_httpClient = httpClient\<rparr>))"

section \<open>Running a resolver\<close>

definition UnknownCELValueTypesToStringListHandler :: unknown_handler where
  "UnknownCELValueTypesToStringListHandler val =
     (case val of CelList (StringList vs) \<Rightarrow> (vs, True, None) | _ \<Rightarrow> ([], False, None))"

fun conditions_satisfied :: "evaluation_result list \<Rightarrow> bool res" where
  "conditions_satisfied [] = Inr True"
| "conditions_satisfied (r # rs) =
     (case er_EvalResult r of
        CelBool satisfied \<Rightarrow> if satisfied then conditions_satisfied rs else Inr False
      | v \<Rightarrow> Inl (Errorf ''evaluating sourcing conditions: sourcing conditions must return a boolean, but got %v''
               [OpS (TypeName v)]))"

definition evaluateConditionsWithClaims :: "claims \<Rightarrow> mapper \<Rightarrow> bool res" where
  "evaluateConditionsWithClaims c claimsMapper =
     bind_res (EvalClaimMappings claimsMapper (newClaimsValue c))
       (\<lambda>e. Errorf ''evaluating sourcing conditions: %w'' [OpE e]) conditions_satisfied"

definition is_ListType :: "cel_val \<Rightarrow> bool" where
  "is_ListType v \<longleftrightarrow> (case v of CelList _ \<Rightarrow> True | _ \<Rightarrow> False)"

definition join_path_values :: "string list \<Rightarrow> string" where
  "join_path_values pathVals = foldl (\<lambda>path val. JoinPath path (PathEscape val)) [] pathVals"

definition getURLWithClaims :: "claims \<Rightarrow> mapper \<Rightarrow> string res" where
  "getURLWithClaims c urlMapper =
     bind_res (EvalClaimMapping urlMapper (newClaimsValue c))
       (\<lambda>e. Errorf ''oidc: error evaluating path expression: %w'' [OpE e]) (\<lambda>evaluationResults.
     if \<not> is_ListType (er_EvalResult evaluationResults)
     then Inl (Errorf ''oidc: error evaluating path expression: path expression must return a list, but got %v''
            [OpS (TypeName (er_EvalResult evaluationResults))])
     else
     bind_res (convertCELValueToStringList (er_EvalResult evaluationResults)
         (Some UnknownCELValueTypesToStringListHandler))
       (\<lambda>e. Errorf ''converting result to string list: %w'' [OpE e]) (\<lambda>pathVals.
     case er_ExpressionAccessor evaluationResults of
       ExternalSourceURLExpression hostname _ \<Rightarrow>
         Inr (''https://'' @ hostname @ ''/'' @ join_path_values pathVals)
     | _ \<Rightarrow> Inl (Errorf ''oidc: error getting url hostname: invalid type conversion, expected ExternalSourceURLExpression'' [])))"

text \<open>The loop over the results of the mapping expressions, with the map it fills.\<close>

fun collect_claims :: "(nat \<Rightarrow> bool) \<Rightarrow> evaluation_result list \<Rightarrow> claims \<Rightarrow> claims res" where
  "collect_claims is_print [] externalClaims = Inr externalClaims"
| "collect_claims is_print (r # rs) externalClaims =
     (case er_ExpressionAccessor r of
        ExternalSourceMappingExpression claim _ \<Rightarrow>
          (case er_EvalResult r of
             CelString s \<Rightarrow>
               collect_claims is_print rs (externalClaims(claim \<mapsto> raw_of_text (Quote is_print s)))
           | _ \<Rightarrow> Inl (Errorf ''error evaluating external claim mapping %q: expected a string return type'' [OpS claim]))
      | _ \<Rightarrow> Inl (Errorf ''invalid type conversion, expected ExternalSourceMappingExpression'' []))"

definition getClaimsFromResponse :: "(nat \<Rightarrow> bool) \<Rightarrow> http_response \<Rightarrow> mapper \<Rightarrow> claims res" where
  "getClaimsFromResponse is_print resp sourcedClaimsMapper =
     bind_res (rs_Body resp) (\<lambda>e. Errorf ''error reading response body: %w'' [OpE e]) (\<lambda>responseBodyBytes.
     case Option.bind (json_parse responseBodyBytes) json_to_any of
       None \<Rightarrow> Inl (Errorf ''error unmarshalling response body: %w'' [])
     | Some respBodyInput \<Rightarrow>
     bind_res (EvalExternalClaims sourcedClaimsMapper (ResponseValue [''body'' \<mapsto> respBodyInput]))
       (\<lambda>e. Errorf ''evaluating external source mappings: %w'' [OpE e]) (\<lambda>evalResults.
     collect_claims is_print evalResults Map.empty))"

definition add_authorization :: "string \<Rightarrow> http_request \<Rightarrow> http_request" where
  "add_authorization accessToken req =
     (if accessToken \<noteq> [] then
        req\<lparr>rq_Header := rq_Header req @ [(''Authorization'', ''Bearer '' @ accessToken)]\<rparr>
      else req)"

definition ExpandClaims :: "environment \<Rightarrow> external_claims_resolver \<Rightarrow> claims_expander" where
  "ExpandClaims env ecr ctx c h =
     (case evaluateConditionsWithClaims c (es_Conditions (ecr_mapper ecr)) of
        Inl err \<Rightarrow> (None, c, h)
      | Inr shouldSource \<Rightarrow>
      if \<not> shouldSource then (None, c, h) else
     (case GetAccessToken env ctx (ecr_accessTokenGetter ecr) h of
        (Inl err, h1) \<Rightarrow> (None, c, h1)
      | (Inr accessToken, h1) \<Rightarrow>
     (case getURLWithClaims c (es_URL (ecr_mapper ecr)) of
        Inl err \<Rightarrow> (None, c, h1)
      | Inr url \<Rightarrow>
     (case NewRequest env MethodGet url of
        Inl err \<Rightarrow> (None, c, h1)
      | Inr req \<Rightarrow>
     (case client_Do env (ecr_httpClient ecr) (add_authorization accessToken req) h1 of
        (Inl err, h2) \<Rightarrow> (None, c, h2)
      | (Inr None, h2) \<Rightarrow> (None, c, h2)
      | (Inr (Some resp), h2) \<Rightarrow>
      if rs_StatusCode resp \<noteq> 200 then (None, c, h2) else
     (case getClaimsFromResponse (env_is_print env) resp (es_Sources (ecr_mapper ecr)) of
        Inl err \<Rightarrow> (None, c, h2)
      | Inr externalClaims \<Rightarrow> (None, c ++ externalClaims, h2)))))))"

text \<open>A list of strings that the handler takes keeps its empty strings, unlike the other lists.\<close>

lemma padlok_string_lists_keep_empty:
  "convertCELValueToStringList (CelList (StringList vs)) (Some UnknownCELValueTypesToStringListHandler) = Inr vs"
  by (simp add: convertCELValueToStringList_def ask_unknown_def UnknownCELValueTypesToStringListHandler_def)

section \<open>Outcomes of a run\<close>

text \<open>The names of the claims that a resolver may set.\<close>

definition accessor_claims :: "accessor list \<Rightarrow> string set" where
  "accessor_claims as = {claim. \<exists>e. ExternalSourceMappingExpression claim e \<in> set as}"

definition sourced_names :: "external_claims_resolver \<Rightarrow> string set" where
  "sourced_names ecr = accessor_claims (map cr_ExpressionAccessor (es_Sources (ecr_mapper ecr)))"

lemma accessor_claims_Cons [simp]:
  "accessor_claims (ExternalSourceMappingExpression claim e # as) = insert claim (accessor_claims as)"
  by (auto simp: accessor_claims_def)

lemma conditions_satisfied_Inr_iff [res_simps]:
  "conditions_satisfied rs = Inr True \<longleftrightarrow> (\<forall>r \<in> set rs. er_EvalResult r = CelBool True)"
  by (induction rs) (auto split: cel_val.splits if_splits)

lemma evaluateConditions_Inr_True_iff [res_simps]:
  "evaluateConditionsWithClaims c m = Inr True \<longleftrightarrow>
     (\<exists>rs. EvalClaimMappings m (ClaimsValue c) = Inr rs \<and> (\<forall>r \<in> set rs. er_EvalResult r = CelBool True))"
  by (simp add: evaluateConditionsWithClaims_def res_simps newClaimsValue_def)

lemma collect_claims_Inr_D:
  assumes "collect_claims P rs acc = Inr ext"
  shows "\<exists>kvs. ext = acc ++ map_of kvs \<and> fst ` set kvs \<subseteq> accessor_claims (map er_ExpressionAccessor rs)"
  using assms
proof (induction P rs acc rule: collect_claims.induct)
  case (1 P acc)
  then show ?case by (auto intro!: exI [of _ "[]"])
next
  case (2 P r rs acc)
  from "2.prems" obtain claim e s where r: "er_ExpressionAccessor r = ExternalSourceMappingExpression claim e"
    and s: "er_EvalResult r = CelString s"
    by (auto split: accessor.splits cel_val.splits)
  from "2.prems" r s have "collect_claims P rs (acc(claim \<mapsto> raw_of_text (Quote P s))) = Inr ext"
    by simp
  from "2.IH" [OF r s this] obtain kvs
    where kvs: "ext = acc(claim \<mapsto> raw_of_text (Quote P s)) ++ map_of kvs"
      "fst ` set kvs \<subseteq> accessor_claims (map er_ExpressionAccessor rs)"
    by blast
  let ?kvs = "kvs @ [(claim, raw_of_text (Quote P s))]"
  have "ext = acc ++ map_of ?kvs" using kvs(1) by (simp add: map_add_assoc)
  moreover have "fst ` set ?kvs \<subseteq> accessor_claims (map er_ExpressionAccessor (r # rs))"
    using kvs(2) r by auto
  ultimately show ?case by blast
qed

lemma getClaimsFromResponse_dom:
  assumes "getClaimsFromResponse P resp m = Inr ext"
  shows "dom ext \<subseteq> accessor_claims (map cr_ExpressionAccessor m)"
proof -
  from assms obtain j rs where rs: "EvalExternalClaims m (ResponseValue [''body'' \<mapsto> j]) = Inr rs"
    and "collect_claims P rs Map.empty = Inr ext"
    by (auto simp: getClaimsFromResponse_def res_simps json_to_any_def split: option.splits if_splits)
  from collect_claims_Inr_D [OF this(2)] obtain kvs where "ext = map_of kvs"
    and "fst ` set kvs \<subseteq> accessor_claims (map er_ExpressionAccessor rs)" by auto
  then have "dom ext \<subseteq> accessor_claims (map er_ExpressionAccessor rs)"
    by (simp add: dom_map_of_conv_image_fst)
  then show ?thesis
    using mapper_eval_accessors [OF rs [unfolded EvalExternalClaims_def]] by simp
qed

text \<open>What a request for the claims looks like, and when it may be sent.\<close>

definition may_request :: "environment \<Rightarrow> external_claims_resolver \<Rightarrow> ctx \<Rightarrow> claims \<Rightarrow> history
    \<Rightarrow> http_request \<Rightarrow> bool" where
  "may_request env ecr ctx c h req \<longleftrightarrow>
     evaluateConditionsWithClaims c (es_Conditions (ecr_mapper ecr)) = Inr True \<and>
     (\<exists>tok url. fst (GetAccessToken env ctx (ecr_accessTokenGetter ecr) h) = Inr tok \<and>
        getURLWithClaims c (es_URL (ecr_mapper ecr)) = Inr url \<and>
        req = \<lparr>rq_Method = MethodGet, rq_URL = url,
               rq_Header = (if tok = [] then [] else [(''Authorization'', ''Bearer '' @ tok)])\<rparr>)"

definition plain_client :: "http_client \<Rightarrow> bool" where
  "plain_client c \<longleftrightarrow> (case hc_Transport c of None \<Rightarrow> True
     | Some (NetTransport tls) \<Rightarrow> True | Some _ \<Rightarrow> False)"

definition client_tls :: "http_client \<Rightarrow> tls_config option" where
  "client_tls c = (case hc_Transport c of Some (NetTransport tls) \<Rightarrow> tls | _ \<Rightarrow> None)"

lemma plain_client_Do:
  assumes "plain_client c"
  shows "\<exists>rs. snd (client_Do env c req h) = h @ Sent (client_tls c) req # map (Sent (client_tls c)) rs \<and>
     length rs \<le> 9 \<and>
     list_all (\<lambda>r. rq_Method r = rq_Method req \<and>
       (''Authorization'' \<in> fst ` set (rq_Header r) \<longrightarrow> env_same_site env (rq_URL req) (rq_URL r))) rs"
proof -
  have "(case hc_Transport c of None \<Rightarrow> NetTransport None | Some t \<Rightarrow> t) = NetTransport (client_tls c)"
    using assms by (auto simp: plain_client_def client_tls_def split: option.splits transport.splits)
  then show ?thesis using follow_redirects_plain [of 9 env "client_tls c" req False req h] by (simp add: client_Do_def)
qed

text \<open>
  The five ways a run can end: before the token, after the token, after the request without using
  the answer, or with the claims of the answer.
\<close>

lemma ExpandClaims_outcome:
  obtains "ExpandClaims env ecr ctx c h = (None, c, h)"
  | "ExpandClaims env ecr ctx c h = (None, c, snd (GetAccessToken env ctx (ecr_accessTokenGetter ecr) h))"
    "evaluateConditionsWithClaims c (es_Conditions (ecr_mapper ecr)) = Inr True"
  | req h1 where "may_request env ecr ctx c h req"
    "h1 = snd (GetAccessToken env ctx (ecr_accessTokenGetter ecr) h)"
    "ExpandClaims env ecr ctx c h = (None, c, snd (client_Do env (ecr_httpClient ecr) req h1))"
  | req h1 resp ext where "may_request env ecr ctx c h req"
    "h1 = snd (GetAccessToken env ctx (ecr_accessTokenGetter ecr) h)"
    "fst (client_Do env (ecr_httpClient ecr) req h1) = Inr (Some resp)" "rs_StatusCode resp = 200"
    "getClaimsFromResponse (env_is_print env) resp (es_Sources (ecr_mapper ecr)) = Inr ext"
    "ExpandClaims env ecr ctx c h = (None, c ++ ext, snd (client_Do env (ecr_httpClient ecr) req h1))"
proof -
  show thesis
  proof (cases "evaluateConditionsWithClaims c (es_Conditions (ecr_mapper ecr)) = Inr True")
    case False
    then have "ExpandClaims env ecr ctx c h = (None, c, h)"
      by (auto simp: ExpandClaims_def split: sum.split)
    then show thesis by (rule that(1))
  next
    case cond: True
    obtain tok h1 where tok: "GetAccessToken env ctx (ecr_accessTokenGetter ecr) h = (tok, h1)"
      by (cases "GetAccessToken env ctx (ecr_accessTokenGetter ecr) h")
    show thesis
    proof (cases "\<exists>t u req. tok = Inr t \<and> getURLWithClaims c (es_URL (ecr_mapper ecr)) = Inr u
        \<and> NewRequest env MethodGet u = Inr req")
      case False
      then have "ExpandClaims env ecr ctx c h = (None, c, h1)"
        using cond tok by (auto simp: ExpandClaims_def split: sum.split)
      then show thesis using that(2) tok cond by simp
    next
      case True
      then obtain t u req where t: "tok = Inr t"
        and u: "getURLWithClaims c (es_URL (ecr_mapper ecr)) = Inr u"
        and req: "NewRequest env MethodGet u = Inr req" by blast
      have may: "may_request env ecr ctx c h (add_authorization t req)"
        using cond tok t u req by (simp add: may_request_def add_authorization_def res_simps)
      obtain resp h2 where do: "client_Do env (ecr_httpClient ecr) (add_authorization t req) h1 = (resp, h2)"
        by (cases "client_Do env (ecr_httpClient ecr) (add_authorization t req) h1")
      have run: "ExpandClaims env ecr ctx c h = (case resp of Inr (Some r) \<Rightarrow>
          (if rs_StatusCode r \<noteq> 200 then (None, c, h2)
           else case getClaimsFromResponse (env_is_print env) r (es_Sources (ecr_mapper ecr)) of
             Inl _ \<Rightarrow> (None, c, h2) | Inr ext \<Rightarrow> (None, c ++ ext, h2)) | _ \<Rightarrow> (None, c, h2))"
        using cond tok t u req do by (simp add: ExpandClaims_def split: sum.split option.split)
      show thesis
      proof (cases "\<exists>r ext. resp = Inr (Some r) \<and> rs_StatusCode r = 200
          \<and> getClaimsFromResponse (env_is_print env) r (es_Sources (ecr_mapper ecr)) = Inr ext")
        case True
        then show thesis using that(4) [OF may] tok do run by auto
      next
        case False
        then have "ExpandClaims env ecr ctx c h = (None, c, h2)"
          using run by (auto split: sum.split option.split)
        then show thesis using that(3) [OF may] tok do by simp
      qed
    qed
  qed
qed

section \<open>Built resolvers\<close>

lemma resolver_New_Inr_iff:
  "resolver_New env eng g source = Inr ecr \<longleftrightarrow>
     (\<exists>client m. httpClientForTLSConfig env (ecs_TLS source) = Inr client \<and>
        buildExternalSourceCELMapper eng (ecs_URL source) (ecs_Mappings source) (ecs_Conditions source) = Inr m \<and>
        ecr = \<lparr>ecr_accessTokenGetter = g, ecr_mapper = m, ecr_httpClient = client\<rparr>)"
  by (auto simp: resolver_New_def res_simps)

lemma buildExternalSourceCELMapper_Inr_iff:
  "buildExternalSourceCELMapper eng u ms cs = Inr m \<longleftrightarrow>
     buildURLMapperFromSourceURL eng u = Inr (es_URL m) \<and>
     buildExternalClaimsMapperFromSourcedClaimMappings eng ms = Inr (es_Sources m) \<and>
     buildExternalSourceConditionMapperFromConditions eng cs = Inr (es_Conditions m)"
  by (auto simp: buildExternalSourceCELMapper_def res_simps)

lemma buildURLMapper_Inr_iff:
  "buildURLMapperFromSourceURL eng u = Inr m \<longleftrightarrow>
     (\<exists>hostname pathExpression r. (\<exists>su. u = Some su \<and> surl_Hostname su = Some hostname
          \<and> surl_PathExpression su = Some pathExpression) \<and>
        compile eng (ExternalSourceURLExpression hostname pathExpression) claimsVarName = Inr r \<and> m = [r])"
  by (auto simp: buildURLMapperFromSourceURL_def CompileClaimsExpression_def res_simps split: option.splits)

lemma httpClientForTLSConfig_plain: "httpClientForTLSConfig env t = Inr c \<Longrightarrow> plain_client c"
  by (auto simp: httpClientForTLSConfig_def plain_client_def Let_def split: option.splits if_splits)

lemma getURL_Inr_D:
  assumes "getURLWithClaims c m = Inr url"
  obtains rv hostname e pathVals where "EvalClaimMapping m (ClaimsValue c) = Inr rv"
    and "er_ExpressionAccessor rv = ExternalSourceURLExpression hostname e"
    and "convertCELValueToStringList (er_EvalResult rv) (Some UnknownCELValueTypesToStringListHandler) = Inr pathVals"
    and "url = ''https://'' @ hostname @ ''/'' @ join_path_values pathVals"
proof -
  from assms obtain rv pathVals where rv: "EvalClaimMapping m (ClaimsValue c) = Inr rv"
    and conv: "convertCELValueToStringList (er_EvalResult rv) (Some UnknownCELValueTypesToStringListHandler)
      = Inr pathVals"
    and url: "(case er_ExpressionAccessor rv of
       ExternalSourceURLExpression hostname _ \<Rightarrow>
         Inr (''https://'' @ hostname @ ''/'' @ join_path_values pathVals)
     | _ \<Rightarrow> Inl (Errorf ''oidc: error getting url hostname: invalid type conversion, expected ExternalSourceURLExpression'' []))
      = Inr url"
    unfolding getURLWithClaims_def newClaimsValue_def bind_res_Inr_iff
    by (metis (no_types, lifting) bind_res_Inr_iff sum.distinct(1))
  from url obtain hostname e where "er_ExpressionAccessor rv = ExternalSourceURLExpression hostname e"
    and "url = ''https://'' @ hostname @ ''/'' @ join_path_values pathVals"
    by (cases "er_ExpressionAccessor rv") simp_all
  with rv conv show thesis by (intro that)
qed

text \<open>
  A request that a built resolver sends goes to the configured host.
\<close>

lemma built_resolver_url:
  assumes "resolver_New env eng g source = Inr ecr"
    and "getURLWithClaims c (es_URL (ecr_mapper ecr)) = Inr url"
  shows "\<exists>su hostname pathVals. ecs_URL source = Some su \<and> surl_Hostname su = Some hostname
    \<and> url = ''https://'' @ hostname @ ''/'' @ join_path_values pathVals"
proof -
  from assms(1) obtain su hostname p r where su: "ecs_URL source = Some su" "surl_Hostname su = Some hostname"
    and r: "compile eng (ExternalSourceURLExpression hostname p) claimsVarName = Inr r"
    and m: "es_URL (ecr_mapper ecr) = [r]"
    by (auto simp: resolver_New_Inr_iff buildExternalSourceCELMapper_Inr_iff buildURLMapper_Inr_iff)
  from assms(2) obtain rv h e pathVals where rv: "EvalClaimMapping [r] (ClaimsValue c) = Inr rv"
    and acc: "er_ExpressionAccessor rv = ExternalSourceURLExpression h e"
    and url: "url = ''https://'' @ h @ ''/'' @ join_path_values pathVals"
    unfolding m by (rule getURL_Inr_D)
  from rv acc compile_accessor [OF r] have "h = hostname" by (simp add: eval_one_Inr_iff)
  with su url show ?thesis by blast
qed

section \<open>Properties\<close>

lemma ExpandClaims_frames:
  "fst (ExpandClaims env ecr ctx c h) = None \<and>
   fst (snd (ExpandClaims env ecr ctx c h)) |` (- sourced_names ecr) = c |` (- sourced_names ecr)"
proof (cases rule: ExpandClaims_outcome [of env ecr ctx c h])
  case (4 req h1 resp ext)
  then have "dom ext \<subseteq> sourced_names ecr"
    by (simp add: sourced_names_def getClaimsFromResponse_dom)
  then show ?thesis
    using 4(6) by (auto simp: restrict_map_def map_add_def fun_eq_iff split: option.splits)
qed simp_all

text \<open>
  Expanding claims from an external source never fails, and it touches no claim of the token but
  those the source's mappings name: on every other name the resulting map is the token's.
\<close>

theorem expand_claims_never_fails_and_frames:
  "fst (ExpandClaims env ecr ctx c h) = None \<and>
   fst (snd (ExpandClaims env ecr ctx c h)) |` (- sourced_names ecr) = c |` (- sourced_names ecr)"
  by (rule ExpandClaims_frames)

text \<open>
  C7: unless every sourcing condition evaluates to true for the claims of the token, expansion does
  nothing at all: no access token is fetched, no request is sent, no claim changes.
\<close>

theorem expand_claims_gated_by_conditions:
  assumes "ExpandClaims env ecr ctx c h \<noteq> (None, c, h)"
  shows "\<exists>rs. EvalClaimMappings (es_Conditions (ecr_mapper ecr)) (ClaimsValue c) = Inr rs
    \<and> list_all (\<lambda>r. er_EvalResult r = CelBool True) rs"
  by (cases rule: ExpandClaims_outcome [of env ecr ctx c h])
    (use assms in \<open>auto simp: res_simps may_request_def list_all_iff\<close>)

text \<open>
  C30: what a resolver built from a source puts on the wire: after the token getter's own requests either
  nothing, which is the case unless all conditions hold, or a GET to a URL that starts with \<open>https://\<close>, the configured host name and a slash,
  sent with the TLS settings of the source and with an \<open>Authorization\<close> header with the bearer token
  exactly when the token is not empty.  It can be followed by at most nine more GET requests, to where
  the source redirects them; they carry the credentials only to the same site.
\<close>

theorem expand_claims_requests:
  assumes "resolver_New env eng g source = Inr ecr"
  shows "\<exists>ts reqs. snd (snd (ExpandClaims env ecr ctx c h)) = h @ map TokenAsked ts @ map (Sent (client_tls (ecr_httpClient ecr))) reqs \<and>
    (reqs = [] \<or> (\<exists>su hostname path tok redirected.
       evaluateConditionsWithClaims c (es_Conditions (ecr_mapper ecr)) = Inr True \<and>
       ecs_URL source = Some su \<and> surl_Hostname su = Some hostname \<and>
       fst (GetAccessToken env ctx g h) = Inr tok \<and>
       reqs = \<lparr>rq_Method = MethodGet, rq_URL = ''https://'' @ hostname @ ''/'' @ path,
          rq_Header = (if tok = [] then [] else [(''Authorization'', ''Bearer '' @ tok)])\<rparr> # redirected \<and>
       length redirected \<le> 9 \<and>
       list_all (\<lambda>r. rq_Method r = MethodGet \<and> (''Authorization'' \<in> fst ` set (rq_Header r) \<longrightarrow>
          env_same_site env (''https://'' @ hostname @ ''/'' @ path) (rq_URL r))) redirected))"
proof -
  from assms have g: "ecr_accessTokenGetter ecr = g" and plain: "plain_client (ecr_httpClient ecr)"
    by (auto simp: resolver_New_Inr_iff dest: httpClientForTLSConfig_plain)
  obtain ts where ts: "snd (GetAccessToken env ctx g h) = h @ map TokenAsked ts"
    using getter.extends by blast
  have sent: ?thesis
    if may: "may_request env ecr ctx c h req"
      and h': "snd (snd (ExpandClaims env ecr ctx c h))
        = snd (client_Do env (ecr_httpClient ecr) req (snd (GetAccessToken env ctx (ecr_accessTokenGetter ecr) h)))"
    for req
  proof -
    from may [unfolded may_request_def] obtain tok url
      where cond: "evaluateConditionsWithClaims c (es_Conditions (ecr_mapper ecr)) = Inr True"
        and tok: "fst (GetAccessToken env ctx g h) = Inr tok"
        and url: "getURLWithClaims c (es_URL (ecr_mapper ecr)) = Inr url"
        and req: "req = \<lparr>rq_Method = MethodGet, rq_URL = url,
          rq_Header = (if tok = [] then [] else [(''Authorization'', ''Bearer '' @ tok)])\<rparr>"
      unfolding g by blast
    from built_resolver_url [OF assms url] obtain su hostname path where
      u: "ecs_URL source = Some su" "surl_Hostname su = Some hostname" "url = ''https://'' @ hostname @ ''/'' @ path"
      by blast
    obtain rs where rs: "snd (client_Do env (ecr_httpClient ecr) req (h @ map TokenAsked ts))
        = (h @ map TokenAsked ts) @ Sent (client_tls (ecr_httpClient ecr)) req # map (Sent (client_tls (ecr_httpClient ecr))) rs"
      "length rs \<le> 9" "list_all (\<lambda>r. rq_Method r = rq_Method req \<and>
         (''Authorization'' \<in> fst ` set (rq_Header r) \<longrightarrow> env_same_site env (rq_URL req) (rq_URL r))) rs"
      using plain_client_Do [OF plain] by blast
    have all: "list_all (\<lambda>r. rq_Method r = MethodGet \<and> (''Authorization'' \<in> fst ` set (rq_Header r) \<longrightarrow>
          env_same_site env (''https://'' @ hostname @ ''/'' @ path) (rq_URL r))) rs"
      using rs(3) by (simp add: req u(3))
    have "snd (snd (ExpandClaims env ecr ctx c h))
        = h @ map TokenAsked ts @ map (Sent (client_tls (ecr_httpClient ecr))) (req # rs)"
      unfolding h' g ts rs(1) by simp
    then show ?thesis
      by (rule_tac x = ts in exI, rule_tac x = "req # rs" in exI)
        (use cond tok u req rs(2) all in auto)
  qed
  show ?thesis
  proof (cases rule: ExpandClaims_outcome [of env ecr ctx c h])
    case 1
    then show ?thesis by (intro exI [of _ "[]"]) simp
  next
    case 2
    then show ?thesis by (intro exI [of _ ts] exI [of _ "[]"]) (simp add: g ts)
  qed (rule sent, assumption, simp)+
qed

lemma join_path_ordinary:
  assumes "list_all ordinary_segment vals" and "CHR '':'' \<notin> set (hd vals)" and "hd vals \<noteq> ''*''"
  shows "join_path_values vals = join_slash (map PathEscape vals)"
  using assms
proof (induction vals rule: rev_induct)
  case Nil
  show ?case by (simp add: join_path_values_def)
next
  case (snoc v vals)
  have head: "hd (map PathEscape vals @ [PathEscape v]) = PathEscape (hd (vals @ [v]))"
    by (cases vals) simp_all
  have "join_path_values vals = join_slash (map PathEscape vals)"
    using snoc by (cases vals) (simp_all add: join_path_values_def)
  moreover have "JoinPath (join_slash (map PathEscape vals)) (PathEscape v)
      = join_slash (map PathEscape vals @ [PathEscape v])"
    using snoc.prems
    by (intro JoinPath_escaped)
      (auto simp: head PathEscape_colon PathEscape_eq_star PathEscape_no_slash list_all_iff)
  ultimately show ?case by (simp add: join_path_values_def)
qed

text \<open>
  For ordinary path values (none empty, none \<open>.\<close> or \<open>..\<close>, the first neither \<open>*\<close> nor with a colon)
  the path of the request is the list of their escaped forms joined with slashes: no value can add
  or remove a path element.
\<close>

theorem path_of_ordinary_values:
  assumes "vals \<noteq> []" and "list_all ordinary_segment vals"
    and "CHR '':'' \<notin> set (hd vals)" and "hd vals \<noteq> ''*''"
  shows "join_path_values vals = join_slash (map PathEscape vals)
    \<and> Split CHR ''/'' (join_path_values vals) = map PathEscape vals"
  using assms by (simp add: join_path_ordinary Split_join_slash PathEscape_no_slash)

theorem path_of_ordinary_values_witness:
  "join_path_values [''v1'', ''a/b ?'', ''x''] = ''v1/a%2Fb%20%3F/x''"
  using path_of_ordinary_values [of "[''v1'', ''a/b ?'', ''x'']"]
  by (simp add: ordinary_segment_def PathEscape_Cons escape_in_segment_def is_unreserved_def is_alnum_def
      upper_hex_def byte_def)

text \<open>A source at which the properties are applied, and the resolver built from it.\<close>

definition sample_source :: external_claims_source where
  "sample_source = \<lparr>ecs_Authentication = None, ecs_TLS = None,
     ecs_URL = Some \<lparr>surl_Hostname = Some ''example.com'', surl_PathExpression = Some ''path''\<rparr>,
     ecs_Mappings = [\<lparr>scm_Name = Some ''team'', scm_Expression = Some ''blue''\<rparr>],
     ecs_Conditions = [\<lparr>esc_Expression = Some ''true''\<rparr>]\<rparr>"

definition sample_resolver :: external_claims_resolver where
  "sample_resolver = projr (resolver_New sample_env sample_engine RequestProvided sample_source)"

lemmas sample_resolver_simps = sample_resolver_def sample_source_def resolver_New_def
  httpClientForTLSConfig_def buildExternalSourceCELMapper_def buildURLMapperFromSourceURL_def
  buildExternalClaimsMapperFromSourcedClaimMappings_def compile_sourced_mapping_def
  buildExternalSourceConditionMapperFromConditions_def compile_condition_def complete_mapping_def
  List.map_filter_def sample_defs

lemma sample_resolver_built:
  "resolver_New sample_env sample_engine RequestProvided sample_source = Inr sample_resolver"
  by (simp add: sample_resolver_simps)

definition sample_ctx :: ctx where
  "sample_ctx = [RequestProvidedTokenContextKey \<mapsto> CtxString ''jwt'']"

lemma sample_url: "getURLWithClaims c (es_URL (ecr_mapper sample_resolver))
    = Inr ''https://example.com/v1/team%20a''"
proof -
  have "join_path_values [''v1'', ''team a''] = ''v1/team%20a''"
    by code_simp
  then show ?thesis
    by (simp add: sample_resolver_simps getURLWithClaims_def eval_one_def is_ListType_def
        convertCELValueToStringList_def ask_unknown_def UnknownCELValueTypesToStringListHandler_def)
qed

lemma sample_request: "NewRequest sample_env MethodGet ''https://example.com/v1/team%20a''
    = Inr \<lparr>rq_Method = ''GET'', rq_URL = ''https://example.com/v1/team%20a'', rq_Header = []\<rparr>"
proof -
  have "isl (url_Parse (\<lambda>_. None) ''https://example.com/v1/team%20a'') = False"
    by code_simp
  then show ?thesis
    by (cases "url_Parse (\<lambda>_. None) ''https://example.com/v1/team%20a''")
      (simp_all add: NewRequest_def sample_env_def)
qed

lemma sample_answer: "getClaimsFromResponse (env_is_print sample_env)
    \<lparr>rs_StatusCode = 200, rs_Location = [], rs_Body = Inr ''{}''\<rparr> (es_Sources (ecr_mapper sample_resolver))
    = Inr [''team'' \<mapsto> Raw (JStr ''blue'')]"
proof -
  have "json_parse ''{}'' = Some (JObj [])" by code_simp
  moreover have "raw_of_text (Quote (\<lambda>_. False) ''blue'') = Raw (JStr ''blue'')"
    by (simp add: raw_of_text_Quote json_safe_text.simps(2) DecodeRune_ascii json_safe_rune_def IsPrint_def byte_def)
  ultimately show ?thesis
    by (simp add: getClaimsFromResponse_def json_to_any_def sample_resolver_simps EvalExternalClaims_def mapper_eval_def
        eval_one_def sample_env_def)
qed

lemma sample_expansion:
  "ExpandClaims sample_env sample_resolver sample_ctx c [] =
     (None, c(''team'' \<mapsto> Raw (JStr ''blue'')),
      [Sent None \<lparr>rq_Method = ''GET'', rq_URL = ''https://example.com/v1/team%20a'',
         rq_Header = [(''Authorization'', ''Bearer jwt'')]\<rparr>])"
proof -
  have "evaluateConditionsWithClaims c (es_Conditions (ecr_mapper sample_resolver)) = Inr True"
    by (simp add: sample_resolver_simps evaluateConditionsWithClaims_def EvalClaimMappings_def
        mapper_eval_def eval_one_def)
  moreover have "GetAccessToken sample_env sample_ctx (ecr_accessTokenGetter sample_resolver) []
      = (Inr ''jwt'', [])"
    by (simp add: sample_resolver_simps sample_ctx_def RequestProvided_GetAccessToken_def)
  moreover have "hc_Transport (ecr_httpClient sample_resolver) = None"
    by (simp add: sample_resolver_simps)
  moreover have "env_net sample_env h tls r = Inr (Some \<lparr>rs_StatusCode = 200, rs_Location = [], rs_Body = Inr ''{}''\<rparr>)"
    for h tls r
    by (simp add: sample_env_def)
  ultimately show ?thesis
    unfolding ExpandClaims_def
    by (simp add: sample_url sample_request sample_answer client_Do_def add_authorization_def
        follow_redirects.simps redirect_of_def is_redirect_def)
qed

theorem expand_claims_gated_by_conditions_witness:
  "\<exists>rs. EvalClaimMappings (es_Conditions (ecr_mapper sample_resolver)) (ClaimsValue Map.empty) = Inr rs
    \<and> list_all (\<lambda>r. er_EvalResult r = CelBool True) rs"
  using expand_claims_gated_by_conditions [of sample_env sample_resolver sample_ctx Map.empty "[]"]
  by (simp add: sample_expansion)

theorem expand_claims_requests_witness:
  "\<exists>ts reqs. snd (snd (ExpandClaims sample_env sample_resolver sample_ctx Map.empty []))
     = map TokenAsked ts @ map (Sent (client_tls (ecr_httpClient sample_resolver))) reqs \<and> length reqs \<le> 10"
proof -
  obtain ts reqs where h: "snd (snd (ExpandClaims sample_env sample_resolver sample_ctx Map.empty []))
      = [] @ map TokenAsked ts @ map (Sent (client_tls (ecr_httpClient sample_resolver))) reqs"
    and "reqs = [] \<or> (\<exists>first redirected :: http_request list. reqs = first # redirected \<and> length redirected \<le> 9)"
    using expand_claims_requests [OF sample_resolver_built, of sample_ctx Map.empty "[]"] by blast
  then have "length reqs \<le> 10" by auto
  with h show ?thesis by auto
qed

text \<open>
  A path value \<open>..\<close> is not encoded but removes the value before it, so a claim that holds \<open>..\<close>
  moves the request to another path of the host.
\<close>

theorem path_value_dotdot_removes_previous:
  assumes "list_all ordinary_segment (v # vs @ [w])" and "CHR '':'' \<notin> set v" and "v \<noteq> ''*''"
  shows "join_path_values (v # vs @ [w, ''..'']) = join_path_values (v # vs)"
proof -
  let ?p = "foldl (\<lambda>path val. JoinPath path (PathEscape val)) []"
  have all: "?p (v # vs @ [w]) = join_slash (map PathEscape (v # vs @ [w]))"
    "?p (v # vs) = join_slash (map PathEscape (v # vs))"
    using join_path_ordinary [of "v # vs @ [w]"] join_path_ordinary [of "v # vs"] assms
    by (simp_all add: join_path_values_def)
  have "?p (v # vs @ [w, ''..'']) = ?p ((v # vs @ [w]) @ [''..''])" by simp
  also have "\<dots> = JoinPath (?p (v # vs @ [w])) (PathEscape ''..'')"
    by (simp only: foldl_append foldl.simps)
  also have "\<dots> = JoinPath (join_slash (map PathEscape (v # vs @ [w]))) (PathEscape ''..'')"
    by (simp only: all(1))
  also have "\<dots> = join_slash (map PathEscape (v # vs))"
    using JoinPath_dotdot [of "PathEscape v" "map PathEscape vs" "PathEscape w"] assms
    by (simp add: PathEscape_colon PathEscape_eq_star PathEscape_no_slash list_all_iff)
  finally show ?thesis by (simp only: join_path_values_def all(2))
qed

theorem path_value_dotdot_removes_previous_witness:
  "join_path_values [''users'', ''alice'', ''..''] = ''users''"
  using path_value_dotdot_removes_previous [of "''users''" "[]" "''alice''"]
    join_path_ordinary [of "[''users'']"]
  by (simp add: ordinary_segment_def PathEscape_Cons escape_in_segment_def is_unreserved_def is_alnum_def
      byte_def)

text \<open>The claim that a mapping expression is for.\<close>

fun mapped_claim :: "accessor \<Rightarrow> string option" where
  "mapped_claim (ExternalSourceMappingExpression claim _) = Some claim"
| "mapped_claim _ = None"

lemma collect_claims_keeps:
  "collect_claims P rs acc = Inr ext \<Longrightarrow> Some claim \<notin> mapped_claim ` er_ExpressionAccessor ` set rs \<Longrightarrow>
     ext claim = acc claim"
  by (induction P rs acc rule: collect_claims.induct) (auto split: accessor.splits cel_val.splits)

lemma collect_claims_value:
  assumes "collect_claims P rs acc = Inr ext" and "r \<in> set rs"
    and "distinct (map (mapped_claim \<circ> er_ExpressionAccessor) rs)"
    and "er_ExpressionAccessor r = ExternalSourceMappingExpression claim e" and "er_EvalResult r = CelString s"
  shows "ext claim = Some (raw_of_text (Quote P s))"
  using assms
proof (induction P rs acc rule: collect_claims.induct)
  case (2 P r' rs acc)
  show ?case
  proof (cases "r = r'")
    case True
    with 2 have "collect_claims P rs (acc(claim \<mapsto> raw_of_text (Quote P s))) = Inr ext" by simp
    moreover have "Some claim \<notin> mapped_claim ` er_ExpressionAccessor ` set rs"
      using 2 True by (auto simp: image_iff)
    ultimately show ?thesis by (simp add: collect_claims_keeps)
  next
    case False
    from "2.prems"(1) obtain claim' e' s' where r': "er_ExpressionAccessor r' = ExternalSourceMappingExpression claim' e'"
      and s': "er_EvalResult r' = CelString s'"
      by (auto split: accessor.splits cel_val.splits)
    with "2.prems"(1) have "collect_claims P rs (acc(claim' \<mapsto> raw_of_text (Quote P s'))) = Inr ext"
      by simp
    moreover have "r \<in> set rs" and "distinct (map (mapped_claim \<circ> er_ExpressionAccessor) rs)"
      using False "2.prems"(2,3) by (simp_all add: comp_def)
    ultimately show ?thesis
      using "2.IH" [OF r' s'] "2.prems"(4,5) by blast
  qed
qed simp

text \<open>
  C36: what becomes of a string that an external source reports for a claim.  When the answer is taken
  over, the claim is then read back by the authenticator as that very string if each of its runes is printable, or a control
  character with a short escape in JSON, or any other rune from 128 up to 65535; reading it is an error if it holds anything
  else: another control character, a rune above 65535 that is not printable, or a byte that is not UTF-8.  The verb \<open>%q\<close> writes Go's escapes,
  not JSON's.
\<close>

theorem sourced_value_reads_back:
  assumes "getClaimsFromResponse P resp m = Inr ext"
    and "distinct (map (mapped_claim \<circ> cr_ExpressionAccessor) m)"
    and "rs_Body resp = Inr body" and "json_parse body = Some j" and "r \<in> set m"
    and "cr_ExpressionAccessor r = ExternalSourceMappingExpression claim e"
    and "cr_Program r (ResolveName \<lparr>va_name = responseVarName, va_value = ResponseValue [''body'' \<mapsto> j]\<rparr>)
      = Inr (CelString s)"
  shows "unmarshalClaim json_to_string (c ++ ext) claim =
    (if json_safe_text P s then Inr s else Inl (Errorf ''invalid character in JSON text'' []))"
proof -
  let ?act = "\<lparr>va_name = responseVarName, va_value = ResponseValue [''body'' \<mapsto> j]\<rparr>"
  from assms(1,3,4) obtain rs where rs: "map_res (eval_one ?act) m = Inr rs"
    and ext: "collect_claims P rs Map.empty = Inr ext"
    by (auto simp: getClaimsFromResponse_def EvalExternalClaims_def mapper_eval_def bind_res_Inr_iff json_to_any_def
        split: if_splits)
  have acc: "map er_ExpressionAccessor rs = map cr_ExpressionAccessor m"
    using mapper_eval_accessors [of m ?act rs] rs by (simp add: mapper_eval_def)
  then have "distinct (map (mapped_claim \<circ> er_ExpressionAccessor) rs)"
    using assms(2) by (metis map_map)
  moreover from rs assms(5) obtain r' where "r' \<in> set rs" and "eval_one ?act r = Inr r'"
    by (blast dest: map_res_Inr_D)
  moreover from this(2) assms(6,7) have "er_EvalResult r' = CelString s"
    and "er_ExpressionAccessor r' = ExternalSourceMappingExpression claim e"
    by (simp_all add: eval_one_Inr_iff)
  ultimately have "ext claim = Some (raw_of_text (Quote P s))"
    using collect_claims_value [OF ext] by blast
  then show ?thesis
    by (simp add: raw_of_text_Quote unmarshalClaim_def unmarshal_with_def map_add_def)
qed

theorem sourced_value_reads_back_witness:
  "unmarshalClaim json_to_string
     (Map.empty ++ [''team'' \<mapsto> raw_of_text (Quote (\<lambda>_. False) [CHR ''a'', CHR 0xC3, CHR 0xA9])]) ''team''
     = Inr [CHR ''a'', CHR 0xC3, CHR 0xA9]"
proof -
  define s where "s = [CHR ''a'', CHR 0xC3, CHR 0xA9]"
  let ?m = "[\<lparr>cr_Program = (\<lambda>_. Inr (CelString s)), cr_AST = \<lparr>ast_OutputType = AnyType, ast_Expr = None\<rparr>,
     cr_ExpressionAccessor = ExternalSourceMappingExpression ''team'' ''x''\<rparr>]"
  have parse: "json_parse ''{}'' = Some (JObj [])" by code_simp
  then have "getClaimsFromResponse (\<lambda>_. False) \<lparr>rs_StatusCode = 200, rs_Location = [], rs_Body = Inr ''{}''\<rparr> ?m
      = Inr [''team'' \<mapsto> raw_of_text (Quote (\<lambda>_. False) s)]"
    by (simp add: getClaimsFromResponse_def EvalExternalClaims_def mapper_eval_def eval_one_def json_to_any_def)
  then have "unmarshalClaim json_to_string (Map.empty ++ [''team'' \<mapsto> raw_of_text (Quote (\<lambda>_. False) s)]) ''team'' =
    (if json_safe_text (\<lambda>_. False) s then Inr s else Inl (Errorf ''invalid character in JSON text'' []))"
    by (rule sourced_value_reads_back [where body = "''{}''" and j = "JObj []" and r = "hd ?m" and e = "''x''"])
      (simp_all add: parse)
  moreover have "json_safe_text (\<lambda>_. False) s"
    by (simp add: s_def json_safe_text.simps(2) DecodeRune_def is_cont_def json_safe_rune_def IsPrint_def
        byte_def)
  ultimately show ?thesis by (simp only: s_def if_True)
qed

lemma httpClientForTLSConfig_client:
  "httpClientForTLSConfig env t = Inr cl \<Longrightarrow> hc_Timeout cl = 500 \<and> client_tls cl =
     (case t of Some t \<Rightarrow> (if nonempty_ca (tls_CertificateAuthority t)
        then Some \<lparr>tc_RootCAs = tls_CertificateAuthority t, tc_MinTLS12 = True\<rparr> else None) | None \<Rightarrow> None)"
  by (auto simp: httpClientForTLSConfig_def client_tls_def Let_def split: option.splits if_splits)

text \<open>
  A resolver built from a source trusts the source's certificate authority and no other when one is
  given (with TLS 1.2 at least), uses the system's roots otherwise, and never waits longer than the
  fixed 500 milliseconds for an answer.
\<close>

theorem built_resolver_client:
  assumes "resolver_New env eng g source = Inr ecr"
  shows "hc_Timeout (ecr_httpClient ecr) = 500 \<and>
    client_tls (ecr_httpClient ecr) =
      (case ecs_TLS source of
         Some t \<Rightarrow> (if nonempty_ca (tls_CertificateAuthority t)
            then Some \<lparr>tc_RootCAs = tls_CertificateAuthority t, tc_MinTLS12 = True\<rparr> else None)
       | None \<Rightarrow> None)"
  using assms httpClientForTLSConfig_client by (auto simp: resolver_New_Inr_iff)

theorem built_resolver_client_witness:
  "hc_Timeout (ecr_httpClient sample_resolver) = 500"
  using built_resolver_client [OF sample_resolver_built] by simp

end
