(* ===== verification/Go_Regexp.thy ===== *)
theory Go_Regexp
  imports Go_Text
begin

text \<open>
  Regular expressions as the validators use them: classes of ASCII characters, concatenation,
  alternatives and repetition, always anchored at both ends.  Since every class holds ASCII
  characters only, matching bytes is matching runes.  \<open>rests\<close> lists what may remain of a text after a
  prefix that matches; \<open>denotes\<close> is the language, and the two agree.
\<close>

datatype regex =
    Eps
  | Class "char \<Rightarrow> bool"
  | Seq regex regex
  | Alt regex regex
  | Star regex

inductive denotes :: "regex \<Rightarrow> string \<Rightarrow> bool" where
  denotes_Eps: "denotes Eps []"
| denotes_Class: "P c \<Longrightarrow> denotes (Class P) [c]"
| denotes_Seq: "denotes r s \<Longrightarrow> denotes q t \<Longrightarrow> denotes (Seq r q) (s @ t)"
| denotes_Alt1: "denotes r s \<Longrightarrow> denotes (Alt r q) s"
| denotes_Alt2: "denotes q s \<Longrightarrow> denotes (Alt r q) s"
| denotes_Star0: "denotes (Star r) []"
| denotes_Star1: "denotes r s \<Longrightarrow> denotes (Star r) t \<Longrightarrow> denotes (Star r) (s @ t)"

inductive_simps denotes_simps:
  "denotes Eps s" "denotes (Class P) s" "denotes (Seq r q) s" "denotes (Alt r q) s"

lemmas denotes_basic [simp] = denotes_simps(1,2,4)

function rests :: "regex \<Rightarrow> string \<Rightarrow> string list" where
  "rests Eps s = [s]"
| "rests (Class P) s = (case s of [] \<Rightarrow> [] | c # s' \<Rightarrow> if P c then [s'] else [])"
| "rests (Seq r q) s = concat (map (rests q) (rests r s))"
| "rests (Alt r q) s = rests r s @ rests q s"
| "rests (Star r) s =
     s # concat (map (\<lambda>t. if length t < length s then rests (Star r) t else []) (rests r s))"
  by pat_completeness auto
termination
  by (relation "measures [\<lambda>(r, s). size r, \<lambda>(r, s). length s]") auto

declare rests.simps(5) [simp del]

lemma rests_Star_iff:
  "t \<in> set (rests (Star r) s) \<longleftrightarrow>
     t = s \<or> (\<exists>u \<in> set (rests r s). length u < length s \<and> t \<in> set (rests (Star r) u))"
  by (subst rests.simps(5)) auto

definition full_match :: "regex \<Rightarrow> string \<Rightarrow> bool" where
  "full_match r s \<longleftrightarrow> [] \<in> set (rests r s)"

text \<open>The derived forms of the syntax: \<open>r?\<close>, \<open>r+\<close>, \<open>r{0,n}\<close> and a literal character.\<close>

definition Opt :: "regex \<Rightarrow> regex" where
  "Opt r = Alt Eps r"

definition Plus :: "regex \<Rightarrow> regex" where
  "Plus r = Seq r (Star r)"

fun UpTo :: "nat \<Rightarrow> regex \<Rightarrow> regex" where
  "UpTo 0 r = Eps"
| "UpTo (Suc n) r = Opt (Seq r (UpTo n r))"

definition Lit :: "char \<Rightarrow> regex" where
  "Lit c = Class (\<lambda>d. d = c)"

section \<open>The matcher decides the language\<close>

lemma rests_sound: "t \<in> set (rests r s) \<Longrightarrow> \<exists>p. s = p @ t \<and> denotes r p"
proof (induction r s arbitrary: t rule: rests.induct)
  case (1 s)
  then show ?case by auto
next
  case (2 P s)
  then show ?case by (auto split: list.splits if_splits)
next
  case (3 r q s)
  then obtain u where u: "u \<in> set (rests r s)" "t \<in> set (rests q u)" by auto
  from 3(1) [OF u(1)] 3(2) [OF u(1,2)] obtain p p' where
    "s = p @ u" "denotes r p" "u = p' @ t" "denotes q p'" by blast
  then show ?case using denotes_Seq by (intro exI [of _ "p @ p'"]) simp
next
  case (4 r q s)
  from 4(3) consider "t \<in> set (rests r s)" | "t \<in> set (rests q s)" by auto
  then show ?case
  proof cases
    case 1
    with 4(1) show ?thesis by (meson denotes_Alt1)
  next
    case 2
    with 4(2) show ?thesis by (meson denotes_Alt2)
  qed
next
  case (5 r s)
  show ?case
  proof (cases "t = s")
    case True
    then show ?thesis using denotes_Star0 by auto
  next
    case False
    with 5(3) obtain u where u: "u \<in> set (rests r s)" "length u < length s" "t \<in> set (rests (Star r) u)"
      by (subst (asm) rests_Star_iff) auto
    from 5(1) [OF u(1)] 5(2) [OF u] obtain p p' where
      "s = p @ u" "denotes r p" "u = p' @ t" "denotes (Star r) p'" by blast
    then show ?thesis using denotes_Star1 by (intro exI [of _ "p @ p'"]) simp
  qed
qed

lemma rests_complete: "denotes r p \<Longrightarrow> t \<in> set (rests r (p @ t))"
proof (induction arbitrary: t rule: denotes.induct)
  case (denotes_Seq r s q u)
  then have "u @ t \<in> set (rests r (s @ u @ t))" "t \<in> set (rests q (u @ t))" by simp_all
  then show ?case by auto
next
  case (denotes_Star0 r)
  show ?case by (subst rests_Star_iff) simp
next
  case (denotes_Star1 r s u)
  show ?case
  proof (cases "s = []")
    case True
    then show ?thesis using denotes_Star1.IH(2) by simp
  next
    case False
    then show ?thesis using denotes_Star1.IH(1) [of "u @ t"] denotes_Star1.IH(2) [of t]
      by (subst rests_Star_iff) (auto intro!: bexI [of _ "u @ t"])
  qed
qed simp_all

lemma full_match_iff: "full_match r s \<longleftrightarrow> denotes r s"
  using rests_sound [of "[]" r s] rests_complete [of r s "[]"] by (auto simp: full_match_def)

section \<open>Languages of the forms in use\<close>

lemma denotes_Opt [simp]: "denotes (Opt r) s \<longleftrightarrow> s = [] \<or> denotes r s"
  by (simp add: Opt_def)

lemma denotes_Lit [simp]: "denotes (Lit c) s \<longleftrightarrow> s = [c]"
  by (auto simp: Lit_def)

lemma denotes_Star_iff: "denotes (Star r) s \<longleftrightarrow> (\<exists>xs. s = concat xs \<and> list_all (denotes r) xs)"
proof
  show "\<exists>xs. s = concat xs \<and> list_all (denotes r) xs" if "denotes (Star r) s"
    using that
  proof (induction "Star r" s rule: denotes.induct)
    case denotes_Star0
    show ?case by (rule exI [of _ "[]"]) simp
  next
    case (denotes_Star1 s t)
    then obtain xs where "t = concat xs" "list_all (denotes r) xs" by blast
    with denotes_Star1(1) show ?case by (intro exI [of _ "s # xs"]) simp
  qed
  show "denotes (Star r) s" if "\<exists>xs. s = concat xs \<and> list_all (denotes r) xs"
  proof -
    have "list_all (denotes r) xs \<Longrightarrow> denotes (Star r) (concat xs)" for xs
      by (induction xs) (auto intro: denotes_Star0 denotes_Star1)
    with that show ?thesis by blast
  qed
qed

lemma concat_singles: "list_all (\<lambda>x. \<exists>c. x = [c] \<and> P c) xs \<Longrightarrow> list_all P (concat xs)"
  by (induction xs) auto

lemma denotes_Star_Class [simp]: "denotes (Star (Class P)) s \<longleftrightarrow> list_all P s"
proof
  show "list_all P s" if "denotes (Star (Class P)) s"
    using that concat_singles unfolding denotes_Star_iff by (auto simp: list_all_iff) fastforce
  show "denotes (Star (Class P)) s" if "list_all P s"
    using that
  proof (induction s)
    case Nil
    show ?case by (rule denotes_Star0)
  next
    case (Cons c s)
    then show ?case using denotes_Star1 [of "Class P" "[c]" s] by simp
  qed
qed

lemma denotes_Seq_Class:
  "denotes (Seq (Class P) q) s \<longleftrightarrow> (\<exists>c t. s = c # t \<and> P c \<and> denotes q t)"
  by (auto simp: denotes_simps(3)) (metis append_Cons append_Nil)

lemma denotes_Plus_Class [simp]: "denotes (Plus (Class P)) s \<longleftrightarrow> s \<noteq> [] \<and> list_all P s"
  by (cases s) (auto simp: Plus_def denotes_Seq_Class)

lemma denotes_UpTo_Class [simp]: "denotes (UpTo n (Class P)) s \<longleftrightarrow> length s \<le> n \<and> list_all P s"
proof (induction n arbitrary: s)
  case 0
  show ?case by auto
next
  case (Suc n)
  show ?case by (cases s) (auto simp: denotes_Seq_Class Suc.IH)
qed

end
