(* ===== verification/Padlok_Validation.thy ===== *)
theory Padlok_Validation
  imports Apiserver_Validation Claims_Resolver Go_Regexp
begin

text \<open>
  The validation of padlok's own configuration fields
  (\<open>pkg/apis/authentication/validation/validation.go\<close>): the apiserver validation of the converted
  configuration, then the external claims sources.  The functions return their lists of field
  errors; the sets of names and conditions already seen are threaded as in the code.  Formatted
  details keep their format with the error as an operand.
\<close>

section \<open>Host names\<close>

definition is_lower_alnum :: "char \<Rightarrow> bool" where
  "is_lower_alnum c \<longleftrightarrow> (97 \<le> byte c \<and> byte c \<le> 122) \<or> (48 \<le> byte c \<and> byte c \<le> 57)"

definition dns1123LabelFmt :: regex where
  "dns1123LabelFmt = Seq (Class is_lower_alnum)
     (Opt (Seq (Star (Class (\<lambda>c. c = CHR ''-'' \<or> is_lower_alnum c))) (Class is_lower_alnum)))"

definition dns1123SubdomainFmt :: regex where
  "dns1123SubdomainFmt = Seq dns1123LabelFmt (Star (Seq (Lit (CHR ''.'')) dns1123LabelFmt))"

definition optionalPortFmt :: regex where
  "optionalPortFmt = Opt (Seq (Lit (CHR '':''))
     (Seq (Class (\<lambda>c. is_digit c \<and> c \<noteq> CHR ''0'')) (UpTo 4 (Class is_digit))))"

definition rfc1123HostnameWithPortRegex :: regex where
  "rfc1123HostnameWithPortRegex = Seq dns1123SubdomainFmt optionalPortFmt"

definition ValidateExternalClaimsSourceURLHostname ::
  "validation_env \<Rightarrow> string option \<Rightarrow> path \<Rightarrow> field_error list" where
  "ValidateExternalClaimsSourceURLHostname ve hostname path =
     (case hostname of
        None \<Rightarrow> [field_Required path ''hostname is required'']
      | Some h \<Rightarrow>
          if length h < 1 then [field_Invalid path h ''hostname must not be an empty string'']
          else if \<not> full_match rfc1123HostnameWithPortRegex h then
            [field_Invalid path h ''hostname must be a valid RFC1123 subdomain name (start/end with a lowercase alphanumeric character and only contain lowercase alphanumeric characters, '-', and '.'), optionally followed by a non-zero port.'']
          else (case url_Parse (ve_ip_literal ve) (''https://'' @ h) of
              Inl err \<Rightarrow> [field_InvalidE path h ''could not parse url with provided hostname: %v'' err]
            | Inr u \<Rightarrow>
                if length (url_Port u) > 0 then
                  (case Atoi (url_Port u) of
                     Inl err \<Rightarrow> [field_InvalidE path h ''could not parse port of the provided hostname: %v'' err]
                   | Inr port \<Rightarrow>
                       if port > 65535 then [field_Invalid path h ''port of the hostname must not be greater than 65535'']
                       else [])
                else []))"

section \<open>The URL and the conditions of a source\<close>

definition ValidateExternalClaimsSourceURLPathExpression ::
  "validation_env \<Rightarrow> string option \<Rightarrow> path \<Rightarrow> field_error list" where
  "ValidateExternalClaimsSourceURLPathExpression ve pathExpression path =
     (case pathExpression of
        None \<Rightarrow> [field_Required path ''pathExpression is required'']
      | Some e \<Rightarrow>
          if length e < 1 then [field_Invalid path e ''pathExpression must not be an empty string'']
          else (case CompileClaimsExpression (ve_engine ve) (ExternalSourceURLExpression [] e) of
              Inl err \<Rightarrow> [field_InvalidE path e ''error compiling expression: %v'' err]
            | Inr _ \<Rightarrow> []))"

definition validateExternalClaimsSourceURL ::
  "validation_env \<Rightarrow> source_url option \<Rightarrow> path \<Rightarrow> field_error list" where
  "validateExternalClaimsSourceURL ve sourceURL path =
     (case sourceURL of
        None \<Rightarrow> [field_Required path ''url is required'']
      | Some u \<Rightarrow>
          ValidateExternalClaimsSourceURLHostname ve (surl_Hostname u) (child path ''hostname'') @
          ValidateExternalClaimsSourceURLPathExpression ve (surl_PathExpression u) (child path ''pathExpression''))"

definition maxExternalSourceConditions :: nat where
  "maxExternalSourceConditions = 16"

definition ValidateExternalSourceCondition ::
  "validation_env \<Rightarrow> external_source_condition \<Rightarrow> string set \<Rightarrow> path \<Rightarrow> field_error list \<times> string set" where
  "ValidateExternalSourceCondition ve condition seenConditions path =
     (case esc_Expression condition of
        None \<Rightarrow> ([field_Required (child path ''expression'') ''expression is required''], seenConditions)
      | Some e \<Rightarrow>
          if length e < 1 then
            ([field_Invalid (child path ''expression'') e ''expression must not be an empty string''], seenConditions)
          else if e \<in> seenConditions then
            ([field_Duplicate (child path ''expression'') e], seenConditions)
          else
            ((case CompileClaimsExpression (ve_engine ve) (ExternalSourceConditionExpression e) of
                Inl err \<Rightarrow> [field_InvalidE (child path ''expression'') e ''error compiling expression: %v'' err]
              | Inr _ \<Rightarrow> []),
             insert e seenConditions))"

definition validateExternalClaimsSourceConditions ::
  "validation_env \<Rightarrow> external_source_condition list \<Rightarrow> path \<Rightarrow> field_error list" where
  "validateExternalClaimsSourceConditions ve conditions path =
     (if length conditions > maxExternalSourceConditions
      then [field_TooMany path (length conditions) maxExternalSourceConditions] else []) @
     fst (scan_idx (\<lambda>i seen c. ValidateExternalSourceCondition ve c seen (index path i)) 0 {} conditions)"

section \<open>Claim mappings\<close>

definition maxSourcedClaimMappings :: nat where
  "maxSourcedClaimMappings = 16"

definition maxSourceMappingNameLength :: nat where
  "maxSourceMappingNameLength = 256"

definition nameRegex :: regex where
  "nameRegex = Plus (Class (\<lambda>c. (97 \<le> byte c \<and> byte c \<le> 122) \<or> c = CHR ''_''))"

definition ValidateExternalClaimsSourceMappingExpression ::
  "validation_env \<Rightarrow> string option \<Rightarrow> path \<Rightarrow> field_error list" where
  "ValidateExternalClaimsSourceMappingExpression ve expression path =
     (case expression of
        None \<Rightarrow> [field_Required path ''expression is required'']
      | Some e \<Rightarrow>
          if length e < 1 then [field_Invalid path e ''expression must not be an empty string'']
          else (case CompileExternalSourceExpression (ve_engine ve) (ExternalSourceMappingExpression [] e) of
              Inl err \<Rightarrow> [field_InvalidE path e ''error compiling expression: %v'' err]
            | Inr _ \<Rightarrow> []))"

definition ValidateExternalClaimsSourceMappingName ::
  "string option \<Rightarrow> string set \<Rightarrow> path \<Rightarrow> field_error list \<times> string set" where
  "ValidateExternalClaimsSourceMappingName name seen path =
     (case name of
        None \<Rightarrow> ([field_Required path ''name is required''], seen)
      | Some n \<Rightarrow>
          if length n < 1 then ([field_Invalid path n ''name must not be an empty string (\"\")''], seen)
          else if \<not> full_match nameRegex n then
            ([field_Invalid path n ''name must consist of only lowercase alpha characters and underscores ('_').''], seen)
          else if length n > maxSourceMappingNameLength then
            ([field_TooLong path n maxSourceMappingNameLength], seen)
          else if n \<in> seen then ([field_Duplicate path n], seen)
          else ([], insert n seen))"

definition validateExternalClaimsSourceMapping ::
  "validation_env \<Rightarrow> sourced_claim_mapping \<Rightarrow> string set \<Rightarrow> path \<Rightarrow> field_error list \<times> string set" where
  "validateExternalClaimsSourceMapping ve mapping seen path =
     (let (errs, seen') = ValidateExternalClaimsSourceMappingName (scm_Name mapping) seen (child path ''name'')
      in (errs @ ValidateExternalClaimsSourceMappingExpression ve (scm_Expression mapping) (child path ''expression''),
          seen'))"

definition validateExternalClaimsSourceMappings ::
  "validation_env \<Rightarrow> sourced_claim_mapping list \<Rightarrow> string set \<Rightarrow> path \<Rightarrow> field_error list \<times> string set" where
  "validateExternalClaimsSourceMappings ve mappings seen path =
     (if mappings = [] then ([field_Required path ''mappings is required and must not be an empty list.''], seen)
      else
       (let (errs, seen') = scan_idx (\<lambda>i s m. validateExternalClaimsSourceMapping ve m s (index path i)) 0 seen mappings
        in ((if length mappings > maxSourcedClaimMappings
             then [field_TooMany path (length mappings) maxSourcedClaimMappings] else []) @ errs, seen')))"

section \<open>TLS and authentication\<close>

definition validateExternalClaimsSourceTLS :: "validation_env \<Rightarrow> tls option \<Rightarrow> path \<Rightarrow> field_error list" where
  "validateExternalClaimsSourceTLS ve t path =
     (case t of
        None \<Rightarrow> []
      | Some x \<Rightarrow>
          if TLS_IsZero x then [field_Invalid path [] ''at least one field must be set when tls is specified'']
          else (case tls_CertificateAuthority x of
              Some ca \<Rightarrow>
                if length ca < 1 then [field_Invalid (child path ''certificateAuthority'') ca
                  ''certificateAuthority must not be empty when set and must be a valid PEM-encoded certificate'']
                else validateCertificateAuthority ve ca (child path ''certificateAuthority'')
            | None \<Rightarrow> []))"

text \<open>\<open>^[!#-[\]-~]+$\<close> and \<open>^[[:print:]]+$\<close>\<close>

definition scopeRegex :: regex where
  "scopeRegex = Plus (Class (\<lambda>c. byte c = 33 \<or> (35 \<le> byte c \<and> byte c \<le> 91) \<or> (93 \<le> byte c \<and> byte c \<le> 126)))"

definition printableASCIIRegexp :: regex where
  "printableASCIIRegexp = Plus (Class (\<lambda>c. 32 \<le> byte c \<and> byte c \<le> 126))"

definition ValidateClientCredentialConfigScope :: "string \<Rightarrow> path \<Rightarrow> field_error list" where
  "ValidateClientCredentialConfigScope scope path =
     (if length scope = 0 then [field_Invalid path scope ''scope must not be an empty string'']
      else if \<not> full_match scopeRegex scope then [field_Invalid path scope
        ''scope must only contain printable ascii characters, not including spaces, double quotes and backslashes'']
      else [])"

definition ValidateClientCredentialConfigClientID :: "string \<Rightarrow> path \<Rightarrow> field_error list" where
  "ValidateClientCredentialConfigClientID clientID path =
     (if length clientID = 0 then [field_Required path ''clientID is required and must not be an empty string'']
      else if \<not> full_match printableASCIIRegexp clientID then
        [field_Invalid path clientID ''clientID must only contain printable ASCII characters'']
      else [])"

definition ValidateClientCredentialConfigClientSecret :: "string \<Rightarrow> path \<Rightarrow> field_error list" where
  "ValidateClientCredentialConfigClientSecret clientSecret path =
     (if length clientSecret = 0 then [field_Required path ''clientSecret is required and must not be an empty string'']
      else if \<not> full_match printableASCIIRegexp clientSecret then
        [field_Invalid path ''<masked>'' ''clientSecret must only contain printable ASCII characters'']
      else [])"

definition ValidateTokenEndpoint :: "validation_env \<Rightarrow> string \<Rightarrow> path \<Rightarrow> field_error list" where
  "ValidateTokenEndpoint ve tokenEndpoint path =
     (if length tokenEndpoint = 0 then [field_Required path ''tokenEndpoint is required and must not be an empty string'']
      else (case url_Parse (ve_ip_literal ve) tokenEndpoint of
          Inl err \<Rightarrow> [field_InvalidE path tokenEndpoint ''tokenEndpoint must be a valid URL: %v'' err]
        | Inr u \<Rightarrow>
            (if Scheme u \<noteq> ''https'' then [field_Invalid path tokenEndpoint ''tokenEndpoint must use the https scheme''] else []) @
            (if Host u = [] then [field_Invalid path tokenEndpoint ''tokenEndpoint must have a host''] else []) @
            (if UrlPath u = [] then [field_Invalid path tokenEndpoint ''tokenEndpoint must have a path''] else []) @
            (if RawQuery u \<noteq> [] then [field_Invalid path tokenEndpoint ''tokenEndpoint must not contain query parameters''] else []) @
            (if Fragment u \<noteq> [] then [field_Invalid path tokenEndpoint ''tokenEndpoint must not contain a fragment''] else []) @
            (if User u \<noteq> None then [field_Invalid path tokenEndpoint ''tokenEndpoint must not contain user information''] else [])))"

definition validateClientCredentialConfig ::
  "validation_env \<Rightarrow> client_credential_config option \<Rightarrow> path \<Rightarrow> field_error list" where
  "validateClientCredentialConfig ve cfg path =
     (case cfg of
        None \<Rightarrow> [field_Required path ''clientCredential is required when type is ClientCredential'']
      | Some c \<Rightarrow>
          ValidateClientCredentialConfigClientID (cc_ClientID c) (child path ''clientID'') @
          ValidateClientCredentialConfigClientSecret (cc_ClientSecret c) (child path ''clientSecret'') @
          ValidateTokenEndpoint ve (cc_TokenEndpoint c) (child path ''tokenEndpoint'') @
          validateExternalClaimsSourceTLS ve (cc_TLS c) (child path ''tls'') @
          concat_idx (\<lambda>i scope. ValidateClientCredentialConfigScope scope (index (child path ''scopes'') i)) 0 (cc_Scopes c))"

definition validateExternalClaimsSourceAuthentication ::
  "validation_env \<Rightarrow> authentication option \<Rightarrow> path \<Rightarrow> field_error list" where
  "validateExternalClaimsSourceAuthentication ve authn path =
     (case authn of
        None \<Rightarrow> []
      | Some a \<Rightarrow>
          (case auth_Type a of
             None \<Rightarrow> [field_Required (child path ''type'') ''type is required and must be one of [ClientCredential RequestProvidedToken]'']
           | Some t \<Rightarrow>
               if t \<notin> {AuthenticationTypeRequestProvidedToken, AuthenticationTypeClientCredential} then
                 [field_Invalid (child path ''type'') t ''type must be one of [ClientCredential RequestProvidedToken]'']
               else if t = AuthenticationTypeClientCredential then
                 validateClientCredentialConfig ve (auth_ClientCredential a) (child path ''clientCredential'')
               else if auth_ClientCredential a \<noteq> None then
                 [field_Forbidden (child path ''clientCredential'')
                    ''clientCredential must not be set when type is not ClientCredential'']
               else []))"

section \<open>Sources and configurations\<close>

definition maxExternalClaimSources :: nat where
  "maxExternalClaimSources = 5"

definition validateExternalClaimsSource ::
  "validation_env \<Rightarrow> external_claims_source \<Rightarrow> string set \<Rightarrow> path \<Rightarrow> field_error list \<times> string set" where
  "validateExternalClaimsSource ve source seen path =
     (let (mapping_errs, seen') = validateExternalClaimsSourceMappings ve (ecs_Mappings source) seen (child path ''mappings'')
      in (validateExternalClaimsSourceAuthentication ve (ecs_Authentication source) (child path ''authentication'') @
          validateExternalClaimsSourceTLS ve (ecs_TLS source) (child path ''tls'') @
          mapping_errs @
          validateExternalClaimsSourceConditions ve (ecs_Conditions source) (child path ''conditions'') @
          validateExternalClaimsSourceURL ve (ecs_URL source) (child path ''url''), seen'))"

definition validateExternalClaimsSources ::
  "validation_env \<Rightarrow> external_claims_source list \<Rightarrow> path \<Rightarrow> field_error list" where
  "validateExternalClaimsSources ve sources fldPath =
     (if length sources > maxExternalClaimSources
      then [field_TooMany fldPath (length sources) maxExternalClaimSources] else []) @
     fst (scan_idx (\<lambda>i seen source. validateExternalClaimsSource ve source seen (index fldPath i)) 0 {} sources)"

definition ValidateAuthenticationConfiguration ::
  "validation_env \<Rightarrow> authentication_configuration \<Rightarrow> field_error list" where
  "ValidateAuthenticationConfiguration ve c =
     (let root = [Child ''jwt''] in
      (if length (cfg_JWT c) = 0 then [field_Required root ''jwt is required and must not be empty''] else []) @
      apiserver_ValidateAuthenticationConfiguration ve
        (ConvertAuthenticationConfigurationToApiserverAuthenticationConfiguration (Some c)) {} @
      concat_idx (\<lambda>i jwt. validateExternalClaimsSources ve (jwt_ExternalClaimsSources jwt)
        (child (index root i) ''externalClaimsSources'')) 0 (cfg_JWT c))"

section \<open>What the host name pattern accepts\<close>

definition valid_label :: "string \<Rightarrow> bool" where
  "valid_label l \<longleftrightarrow> l \<noteq> [] \<and> is_lower_alnum (hd l) \<and> is_lower_alnum (last l) \<and>
     list_all (\<lambda>c. c = CHR ''-'' \<or> is_lower_alnum c) l"

definition dotted :: "string list \<Rightarrow> string" where
  "dotted ls = (case ls of [] \<Rightarrow> [] | l # r \<Rightarrow> l @ concat (map (\<lambda>x. CHR ''.'' # x) r))"

definition valid_port :: "string \<Rightarrow> bool" where
  "valid_port ds \<longleftrightarrow> ds \<noteq> [] \<and> hd ds \<noteq> CHR ''0'' \<and> length ds \<le> 5 \<and> list_all is_digit ds"

lemma denotes_label: "denotes dns1123LabelFmt l \<longleftrightarrow> valid_label l"
proof (cases l)
  case Nil
  then show ?thesis by (simp add: dns1123LabelFmt_def denotes_Seq_Class valid_label_def)
next
  case (Cons c r)
  let ?A = "\<lambda>c. c = CHR ''-'' \<or> is_lower_alnum c"
  have tail: "(\<exists>s t. r = s @ t \<and> list_all ?A s \<and> (\<exists>d. t = [d] \<and> is_lower_alnum d)) \<longleftrightarrow>
      r \<noteq> [] \<and> list_all ?A r \<and> is_lower_alnum (last r)"
    by (cases r rule: rev_cases) auto
  have "denotes dns1123LabelFmt l \<longleftrightarrow> is_lower_alnum c \<and>
      (r = [] \<or> (\<exists>s t. r = s @ t \<and> list_all ?A s \<and> (\<exists>d. t = [d] \<and> is_lower_alnum d)))"
    by (simp add: dns1123LabelFmt_def denotes_Seq_Class Cons) (simp add: denotes_simps(3))
  also have "\<dots> \<longleftrightarrow> valid_label l"
    unfolding tail by (auto simp: valid_label_def Cons)
  finally show ?thesis .
qed

lemma dot_label:
  "denotes (Seq (Lit (CHR ''.'')) dns1123LabelFmt) x \<longleftrightarrow> (\<exists>y. x = CHR ''.'' # y \<and> valid_label y)"
  by (simp add: Lit_def denotes_Seq_Class denotes_label)

lemma denotes_subdomain:
  "denotes dns1123SubdomainFmt h \<longleftrightarrow> (\<exists>ls. ls \<noteq> [] \<and> h = dotted ls \<and> list_all valid_label ls)"
proof
  assume "denotes dns1123SubdomainFmt h"
  then obtain l r where h: "h = l @ r" "valid_label l"
    and "denotes (Star (Seq (Lit (CHR ''.'')) dns1123LabelFmt)) r"
    by (auto simp: dns1123SubdomainFmt_def denotes_simps(3) denotes_label)
  then obtain xs where xs: "r = concat xs" "list_all (\<lambda>x. \<exists>y. x = CHR ''.'' # y \<and> valid_label y) xs"
    unfolding denotes_Star_iff list_all_iff dot_label by blast
  from xs(2) have "\<exists>ys. concat xs = concat (map ((#) (CHR ''.'')) ys) \<and> list_all valid_label ys"
  proof (induction xs)
    case Nil
    show ?case by (rule exI [of _ "[]"]) simp
  next
    case (Cons x xs)
    then obtain y ys where "x = CHR ''.'' # y" "valid_label y"
      "concat xs = concat (map ((#) (CHR ''.'')) ys)" "list_all valid_label ys" by auto
    then show ?case by (intro exI [of _ "y # ys"]) simp
  qed
  then obtain ys where ys: "concat xs = concat (map ((#) (CHR ''.'')) ys)" "list_all valid_label ys" by blast
  with h xs(1) show "\<exists>ls. ls \<noteq> [] \<and> h = dotted ls \<and> list_all valid_label ls"
    by (intro exI [of _ "l # ys"]) (simp add: dotted_def)
next
  assume "\<exists>ls. ls \<noteq> [] \<and> h = dotted ls \<and> list_all valid_label ls"
  then obtain ls where ls: "ls \<noteq> []" "h = dotted ls" "list_all valid_label ls" by blast
  then obtain l ys where "ls = l # ys" by (cases ls) auto
  with ls have h: "h = l @ concat (map ((#) (CHR ''.'')) ys)" and v: "valid_label l" "list_all valid_label ys"
    by (simp_all add: dotted_def)
  have "list_all (denotes (Seq (Lit (CHR ''.'')) dns1123LabelFmt)) (map ((#) (CHR ''.'')) ys)"
    using v(2) by (simp add: list_all_iff dot_label)
  then have "denotes (Star (Seq (Lit (CHR ''.'')) dns1123LabelFmt)) (concat (map ((#) (CHR ''.'')) ys))"
    by (auto simp: denotes_Star_iff)
  then show "denotes dns1123SubdomainFmt h"
    using v(1) by (auto simp: dns1123SubdomainFmt_def denotes_simps(3) denotes_label h)
qed

lemma denotes_port: "denotes optionalPortFmt p \<longleftrightarrow> p = [] \<or> (\<exists>ds. p = CHR '':'' # ds \<and> valid_port ds)"
proof -
  have "(\<exists>c t. ds = c # t \<and> (is_digit c \<and> c \<noteq> CHR ''0'') \<and> length t \<le> 4 \<and> list_all is_digit t) \<longleftrightarrow> valid_port ds" for ds
    by (cases ds) (auto simp: valid_port_def)
  then show ?thesis by (auto simp: optionalPortFmt_def Lit_def denotes_Seq_Class)
qed

lemma host_name_pattern:
  "full_match rfc1123HostnameWithPortRegex h \<longleftrightarrow>
     (\<exists>ls. ls \<noteq> [] \<and> list_all valid_label ls \<and>
        (h = dotted ls \<or> (\<exists>ds. h = dotted ls @ CHR '':'' # ds \<and> valid_port ds)))"
  by (auto simp: full_match_iff rfc1123HostnameWithPortRegex_def denotes_simps(3) denotes_subdomain denotes_port)

section \<open>How accepted host names parse\<close>

lemma lower_alnum_plain:
  assumes "is_lower_alnum c"
  shows "c \<noteq> CHR ''%'' \<and> \<not> escape_in_host c \<and> c \<notin> set ''[@:/?#'' \<and> 32 \<le> byte c \<and> byte c \<noteq> 127"
proof -
  have "c \<noteq> d" if "byte d < 48 \<or> (57 < byte d \<and> byte d < 97)" for d
    using assms that by (auto simp: is_lower_alnum_def)
  from this [of "CHR ''%''"] this [of "CHR ''[''"] this [of "CHR ''@''"] this [of "CHR '':''"]
    this [of "CHR ''/''"] this [of "CHR ''?''"] this [of "CHR ''#''"]
  have "c \<noteq> CHR ''%'' \<and> c \<notin> set ''[@:/?#''"
    by (simp add: byte_def)
  moreover have "\<not> escape_in_host c \<and> 32 \<le> byte c \<and> byte c \<noteq> 127"
    using assms by (auto simp: is_lower_alnum_def escape_in_host_def is_unreserved_def is_alnum_def Let_def)
  ultimately show ?thesis by blast
qed

definition host_char :: "char \<Rightarrow> bool" where
  "host_char c \<longleftrightarrow> is_lower_alnum c \<or> c = CHR ''-'' \<or> c = CHR ''.'' \<or> c = CHR '':''"

lemma host_char_plain:
  assumes "host_char c"
  shows "c \<noteq> CHR ''%'' \<and> \<not> escape_in_host c \<and> c \<notin> set ''[@/?#'' \<and> 32 \<le> byte c \<and> byte c \<noteq> 127"
proof -
  consider "is_lower_alnum c" | "c = CHR ''-''" | "c = CHR ''.''" | "c = CHR '':''"
    using assms by (auto simp: host_char_def)
  then show ?thesis
  proof cases
    case 1
    then show ?thesis using lower_alnum_plain [of c] by simp
  qed (simp_all add: escape_in_host_def is_unreserved_def byte_def)
qed

lemma unescape_plain:
  "list_all (\<lambda>c. c \<noteq> CHR ''%'' \<and> \<not> escape_in_host c) s \<Longrightarrow> unescape True s = Some s"
  by (induction s) auto

lemma digit_lower_alnum: "is_digit c \<Longrightarrow> is_lower_alnum c"
  by (simp add: is_digit_def is_lower_alnum_def)

lemma dotted_chars:
  "list_all valid_label ls \<Longrightarrow> list_all (\<lambda>c. is_lower_alnum c \<or> c = CHR ''-'' \<or> c = CHR ''.'') (dotted ls)"
proof -
  assume v: "list_all valid_label ls"
  have "set (dotted ls) \<subseteq> insert (CHR ''.'') (\<Union> (set ` set ls))"
    by (cases ls) (auto simp: dotted_def)
  moreover have "is_lower_alnum c \<or> c = CHR ''-''" if "l \<in> set ls" "c \<in> set l" for l c
    using v that by (auto simp: list_all_iff valid_label_def)
  ultimately show ?thesis unfolding list_all_iff by blast
qed

lemma dotted_nonempty: "ls \<noteq> [] \<Longrightarrow> list_all valid_label ls \<Longrightarrow> dotted ls \<noteq> []"
  by (cases ls) (simp_all add: dotted_def valid_label_def)

text \<open>A host of host name characters, with an optional port, is what the parser reads back.\<close>

lemma parse_https_host:
  assumes "list_all (\<lambda>c. host_char c \<and> c \<noteq> CHR '':'') n" and "p = [] \<or> (\<exists>ds. p = CHR '':'' # ds \<and> list_all is_digit ds)"
  shows "url_Parse ip (''https://'' @ n @ p) = Inr (empty_url\<lparr>Scheme := ''https'', Host := n @ p\<rparr>)"
proof -
  have chars: "list_all host_char (n @ p)"
  proof -
    have "list_all host_char ds" if "list_all is_digit ds" for ds
      by (rule list.pred_mono_strong [OF that]) (simp add: host_char_def digit_lower_alnum)
    moreover have "list_all host_char n"
      by (rule list.pred_mono_strong [OF assms(1)]) simp
    ultimately show ?thesis using assms(2) by (auto simp: host_char_def)
  qed
  then have plain: "\<forall>c \<in> set (n @ p). c \<noteq> CHR ''%'' \<and> \<not> escape_in_host c \<and> c \<notin> set ''[@/?#'' \<and>
      32 \<le> byte c \<and> byte c \<noteq> 127"
    using host_char_plain unfolding list_all_iff by blast
  let ?s = "''https://'' @ n @ p"
  have cut: "c \<notin> set s \<Longrightarrow> Cut c s = (s, [], False)" for c s
  proof -
    assume "c \<notin> set s"
    then have "takeWhile (\<lambda>x. x \<noteq> c) s = s" "dropWhile (\<lambda>x. x \<noteq> c) s = []"
      by (auto simp: takeWhile_eq_all_conv dropWhile_eq_Nil_conv)
    then show "Cut c s = (s, [], False)" using \<open>c \<notin> set s\<close> by (simp only: Cut_def drop_Nil simp_thms)
  qed
  have hash: "CHR ''#'' \<notin> set ?s" "CHR ''?'' \<notin> set (''//'' @ n @ p)" using plain by auto
  have printable: "list_all (\<lambda>c. 32 \<le> byte c \<and> byte c \<noteq> 127) ?s"
    using plain by (simp add: list_all_iff byte_def)
  have scheme: "get_scheme ?s = Some (''https'', ''//'' @ n @ p)"
    by (simp add: get_scheme_def is_letter_def is_digit_def byte_def)
  have slash: "CHR ''/'' \<notin> set (n @ p)" "CHR ''@'' \<notin> set (n @ p)" "CHR ''['' \<notin> set (n @ p)" using plain by auto
  have drop: "dropWhile (\<lambda>c. c \<noteq> CHR '':'') (n @ p) = p"
  proof -
    have "\<And>x. x \<in> set n \<Longrightarrow> x \<noteq> CHR '':''" using assms(1) by (auto simp: list_all_iff)
    then have "dropWhile (\<lambda>c. c \<noteq> CHR '':'') (n @ p) = dropWhile (\<lambda>c. c \<noteq> CHR '':'') p"
      by (rule dropWhile_append2)
    also have "\<dots> = p" using assms(2) by auto
    finally show ?thesis .
  qed
  have host: "parse_host ip (n @ p) = Some (n @ p)"
  proof -
    have "unescape True (n @ p) = Some (n @ p)"
      by (rule unescape_plain) (use plain in \<open>simp only: list_all_iff\<close>, blast)
    moreover have "valid_optional_port p"
      using assms(2) by (auto simp: valid_optional_port_def)
    ultimately show ?thesis using slash(3) by (simp only: parse_host_def drop if_False if_True)
  qed
  have auth: "parse_authority ip (n @ p) = Some (None, n @ p)"
    using slash(2) by (simp add: parse_authority_def host)
  have tw: "takeWhile (\<lambda>c. c \<noteq> CHR ''/'') (n @ p) = n @ p" "dropWhile (\<lambda>c. c \<noteq> CHR ''/'') (n @ p) = []"
    using slash(1) by (auto simp: takeWhile_eq_all_conv dropWhile_eq_Nil_conv)
  have lower: "map ToLower_byte ''https'' = ''https''" by code_simp
  have rest: "parse_rest ip (empty_url\<lparr>Scheme := ''https''\<rparr>) (''//'' @ n @ p)
      = Some (empty_url\<lparr>Scheme := ''https'', Host := n @ p\<rparr>)"
    by (simp add: parse_rest_def HasPrefix_def auth tw Let_def) (simp add: empty_url_def)
  have "parse_no_fragment ip ?s = Some (empty_url\<lparr>Scheme := ''https'', Host := n @ p\<rparr>)"
    unfolding parse_no_fragment_def using printable
    by (simp only: scheme cut [OF hash(2)] lower option.case prod.case Let_def)
      (use rest in \<open>simp add: empty_url_def\<close>)
  then show ?thesis
    by (simp only: url_Parse_def cut [OF hash(1)] prod.case Let_def option.case) (simp add: empty_url_def)
qed

lemma decimal_bound: "list_all is_digit ds \<Longrightarrow> decimal ds < 10 ^ length ds"
proof (induction ds rule: rev_induct)
  case Nil
  show ?case by (simp add: decimal_def)
next
  case (snoc c ds)
  then have "decimal ds < 10 ^ length ds" "byte c \<le> 57" by (simp_all add: is_digit_def)
  then have "byte c - 48 \<le> 9" by arith
  moreover have "decimal ds < 10 ^ length ds" by fact
  moreover have "decimal (ds @ [c]) = decimal ds * 10 + (byte c - 48)" by (simp add: decimal_def)
  ultimately show ?case by simp
qed

lemma Atoi_port: "valid_port ds \<Longrightarrow> Atoi ds = Inr (decimal ds)"
proof -
  assume v: "valid_port ds"
  then have "decimal ds < 10 ^ length ds" by (intro decimal_bound) (simp add: valid_port_def)
  also have "(10::nat) ^ length ds \<le> 10 ^ 5" using v by (intro power_increasing) (simp_all add: valid_port_def)
  finally have "decimal ds < 2 ^ 63" by simp
  with v show ?thesis by (simp add: Atoi_def decimal_def valid_port_def)
qed

lemma no_colon: "list_all (\<lambda>c. is_lower_alnum c \<or> c = CHR ''-'' \<or> c = CHR ''.'') n \<Longrightarrow> CHR '':'' \<notin> set n"
proof -
  have "\<not> is_lower_alnum (CHR '':'')" by (simp add: is_lower_alnum_def byte_def)
  then show "list_all (\<lambda>c. is_lower_alnum c \<or> c = CHR ''-'' \<or> c = CHR ''.'') n \<Longrightarrow> ?thesis"
    by (auto simp: list_all_iff)
qed

lemma url_Port_none: "Host u = n \<Longrightarrow> CHR '':'' \<notin> set n \<Longrightarrow> url_Port u = []"
  by (simp add: url_Port_def Let_def)

lemma url_Port_some: "Host u = n @ CHR '':'' # ds \<Longrightarrow> list_all is_digit ds \<Longrightarrow> url_Port u = ds"
proof -
  assume h: "Host u = n @ CHR '':'' # ds" and d: "list_all is_digit ds"
  have "\<not> is_digit (CHR '':'')" by (simp add: is_digit_def byte_def)
  with d have c: "\<And>x. x \<in> set (rev ds) \<Longrightarrow> x \<noteq> CHR '':''" by (auto simp: list_all_iff)
  have "takeWhile (\<lambda>c. c \<noteq> CHR '':'') (rev ds @ CHR '':'' # rev n) = rev ds"
    using takeWhile_append2 [of "rev ds" "\<lambda>c. c \<noteq> CHR '':''"] c by simp
  with h d show ?thesis by (simp add: url_Port_def)
qed

lemma host_name_parses:
  assumes "ls \<noteq> []" and "list_all valid_label ls"
    and "h = dotted ls \<and> ds = [] \<or> h = dotted ls @ CHR '':'' # ds \<and> valid_port ds"
  shows "\<exists>u. url_Parse ip (''https://'' @ h) = Inr u \<and> Scheme u = ''https'' \<and> Host u = h \<and> User u = None \<and>
    UrlPath u = [] \<and> RawQuery u = [] \<and> Fragment u = [] \<and> url_Port u = ds"
proof -
  let ?u = "empty_url\<lparr>Scheme := ''https'', Host := h\<rparr>"
  note chars = dotted_chars [OF assms(2)]
  have "list_all (\<lambda>c. host_char c \<and> c \<noteq> CHR '':'') (dotted ls)"
    using chars no_colon [OF chars] by (auto simp: list_all_iff host_char_def)
  then have "url_Parse ip (''https://'' @ dotted ls @ p) = Inr (empty_url\<lparr>Scheme := ''https'', Host := dotted ls @ p\<rparr>)"
    if "p = [] \<or> (\<exists>ds. p = CHR '':'' # ds \<and> list_all is_digit ds)" for p
    using that by (rule parse_https_host)
  from this [of "[]"] this [of "CHR '':'' # ds"] have "url_Parse ip (''https://'' @ h) = Inr ?u"
    using assms(3) by (auto simp: valid_port_def)
  moreover have "url_Port ?u = ds"
    using assms(3)
  proof (elim disjE conjE)
    assume "h = dotted ls" "ds = []"
    then show ?thesis using no_colon [OF chars] by (simp add: url_Port_none)
  next
    assume "h = dotted ls @ CHR '':'' # ds" "valid_port ds"
    then show ?thesis by (intro url_Port_some [of _ "dotted ls"]) (simp_all add: valid_port_def)
  qed
  ultimately show ?thesis by (intro exI [of _ ?u]) (simp add: empty_url_def)
qed

lemma split_at_first: "a @ c # x = b @ c # y \<Longrightarrow> c \<notin> set a \<Longrightarrow> c \<notin> set b \<Longrightarrow> x = y"
proof (induction a arbitrary: b)
  case Nil
  then show ?case by (cases b) auto
next
  case (Cons d a)
  then show ?case by (cases b) auto
qed

lemma hostname_ok_iff:
  "ValidateExternalClaimsSourceURLHostname ve (Some h) p = [] \<longleftrightarrow>
     (\<exists>ls ds. ls \<noteq> [] \<and> list_all valid_label ls \<and>
        (h = dotted ls \<or> h = dotted ls @ CHR '':'' # ds \<and> valid_port ds \<and> decimal ds \<le> 65535))"
proof (cases "full_match rfc1123HostnameWithPortRegex h")
  case True
  then obtain ls ds where l: "ls \<noteq> []" "list_all valid_label ls"
    "h = dotted ls \<and> ds = [] \<or> h = dotted ls @ CHR '':'' # ds \<and> valid_port ds"
    unfolding host_name_pattern by blast
  have ne: "h \<noteq> []" using l(3) dotted_nonempty [OF l(1,2)] by auto
  obtain u where u: "url_Parse (ve_ip_literal ve) (''https://'' @ h) = Inr u" "url_Port u = ds"
    using host_name_parses [OF l] by blast
  have code: "ValidateExternalClaimsSourceURLHostname ve (Some h) p = [] \<longleftrightarrow> ds = [] \<or> decimal ds \<le> 65535"
  proof -
    have "ds = [] \<or> Atoi ds = Inr (decimal ds)" using l(3) Atoi_port by blast
    then show ?thesis using True ne u
      by (elim disjE) (simp_all add: ValidateExternalClaimsSourceURLHostname_def Suc_le_eq not_less)
  qed
  have colon: "CHR '':'' \<notin> set (dotted xs)" if "list_all valid_label xs" for xs
    using no_colon [OF dotted_chars [OF that]] .
  have unique: "ds' = ds" if "h = dotted xs @ CHR '':'' # ds'" "list_all valid_label xs" for xs ds'
  proof -
    have "CHR '':'' \<in> set h" using that(1) by simp
    then have "h = dotted ls @ CHR '':'' # ds" using l(3) colon [OF l(2)] by fastforce
    with that(1) have "dotted xs @ CHR '':'' # ds' = dotted ls @ CHR '':'' # ds" by simp
    then show ?thesis by (rule split_at_first) (simp_all add: colon l(2) that(2))
  qed
  have bare: "ds = []" if "h = dotted xs" "list_all valid_label xs" for xs
    using that l(3) colon [OF that(2)] by auto
  show ?thesis unfolding code
  proof
    assume "ds = [] \<or> decimal ds \<le> 65535"
    with l show "\<exists>ls ds. ls \<noteq> [] \<and> list_all valid_label ls \<and>
        (h = dotted ls \<or> h = dotted ls @ CHR '':'' # ds \<and> valid_port ds \<and> decimal ds \<le> 65535)"
      by (intro exI [of _ ls] exI [of _ ds]) (auto simp: decimal_def)
  next
    assume "\<exists>ls ds. ls \<noteq> [] \<and> list_all valid_label ls \<and>
        (h = dotted ls \<or> h = dotted ls @ CHR '':'' # ds \<and> valid_port ds \<and> decimal ds \<le> 65535)"
    then obtain xs ds' where x: "list_all valid_label xs"
      "h = dotted xs \<or> h = dotted xs @ CHR '':'' # ds' \<and> decimal ds' \<le> 65535" by blast
    from x(2) show "ds = [] \<or> decimal ds \<le> 65535"
    proof (elim disjE conjE)
      assume "h = dotted xs"
      then show ?thesis using bare [OF _ x(1)] by simp
    next
      assume "h = dotted xs @ CHR '':'' # ds'" "decimal ds' \<le> 65535"
      then show ?thesis using unique [OF _ x(1)] by simp
    qed
  qed
next
  case False
  then have "ValidateExternalClaimsSourceURLHostname ve (Some h) p \<noteq> []"
    by (simp add: ValidateExternalClaimsSourceURLHostname_def)
  then show ?thesis using False unfolding host_name_pattern by blast
qed

text \<open>What the comment on the field asks for, without a port: labels of RFC 1123, with its limits on lengths.\<close>

definition rfc1123_subdomain :: "string \<Rightarrow> bool" where
  "rfc1123_subdomain h \<longleftrightarrow> length h \<le> 253 \<and>
     (\<exists>ls. ls \<noteq> [] \<and> h = dotted ls \<and> list_all (\<lambda>l. valid_label l \<and> length l \<le> 63) ls)"

lemma subdomain_accepted: "rfc1123_subdomain h \<Longrightarrow> ValidateExternalClaimsSourceURLHostname ve (Some h) p = []"
  unfolding hostname_ok_iff by (auto simp: rfc1123_subdomain_def list_all_iff)

lemma long_label_accepted: "0 < n \<Longrightarrow> ValidateExternalClaimsSourceURLHostname ve (Some (replicate n CHR ''a'')) p = []"
  unfolding hostname_ok_iff
  by (intro exI [of _ "[replicate n CHR ''a'']"])
    (simp add: dotted_def valid_label_def list_all_iff is_lower_alnum_def byte_def)

text \<open>
  C35: a host name of a source is accepted exactly when it consists of labels, joined by dots, followed by nothing or by a
  colon and a port between 1 and 65535 written without leading zeros, where a label is made of lower case letters, digits and inner
  hyphens.  Every subdomain of RFC 1123 is therefore accepted; but unlike RFC 1123 and the comment on the field, which allow 63
  characters in a label and 253 in all, validation looks at no length: a label of any number of letters is accepted.
\<close>

theorem hostname_accepted_iff:
  "(ValidateExternalClaimsSourceURLHostname ve (Some h) p = [] \<longleftrightarrow>
     (\<exists>ls ds. ls \<noteq> [] \<and> list_all valid_label ls \<and>
        (h = dotted ls \<or> h = dotted ls @ CHR '':'' # ds \<and> valid_port ds \<and> decimal ds \<le> 65535))) \<and>
   (rfc1123_subdomain h \<longrightarrow> ValidateExternalClaimsSourceURLHostname ve (Some h) p = []) \<and>
   (0 < n \<longrightarrow> ValidateExternalClaimsSourceURLHostname ve (Some (replicate n CHR ''a'')) p = [])"
  using hostname_ok_iff subdomain_accepted long_label_accepted by blast

theorem hostname_accepted_iff_witness:
  "ValidateExternalClaimsSourceURLHostname sample_ve (Some ''idp.example.org:8443'') [] = [] \<and>
   ValidateExternalClaimsSourceURLHostname sample_ve (Some ''idp.example.org'') [] = [] \<and>
   ValidateExternalClaimsSourceURLHostname sample_ve (Some (replicate 254 CHR ''a'')) [] = []"
proof -
  let ?ls = "[''idp'', ''example'', ''org'']"
  have v: "list_all valid_label ?ls" by code_simp
  have d: "valid_port ''8443''" "decimal ''8443'' \<le> 65535"
    by (simp_all add: valid_port_def is_digit_def decimal_def byte_def)
  have h: "''idp.example.org:8443'' = dotted ?ls @ CHR '':'' # ''8443''" "''idp.example.org'' = dotted ?ls"
    by (simp_all add: dotted_def)
  have "\<exists>ls ds. ls \<noteq> [] \<and> list_all valid_label ls \<and> (''idp.example.org:8443'' = dotted ls \<or>
      ''idp.example.org:8443'' = dotted ls @ CHR '':'' # ds \<and> valid_port ds \<and> decimal ds \<le> 65535)"
    by (rule exI [of _ ?ls], rule exI [of _ "''8443''"]) (intro conjI disjI2 v d h list.distinct(2))
  moreover have "rfc1123_subdomain ''idp.example.org''"
    unfolding rfc1123_subdomain_def
    by (intro conjI exI [of _ ?ls] h) (use v in simp_all)
  ultimately show ?thesis
    using hostname_accepted_iff [of sample_ve "''idp.example.org:8443''" "[]" 254]
      hostname_accepted_iff [of sample_ve "''idp.example.org''" "[]" 254] by simp
qed

section \<open>The scans over mappings, conditions and sources\<close>

definition mapping_names :: "sourced_claim_mapping \<Rightarrow> string list" where
  "mapping_names m = (case scm_Name m of None \<Rightarrow> [] | Some n \<Rightarrow> [n])"

definition source_names :: "external_claims_source \<Rightarrow> string list" where
  "source_names s = concat (map mapping_names (ecs_Mappings s))"

definition valid_mapping :: "validation_env \<Rightarrow> sourced_claim_mapping \<Rightarrow> bool" where
  "valid_mapping ve m \<longleftrightarrow>
     (case scm_Name m of None \<Rightarrow> False | Some n \<Rightarrow>
        n \<noteq> [] \<and> list_all (\<lambda>c. (97 \<le> byte c \<and> byte c \<le> 122) \<or> c = CHR ''_'') n \<and> length n \<le> 256) \<and>
     (case scm_Expression m of None \<Rightarrow> False | Some e \<Rightarrow>
        e \<noteq> [] \<and> \<not> isl (CompileExternalSourceExpression (ve_engine ve) (ExternalSourceMappingExpression [] e)))"

definition valid_condition :: "validation_env \<Rightarrow> external_source_condition \<Rightarrow> bool" where
  "valid_condition ve c \<longleftrightarrow>
     (case esc_Expression c of None \<Rightarrow> False | Some e \<Rightarrow>
        e \<noteq> [] \<and> \<not> isl (CompileClaimsExpression (ve_engine ve) (ExternalSourceConditionExpression e)))"

lemma Suc_0_le_length [simp]: "length xs < Suc 0 \<longleftrightarrow> xs = []"
  by (cases xs) auto

lemma mapping_accepts:
  assumes "fst (validateExternalClaimsSourceMapping ve m seen p) = []"
  shows "valid_mapping ve m \<and> set (mapping_names m) \<inter> seen = {} \<and> distinct (mapping_names m) \<and>
    snd (validateExternalClaimsSourceMapping ve m seen p) = seen \<union> set (mapping_names m)"
  using assms
  by (auto simp: validateExternalClaimsSourceMapping_def ValidateExternalClaimsSourceMappingName_def
      ValidateExternalClaimsSourceMappingExpression_def valid_mapping_def mapping_names_def full_match_iff
      nameRegex_def maxSourceMappingNameLength_def split_beta split: option.splits if_splits sum.splits)

interpretation mapping_scan: seen_scan
  "\<lambda>i seen m. validateExternalClaimsSourceMapping ve m seen (index path i)" "\<lambda>s. s" mapping_names for ve path
  by unfold_locales (auto dest: mapping_accepts)

lemma condition_accepts:
  assumes "fst (ValidateExternalSourceCondition ve c seen p) = []"
  shows "valid_condition ve c \<and> esc_Expression c \<notin> Some ` seen \<and>
    Some ` snd (ValidateExternalSourceCondition ve c seen p) = insert (esc_Expression c) (Some ` seen)"
  using assms
  by (auto simp: ValidateExternalSourceCondition_def valid_condition_def split: option.splits if_splits sum.splits)

interpretation condition_scan: seen_scan
  "\<lambda>i seen c. ValidateExternalSourceCondition ve c seen (index path i)" "\<lambda>s. Some ` s" "\<lambda>c. [esc_Expression c]"
  for ve path
  by unfold_locales (auto dest!: condition_accepts)

lemma mappings_accept:
  assumes "fst (validateExternalClaimsSourceMappings ve ms seen p) = []"
  shows "ms \<noteq> [] \<and> length ms \<le> 16 \<and> list_all (valid_mapping ve) ms \<and>
    distinct (concat (map mapping_names ms)) \<and> set (concat (map mapping_names ms)) \<inter> seen = {} \<and>
    snd (validateExternalClaimsSourceMappings ve ms seen p) = seen \<union> set (concat (map mapping_names ms))"
proof -
  let ?f = "\<lambda>i s m. validateExternalClaimsSourceMapping ve m s (index p i)"
  have ms: "ms \<noteq> []" "length ms \<le> 16" and scan: "fst (scan_idx ?f 0 seen ms) = []"
    using assms by (auto simp: validateExternalClaimsSourceMappings_def maxSourcedClaimMappings_def split_beta split: if_splits)
  have "list_all (valid_mapping ve) ms"
    using scan_idx_each [OF scan] mapping_accepts unfolding list_all_iff by blast
  moreover have "snd (validateExternalClaimsSourceMappings ve ms seen p) = snd (scan_idx ?f 0 seen ms)"
    using ms(1) by (simp add: validateExternalClaimsSourceMappings_def split_beta)
  ultimately show ?thesis
    using ms mapping_scan.scan_adds [OF scan] mapping_scan.scan_distinct [OF scan] by simp
qed

lemma conditions_accept:
  assumes "validateExternalClaimsSourceConditions ve cs p = []"
  shows "length cs \<le> 16 \<and> list_all (valid_condition ve) cs \<and> distinct (map esc_Expression cs)"
proof -
  let ?f = "\<lambda>i seen c. ValidateExternalSourceCondition ve c seen (index p i)"
  have len: "length cs \<le> 16" and scan: "fst (scan_idx ?f 0 {} cs) = []"
    using assms by (auto simp: validateExternalClaimsSourceConditions_def maxExternalSourceConditions_def split: if_splits)
  have "list_all (valid_condition ve) cs"
    using scan_idx_each [OF scan] condition_accepts unfolding list_all_iff by blast
  then show ?thesis using len condition_scan.scan_distinct [OF scan] by (simp add: concat_singletons)
qed

definition valid_external_source :: "validation_env \<Rightarrow> external_claims_source \<Rightarrow> bool" where
  "valid_external_source ve s \<longleftrightarrow>
     ecs_Mappings s \<noteq> [] \<and> length (ecs_Mappings s) \<le> 16 \<and> list_all (valid_mapping ve) (ecs_Mappings s) \<and>
     length (ecs_Conditions s) \<le> 16 \<and> list_all (valid_condition ve) (ecs_Conditions s) \<and>
     distinct (map esc_Expression (ecs_Conditions s)) \<and>
     (case ecs_URL s of None \<Rightarrow> False | Some u \<Rightarrow>
        ValidateExternalClaimsSourceURLHostname ve (surl_Hostname u) [] = [] \<and>
        (case surl_PathExpression u of None \<Rightarrow> False | Some e \<Rightarrow>
           e \<noteq> [] \<and> \<not> isl (CompileClaimsExpression (ve_engine ve) (ExternalSourceURLExpression [] e))))"

lemma hostname_any_path:
  "ValidateExternalClaimsSourceURLHostname ve h p = [] \<longleftrightarrow> ValidateExternalClaimsSourceURLHostname ve h [] = []"
proof (cases h)
  case None
  then show ?thesis by (simp add: ValidateExternalClaimsSourceURLHostname_def)
next
  case (Some x)
  show ?thesis unfolding Some hostname_ok_iff by (rule refl)
qed

lemma source_accepts:
  assumes "fst (validateExternalClaimsSource ve s seen p) = []"
  shows "valid_external_source ve s \<and> set (source_names s) \<inter> seen = {} \<and> distinct (source_names s) \<and>
    snd (validateExternalClaimsSource ve s seen p) = seen \<union> set (source_names s)"
proof -
  have m: "fst (validateExternalClaimsSourceMappings ve (ecs_Mappings s) seen (child p ''mappings'')) = []"
    and c: "validateExternalClaimsSourceConditions ve (ecs_Conditions s) (child p ''conditions'') = []"
    and u: "validateExternalClaimsSourceURL ve (ecs_URL s) (child p ''url'') = []"
    using assms by (simp_all add: validateExternalClaimsSource_def split_beta)
  have "case ecs_URL s of None \<Rightarrow> False | Some u \<Rightarrow>
      ValidateExternalClaimsSourceURLHostname ve (surl_Hostname u) [] = [] \<and>
      (case surl_PathExpression u of None \<Rightarrow> False | Some e \<Rightarrow>
         e \<noteq> [] \<and> \<not> isl (CompileClaimsExpression (ve_engine ve) (ExternalSourceURLExpression [] e)))"
    using u by (auto simp: validateExternalClaimsSourceURL_def
        hostname_any_path [of _ _ "p @ [Child ''url'', Child ''hostname'']"] ValidateExternalClaimsSourceURLPathExpression_def split: option.splits if_splits sum.splits)
  then show ?thesis
    using mappings_accept [OF m] conditions_accept [OF c]
    by (simp add: valid_external_source_def source_names_def validateExternalClaimsSource_def split_beta)
qed

interpretation source_scan: seen_scan
  "\<lambda>i seen s. validateExternalClaimsSource ve s seen (index path i)" "\<lambda>s. s" source_names for ve path
  by unfold_locales (auto dest: source_accepts)

lemma sources_accept:
  assumes "validateExternalClaimsSources ve sources p = []"
  shows "length sources \<le> 5 \<and> list_all (valid_external_source ve) sources \<and>
    distinct (concat (map source_names sources))"
proof -
  let ?f = "\<lambda>i seen s. validateExternalClaimsSource ve s seen (index p i)"
  have len: "length sources \<le> 5" and scan: "fst (scan_idx ?f 0 {} sources) = []"
    using assms by (auto simp: validateExternalClaimsSources_def maxExternalClaimSources_def split: if_splits)
  have "list_all (valid_external_source ve) sources"
    using scan_idx_each [OF scan] source_accepts unfolding list_all_iff by blast
  then show ?thesis using len source_scan.scan_distinct [OF scan] by simp
qed

section \<open>Accepted configurations\<close>

lemma configuration_bounds:
  assumes "ValidateAuthenticationConfiguration ve c = []"
  shows "cfg_JWT c \<noteq> [] \<and> length (cfg_JWT c) \<le> 64 \<and>
    distinct (map (\<lambda>a. as_issuer_URL (as_jwt_Issuer (ConvertJWTAuthenticatorToApiserverJWTAuthenticator a))) (cfg_JWT c)) \<and>
    list_all (\<lambda>a. length (jwt_ExternalClaimsSources a) \<le> 5 \<and>
      list_all (valid_external_source ve) (jwt_ExternalClaimsSources a) \<and>
      distinct (concat (map source_names (jwt_ExternalClaimsSources a)))) (cfg_JWT c)"
proof -
  let ?c = "ConvertAuthenticationConfigurationToApiserverAuthenticationConfiguration (Some c)"
  have jwts: "as_cfg_JWT ?c = map ConvertJWTAuthenticatorToApiserverJWTAuthenticator (cfg_JWT c)"
    by (simp add: ConvertAuthenticationConfigurationToApiserverAuthenticationConfiguration_def)
  have ne: "cfg_JWT c \<noteq> []" and api: "apiserver_ValidateAuthenticationConfiguration ve ?c {} = []"
    and src: "concat_idx (\<lambda>i jwt. validateExternalClaimsSources ve (jwt_ExternalClaimsSources jwt)
        (child (index [Child ''jwt''] i) ''externalClaimsSources'')) 0 (cfg_JWT c) = []"
    using assms by (auto simp: ValidateAuthenticationConfiguration_def Let_def split: if_splits)
  have "list_all (\<lambda>a. length (jwt_ExternalClaimsSources a) \<le> 5 \<and>
      list_all (valid_external_source ve) (jwt_ExternalClaimsSources a) \<and>
      distinct (concat (map source_names (jwt_ExternalClaimsSources a)))) (cfg_JWT c)"
    unfolding list_all_iff [of _ "cfg_JWT c"] using concat_idx_Nil_D [OF src] sources_accept by blast
  with ne configuration_accepts [OF api] show ?thesis by (simp add: jwts comp_def)
qed

text \<open>
  C23: a configuration that padlok accepts has between 1 and 64 authenticators with distinct issuer URLs.
  Each has at most five external sources; no claim name is set twice by the sources of one authenticator;
  every source has 1 to 16 mappings with lower case names of at most 256 characters, at most 16 distinct
  conditions and an accepted host name, and all its expressions compile.
\<close>

theorem accepted_padlok_configuration:
  assumes "ValidateAuthenticationConfiguration ve c = []"
  shows "cfg_JWT c \<noteq> [] \<and> length (cfg_JWT c) \<le> 64 \<and>
    distinct (map (\<lambda>a. as_issuer_URL (as_jwt_Issuer (ConvertJWTAuthenticatorToApiserverJWTAuthenticator a))) (cfg_JWT c)) \<and>
    list_all (\<lambda>a. length (jwt_ExternalClaimsSources a) \<le> 5 \<and>
      list_all (valid_external_source ve) (jwt_ExternalClaimsSources a) \<and>
      distinct (concat (map source_names (jwt_ExternalClaimsSources a)))) (cfg_JWT c)"
  by (rule configuration_bounds [OF assms])

definition sample_padlok_jwt :: jwt_authenticator where
  "sample_padlok_jwt = \<lparr>jwt_Issuer = Some \<lparr>issuer_URL = ''https://idp'', issuer_DiscoveryURL = [],
       issuer_CertificateAuthority = [], issuer_Audiences = [''aud''], issuer_AudienceMatchPolicy = []\<rparr>,
     jwt_ClaimValidationRules = [\<lparr>cvr_Claim = [], cvr_RequiredValue = [],
       cvr_Expression = ''true'', cvr_Message = ''m''\<rparr>],
     jwt_ClaimMappings = Some \<lparr>cm_Username = \<lparr>pce_Claim = [], pce_Prefix = None, pce_Expression = ''claims.sub''\<rparr>,
       cm_Groups = \<lparr>pce_Claim = [], pce_Prefix = None, pce_Expression = []\<rparr>,
       cm_UID = \<lparr>ce_Claim = [], ce_Expression = []\<rparr>, cm_Extra = []\<rparr>,
     jwt_UserValidationRules = [], jwt_ExternalClaimsSources = [sample_source]\<rparr>"

definition sample_configuration :: authentication_configuration where
  "sample_configuration = \<lparr>cfg_TypeMeta = \<lparr>tm_Kind = [], tm_APIVersion = []\<rparr>, cfg_JWT = [sample_padlok_jwt]\<rparr>"

lemma sample_padlok_jwt_converted: "ConvertJWTAuthenticatorToApiserverJWTAuthenticator sample_padlok_jwt = sample_as_jwt"
  by (simp add: convert_defs ConvertJWTAuthenticatorToApiserverJWTAuthenticator_def zero_as_issuer_def sample_padlok_jwt_def sample_as_jwt_def zero_as_claim_mappings_def zero_as_pce_def)

lemma sample_hostname: "ValidateExternalClaimsSourceURLHostname ve (Some ''example.com'') q = []"
proof -
  let ?ls = "[''example'', ''com'']"
  have v: "list_all valid_label ?ls" by code_simp
  have h: "''example.com'' = dotted ?ls" by (simp add: dotted_def)
  show ?thesis
    by (rule hostname_ok_iff [THEN iffD2], rule exI [of _ ?ls], rule exI [of _ "[]"])
      (intro conjI disjI1 v h list.distinct(2))
qed

lemma sample_source_valid: "fst (validateExternalClaimsSource sample_ve sample_source {} q) = []"
proof -
  have "list_all (\<lambda>c. (97 \<le> byte c \<and> byte c \<le> 122) \<or> c = CHR ''_'') ''team''" by (simp add: byte_def)
  then have "full_match nameRegex ''team''" by (simp add: full_match_iff nameRegex_def)
  then show ?thesis
    by (simp add: validateExternalClaimsSource_def sample_source_def split_beta
        validateExternalClaimsSourceMappings_def validateExternalClaimsSourceMapping_def
        ValidateExternalClaimsSourceMappingName_def ValidateExternalClaimsSourceMappingExpression_def
        maxSourcedClaimMappings_def maxSourceMappingNameLength_def validateExternalClaimsSourceConditions_def
        ValidateExternalSourceCondition_def maxExternalSourceConditions_def
        validateExternalClaimsSourceAuthentication_def validateExternalClaimsSourceTLS_def
        validateExternalClaimsSourceURL_def ValidateExternalClaimsSourceURLPathExpression_def
        sample_hostname sample_defs sample_ve_def)
qed

lemma sample_configuration_accepted: "ValidateAuthenticationConfiguration sample_ve sample_configuration = []"
proof -
  have "apiserver_ValidateAuthenticationConfiguration sample_ve
      (ConvertAuthenticationConfigurationToApiserverAuthenticationConfiguration (Some sample_configuration)) {} = []"
    by (simp add: ConvertAuthenticationConfigurationToApiserverAuthenticationConfiguration_def
        sample_configuration_def sample_padlok_jwt_converted apiserver_ValidateAuthenticationConfiguration_def Let_def
        authenticator_step_def sample_valid_at)
  moreover have "validateExternalClaimsSources sample_ve (jwt_ExternalClaimsSources sample_padlok_jwt) q = []" for q
    by (simp add: validateExternalClaimsSources_def maxExternalClaimSources_def sample_padlok_jwt_def sample_source_valid)
  ultimately show ?thesis
    by (simp add: ValidateAuthenticationConfiguration_def Let_def sample_configuration_def)
qed

theorem accepted_padlok_configuration_witness: "valid_external_source sample_ve sample_source"
  using accepted_padlok_configuration [OF sample_configuration_accepted]
  by (simp add: sample_configuration_def sample_padlok_jwt_def)

text \<open>
  A client credential is accepted exactly when its identifier and secret are non-empty printable
  ASCII, its token endpoint is an https URL with a host and a path and without query, fragment and user
  information, its scopes are non-empty and free of spaces, quotes and backslashes, and its TLS part is
  accepted.
\<close>

theorem client_credential_accepted_iff:
  "validateClientCredentialConfig ve (Some c) p = [] \<longleftrightarrow>
     (cc_ClientID c \<noteq> [] \<and> list_all (\<lambda>d. 32 \<le> byte d \<and> byte d \<le> 126) (cc_ClientID c)) \<and>
     (cc_ClientSecret c \<noteq> [] \<and> list_all (\<lambda>d. 32 \<le> byte d \<and> byte d \<le> 126) (cc_ClientSecret c)) \<and>
     (cc_TokenEndpoint c \<noteq> [] \<and>
       (case url_Parse (ve_ip_literal ve) (cc_TokenEndpoint c) of Inl _ \<Rightarrow> False
        | Inr u \<Rightarrow> Scheme u = ''https'' \<and> Host u \<noteq> [] \<and> UrlPath u \<noteq> [] \<and> RawQuery u = [] \<and>
            Fragment u = [] \<and> User u = None)) \<and>
     validateExternalClaimsSourceTLS ve (cc_TLS c) (child p ''tls'') = [] \<and>
     list_all (\<lambda>scope. scope \<noteq> [] \<and> list_all (\<lambda>d. 33 \<le> byte d \<and> byte d \<le> 126 \<and> byte d \<noteq> 34 \<and> byte d \<noteq> 92) scope)
       (cc_Scopes c)"
proof -
  have range: "(byte d = 33 \<or> 35 \<le> byte d \<and> byte d \<le> 91 \<or> 93 \<le> byte d \<and> byte d \<le> 126) \<longleftrightarrow>
      33 \<le> byte d \<and> byte d \<le> 126 \<and> byte d \<noteq> 34 \<and> byte d \<noteq> 92" for d
    by arith
  have scope: "ValidateClientCredentialConfigScope scope q = [] \<longleftrightarrow> scope \<noteq> [] \<and>
      list_all (\<lambda>d. 33 \<le> byte d \<and> byte d \<le> 126 \<and> byte d \<noteq> 34 \<and> byte d \<noteq> 92) scope" for scope q
    by (auto simp: ValidateClientCredentialConfigScope_def full_match_iff scopeRegex_def range)
  have scopes: "concat_idx (\<lambda>i scope. ValidateClientCredentialConfigScope scope (q i)) n xs = [] \<longleftrightarrow>
      list_all (\<lambda>scope. scope \<noteq> [] \<and>
        list_all (\<lambda>d. 33 \<le> byte d \<and> byte d \<le> 126 \<and> byte d \<noteq> 34 \<and> byte d \<noteq> 92) scope) xs" for q n xs
    by (induction xs arbitrary: n) (simp_all add: scope)
  have id: "ValidateClientCredentialConfigClientID x q = [] \<longleftrightarrow>
      x \<noteq> [] \<and> list_all (\<lambda>d. 32 \<le> byte d \<and> byte d \<le> 126) x" for x q
    by (simp add: ValidateClientCredentialConfigClientID_def full_match_iff printableASCIIRegexp_def)
  have secret: "ValidateClientCredentialConfigClientSecret x q = [] \<longleftrightarrow>
      x \<noteq> [] \<and> list_all (\<lambda>d. 32 \<le> byte d \<and> byte d \<le> 126) x" for x q
    by (simp add: ValidateClientCredentialConfigClientSecret_def full_match_iff printableASCIIRegexp_def)
  have endpoint: "ValidateTokenEndpoint ve x q = [] \<longleftrightarrow> x \<noteq> [] \<and>
      (case url_Parse (ve_ip_literal ve) x of Inl _ \<Rightarrow> False
       | Inr u \<Rightarrow> Scheme u = ''https'' \<and> Host u \<noteq> [] \<and> UrlPath u \<noteq> [] \<and> RawQuery u = [] \<and>
           Fragment u = [] \<and> User u = None)" for x q
    by (simp add: ValidateTokenEndpoint_def split: sum.splits)
  show ?thesis
    unfolding validateClientCredentialConfig_def option.case append_is_Nil_conv id secret endpoint scopes
    by (simp only: conj_assoc)
qed

section \<open>Accepted sources can be built\<close>

lemma compile_same_expression:
  assumes "GetExpression a = GetExpression b" and "ReturnTypes a = ReturnTypes b"
  shows "isl (compile eng a v) = isl (compile eng b v)"
  using assms by (auto simp: compile_def split: option.splits sum.splits)

lemma map_res_accessors:
  assumes "\<And>x. x \<in> set xs \<Longrightarrow> \<not> isl (f x)" and "\<And>x r. f x = Inr r \<Longrightarrow> cr_ExpressionAccessor r = acc x"
  shows "\<exists>rs. map_res f xs = Inr rs \<and> map cr_ExpressionAccessor rs = map acc xs"
  using assms(1)
proof (induction xs)
  case Nil
  show ?case by simp
next
  case (Cons x xs)
  then obtain rs where "map_res f xs = Inr rs" "map cr_ExpressionAccessor rs = map acc xs" by auto
  moreover obtain r where "f x = Inr r" using Cons.prems [of x] by (cases "f x") auto
  ultimately show ?case using assms(2) by simp
qed

lemma complete_mappings:
  "list_all (valid_mapping ve) ms \<Longrightarrow>
     List.map_filter complete_mapping ms = map (\<lambda>m. (the (scm_Name m), the (scm_Expression m))) ms"
  by (induction ms) (auto simp: valid_mapping_def complete_mapping_def List.map_filter_def split: option.splits)

lemma complete_conditions:
  "list_all (valid_condition ve) cs \<Longrightarrow> List.map_filter esc_Expression cs = map (\<lambda>c. the (esc_Expression c)) cs"
  by (induction cs) (auto simp: valid_condition_def List.map_filter_def split: option.splits)

lemma accepted_tls_client:
  assumes "validateExternalClaimsSourceTLS ve t p = []"
    and pool: "\<And>ca. ve_NewPoolFromBytes ve ca = None \<Longrightarrow> env_pem_ok env ca"
  shows "\<exists>client. httpClientForTLSConfig env t = Inr client"
proof (cases t)
  case None
  then show ?thesis by (simp add: httpClientForTLSConfig_def)
next
  case (Some cfg)
  show ?thesis
  proof (cases "tls_CertificateAuthority cfg")
    case None
    then show ?thesis by (simp add: httpClientForTLSConfig_def Some nonempty_ca_def)
  next
    case ca: (Some ca)
    then have "ve_NewPoolFromBytes ve ca = None"
      using assms(1) Some
      by (auto simp: validateExternalClaimsSourceTLS_def validateCertificateAuthority_def TLS_IsZero_def
          split: if_splits option.splits)
    then show ?thesis using ca by (simp add: httpClientForTLSConfig_def Some Let_def pool)
  qed
qed

lemma valid_mappings_build:
  assumes "list_all (valid_mapping ve) ms"
  shows "\<exists>rs. buildExternalClaimsMapperFromSourcedClaimMappings (ve_engine ve) ms = Inr rs \<and>
    map cr_ExpressionAccessor rs =
      map (\<lambda>m. ExternalSourceMappingExpression (the (scm_Name m)) (the (scm_Expression m))) ms"
proof -
  let ?eng = "ve_engine ve"
  have "\<not> isl (compile_sourced_mapping ?eng (the (scm_Name m), the (scm_Expression m)))"
    if "m \<in> set ms" for m
  proof -
    have "valid_mapping ve m" using assms that by (auto simp: list_all_iff)
    then show ?thesis
      using compile_same_expression [of "ExternalSourceMappingExpression (the (scm_Name m)) (the (scm_Expression m))"
          "ExternalSourceMappingExpression [] (the (scm_Expression m))" ?eng responseVarName]
      by (auto simp: compile_sourced_mapping_def CompileExternalSourceExpression_def valid_mapping_def bind_res_def
          split: option.splits sum.splits)
  qed
  moreover have "cr_ExpressionAccessor r = ExternalSourceMappingExpression (fst x) (snd x)"
    if "compile_sourced_mapping ?eng x = Inr r" for x r
    using that by (auto simp: compile_sourced_mapping_def res_simps CompileExternalSourceExpression_def dest: compile_accessor)
  ultimately have "\<exists>rs. map_res (compile_sourced_mapping ?eng)
        (map (\<lambda>m. (the (scm_Name m), the (scm_Expression m))) ms) = Inr rs \<and>
      map cr_ExpressionAccessor rs = map (\<lambda>x. ExternalSourceMappingExpression (fst x) (snd x))
        (map (\<lambda>m. (the (scm_Name m), the (scm_Expression m))) ms)"
    by (intro map_res_accessors) auto
  then show ?thesis
    unfolding buildExternalClaimsMapperFromSourcedClaimMappings_def complete_mappings [OF assms] by (auto simp: comp_def)
qed

lemma valid_conditions_build:
  assumes "list_all (valid_condition ve) cs"
  shows "\<exists>rs. buildExternalSourceConditionMapperFromConditions (ve_engine ve) cs = Inr rs \<and>
    map cr_ExpressionAccessor rs = map (\<lambda>c. ExternalSourceConditionExpression (the (esc_Expression c))) cs"
proof -
  let ?eng = "ve_engine ve"
  have "\<not> isl (compile_condition ?eng (the (esc_Expression c)))" if "c \<in> set cs" for c
    using assms that by (fastforce simp: list_all_iff valid_condition_def compile_condition_def
        bind_res_def split: option.splits sum.splits)
  moreover have "cr_ExpressionAccessor r = ExternalSourceConditionExpression e"
    if "compile_condition ?eng e = Inr r" for e r
    using that by (auto simp: compile_condition_def res_simps CompileClaimsExpression_def dest: compile_accessor)
  ultimately have "\<exists>rs. map_res (compile_condition ?eng) (map (\<lambda>c. the (esc_Expression c)) cs) = Inr rs \<and>
      map cr_ExpressionAccessor rs = map ExternalSourceConditionExpression (map (\<lambda>c. the (esc_Expression c)) cs)"
    by (intro map_res_accessors) auto
  then show ?thesis
    unfolding buildExternalSourceConditionMapperFromConditions_def complete_conditions [OF assms] by (auto simp: comp_def)
qed

lemma source_builds:
  assumes "fst (validateExternalClaimsSource ve s seen p) = []"
    and "\<And>ca. ve_NewPoolFromBytes ve ca = None \<Longrightarrow> env_pem_ok env ca"
  shows "\<exists>ecr. resolver_New env (ve_engine ve) g s = Inr ecr \<and>
    map cr_ExpressionAccessor (es_Sources (ecr_mapper ecr)) =
      map (\<lambda>m. ExternalSourceMappingExpression (the (scm_Name m)) (the (scm_Expression m))) (ecs_Mappings s) \<and>
    map cr_ExpressionAccessor (es_Conditions (ecr_mapper ecr)) =
      map (\<lambda>c. ExternalSourceConditionExpression (the (esc_Expression c))) (ecs_Conditions s)"
proof -
  let ?eng = "ve_engine ve"
  have v: "valid_external_source ve s" using source_accepts [OF assms(1)] by blast
  then have vm: "list_all (valid_mapping ve) (ecs_Mappings s)" and vc: "list_all (valid_condition ve) (ecs_Conditions s)"
    by (simp_all add: valid_external_source_def)
  have tls: "validateExternalClaimsSourceTLS ve (ecs_TLS s) (child p ''tls'') = []"
    using assms(1) by (simp add: validateExternalClaimsSource_def split_beta)
  obtain client where client: "httpClientForTLSConfig env (ecs_TLS s) = Inr client"
    using accepted_tls_client [OF tls assms(2)] by blast
  obtain ms where ms: "buildExternalClaimsMapperFromSourcedClaimMappings ?eng (ecs_Mappings s) = Inr ms"
    "map cr_ExpressionAccessor ms =
      map (\<lambda>m. ExternalSourceMappingExpression (the (scm_Name m)) (the (scm_Expression m))) (ecs_Mappings s)"
    using valid_mappings_build [OF vm] by blast
  obtain cs where cs: "buildExternalSourceConditionMapperFromConditions ?eng (ecs_Conditions s) = Inr cs"
    "map cr_ExpressionAccessor cs =
      map (\<lambda>c. ExternalSourceConditionExpression (the (esc_Expression c))) (ecs_Conditions s)"
    using valid_conditions_build [OF vc] by blast
  obtain u h e where u: "ecs_URL s = Some u" "surl_Hostname u = Some h" "surl_PathExpression u = Some e"
    "\<not> isl (CompileClaimsExpression ?eng (ExternalSourceURLExpression [] e))"
    using v by (auto simp: valid_external_source_def ValidateExternalClaimsSourceURLHostname_def split: option.splits)
  then have "\<not> isl (CompileClaimsExpression ?eng (ExternalSourceURLExpression h e))"
    using compile_same_expression [of "ExternalSourceURLExpression h e" "ExternalSourceURLExpression [] e" ?eng claimsVarName]
    by (simp add: CompileClaimsExpression_def)
  then obtain r where "CompileClaimsExpression ?eng (ExternalSourceURLExpression h e) = Inr r"
    by (cases "CompileClaimsExpression ?eng (ExternalSourceURLExpression h e)") auto
  then obtain url where url: "buildURLMapperFromSourceURL ?eng (ecs_URL s) = Inr url"
    using u by (simp add: buildURLMapperFromSourceURL_def)
  let ?m = "\<lparr>es_URL = url, es_Conditions = cs, es_Sources = ms\<rparr>"
  have "resolver_New env ?eng g s = Inr \<lparr>ecr_accessTokenGetter = g, ecr_mapper = ?m, ecr_httpClient = client\<rparr>"
    using client ms(1) cs(1) url by (simp add: resolver_New_Inr_iff buildExternalSourceCELMapper_Inr_iff)
  then show ?thesis using ms(2) cs(2) by fastforce
qed

text \<open>
  For a source that validation accepts, the external claims resolver can be built, and it evaluates
  every configured mapping and every configured condition, in their order.  (The certificate pool of
  the validation and the one of the resolver agree on which PEM texts hold certificates.)
\<close>

theorem accepted_source_builds:
  assumes "fst (validateExternalClaimsSource ve s seen p) = []"
    and "\<And>ca. ve_NewPoolFromBytes ve ca = None \<Longrightarrow> env_pem_ok env ca"
  shows "\<exists>ecr. resolver_New env (ve_engine ve) g s = Inr ecr \<and>
    map cr_ExpressionAccessor (es_Sources (ecr_mapper ecr)) =
      map (\<lambda>m. ExternalSourceMappingExpression (the (scm_Name m)) (the (scm_Expression m))) (ecs_Mappings s) \<and>
    map cr_ExpressionAccessor (es_Conditions (ecr_mapper ecr)) =
      map (\<lambda>c. ExternalSourceConditionExpression (the (esc_Expression c))) (ecs_Conditions s)"
  using assms by (rule source_builds)

theorem accepted_source_builds_witness:
  "\<exists>ecr. resolver_New (sample_env\<lparr>env_pem_ok := \<lambda>_. True\<rparr>) sample_engine RequestProvided sample_source = Inr ecr \<and>
     map cr_ExpressionAccessor (es_Sources (ecr_mapper ecr)) = [ExternalSourceMappingExpression ''team'' ''blue'']"
proof -
  have "ve_engine sample_ve = sample_engine" by (simp add: sample_ve_def)
  moreover have "env_pem_ok (sample_env\<lparr>env_pem_ok := \<lambda>_. True\<rparr>) ca" for ca by simp
  ultimately show ?thesis
    using accepted_source_builds [OF sample_source_valid, of "sample_env\<lparr>env_pem_ok := \<lambda>_. True\<rparr>" RequestProvided]
    by (auto simp: sample_source_def)
qed

end
