(* ===== verification/Validation_Paths.thy ===== *)
theory Validation_Paths
  imports Padlok_Validation
begin

text \<open>
  The field path of a validator only labels its errors: whether there are errors, and the state it
  leaves, do not depend on it.  So an authenticator that is accepted as part of a configuration is
  accepted when \<open>New\<close> validates it on its own, with the same compiled mapper.  The only premise is
  that apimachinery's check of domain-prefixed paths has this property as well.
\<close>

definition paths_irrelevant :: "validation_env \<Rightarrow> bool" where
  "paths_irrelevant ve \<longleftrightarrow>
     (\<forall>p q key. ve_IsDomainPrefixedPath ve p key = [] \<longleftrightarrow> ve_IsDomainPrefixedPath ve q key = [])"

definition same_verdict :: "'e list \<times> 's \<Rightarrow> 'e list \<times> 's \<Rightarrow> bool" where
  "same_verdict r r' \<longleftrightarrow> (fst r = [] \<longleftrightarrow> fst r' = []) \<and> snd r = snd r'"

lemma same_verdict_refl [simp]: "same_verdict r r"
  by (simp add: same_verdict_def)

lemma same_verdictE:
  assumes "same_verdict r r'"
  obtains e e' s where "r = (e, s)" and "r' = (e', s)" and "e = [] \<longleftrightarrow> e' = []"
  using assms by (cases r; cases r') (auto simp: same_verdict_def)

lemma scan_idx_verdict:
  assumes "\<And>i j s x. same_verdict (f i s x) (g j s x)"
  shows "same_verdict (scan_idx f i s xs) (scan_idx g j s xs)"
proof (induction xs arbitrary: i j s)
  case Nil
  show ?case by simp
next
  case (Cons x xs)
  from assms [of i s x j] have "fst (f i s x) = [] \<longleftrightarrow> fst (g j s x) = []" "snd (f i s x) = snd (g j s x)"
    by (simp_all add: same_verdict_def)
  with Cons [of "Suc i" "snd (g j s x)" "Suc j"] show ?case by (simp add: same_verdict_def)
qed

section \<open>Issuers\<close>

lemma audience_step_verdict: "same_verdict (audience_step p i s x) (audience_step q j s x)"
  by (simp add: same_verdict_def audience_step_def)

lemma validateURL_path: "validateURL ve u dis p = [] \<longleftrightarrow> validateURL ve u dis q = []"
  by (simp add: validateURL_def split: sum.split)

lemma validateAudiences_path:
  "validateAudiences ve as pol p p' = [] \<longleftrightarrow> validateAudiences ve as pol q q' = []"
proof -
  have "fst (scan_idx (audience_step p) 0 {} as) = [] \<longleftrightarrow> fst (scan_idx (audience_step q) 0 {} as) = []"
    using scan_idx_verdict [of "audience_step p" "audience_step q" 0 "{}" as 0, OF audience_step_verdict]
    by (simp add: same_verdict_def)
  then show ?thesis by (simp add: validateAudiences_def)
qed

lemma validateIssuerURL_path: "validateIssuerURL ve u dis p = [] \<longleftrightarrow> validateIssuerURL ve u dis q = []"
  using validateURL_path [of ve u dis p q] by (simp add: validateIssuerURL_def)

lemma validateIssuerDiscoveryURL_path:
  "validateIssuerDiscoveryURL ve u d p = [] \<longleftrightarrow> validateIssuerDiscoveryURL ve u d q = []"
  using validateURL_path [of ve d "{}" p q] by (simp add: validateIssuerDiscoveryURL_def)

lemma validateCertificateAuthority_path:
  "validateCertificateAuthority ve ca p = [] \<longleftrightarrow> validateCertificateAuthority ve ca q = []"
  by (simp add: validateCertificateAuthority_def split: option.split)

lemma validateEgressSelector_path: "validateEgressSelector ve t p = [] \<longleftrightarrow> validateEgressSelector ve t q = []"
  by (simp add: validateEgressSelector_def)

lemma validateIssuer_path: "validateIssuer ve a dis p = [] \<longleftrightarrow> validateIssuer ve a dis q = []"
  unfolding validateIssuer_def append_is_Nil_conv
  by (intro conj_cong validateIssuerURL_path validateIssuerDiscoveryURL_path validateAudiences_path
      validateCertificateAuthority_path validateEgressSelector_path)

section \<open>Rules and mappings\<close>

lemma compileClaims_path:
  "compileClaimsCELExpression ve e p = Inr r \<longleftrightarrow> compileClaimsCELExpression ve e q = Inr r"
  "isl (compileClaimsCELExpression ve e p) \<longleftrightarrow> isl (compileClaimsCELExpression ve e q)"
  by (simp_all add: compileClaimsCELExpression_def split: sum.split)

lemma claim_rule_step_verdict: "same_verdict (claim_rule_step ve p i s x) (claim_rule_step ve q j s x)"
  by (simp add: same_verdict_def claim_rule_step_def Let_def compileClaimsCELExpression_def split: sum.split)

lemma extra_step_verdict:
  "paths_irrelevant ve \<Longrightarrow> same_verdict (extra_step ve p i s x) (extra_step ve q j s x)"
  by (simp add: same_verdict_def extra_step_def Let_def compileClaimsCELExpression_def paths_irrelevant_def split: sum.split)

lemma user_rule_step_verdict: "same_verdict (user_rule_step ve p i s x) (user_rule_step ve q j s x)"
  by (simp add: same_verdict_def user_rule_step_def Let_def compileUserCELExpression_def split: sum.split)

lemma claim_rules_verdict:
  "same_verdict (validateClaimValidationRules ve s rules p) (validateClaimValidationRules ve s rules q)"
  using scan_idx_verdict [of "claim_rule_step ve p" "claim_rule_step ve q" 0 empty_scan rules 0, OF claim_rule_step_verdict]
  by (simp add: validateClaimValidationRules_def same_verdict_def split_beta)

lemma user_rules_verdict:
  "same_verdict (validateUserValidationRules ve s rules p) (validateUserValidationRules ve s rules q)"
  using scan_idx_verdict [of "user_rule_step ve p" "user_rule_step ve q" 0 empty_scan rules 0, OF user_rule_step_verdict]
  by (simp add: validateUserValidationRules_def same_verdict_def split_beta)

lemma prefix_claim_path:
  "fst (validatePrefixClaimOrExpression ve m p req) = fst (validatePrefixClaimOrExpression ve m q req) \<and>
   (snd (validatePrefixClaimOrExpression ve m p req) = [] \<longleftrightarrow> snd (validatePrefixClaimOrExpression ve m q req) = [])"
  by (simp add: validatePrefixClaimOrExpression_def compileClaimsCELExpression_def Let_def split: sum.split option.split)

lemma username_verdict: "same_verdict (validate_username ve s m p) (validate_username ve s m q)"
  using prefix_claim_path [of ve "as_cm_Username m" "child p ''username''" True "child q ''username''"]
  by (simp add: validate_username_def same_verdict_def split_beta split: option.split)

lemma groups_verdict: "same_verdict (validate_groups ve s m p) (validate_groups ve s m q)"
  using prefix_claim_path [of ve "as_cm_Groups m" "child p ''groups''" False "child q ''groups''"]
  by (simp add: validate_groups_def same_verdict_def split_beta split: option.split)

lemma uid_verdict: "same_verdict (validate_uid ve s m p) (validate_uid ve s m q)"
  by (simp add: validate_uid_def same_verdict_def compileClaimsCELExpression_def Let_def split: sum.split)

lemma extra_verdict:
  assumes "paths_irrelevant ve"
  shows "same_verdict (validate_extra ve s m p) (validate_extra ve s m q)"
  using scan_idx_verdict [of "extra_step ve p" "extra_step ve q" 0 empty_scan "as_cm_Extra m" 0,
      OF extra_step_verdict [OF assms]]
  by (simp add: validate_extra_def same_verdict_def split_beta)

lemma gates_path: "validate_gates ve m p = [] \<longleftrightarrow> validate_gates ve m q = []"
  by (simp add: validate_gates_def Let_def)

lemma claim_mappings_verdict:
  assumes "paths_irrelevant ve"
  shows "same_verdict (validateClaimMappings ve s m p) (validateClaimMappings ve s m q)"
proof -
  obtain e1 f1 s1 where 1: "validate_username ve s m p = (e1, s1)" "validate_username ve s m q = (f1, s1)" "e1 = [] \<longleftrightarrow> f1 = []"
    by (rule same_verdictE [OF username_verdict])
  obtain e2 f2 s2 where 2: "validate_groups ve s1 m p = (e2, s2)" "validate_groups ve s1 m q = (f2, s2)" "e2 = [] \<longleftrightarrow> f2 = []"
    by (rule same_verdictE [OF groups_verdict])
  obtain e3 f3 s3 where 3: "validate_uid ve s2 m p = (e3, s3)" "validate_uid ve s2 m q = (f3, s3)" "e3 = [] \<longleftrightarrow> f3 = []"
    by (rule same_verdictE [OF uid_verdict])
  obtain e4 f4 s4 where 4: "validate_extra ve s3 m p = (e4, s4)" "validate_extra ve s3 m q = (f4, s4)" "e4 = [] \<longleftrightarrow> f4 = []"
    by (rule same_verdictE [OF extra_verdict [OF assms]])
  show ?thesis
    using 1(3) 2(3) 3(3) 4(3) gates_path [of ve m p q]
    by (simp add: validateClaimMappings_def 1(1,2) 2(1,2) 3(1,2) 4(1,2) same_verdict_def)
qed

lemma validateJWTAuthenticator_path:
  assumes "paths_irrelevant ve"
  shows "fst (validateJWTAuthenticator ve a p dis) = fst (validateJWTAuthenticator ve a q dis) \<and>
    (snd (validateJWTAuthenticator ve a p dis) = [] \<longleftrightarrow> snd (validateJWTAuthenticator ve a q dis) = [])"
proof -
  obtain e1 f1 s1 where 1:
    "validateClaimValidationRules ve empty_validation_state (as_jwt_ClaimValidationRules a) (child p ''claimValidationRules'') = (e1, s1)"
    "validateClaimValidationRules ve empty_validation_state (as_jwt_ClaimValidationRules a) (child q ''claimValidationRules'') = (f1, s1)"
    "e1 = [] \<longleftrightarrow> f1 = []"
    by (rule same_verdictE [OF claim_rules_verdict])
  obtain e2 f2 s2 where 2:
    "validateClaimMappings ve s1 (as_jwt_ClaimMappings a) (child p ''claimMappings'') = (e2, s2)"
    "validateClaimMappings ve s1 (as_jwt_ClaimMappings a) (child q ''claimMappings'') = (f2, s2)" "e2 = [] \<longleftrightarrow> f2 = []"
    by (rule same_verdictE [OF claim_mappings_verdict [OF assms]])
  obtain e3 f3 s3 where 3:
    "validateUserValidationRules ve s2 (as_jwt_UserValidationRules a) (child p ''userValidationRules'') = (e3, s3)"
    "validateUserValidationRules ve s2 (as_jwt_UserValidationRules a) (child q ''userValidationRules'') = (f3, s3)"
    "e3 = [] \<longleftrightarrow> f3 = []"
    by (rule same_verdictE [OF user_rules_verdict])
  show ?thesis
    using 1(3) 2(3) 3(3) validateIssuer_path [of ve "as_jwt_Issuer a" dis "child p ''issuer''" "child q ''issuer''"]
    by (simp add: validateJWTAuthenticator_def 1(1,2) 2(1,2) 3(1,2))
qed

text \<open>An authenticator of an accepted configuration is accepted on its own.\<close>

lemma accepted_configuration_compiles:
  assumes "paths_irrelevant ve" and "apiserver_ValidateAuthenticationConfiguration ve c dis = []"
    and "a \<in> set (as_cfg_JWT c)"
  shows "snd (CompileAndValidateJWTAuthenticator ve a dis) = []"
proof -
  obtain i where "snd (validateJWTAuthenticator ve a [Child ''jwt'', Index i] dis) = []"
    using configuration_accepts [OF assms(2)] assms(3) by (auto simp: list_all_iff)
  then show ?thesis
    using validateJWTAuthenticator_path [OF assms(1)] unfolding CompileAndValidateJWTAuthenticator_def by blast
qed

end
