(* ===== verification/Oidc_Verify.thy ===== *)
theory Oidc_Verify
  imports Oidc_Claims
begin

text \<open>
  The part of \<open>oidc.go\<close> that decides whose token it is: the untrusted look at the issuer, the token
  verifier with its audience check, and distributed claims (OpenID Connect Core 5.6.2), which are
  fetched as a second token and verified in turn.

  Signature and time checks are the go-oidc library's: a verifier is a parameter of the model, the
  answer to a raw token as a function of the history.  The verifiers for the issuers of distributed
  claims are initialised in the background, each on the first request for it: \<open>clr_async\<close> is what
  the verifier of an issuer holds at the time it is asked, \<open>None\<close> as long as it is not initialised.
\<close>

section \<open>The untrusted issuer\<close>

definition untrustedIssuer :: "string \<Rightarrow> string res" where
  "untrustedIssuer token =
     (if HasPrefix (TrimSpace_left token) ''{'' then Inl (Errorf ''token is not compact JWT'' [])
      else (case Split CHR ''.'' token of
        [_, payload64, _] \<Rightarrow>
          (case base64_decode payload64 of
             None \<Rightarrow> Inl (Errorf ''error decoding token: %v'' [])
           | Some payload \<Rightarrow>
          (case (case json_parse payload of
                   Some (JObj ms) \<Rightarrow> string_field ''iss'' [] ms
                 | Some JNull \<Rightarrow> Some []
                 | _ \<Rightarrow> None) of
             None \<Rightarrow> Inl (Errorf ''while unmarshaling token: %v'' [])
           | Some iss \<Rightarrow>
               if iss = ''accounts.google.com'' then Inr ''https://accounts.google.com'' else Inr iss))
      | _ \<Rightarrow> Inl (Errorf ''malformed token'' [])))"

definition hasCorrectIssuer :: "string \<Rightarrow> string \<Rightarrow> bool" where
  "hasCorrectIssuer iss tokenData =
     (case untrustedIssuer tokenData of Inl _ \<Rightarrow> False | Inr uiss \<Rightarrow> uiss = iss)"

section \<open>Verifying a token\<close>

record id_token =
  idt_Audience :: "string list"
  idt_Claims :: "claims res"

record id_token_verifier =
  idv_verifier :: "history \<Rightarrow> string \<Rightarrow> id_token res"
  idv_audiences :: "string set"

definition verifyAudience :: "id_token_verifier \<Rightarrow> id_token \<Rightarrow> error option" where
  "verifyAudience v t =
     (if idv_audiences v = {} then
        Some (Errorf ''oidc: invalid configuration, audiences cannot be empty'' [])
      else if list_ex (\<lambda>a. a \<in> idv_audiences v) (idt_Audience t) then None
      else Some (Errorf ''oidc: expected audience in %q got %q'' (map OpS (idt_Audience t))))"

definition idTokenVerifier_Verify ::
  "id_token_verifier \<Rightarrow> string \<Rightarrow> history \<Rightarrow> id_token res \<times> history" where
  "idTokenVerifier_Verify v rawIDToken h =
     (case idv_verifier v h rawIDToken of
        Inl err \<Rightarrow> (Inl err, h @ [VerifyCalled rawIDToken])
      | Inr t \<Rightarrow> (case verifyAudience v t of
            Some err \<Rightarrow> (Inl err, h @ [VerifyCalled rawIDToken])
          | None \<Rightarrow> (Inr t, h @ [VerifyCalled rawIDToken])))"

section \<open>Distributed claims\<close>

record endpoint =
  ep_URL :: string
  ep_AccessToken :: string
  ep_JWT :: string

record claim_resolver =
  clr_claim :: string
  clr_client :: http_client
  clr_async :: "history \<Rightarrow> string \<Rightarrow> id_token_verifier option"

definition claimResolver_Verifier ::
  "claim_resolver \<Rightarrow> string \<Rightarrow> history \<Rightarrow> id_token_verifier res \<times> history" where
  "claimResolver_Verifier r iss h =
     (case clr_async r h iss of
        None \<Rightarrow> (Inl (Errorf ''verifier not initialized for issuer: %q'' [OpS iss]), h @ [VerifierAsked iss])
      | Some v \<Rightarrow> (Inr v, h @ [VerifierAsked iss]))"

text \<open>A nil response without an error, on which Go would panic, does not occur in \<open>http.Client\<close>.\<close>

definition getClaimJWT ::
  "environment \<Rightarrow> http_client \<Rightarrow> string \<Rightarrow> string \<Rightarrow> history \<Rightarrow> string res \<times> history" where
  "getClaimJWT env client url accessToken h =
     (case NewRequest env MethodGet url of
        Inl err \<Rightarrow> (Inl (Errorf ''while calling %v: %v'' [OpS url, OpE err]), h)
      | Inr req \<Rightarrow>
     (case client_Do env client
             (if accessToken \<noteq> [] then req\<lparr>rq_Header := [(''Authorization'', ''Bearer '' @ accessToken)]\<rparr>
              else req) h of
        (Inl err, h') \<Rightarrow> (Inl err, h')
      | (Inr None, h') \<Rightarrow> (Inl (Errorf ''nil response'' []), h')
      | (Inr (Some response), h') \<Rightarrow>
          if rs_StatusCode response < 200 \<or> rs_StatusCode response > 226
          then (Inl (Errorf ''error while getting distributed claim JWT: %v'' [OpN (rs_StatusCode response)]), h')
          else (case rs_Body response of
                  Inl _ \<Rightarrow> (Inl (Errorf ''could not decode distributed claim response'' []), h')
                | Inr responseBytes \<Rightarrow> (Inr responseBytes, h'))))"

definition claimResolver_resolve ::
  "environment \<Rightarrow> claim_resolver \<Rightarrow> endpoint \<Rightarrow> claims \<Rightarrow> history \<Rightarrow> error option \<times> claims \<times> history" where
  "claimResolver_resolve env r ep allClaims h =
     (case getClaimJWT env (clr_client r) (ep_URL ep) (ep_AccessToken ep) h of
        (Inl err, h1) \<Rightarrow> (Some (Errorf ''while getting distributed claim %q: %v'' [OpS (clr_claim r), OpE err]), allClaims, h1)
      | (Inr jwt, h1) \<Rightarrow>
     (case untrustedIssuer jwt of
        Inl err \<Rightarrow> (Some (Errorf ''getting untrusted issuer from endpoint %v failed for claim %q: %v''
            [OpS (ep_URL ep), OpS (clr_claim r), OpE err]), allClaims, h1)
      | Inr untrustedIss \<Rightarrow>
     (case claimResolver_Verifier r untrustedIss h1 of
        (Inl err, h2) \<Rightarrow> (Some (Errorf ''verifying untrusted issuer %v failed: %v'' [OpS untrustedIss, OpE err]), allClaims, h2)
      | (Inr v, h2) \<Rightarrow>
     (case idTokenVerifier_Verify v jwt h2 of
        (Inl err, h3) \<Rightarrow> (Some (Errorf ''verify distributed claim token: %v'' [OpE err]), allClaims, h3)
      | (Inr t, h3) \<Rightarrow>
     (case idt_Claims t of
        Inl err \<Rightarrow> (Some (Errorf ''could not parse distributed claims for claim %v: %v''
            [OpS (clr_claim r), OpE err]), allClaims, h3)
      | Inr distClaims \<Rightarrow>
     (case distClaims (clr_claim r) of
        None \<Rightarrow> (Some (Errorf ''jwt returned by distributed claim endpoint %q did not contain claim: %v''
            [OpS (ep_URL ep), OpS (clr_claim r)]), allClaims, h3)
      | Some val \<Rightarrow> (None, allClaims(clr_claim r \<mapsto> val), h3)))))))"

fun json_to_endpoint :: "json \<Rightarrow> endpoint option" where
  "json_to_endpoint (JObj ms) =
     (case (string_field ''endpoint'' [] ms, string_field ''access_token'' [] ms, string_field ''JWT'' [] ms) of
        (Some u, Some a, Some j) \<Rightarrow> Some \<lparr>ep_URL = u, ep_AccessToken = a, ep_JWT = j\<rparr>
      | _ \<Rightarrow> None)"
| "json_to_endpoint JNull = Some \<lparr>ep_URL = [], ep_AccessToken = [], ep_JWT = []\<rparr>"
| "json_to_endpoint _ = None"

definition claimResolver_expand ::
  "environment \<Rightarrow> claim_resolver \<Rightarrow> claims \<Rightarrow> history \<Rightarrow> error option \<times> claims \<times> history" where
  "claimResolver_expand env r c h =
     (if c (clr_claim r) \<noteq> None then (None, c, h)
      else (case c ''_claim_names'' of
        None \<Rightarrow> (None, c, h)
      | Some names \<Rightarrow>
     (case unmarshal_with (json_to_map json_to_string) names of
        Inl err \<Rightarrow> (Some (Errorf ''oidc: error parsing distributed claim names: %v'' [OpE err]), c, h)
      | Inr claimToSource \<Rightarrow>
     (case c ''_claim_sources'' of
        None \<Rightarrow> (Some (Errorf ''oidc: no claim sources'' []), c, h)
      | Some rawSources \<Rightarrow>
     (case unmarshal_with (json_to_map json_to_endpoint) rawSources of
        Inl err \<Rightarrow> (Some (Errorf ''oidc: could not parse claim sources: %v'' [OpE err]), c, h)
      | Inr sources \<Rightarrow>
     (case claimToSource (clr_claim r) of
        None \<Rightarrow> (None, c, h)
      | Some src \<Rightarrow>
     (case sources src of
        None \<Rightarrow> (Some (Errorf ''id token _claim_names contained a source %s missing in _claims_sources'' [OpS src]), c, h)
      | Some ep \<Rightarrow>
          if ep_URL ep = [] then (None, c, h)
          else claimResolver_resolve env r ep c h)))))))"

section \<open>Laws\<close>

lemma verifyAudience_None_iff [res_simps]:
  "verifyAudience v t = None \<longleftrightarrow> idv_audiences v \<inter> set (idt_Audience t) \<noteq> {}"
  by (auto simp: verifyAudience_def list_ex_iff)

lemma Verify_Inr_iff [res_simps]:
  "fst (idTokenVerifier_Verify v raw h) = Inr t \<longleftrightarrow>
     idv_verifier v h raw = Inr t \<and> idv_audiences v \<inter> set (idt_Audience t) \<noteq> {}"
  unfolding verifyAudience_None_iff [symmetric]
  by (auto simp: idTokenVerifier_Verify_def split: sum.splits option.splits)

lemma Verify_history [simp]: "snd (idTokenVerifier_Verify v raw h) = h @ [VerifyCalled raw]"
  by (simp add: idTokenVerifier_Verify_def split: sum.split option.split)

text \<open>
  A distributed claim is taken over only from a token that its own issuer's verifier accepted for one
  of the audiences.
\<close>

lemma resolve_success:
  assumes "claimResolver_resolve env r ep c h = (None, c', h')"
  shows "\<exists>jwt iss v t d val h1 h2. untrustedIssuer jwt = Inr iss \<and> clr_async r h1 iss = Some v \<and>
    idv_verifier v h2 jwt = Inr t \<and> idv_audiences v \<inter> set (idt_Audience t) \<noteq> {} \<and>
    idt_Claims t = Inr d \<and> d (clr_claim r) = Some val \<and> c' = c(clr_claim r \<mapsto> val)"
proof -
  from assms obtain jwt h1 iss where jwt: "getClaimJWT env (clr_client r) (ep_URL ep) (ep_AccessToken ep) h = (Inr jwt, h1)"
    and iss: "untrustedIssuer jwt = Inr iss"
    by (auto simp: claimResolver_resolve_def split: prod.splits sum.splits)
  from assms jwt iss obtain v h2 where v: "claimResolver_Verifier r iss h1 = (Inr v, h2)"
    by (auto simp: claimResolver_resolve_def split: prod.splits sum.splits)
  from assms jwt iss v obtain t h3 where t: "idTokenVerifier_Verify v jwt h2 = (Inr t, h3)"
    by (auto simp: claimResolver_resolve_def split: prod.splits sum.splits)
  from assms jwt iss v t obtain d val where "idt_Claims t = Inr d" "d (clr_claim r) = Some val"
    "c' = c(clr_claim r \<mapsto> val)"
    by (auto simp: claimResolver_resolve_def split: sum.splits option.splits)
  moreover from v have "clr_async r h1 iss = Some v"
    by (auto simp: claimResolver_Verifier_def split: option.splits)
  moreover from t Verify_Inr_iff [of v jwt h2 t] have "idv_verifier v h2 jwt = Inr t"
    and "idv_audiences v \<inter> set (idt_Audience t) \<noteq> {}" by simp_all
  ultimately show ?thesis using iss by blast
qed

lemma resolve_failure_keeps:
  "claimResolver_resolve env r ep c h = (Some e, c', h') \<Longrightarrow> c' = c"
  by (auto simp: claimResolver_resolve_def split: prod.splits sum.splits option.splits)

lemma expand_cases:
  assumes "claimResolver_expand env r c h = (e, c', h')"
  shows "(c' = c \<and> h' = h) \<or> (c (clr_claim r) = None \<and> (\<exists>ep. ep_URL ep \<noteq> [] \<and>
    claimResolver_resolve env r ep c h = (e, c', h')))"
  using assms by (auto simp: claimResolver_expand_def split: option.splits sum.splits if_splits)

lemma expand_only_claim:
  assumes "claimResolver_expand env r c h = (e, c', h')"
  shows "c' = c \<or> (e = None \<and> c (clr_claim r) = None \<and> (\<exists>val. c' = c(clr_claim r \<mapsto> val)))"
  using expand_cases [OF assms]
  by (cases e) (auto dest: resolve_success resolve_failure_keeps)

end
