(* ===== verification/Oidc_Authenticator.thy ===== *)
theory Oidc_Authenticator
  imports Oidc_Verify Api_Conversion Sample_Environment
begin

text \<open>
  \<open>jwtAuthenticator\<close> of \<open>oidc.go\<close>: from a raw token to a user.  \<open>AuthenticateToken\<close> is the handler;
  the mapping of the final claims to a user and the rules that may still reject them are
  \<open>authenticate_claims\<close>, with one definition per helper of the source.  The result of an
  authenticator is Go's triple of a response, a flag and an error.

  The required claims are a Go map, whose iteration order is not fixed; they are an association
  list here, in any order (the order only decides which error is reported).
\<close>

record auth_response =
  ar_Audiences :: "string list"
  ar_User :: "user_info option"

type_synonym auth_result = "auth_response option \<times> bool \<times> error option"

definition fail :: "error \<Rightarrow> auth_result" where
  "fail e = (None, False, Some e)"

record jwt_authenticator_state =
  ja_jwtAuthenticator :: as_jwt_authenticator
  ja_verifier :: "id_token_verifier option"
  ja_resolver :: "claim_resolver option"
  ja_celMapper :: cel_mapper
  ja_requiredClaims :: "(string \<times> string) list"
  ja_claimsExpanders :: "claims_expander list"
  ja_unknownHandler :: "unknown_handler option"

abbreviation ja_mappings :: "jwt_authenticator_state \<Rightarrow> as_claim_mappings" where
  "ja_mappings a \<equiv> as_jwt_ClaimMappings (ja_jwtAuthenticator a)"

section \<open>Claim mappings\<close>

definition check_email_verified :: "claims \<Rightarrow> error option" where
  "check_email_verified c =
     (if hasClaim c ''email_verified'' then
        (case unmarshalClaim json_to_bool c ''email_verified'' of
           Inl err \<Rightarrow> Some (Errorf ''oidc: parse email_verified claim: %v'' [OpE err])
         | Inr emailVerified \<Rightarrow>
             if \<not> emailVerified then Some (Errorf ''oidc: email not verified'' []) else None)
      else None)"

definition getUsername :: "jwt_authenticator_state \<Rightarrow> claims \<Rightarrow> mapper_value \<Rightarrow> string res" where
  "getUsername a c claimsValue =
     (case cm_map_Username (ja_celMapper a) of
        Some m \<Rightarrow>
          bind_res (EvalClaimMapping m claimsValue)
            (\<lambda>e. Errorf ''oidc: error evaluating username claim expression: %w'' [OpE e]) (\<lambda>evalResult.
          case er_EvalResult evalResult of
            CelString username \<Rightarrow>
              if username = [] then Inl (Errorf ''oidc: empty username via CEL expression is not allowed'' [])
              else Inr username
          | _ \<Rightarrow> Inl (Errorf ''oidc: error evaluating username claim expression: username claim expression must return a string'' []))
      | None \<Rightarrow>
         (let usernameClaim = as_pce_Claim (as_cm_Username (ja_mappings a)) in
          bind_res (unmarshalClaim json_to_string c usernameClaim)
            (\<lambda>e. Errorf ''oidc: parse username claims %q: %v'' [OpS usernameClaim, OpE e]) (\<lambda>username.
          case (if usernameClaim = ''email'' then check_email_verified c else None) of
            Some err \<Rightarrow> Inl err
          | None \<Rightarrow>
              (case as_pce_Prefix (as_cm_Username (ja_mappings a)) of
                 Some p \<Rightarrow> if p \<noteq> [] then Inr (p @ username) else Inr username
               | None \<Rightarrow> Inr username))))"

definition getGroups :: "jwt_authenticator_state \<Rightarrow> claims \<Rightarrow> mapper_value \<Rightarrow> string list res" where
  "getGroups a c claimsValue =
     (let groupsClaim = as_pce_Claim (as_cm_Groups (ja_mappings a)) in
      if groupsClaim \<noteq> [] \<and> c groupsClaim \<noteq> None then
        bind_res (unmarshalClaim stringOrArray c groupsClaim)
          (\<lambda>e. Errorf ''oidc: parse groups claim %q: %w'' [OpS groupsClaim, OpE e]) (\<lambda>groups.
        case as_pce_Prefix (as_cm_Groups (ja_mappings a)) of
          Some p \<Rightarrow> if p \<noteq> [] then Inr (map (\<lambda>group. p @ group) groups) else Inr groups
        | None \<Rightarrow> Inr groups)
      else (case cm_map_Groups (ja_celMapper a) of
          None \<Rightarrow> Inr []
        | Some m \<Rightarrow>
            bind_res (EvalClaimMapping m claimsValue)
              (\<lambda>e. Errorf ''oidc: error evaluating group claim expression: %w'' [OpE e]) (\<lambda>evalResult.
            bind_res (convertCELValueToStringList (er_EvalResult evalResult) (ja_unknownHandler a))
              (\<lambda>e. Errorf ''oidc: error evaluating group claim expression: %w'' [OpE e]) Inr)))"

definition getUID :: "jwt_authenticator_state \<Rightarrow> claims \<Rightarrow> mapper_value \<Rightarrow> string res" where
  "getUID a c claimsValue =
     (let uidClaim = as_ce_Claim (as_cm_UID (ja_mappings a)) in
      if uidClaim \<noteq> [] then
        bind_res (unmarshalClaim json_to_string c uidClaim)
          (\<lambda>e. Errorf ''oidc: parse uid claim %q: %w'' [OpS uidClaim, OpE e]) Inr
      else (case cm_map_UID (ja_celMapper a) of
          None \<Rightarrow> Inr []
        | Some m \<Rightarrow>
            bind_res (EvalClaimMapping m claimsValue)
              (\<lambda>e. Errorf ''oidc: error evaluating uid claim expression: %w'' [OpE e]) (\<lambda>evalResult.
            case er_EvalResult evalResult of
              CelString uid \<Rightarrow> Inr uid
            | _ \<Rightarrow> Inl (Errorf ''oidc: error evaluating uid claim expression: uid claim expression must return a string'' []))))"

definition CredentialIDKey :: string where
  "CredentialIDKey = ''authentication.kubernetes.io/credential-id''"

fun collect_extra :: "unknown_handler option \<Rightarrow> evaluation_result list \<Rightarrow> (string \<rightharpoonup> string list)
    \<Rightarrow> (string \<rightharpoonup> string list) res" where
  "collect_extra uh [] extra = Inr extra"
| "collect_extra uh (r # rs) extra =
     (case er_ExpressionAccessor r of
        ExtraMappingExpression key expr \<Rightarrow>
          (case convertCELValueToStringList (er_EvalResult r) uh of
             Inl e \<Rightarrow> Inl (Errorf ''oidc: error evaluating extra claim expression: %s: %w'' [OpS expr, OpE e])
           | Inr extraValues \<Rightarrow>
               collect_extra uh rs (if extraValues \<noteq> [] then extra(key \<mapsto> extraValues) else extra))
      | _ \<Rightarrow> Inl (Errorf ''oidc: error evaluating extra claim expression: invalid type conversion, expected ExtraMappingCondition'' []))"

definition getExtra :: "jwt_authenticator_state \<Rightarrow> claims \<Rightarrow> mapper_value \<Rightarrow> (string \<rightharpoonup> string list) res" where
  "getExtra a c claimsValue =
     (let extra = (if getCredentialID c \<noteq> [] then [CredentialIDKey \<mapsto> [getCredentialID c]] else Map.empty) in
      case cm_map_Extra (ja_celMapper a) of
        None \<Rightarrow> Inr extra
      | Some m \<Rightarrow>
          bind_res (EvalClaimMappings m claimsValue) id (\<lambda>evalResult.
          collect_extra (ja_unknownHandler a) evalResult extra))"

section \<open>Rules\<close>

fun checkRequiredClaims :: "(string \<times> string) list \<Rightarrow> claims \<Rightarrow> error option" where
  "checkRequiredClaims [] c = None"
| "checkRequiredClaims ((claim, val) # rest) c =
     (if \<not> hasClaim c claim
      then Some (Errorf ''oidc: required claim %s not present in ID token'' [OpS claim])
      else (case unmarshalClaim json_to_string c claim of
          Inl err \<Rightarrow> Some (Errorf ''oidc: parse claim %s: %w'' [OpS claim, OpE err])
        | Inr claimValue \<Rightarrow>
            if claimValue \<noteq> val
            then Some (Errorf ''oidc: required claim %s value does not match. Got = %s, want = %s''
                   [OpS claim, OpS claimValue, OpS val])
            else checkRequiredClaims rest c))"

definition claim_rule_message :: "accessor \<Rightarrow> string res" where
  "claim_rule_message a = (case a of ClaimValidationCondition _ msg \<Rightarrow> Inr msg
     | _ \<Rightarrow> Inl (Errorf ''invalid type conversion, expected ClaimValidationCondition'' []))"

definition user_rule_message :: "accessor \<Rightarrow> string res" where
  "user_rule_message a = (case a of UserValidationCondition _ msg \<Rightarrow> Inr msg
     | _ \<Rightarrow> Inl (Errorf ''invalid type conversion, expected UserValidationCondition'' []))"

definition checkClaimValidationRules :: "jwt_authenticator_state \<Rightarrow> mapper_value \<Rightarrow> error option" where
  "checkClaimValidationRules a claimsValue =
     (case cm_map_ClaimValidationRules (ja_celMapper a) of
        None \<Rightarrow> None
      | Some m \<Rightarrow>
     (case EvalClaimMappings m claimsValue of
        Inl e \<Rightarrow> Some (Errorf ''oidc: error evaluating claim validation expression: %w'' [OpE e])
      | Inr evalResult \<Rightarrow>
          map_option (\<lambda>e. Errorf ''oidc: error evaluating claim validation expression: %w'' [OpE e])
            (checkValidationRulesEvaluation evalResult claim_rule_message)))"

definition checkUserValidationRules :: "jwt_authenticator_state \<Rightarrow> user_info \<Rightarrow> error option" where
  "checkUserValidationRules a info =
     (case cm_map_UserValidationRules (ja_celMapper a) of
        None \<Rightarrow> None
      | Some m \<Rightarrow>
     (case EvalUser m (newUserInfoValue info) of
        Inl e \<Rightarrow> Some (Errorf ''oidc: error evaluating user info validation rule: %w'' [OpE e])
      | Inr evalResult \<Rightarrow>
          map_option (\<lambda>e. Errorf ''oidc: error evaluating user info validation rule: %w'' [OpE e])
            (checkValidationRulesEvaluation evalResult user_rule_message)))"

section \<open>AuthenticateToken\<close>

definition uses_claims_value :: "cel_mapper \<Rightarrow> bool" where
  "uses_claims_value m \<longleftrightarrow> cm_map_Username m \<noteq> None \<or> cm_map_Groups m \<noteq> None \<or> cm_map_UID m \<noteq> None
     \<or> cm_map_Extra m \<noteq> None \<or> cm_map_ClaimValidationRules m \<noteq> None"

definition authenticate_claims :: "jwt_authenticator_state \<Rightarrow> claims \<Rightarrow> auth_result" where
  "authenticate_claims a c =
     (let claimsValue = (if uses_claims_value (ja_celMapper a) then newClaimsValue c else NilMapValue) in
      case getUsername a c claimsValue of Inl err \<Rightarrow> fail err
      | Inr username \<Rightarrow>
     (case getGroups a c claimsValue of Inl err \<Rightarrow> fail err
      | Inr groups \<Rightarrow>
     (case getUID a c claimsValue of Inl err \<Rightarrow> fail err
      | Inr uid \<Rightarrow>
     (case getExtra a c claimsValue of Inl err \<Rightarrow> fail err
      | Inr extra \<Rightarrow>
     (let info = \<lparr>ui_Name = username, ui_UID = uid, ui_Groups = groups, ui_Extra = extra\<rparr> in
      case checkRequiredClaims (ja_requiredClaims a) c of Some err \<Rightarrow> fail err
      | None \<Rightarrow>
     (case checkClaimValidationRules a claimsValue of Some err \<Rightarrow> fail err
      | None \<Rightarrow>
     (case checkUserValidationRules a info of Some err \<Rightarrow> fail err
      | None \<Rightarrow> (Some \<lparr>ar_Audiences = [], ar_User = Some info\<rparr>, True, None))))))))"

definition expand_distributed ::
  "environment \<Rightarrow> claim_resolver option \<Rightarrow> claims \<Rightarrow> history \<Rightarrow> error option \<times> claims \<times> history" where
  "expand_distributed env resolver c h =
     (case resolver of None \<Rightarrow> (None, c, h) | Some r \<Rightarrow> claimResolver_expand env r c h)"

definition AuthenticateToken ::
  "environment \<Rightarrow> jwt_authenticator_state \<Rightarrow> ctx \<Rightarrow> string \<Rightarrow> history \<Rightarrow> auth_result \<times> history" where
  "AuthenticateToken env a ctx token h =
     (if \<not> hasCorrectIssuer (as_issuer_URL (as_jwt_Issuer (ja_jwtAuthenticator a))) token
      then ((None, False, None), h)
      else (case ja_verifier a of
        None \<Rightarrow> (fail (Errorf ''oidc: authenticator not initialized'' []), h)
      | Some verifier \<Rightarrow>
     (case idTokenVerifier_Verify verifier token h of
        (Inl err, h1) \<Rightarrow> (fail (Errorf ''oidc: verify token: %v'' [OpE err]), h1)
      | (Inr idToken, h1) \<Rightarrow>
     (case idt_Claims idToken of
        Inl err \<Rightarrow> (fail (Errorf ''oidc: parse claims: %v'' [OpE err]), h1)
      | Inr c0 \<Rightarrow>
     (case expand_distributed env (ja_resolver a) c0 h1 of
        (Some err, _, h2) \<Rightarrow> (fail (Errorf ''oidc: could not expand distributed claims: %v'' [OpE err]), h2)
      | (None, c1, h2) \<Rightarrow>
     (case doClaimsExpansion (ja_claimsExpanders a) ctx token c1 h2 of
        (Some err, _, h3) \<Rightarrow> (fail (Errorf ''oidc: could not expand additional claims: %v'' [OpE err]), h3)
      | (None, c, h3) \<Rightarrow> (authenticate_claims a c, h3)))))))"

section \<open>Laws\<close>

text \<open>A result is an error, no opinion, or a user; never two of them.\<close>

definition auth_wf :: "auth_result \<Rightarrow> bool" where
  "auth_wf r \<longleftrightarrow> r = (None, False, None) \<or> (\<exists>e. r = fail e)
     \<or> (\<exists>auds info. r = (Some \<lparr>ar_Audiences = auds, ar_User = Some info\<rparr>, True, None))"

definition accepts :: "auth_result \<Rightarrow> user_info \<Rightarrow> bool" where
  "accepts r info \<longleftrightarrow> r = (Some \<lparr>ar_Audiences = [], ar_User = Some info\<rparr>, True, None)"

lemma accepts_simps [simp]:
  "\<not> accepts (fail e) info" "\<not> accepts (None, b, e') info"
  "accepts (Some \<lparr>ar_Audiences = [], ar_User = Some i\<rparr>, True, None) info \<longleftrightarrow> i = info"
  by (simp_all add: accepts_def fail_def)

lemma auth_wf_simps [simp]:
  "auth_wf (fail e)" "auth_wf (None, False, None)"
  "auth_wf (Some \<lparr>ar_Audiences = auds, ar_User = Some info\<rparr>, True, None)"
  by (auto simp: auth_wf_def)

lemma fail_inject [simp]: "fail e = fail e' \<longleftrightarrow> e = e'" "fail e \<noteq> (None, False, None)"
  by (simp_all add: fail_def)

lemma checkRequiredClaims_None_iff [res_simps]:
  "checkRequiredClaims rs c = None \<longleftrightarrow>
     (\<forall>(claim, val) \<in> set rs. unmarshalClaim json_to_string c claim = Inr val)"
  by (induction rs c rule: checkRequiredClaims.induct)
    (auto simp: hasClaim_def unmarshalClaim_def split: sum.splits option.splits)

lemma checkClaimValidationRules_None_iff [res_simps]:
  "checkClaimValidationRules a v = None \<longleftrightarrow>
     (case cm_map_ClaimValidationRules (ja_celMapper a) of None \<Rightarrow> True
      | Some m \<Rightarrow> \<exists>rs. EvalClaimMappings m v = Inr rs \<and> list_all (\<lambda>r. er_EvalResult r = CelBool True) rs)"
  by (auto simp: checkClaimValidationRules_def check_rules_None_iff list_all_iff split: option.splits sum.splits)

lemma checkUserValidationRules_None_iff [res_simps]:
  "checkUserValidationRules a info = None \<longleftrightarrow>
     (case cm_map_UserValidationRules (ja_celMapper a) of None \<Rightarrow> True
      | Some m \<Rightarrow> \<exists>rs. EvalUser m (UserInfoValue info) = Inr rs \<and> list_all (\<lambda>r. er_EvalResult r = CelBool True) rs)"
  by (auto simp: checkUserValidationRules_def check_rules_None_iff list_all_iff newUserInfoValue_def
      split: option.splits sum.splits)

definition claims_value_for :: "jwt_authenticator_state \<Rightarrow> claims \<Rightarrow> mapper_value" where
  "claims_value_for a c = (if uses_claims_value (ja_celMapper a) then ClaimsValue c else NilMapValue)"

lemma authenticate_claims_accepts_iff:
  "accepts (authenticate_claims a c) info \<longleftrightarrow>
     getUsername a c (claims_value_for a c) = Inr (ui_Name info) \<and>
     getGroups a c (claims_value_for a c) = Inr (ui_Groups info) \<and>
     getUID a c (claims_value_for a c) = Inr (ui_UID info) \<and>
     getExtra a c (claims_value_for a c) = Inr (ui_Extra info) \<and>
     checkRequiredClaims (ja_requiredClaims a) c = None \<and>
     checkClaimValidationRules a (claims_value_for a c) = None \<and>
     checkUserValidationRules a info = None"
  unfolding authenticate_claims_def claims_value_for_def newClaimsValue_def Let_def
  by (cases info) (auto split: sum.split option.split)

lemma authenticate_claims_wf: "auth_wf (authenticate_claims a c)"
  by (simp add: authenticate_claims_def Let_def split: sum.split option.split)

lemma authenticate_claims_has_opinion: "authenticate_claims a c \<noteq> (None, False, None)"
  by (simp add: authenticate_claims_def Let_def split: sum.split option.split)

lemma AuthenticateToken_accepts_iff:
  "accepts (fst (AuthenticateToken env a ctx token h)) info \<longleftrightarrow>
     hasCorrectIssuer (as_issuer_URL (as_jwt_Issuer (ja_jwtAuthenticator a))) token \<and>
     (\<exists>verifier idToken c0 c1 h2 c h3. ja_verifier a = Some verifier \<and>
        idv_verifier verifier h token = Inr idToken \<and>
        idv_audiences verifier \<inter> set (idt_Audience idToken) \<noteq> {} \<and>
        idt_Claims idToken = Inr c0 \<and>
        expand_distributed env (ja_resolver a) c0 (h @ [VerifyCalled token]) = (None, c1, h2) \<and>
        doClaimsExpansion (ja_claimsExpanders a) ctx token c1 h2 = (None, c, h3) \<and>
        accepts (authenticate_claims a c) info)" (is "?accepted \<longleftrightarrow> ?conditions")
proof -
  have step: "accepts (fst (AuthenticateToken env a ctx token h)) info \<longleftrightarrow>
      (\<exists>c0 c1 h2 c h3. idt_Claims idToken = Inr c0 \<and>
        expand_distributed env (ja_resolver a) c0 (h @ [VerifyCalled token]) = (None, c1, h2) \<and>
        doClaimsExpansion (ja_claimsExpanders a) ctx token c1 h2 = (None, c, h3) \<and>
        accepts (authenticate_claims a c) info)"
    if "hasCorrectIssuer (as_issuer_URL (as_jwt_Issuer (ja_jwtAuthenticator a))) token"
      and "ja_verifier a = Some verifier"
      and "fst (idTokenVerifier_Verify verifier token h) = Inr idToken" for verifier idToken
  proof -
    have "idTokenVerifier_Verify verifier token h = (Inr idToken, h @ [VerifyCalled token])"
      using that(3) Verify_history by (metis prod.collapse)
    then show ?thesis
      using that(1,2) by (auto simp: AuthenticateToken_def split: sum.splits prod.splits option.splits)
  qed
  show ?thesis
  proof
    assume acc: ?accepted
    then have iss: "hasCorrectIssuer (as_issuer_URL (as_jwt_Issuer (ja_jwtAuthenticator a))) token"
      by (auto simp: AuthenticateToken_def split: if_splits)
    with acc obtain verifier where v: "ja_verifier a = Some verifier"
      by (auto simp: AuthenticateToken_def split: option.splits)
    with acc iss obtain idToken where "fst (idTokenVerifier_Verify verifier token h) = Inr idToken"
      by (auto simp: AuthenticateToken_def split: sum.splits prod.splits)
    with step [OF iss v this] acc iss v Verify_Inr_iff show ?conditions
      by blast
  next
    assume ?conditions
    then show ?accepted
      using step Verify_Inr_iff by blast
  qed
qed

section \<open>The contract of a token authenticator\<close>

locale token_authenticator =
  fixes auth :: "ctx \<Rightarrow> string \<Rightarrow> history \<Rightarrow> auth_result \<times> history"
  assumes wf: "auth_wf (fst (auth ctx token h))"
begin

lemma outcome:
  obtains "fst (auth ctx token h) = (None, False, None)"
  | e where "fst (auth ctx token h) = fail e"
  | auds info where "fst (auth ctx token h) = (Some \<lparr>ar_Audiences = auds, ar_User = Some info\<rparr>, True, None)"
  using wf [of ctx token h] by (auto simp: auth_wf_def)

lemma ok_has_user:
  "fst (auth ctx token h) = (resp, True, e) \<Longrightarrow> e = None \<and> (\<exists>r info. resp = Some r \<and> ar_User r = Some info)"
  by (cases rule: outcome [of ctx token h]) (auto simp: fail_def)

lemma not_ok_has_no_response: "fst (auth ctx token h) = (resp, False, e) \<Longrightarrow> resp = None"
  by (cases rule: outcome [of ctx token h]) (auto simp: fail_def)

end

lemma AuthenticateToken_wf: "auth_wf (fst (AuthenticateToken env a ctx token h))"
  by (auto simp: AuthenticateToken_def authenticate_claims_wf split: option.split sum.split prod.split)

interpretation jwt_auth: token_authenticator "AuthenticateToken env a" for env a
  by unfold_locales (rule AuthenticateToken_wf)

section \<open>A sample authenticator\<close>

definition sample_claims :: claims where
  "sample_claims = [''email'' \<mapsto> Raw (JStr ''a@b''), ''email_verified'' \<mapsto> Raw (JBool True),
         ''jti'' \<mapsto> Raw (JStr ''7''), ''groups'' \<mapsto> Raw (JArr [JStr ''x''])]"

lemma sample_claims_at:
  "sample_claims ''email'' = Some (Raw (JStr ''a@b''))" "sample_claims ''jti'' = Some (Raw (JStr ''7''))"
  "sample_claims ''email_verified'' = Some (Raw (JBool True))"
  "sample_claims ''groups'' = Some (Raw (JArr [JStr ''x'']))"
  by (simp_all add: sample_claims_def)

definition sample_verifier :: id_token_verifier where
  "sample_verifier = \<lparr>idv_verifier = (\<lambda>_ _. Inr \<lparr>idt_Audience = [''aud''],
       idt_Claims = Inr sample_claims\<rparr>),
     idv_audiences = {''aud''}\<rparr>"

definition sample_jwt :: jwt_authenticator_state where
  "sample_jwt = \<lparr>
     ja_jwtAuthenticator =
       \<lparr>as_jwt_Issuer = zero_as_issuer\<lparr>as_issuer_URL := ''https://idp''\<rparr>, as_jwt_ClaimValidationRules = [],
        as_jwt_ClaimMappings = zero_as_claim_mappings
          \<lparr>as_cm_Username := \<lparr>as_pce_Claim = ''email'', as_pce_Prefix = Some ''u:'', as_pce_Expression = []\<rparr>,
           as_cm_Groups := \<lparr>as_pce_Claim = ''groups'', as_pce_Prefix = Some ''g:'', as_pce_Expression = []\<rparr>\<rparr>,
        as_jwt_UserValidationRules = []\<rparr>,
     ja_verifier = Some sample_verifier, ja_resolver = None, ja_celMapper = empty_cel_mapper,
     ja_requiredClaims = [(''email'', ''a@b'')], ja_claimsExpanders = [], ja_unknownHandler = None\<rparr>"

definition sample_token :: string where
  "sample_token = ''e30.eyJpc3MiOiJodHRwczovL2lkcCJ9.c2ln''"

definition sample_user :: user_info where
  "sample_user = \<lparr>ui_Name = ''u:a@b'', ui_UID = [], ui_Groups = [''g:x''],
     ui_Extra = [CredentialIDKey \<mapsto> [''JTI=7'']]\<rparr>"

lemma sample_issuer: "hasCorrectIssuer ''https://idp'' sample_token"
proof -
  have "\<not> HasPrefix (TrimSpace_left sample_token) ''{''"
    by (simp add: sample_token_def DecodeRune_def IsSpace_def byte_def HasPrefix_def)
  moreover have "Split CHR ''.'' sample_token = [''e30'', ''eyJpc3MiOiJodHRwczovL2lkcCJ9'', ''c2ln'']"
    by (simp add: sample_token_def)
  moreover have "base64_decode ''eyJpc3MiOiJodHRwczovL2lkcCJ9''
      = Some (''{'' @ CHR 0x22 # ''iss'' @ CHR 0x22 # CHR '':'' # CHR 0x22 # ''https://idp'' @ CHR 0x22 # ''}'')"
    by code_simp
  moreover have "json_parse (''{'' @ CHR 0x22 # ''iss'' @ CHR 0x22 # CHR '':'' # CHR 0x22 # ''https://idp'' @ CHR 0x22 # ''}'')
      = Some (JObj [(''iss'', JStr ''https://idp'')])"
    by (rule json_parse_single_member) (simp_all add: json_plain_def byte_def)
  ultimately show ?thesis
    by (simp add: hasCorrectIssuer_def untrustedIssuer_def selects_field_def del: append.simps)
qed

lemma sample_jwt_fields:
  "as_issuer_URL (as_jwt_Issuer (ja_jwtAuthenticator sample_jwt)) = ''https://idp''"
  "as_cm_Username (ja_mappings sample_jwt)
     = \<lparr>as_pce_Claim = ''email'', as_pce_Prefix = Some ''u:'', as_pce_Expression = []\<rparr>"
  "as_cm_Groups (ja_mappings sample_jwt)
     = \<lparr>as_pce_Claim = ''groups'', as_pce_Prefix = Some ''g:'', as_pce_Expression = []\<rparr>"
  "as_ce_Claim (as_cm_UID (ja_mappings sample_jwt)) = []"
  "ja_verifier sample_jwt = Some sample_verifier" "ja_resolver sample_jwt = None"
  "ja_celMapper sample_jwt = empty_cel_mapper" "ja_requiredClaims sample_jwt = [(''email'', ''a@b'')]"
  "ja_claimsExpanders sample_jwt = []"
  by (simp_all add: sample_jwt_def zero_as_issuer_def zero_as_claim_mappings_def)

lemma sample_mapped:
  "getUsername sample_jwt sample_claims v = Inr ''u:a@b''"
  "getGroups sample_jwt sample_claims v = Inr [''g:x'']"
  "getUID sample_jwt sample_claims v = Inr []"
  "getExtra sample_jwt sample_claims v = Inr [CredentialIDKey \<mapsto> [''JTI=7'']]"
  by (simp_all add: sample_jwt_fields sample_claims_at getUsername_def getGroups_def getUID_def
      getExtra_def unmarshalClaim_def unmarshal_with_def stringOrArray_def check_email_verified_def
      hasClaim_def getCredentialID_def CredentialIDForJTI_def)

lemma sample_claims_accepted:
  "authenticate_claims sample_jwt sample_claims
   = (Some \<lparr>ar_Audiences = [], ar_User = Some sample_user\<rparr>, True, None)"
  by (simp add: authenticate_claims_def sample_mapped sample_jwt_fields sample_claims_at sample_user_def
      hasClaim_def unmarshalClaim_def unmarshal_with_def
      checkClaimValidationRules_def checkUserValidationRules_def)

lemma sample_accepted:
  "AuthenticateToken env sample_jwt ctx sample_token h =
     ((Some \<lparr>ar_Audiences = [], ar_User = Some sample_user\<rparr>, True, None), h @ [VerifyCalled sample_token])"
proof -
  have "idTokenVerifier_Verify sample_verifier sample_token h = (idv_verifier sample_verifier h sample_token,
      h @ [VerifyCalled sample_token])"
    by (simp add: idTokenVerifier_Verify_def sample_verifier_def verifyAudience_def)
  then show ?thesis
    unfolding AuthenticateToken_def sample_jwt_fields
    by (simp add: sample_issuer expand_distributed_def doClaimsExpansion_def sample_claims_accepted)
      (simp add: sample_verifier_def sample_claims_accepted expand_distributed_def doClaimsExpansion_def)
qed

section \<open>Properties\<close>

text \<open>
  C3: exactly when a token is accepted, and as whom.  A token is accepted for a user iff its issuer is
  the configured one, the verifier is initialised and accepts the token for one of the configured
  audiences, the distributed and external claims were expanded without error, and for the resulting
  claims the four mappings yield the user's name, groups, uid and extra values, every required claim
  has its value, and every claim rule and user rule evaluates to true.
\<close>

theorem authenticate_token_accepts_iff:
  "fst (AuthenticateToken env a ctx token h)
     = (Some \<lparr>ar_Audiences = [], ar_User = Some info\<rparr>, True, None) \<longleftrightarrow>
   hasCorrectIssuer (as_issuer_URL (as_jwt_Issuer (ja_jwtAuthenticator a))) token \<and>
   (\<exists>verifier idToken c0 c1 h2 c h3. ja_verifier a = Some verifier \<and>
      idv_verifier verifier h token = Inr idToken \<and>
      idv_audiences verifier \<inter> set (idt_Audience idToken) \<noteq> {} \<and>
      idt_Claims idToken = Inr c0 \<and>
      expand_distributed env (ja_resolver a) c0 (h @ [VerifyCalled token]) = (None, c1, h2) \<and>
      doClaimsExpansion (ja_claimsExpanders a) ctx token c1 h2 = (None, c, h3) \<and>
      getUsername a c (claims_value_for a c) = Inr (ui_Name info) \<and>
      getGroups a c (claims_value_for a c) = Inr (ui_Groups info) \<and>
      getUID a c (claims_value_for a c) = Inr (ui_UID info) \<and>
      getExtra a c (claims_value_for a c) = Inr (ui_Extra info) \<and>
      (\<forall>(claim, val) \<in> set (ja_requiredClaims a). unmarshalClaim json_to_string c claim = Inr val) \<and>
      (case cm_map_ClaimValidationRules (ja_celMapper a) of None \<Rightarrow> True
       | Some m \<Rightarrow> \<exists>rs. EvalClaimMappings m (claims_value_for a c) = Inr rs
           \<and> list_all (\<lambda>r. er_EvalResult r = CelBool True) rs) \<and>
      (case cm_map_UserValidationRules (ja_celMapper a) of None \<Rightarrow> True
       | Some m \<Rightarrow> \<exists>rs. EvalUser m (UserInfoValue info) = Inr rs
           \<and> list_all (\<lambda>r. er_EvalResult r = CelBool True) rs))"
  unfolding accepts_def [symmetric] AuthenticateToken_accepts_iff authenticate_claims_accepts_iff
    checkRequiredClaims_None_iff checkClaimValidationRules_None_iff checkUserValidationRules_None_iff
  by blast

theorem authenticate_token_accepts_iff_witness:
  "hasCorrectIssuer ''https://idp'' sample_token"
  using authenticate_token_accepts_iff [of sample_env sample_jwt Map.empty sample_token "[]" sample_user]
  by (simp add: sample_accepted sample_jwt_fields)

lemma AuthenticateToken_no_opinion:
  "(fst (AuthenticateToken env a ctx token h) = (None, False, None) \<longleftrightarrow>
      \<not> hasCorrectIssuer (as_issuer_URL (as_jwt_Issuer (ja_jwtAuthenticator a))) token) \<and>
   (hasCorrectIssuer (as_issuer_URL (as_jwt_Issuer (ja_jwtAuthenticator a))) token \<or>
      snd (AuthenticateToken env a ctx token h) = h) \<and>
   auth_wf (fst (AuthenticateToken env a ctx token h))"
proof (cases "hasCorrectIssuer (as_issuer_URL (as_jwt_Issuer (ja_jwtAuthenticator a))) token")
  case False
  then show ?thesis by (simp add: AuthenticateToken_def)
next
  case True
  then have "fst (AuthenticateToken env a ctx token h) \<noteq> (None, False, None)"
    by (auto simp: AuthenticateToken_def authenticate_claims_has_opinion
        split: option.split sum.split prod.split)
  with True show ?thesis by (simp add: AuthenticateToken_wf)
qed

text \<open>
  The authenticator has no opinion on a token (no response, no error) exactly when the token's
  issuer is not its own, and then it has done nothing: no verifier was called and no request sent.
  Every other outcome is an error without a response, or a response with a user.
\<close>

theorem authenticate_token_no_opinion_iff:
  "(fst (AuthenticateToken env a ctx token h) = (None, False, None) \<longleftrightarrow>
      \<not> hasCorrectIssuer (as_issuer_URL (as_jwt_Issuer (ja_jwtAuthenticator a))) token) \<and>
   (hasCorrectIssuer (as_issuer_URL (as_jwt_Issuer (ja_jwtAuthenticator a))) token \<or>
      snd (AuthenticateToken env a ctx token h) = h) \<and>
   auth_wf (fst (AuthenticateToken env a ctx token h))"
  by (rule AuthenticateToken_no_opinion)

text \<open>
  A token of the right issuer is rejected with an error, without any call to a verifier and
  without a request, as long as the authenticator is not initialised.
\<close>

theorem authenticate_token_uninitialised:
  assumes "ja_verifier a = None"
    and "hasCorrectIssuer (as_issuer_URL (as_jwt_Issuer (ja_jwtAuthenticator a))) token"
  shows "AuthenticateToken env a ctx token h =
    ((None, False, Some (Errorf ''oidc: authenticator not initialized'' [])), h)"
  using assms by (simp add: AuthenticateToken_def fail_def)

theorem authenticate_token_uninitialised_witness:
  "AuthenticateToken sample_env (sample_jwt\<lparr>ja_verifier := None\<rparr>) Map.empty sample_token [] =
    ((None, False, Some (Errorf ''oidc: authenticator not initialized'' [])), [])"
  by (rule authenticate_token_uninitialised) (simp_all add: sample_jwt_fields sample_issuer)

text \<open>
  C19: a user name taken from the \<open>email\<close> claim is the configured prefix and the string of that claim, and
  it is accepted only if the token says nothing about \<open>email_verified\<close> or says \<open>true\<close>.
\<close>

theorem email_username_is_verified:
  assumes "cm_map_Username (ja_celMapper a) = None"
    and "as_pce_Claim (as_cm_Username (ja_mappings a)) = ''email''"
    and "getUsername a c v = Inr u"
  shows "(c ''email_verified'' = None \<or> c ''email_verified'' = Some (Raw (JBool True))) \<and>
    (\<exists>s. unmarshalClaim json_to_string c ''email'' = Inr s \<and>
      u = (case as_pce_Prefix (as_cm_Username (ja_mappings a)) of Some p \<Rightarrow> p | None \<Rightarrow> []) @ s)"
proof -
  from assms obtain s where s: "unmarshalClaim json_to_string c ''email'' = Inr s"
    by (auto simp: getUsername_def bind_res_Inr_iff Let_def)
  with assms have "check_email_verified c = None"
    by (auto simp: getUsername_def split: option.splits)
  then have "c ''email_verified'' = None \<or> unmarshalClaim json_to_bool c ''email_verified'' = Inr True"
    by (auto simp: check_email_verified_def hasClaim_def split: if_splits sum.splits)
  then have "c ''email_verified'' = None \<or> c ''email_verified'' = Some (Raw (JBool True))"
    by (auto simp: unmarshalClaim_Inr_iff elim: json_to_bool.elims)
  moreover have "u = (case as_pce_Prefix (as_cm_Username (ja_mappings a)) of Some p \<Rightarrow> p | None \<Rightarrow> []) @ s"
    using assms s \<open>check_email_verified c = None\<close>
    by (auto simp: getUsername_def split: option.splits if_splits)
  ultimately show ?thesis using s by blast
qed

theorem email_username_is_verified_witness:
  "sample_claims ''email_verified'' = None \<or> sample_claims ''email_verified'' = Some (Raw (JBool True))"
  using email_username_is_verified [of sample_jwt sample_claims NilMapValue "''u:a@b''"]
  by (simp add: sample_jwt_fields sample_mapped)

text \<open>
  With a username expression, the user's name is the non-empty string the expression evaluates to;
  an empty string or a value of any other type is an error.
\<close>

theorem cel_username_exact:
  assumes "cm_map_Username (ja_celMapper a) = Some m"
  shows "getUsername a c v = Inr u \<longleftrightarrow>
    u \<noteq> [] \<and> (\<exists>acc. EvalClaimMapping m v = Inr \<lparr>er_EvalResult = CelString u, er_ExpressionAccessor = acc\<rparr>)"
proof -
  have result: "(case x of CelString username \<Rightarrow> (if username = [] then Inl e else Inr username) | _ \<Rightarrow> Inl e')
      = Inr u \<longleftrightarrow> x = CelString u \<and> u \<noteq> []" for x and e e' :: error
    by (cases x) auto
  have "getUsername a c v = Inr u \<longleftrightarrow>
      (\<exists>r. EvalClaimMapping m v = Inr r \<and> er_EvalResult r = CelString u \<and> u \<noteq> [])"
    using assms by (simp add: getUsername_def bind_res_Inr_iff result)
  also have "\<dots> \<longleftrightarrow> u \<noteq> [] \<and>
      (\<exists>acc. EvalClaimMapping m v = Inr \<lparr>er_EvalResult = CelString u, er_ExpressionAccessor = acc\<rparr>)"
    by (metis evaluation_result.surjective evaluation_result.select_convs(1) old.unit.exhaust)
  finally show ?thesis .
qed

lemma collect_extra_other:
  "collect_extra uh rs extra = Inr extra' \<Longrightarrow>
   (\<And>r e. r \<in> set rs \<Longrightarrow> er_ExpressionAccessor r \<noteq> ExtraMappingExpression key e) \<Longrightarrow> extra' key = extra key"
  by (induction uh rs extra rule: collect_extra.induct) (auto split: accessor.splits sum.splits)

lemma collect_extra_nonempty:
  assumes "collect_extra uh rs extra = Inr extra'" and "[] \<notin> ran extra"
  shows "[] \<notin> ran extra'"
  using assms
  by (induction uh rs extra rule: collect_extra.induct)
    (auto simp: ran_def split: accessor.splits sum.splits if_splits)

definition sample_mapper :: "string \<Rightarrow> mapper" where
  "sample_mapper s = [\<lparr>cr_Program = (\<lambda>_. Inr (CelString s)), cr_AST = \<lparr>ast_OutputType = AnyType, ast_Expr = None\<rparr>,
     cr_ExpressionAccessor = ClaimMappingExpression s\<rparr>]"

theorem cel_username_exact_witness:
  "getUsername (sample_jwt\<lparr>ja_celMapper := empty_cel_mapper\<lparr>cm_map_Username := Some (sample_mapper ''bob'')\<rparr>\<rparr>)
     sample_claims (ClaimsValue sample_claims) = Inr ''bob''"
  by (subst cel_username_exact [of _ "sample_mapper ''bob''"]) (simp_all add: sample_mapper_def eval_one_def)

text \<open>
  Unless an extra mapping writes to that very key, the user's extra values hold a credential id
  exactly when the claim \<open>jti\<close> is a non-empty string, and then it is \<open>JTI=\<close> followed by that string; and
  no extra key has an empty list of values.
\<close>

theorem extra_credential_id:
  assumes "getExtra a c v = Inr extra"
    and "\<forall>m r e. cm_map_Extra (ja_celMapper a) = Some m \<longrightarrow> r \<in> set m \<longrightarrow>
      cr_ExpressionAccessor r \<noteq> ExtraMappingExpression CredentialIDKey e"
  shows "extra CredentialIDKey = (case c ''jti'' of
      Some (Raw (JStr s)) \<Rightarrow> (if s = [] then None else Some [''JTI='' @ s]) | _ \<Rightarrow> None)
    \<and> [] \<notin> ran extra"
proof -
  let ?base = "if getCredentialID c \<noteq> [] then [CredentialIDKey \<mapsto> [getCredentialID c]] else Map.empty"
  have base: "?base CredentialIDKey = (case c ''jti'' of
      Some (Raw (JStr s)) \<Rightarrow> (if s = [] then None else Some [''JTI='' @ s]) | _ \<Rightarrow> None)"
    by (auto simp: getCredentialID_def unmarshalClaim_def unmarshal_with_def CredentialIDForJTI_def
        split: option.split raw_message.split json.split)
  have "extra CredentialIDKey = ?base CredentialIDKey \<and> [] \<notin> ran extra"
  proof (cases "cm_map_Extra (ja_celMapper a)")
    case None
    then show ?thesis using assms(1) by (auto simp: getExtra_def Let_def ran_def split: if_splits)
  next
    case (Some m)
    then obtain rs where rs: "EvalClaimMappings m v = Inr rs"
      and ext: "collect_extra (ja_unknownHandler a) rs ?base = Inr extra"
      using assms(1) by (auto simp: getExtra_def Let_def bind_res_Inr_iff)
    have "cr_ExpressionAccessor ` set m = er_ExpressionAccessor ` set rs"
      using mapper_eval_accessors [OF rs [unfolded EvalClaimMappings_def]] by (metis list.set_map)
    then have "er_ExpressionAccessor r \<noteq> ExtraMappingExpression CredentialIDKey e" if "r \<in> set rs" for r e
      using assms(2) Some that by (metis image_iff)
    then show ?thesis
      using collect_extra_other [OF ext] collect_extra_nonempty [OF ext] by (auto simp: ran_def)
  qed
  with base show ?thesis by simp
qed

theorem extra_credential_id_witness:
  "[CredentialIDKey \<mapsto> [''JTI=7'']] CredentialIDKey = (case sample_claims ''jti'' of
      Some (Raw (JStr s)) \<Rightarrow> (if s = [] then None else Some [''JTI='' @ s]) | _ \<Rightarrow> None)"
  using extra_credential_id [of sample_jwt sample_claims NilMapValue "[CredentialIDKey \<mapsto> [''JTI=7'']]"]
  by (simp add: sample_mapped sample_jwt_fields)

text \<open>
  The order in which Go's runtime visits the map of required claims does not matter: any two lists
  with the same required claims accept the same claims for the same user.
\<close>

theorem required_claims_order_irrelevant:
  assumes "set rs = set (ja_requiredClaims a)"
  shows "authenticate_claims (a\<lparr>ja_requiredClaims := rs\<rparr>) c
       = (Some \<lparr>ar_Audiences = [], ar_User = Some info\<rparr>, True, None) \<longleftrightarrow>
    authenticate_claims a c = (Some \<lparr>ar_Audiences = [], ar_User = Some info\<rparr>, True, None)"
proof -
  let ?a = "a\<lparr>ja_requiredClaims := rs\<rparr>"
  have "getUsername ?a = getUsername a" "getGroups ?a = getGroups a" "getUID ?a = getUID a"
    "getExtra ?a = getExtra a" "claims_value_for ?a = claims_value_for a"
    "checkClaimValidationRules ?a = checkClaimValidationRules a"
    "checkUserValidationRules ?a = checkUserValidationRules a"
    by (simp_all add: fun_eq_iff getUsername_def getGroups_def getUID_def getExtra_def
        claims_value_for_def checkClaimValidationRules_def checkUserValidationRules_def Let_def
        cong: option.case_cong)
  then show ?thesis
    using assms unfolding accepts_def [symmetric] authenticate_claims_accepts_iff
    by (simp add: checkRequiredClaims_None_iff)
qed

theorem required_claims_order_irrelevant_witness:
  "authenticate_claims (sample_jwt\<lparr>ja_requiredClaims := [(''email'', ''a@b''), (''email'', ''a@b'')]\<rparr>) sample_claims
     = (Some \<lparr>ar_Audiences = [], ar_User = Some sample_user\<rparr>, True, None)"
  using required_claims_order_irrelevant [of "[(''email'', ''a@b''), (''email'', ''a@b'')]" sample_jwt sample_claims sample_user]
  by (simp add: sample_jwt_fields sample_claims_accepted)

end
