(* ===== verification/Oidc_New.thy ===== *)
theory Oidc_New
  imports Oidc_Authenticator Apiserver_Validation "HOL-Library.AList"
begin

text \<open>
  Construction and initialisation of the token authenticator of the fork (\<open>New\<close>, \<open>setVerifier\<close>,
  \<open>HealthCheck\<close>, \<open>newClaimResolver\<close>, \<open>egressLookupForType\<close> in \<open>oidc.go\<close>).

  The go-oidc library is the record \<open>oidc_library\<close>: its verifiers, its remote key sets and, for the
  verifiers of other issuers that are initialised in the background, which of them are ready.  A key set is of
  any type \<open>'k\<close>.  Initialisation without a key set is a state machine: one goroutine polls the
  provider until an attempt succeeds or the context ends, and then stores first the verifier, then
  the empty health error; requests may read either at any time in between.  The metrics of the JWKS
  fetches are left out: their round tripper passes requests and answers on unchanged.
\<close>

section \<open>Options and the library\<close>

record verifier_config =
  vc_ClientID :: string
  vc_SupportedSigningAlgs :: "string list"
  vc_SkipClientIDCheck :: bool

type_synonym raw_verifier = "history \<Rightarrow> string \<Rightarrow> id_token res"

text \<open>A provider: what \<open>Verifier\<close> makes of a configuration, and its claim \<open>jwks_uri\<close> or a decoding error.\<close>

record oidc_provider =
  pr_Verifier :: "verifier_config \<Rightarrow> raw_verifier"
  pr_JWKSURL :: "string res"

record 'k oidc_library =
  ol_NewVerifier :: "string \<Rightarrow> 'k \<Rightarrow> verifier_config \<Rightarrow> raw_verifier"
  ol_NewRemoteKeySet :: "http_client \<Rightarrow> string \<Rightarrow> 'k"
  ol_asyncVerifier :: "http_client \<Rightarrow> verifier_config \<Rightarrow> history \<Rightarrow> string \<Rightarrow> raw_verifier option"
  ol_JWKSMetrics :: bool

type_synonym dialer = string

record 'k k8s_options =
  ko_JWTAuthenticator :: as_jwt_authenticator
  ko_KeySet :: "'k option"
  ko_CAContentProvider :: "string option"
  ko_EgressLookup :: "(string \<Rightarrow> dialer option res) option"
  ko_Client :: "http_client option"
  ko_SupportedSigningAlgs :: "string list"
  ko_DisallowedIssuers :: "string set"
  ko_ClaimsExpanders :: "claims_expander list"
  ko_UnknownHandler :: "unknown_handler option"

section \<open>The authenticator and its initialisation\<close>

datatype init_state = Polling | Stored | Ready | Stopped

record jwt_cell =
  jc_state :: jwt_authenticator_state
  jc_health :: "error option"
  jc_init :: init_state

text \<open>The two stores of \<open>setVerifier\<close>, in their order.\<close>

definition store_verifier :: "id_token_verifier \<Rightarrow> jwt_cell \<Rightarrow> jwt_cell" where
  "store_verifier v c = c\<lparr>jc_state := (jc_state c)\<lparr>ja_verifier := Some v\<rparr>, jc_init := Stored\<rparr>"

definition store_healthy :: "jwt_cell \<Rightarrow> jwt_cell" where
  "store_healthy c = c\<lparr>jc_health := None, jc_init := Ready\<rparr>"

definition setVerifier :: "id_token_verifier \<Rightarrow> jwt_cell \<Rightarrow> jwt_cell" where
  "setVerifier v c = store_healthy (store_verifier v c)"

definition cell_issuer :: "jwt_cell \<Rightarrow> string" where
  "cell_issuer c = as_issuer_URL (as_jwt_Issuer (ja_jwtAuthenticator (jc_state c)))"

definition HealthCheck :: "jwt_cell \<Rightarrow> error option" where
  "HealthCheck c =
     (case jc_health c of
        Some err \<Rightarrow> Some (Errorf ''oidc: authenticator for issuer %q is not healthy: %w'' [OpS (cell_issuer c), OpE err])
      | None \<Rightarrow> None)"

section \<open>New\<close>

definition allowedSigningAlgs :: "string set" where
  "allowedSigningAlgs = {''RS256'', ''RS384'', ''RS512'', ''ES256'', ''ES384'', ''ES512'', ''PS256'', ''PS384'', ''PS512''}"

fun check_algs :: "string list \<Rightarrow> error option" where
  "check_algs [] = None"
| "check_algs (alg # algs) =
     (if alg \<notin> allowedSigningAlgs then Some (Errorf ''oidc: unsupported signing alg: %q'' [OpS alg])
      else check_algs algs)"

definition egressLookupForType ::
  "(string \<Rightarrow> dialer option res) option \<Rightarrow> string \<Rightarrow> dialer res" where
  "egressLookupForType egressLookup egressSelector =
     (case egressLookup of
        None \<Rightarrow> Inl (Errorf ''oidc: egress lookup required with egress selector type %q'' [OpS egressSelector])
      | Some lookup \<Rightarrow>
     (case lookup egressSelector of
        Inl err \<Rightarrow> Inl (Errorf ''oidc: egress lookup for %q failed: %w'' [OpS egressSelector, OpE err])
      | Inr None \<Rightarrow> Inl (Errorf ''oidc: egress lookup for %q is not configured'' [OpS egressSelector])
      | Inr (Some customDial) \<Rightarrow> Inr customDial))"

text \<open>The dialer for the selected egress type, if any.\<close>

definition custom_dial ::
  "(string \<Rightarrow> dialer option res) option \<Rightarrow> string \<Rightarrow> dialer option res" where
  "custom_dial egressLookup et =
     (if et = [] then Inr None
      else if et = ''controlplane'' \<or> et = ''cluster'' then map_sum id Some (egressLookupForType egressLookup et)
      else Inl (Errorf ''oidc: unknown egress selector type %q'' [OpS et]))"

text \<open>
  The client that the library uses: the one given, or one with the roots of the CA content (the
  host's roots without any), the dialer of the egress selector and a timeout of 30 seconds.  The dialer
  is kept beside the client.
\<close>

definition base_client ::
  "validation_env \<Rightarrow> 'k k8s_options \<Rightarrow> (http_client \<times> dialer option) res" where
  "base_client ve opts =
     (case ko_Client opts of
        Some client \<Rightarrow> Inr (client, None)
      | None \<Rightarrow>
     (case (case ko_CAContentProvider opts of None \<Rightarrow> None | Some ca \<Rightarrow> ve_NewPoolFromBytes ve ca) of
        Some err \<Rightarrow> Inl (Errorf ''Failed to read the CA contents: %v'' [OpE err])
      | None \<Rightarrow>
          bind_res (custom_dial (ko_EgressLookup opts) (as_issuer_EgressSelectorType (as_jwt_Issuer (ko_JWTAuthenticator opts)))) id
            (\<lambda>dial. Inr (\<lparr>hc_Timeout = 30000, hc_Transport = Some (NetTransport (Some
               \<lparr>tc_RootCAs = ko_CAContentProvider opts, tc_MinTLS12 = False\<rparr>))\<rparr>, dial))))"

abbreviation wellKnownEndpointPath :: string where
  "wellKnownEndpointPath \<equiv> ''/.well-known/openid-configuration''"

definition discovery_client ::
  "validation_env \<Rightarrow> 'k k8s_options \<Rightarrow> http_client \<Rightarrow> http_client res" where
  "discovery_client ve opts client =
     (let issuer = as_jwt_Issuer (ko_JWTAuthenticator opts) in
      if as_issuer_DiscoveryURL issuer = [] then Inr client
      else if ko_KeySet opts \<noteq> None then Inl (Errorf ''oidc: KeySet and DiscoveryURL are mutually exclusive'' [])
      else bind_res (url_Parse (ve_ip_literal ve) (as_issuer_DiscoveryURL issuer))
        (\<lambda>err. Errorf ''oidc: invalid discovery URL: %w'' [OpE err])
        (\<lambda>discoveryURL. Inr (client\<lparr>hc_Transport := Some (DiscoveryURLRoundTripper
           (case hc_Transport client of None \<Rightarrow> NetTransport None | Some t \<Rightarrow> t) discoveryURL
           (TrimSuffix (as_issuer_URL issuer) ''/'' @ wellKnownEndpointPath))\<rparr>)))"

text \<open>
  The configuration of the verifier.  The index \<open>Audiences[0]\<close> is safe because validation has
  accepted the authenticator, so that it has an audience.
\<close>

definition verifierConfig :: "as_issuer \<Rightarrow> string list \<Rightarrow> verifier_config" where
  "verifierConfig issuer algs =
     (if card (set (as_issuer_Audiences issuer)) > 1
      then \<lparr>vc_ClientID = [], vc_SupportedSigningAlgs = algs, vc_SkipClientIDCheck = True\<rparr>
      else \<lparr>vc_ClientID = hd (as_issuer_Audiences issuer), vc_SupportedSigningAlgs = algs, vc_SkipClientIDCheck = False\<rparr>)"

definition newClaimResolver ::
  "'k oidc_library \<Rightarrow> string \<Rightarrow> http_client \<Rightarrow> verifier_config \<Rightarrow> string set \<Rightarrow> claim_resolver" where
  "newClaimResolver lib claim client config audiences =
     \<lparr>clr_claim = claim, clr_client = client,
      clr_async = (\<lambda>h iss. map_option (\<lambda>v. \<lparr>idv_verifier = v, idv_audiences = audiences\<rparr>)
        (ol_asyncVerifier lib client config h iss))\<rparr>"

text \<open>The map of required claims, as the list of its entries; a later rule for a claim replaces the value.\<close>

definition required_claims :: "as_claim_validation_rule list \<Rightarrow> (string \<times> string) list" where
  "required_claims rules =
     foldl (\<lambda>m rule. if as_cvr_Claim rule \<noteq> [] then AList.update (as_cvr_Claim rule) (as_cvr_RequiredValue rule) m else m)
       [] rules"

record built =
  b_cell :: jwt_cell
  b_client :: http_client
  b_dial :: "dialer option"
  b_config :: verifier_config

definition initial_cell ::
  "'k k8s_options \<Rightarrow> cel_mapper \<Rightarrow> claim_resolver option \<Rightarrow> jwt_cell" where
  "initial_cell opts celMapper resolver =
     (let jwt = ko_JWTAuthenticator opts in
      \<lparr>jc_state = \<lparr>ja_jwtAuthenticator = jwt, ja_verifier = None, ja_resolver = resolver, ja_celMapper = celMapper,
         ja_requiredClaims = required_claims (as_jwt_ClaimValidationRules jwt),
         ja_claimsExpanders = ko_ClaimsExpanders opts, ja_unknownHandler = ko_UnknownHandler opts\<rparr>,
       jc_health = Some (Errorf ''oidc: authenticator for issuer %q is not initialized''
         [OpS (as_issuer_URL (as_jwt_Issuer jwt))]),
       jc_init = Polling\<rparr>)"

definition signing_algs :: "'k k8s_options \<Rightarrow> string list" where
  "signing_algs opts = (if ko_SupportedSigningAlgs opts = [] then [''RS256''] else ko_SupportedSigningAlgs opts)"

text \<open>The second half of \<open>New\<close>, once nothing can fail any more.\<close>

definition assemble ::
  "'k oidc_library \<Rightarrow> 'k k8s_options \<Rightarrow> cel_mapper \<Rightarrow> http_client \<Rightarrow> dialer option \<Rightarrow> built" where
  "assemble lib opts celMapper client dial =
     (let issuer = as_jwt_Issuer (ko_JWTAuthenticator opts);
          audiences = set (as_issuer_Audiences issuer);
          config = verifierConfig issuer (signing_algs opts);
          groupsClaim = as_pce_Claim (as_cm_Groups (as_jwt_ClaimMappings (ko_JWTAuthenticator opts)));
          resolver = (if groupsClaim \<noteq> [] then Some (newClaimResolver lib groupsClaim client config audiences) else None);
          cell = initial_cell opts celMapper resolver
      in \<lparr>b_cell = (case ko_KeySet opts of
              Some ks \<Rightarrow> setVerifier \<lparr>idv_verifier = ol_NewVerifier lib (as_issuer_URL issuer) ks config,
                idv_audiences = audiences\<rparr> cell
            | None \<Rightarrow> cell),
          b_client = client, b_dial = dial, b_config = config\<rparr>)"

definition k8soidc_New ::
  "validation_env \<Rightarrow> 'k oidc_library \<Rightarrow> 'k k8s_options \<Rightarrow> built res" where
  "k8soidc_New ve lib opts =
     (let (celMapper, fieldErr) =
        CompileAndValidateJWTAuthenticator ve (ko_JWTAuthenticator opts) (ko_DisallowedIssuers opts)
      in case ToAggregate fieldErr of
        Some err \<Rightarrow> Inl err
      | None \<Rightarrow>
     (case check_algs (signing_algs opts) of
        Some err \<Rightarrow> Inl err
      | None \<Rightarrow>
      if ko_Client opts \<noteq> None \<and> ko_CAContentProvider opts \<noteq> None then
        Inl (Errorf ''oidc: Client and CAContentProvider are mutually exclusive'' [])
      else if ko_Client opts \<noteq> None \<and> ko_EgressLookup opts \<noteq> None then
        Inl (Errorf ''oidc: Client and EgressLookup are mutually exclusive'' [])
      else
        bind_res (base_client ve opts) id (\<lambda>(client0, dial).
        bind_res (discovery_client ve opts client0) id (\<lambda>client.
        Inr (assemble lib opts celMapper client dial)))))"

section \<open>The polling goroutine\<close>

text \<open>One attempt, from the answer of \<open>oidc.NewProvider\<close> to a verifier or the error that is stored.\<close>

definition poll_attempt ::
  "'k oidc_library \<Rightarrow> built \<Rightarrow> oidc_provider res \<Rightarrow> id_token_verifier res" where
  "poll_attempt lib b answer =
     (let issuer = as_jwt_Issuer (ja_jwtAuthenticator (jc_state (b_cell b)));
          audiences = set (as_issuer_Audiences issuer) in
      case answer of
        Inl err \<Rightarrow> Inl err
      | Inr provider \<Rightarrow>
          if ol_JWKSMetrics lib then
            (case pr_JWKSURL provider of
               Inl err \<Rightarrow> Inl err
             | Inr jwksURL \<Rightarrow>
                 if jwksURL = [] then Inl (Errorf ''provider did not return JWKS URL'' [])
                 else Inr \<lparr>idv_verifier = ol_NewVerifier lib (as_issuer_URL issuer)
                     (ol_NewRemoteKeySet lib (b_client b) jwksURL) (b_config b), idv_audiences = audiences\<rparr>)
          else Inr \<lparr>idv_verifier = pr_Verifier provider (b_config b), idv_audiences = audiences\<rparr>)"

inductive init_step :: "'k oidc_library \<Rightarrow> built \<Rightarrow> built \<Rightarrow> bool" for lib where
  poll_fails: "jc_init (b_cell b) = Polling \<Longrightarrow> poll_attempt lib b answer = Inl err \<Longrightarrow>
     init_step lib b (b\<lparr>b_cell := (b_cell b)\<lparr>jc_health := Some err\<rparr>\<rparr>)"
| poll_succeeds: "jc_init (b_cell b) = Polling \<Longrightarrow> poll_attempt lib b answer = Inr v \<Longrightarrow>
     init_step lib b (b\<lparr>b_cell := store_verifier v (b_cell b)\<rparr>)"
| report: "jc_init (b_cell b) = Stored \<Longrightarrow> init_step lib b (b\<lparr>b_cell := store_healthy (b_cell b)\<rparr>)"
| cancelled: "jc_init (b_cell b) = Polling \<Longrightarrow>
     init_step lib b (b\<lparr>b_cell := (b_cell b)\<lparr>jc_init := Stopped\<rparr>\<rparr>)"

inductive_cases init_step_from: "init_step lib b b'"

inductive init_reachable :: "validation_env \<Rightarrow> 'k oidc_library \<Rightarrow> 'k k8s_options \<Rightarrow> built \<Rightarrow> bool" for ve lib opts where
  built: "k8soidc_New ve lib opts = Inr b \<Longrightarrow> init_reachable ve lib opts b"
| step: "init_reachable ve lib opts b \<Longrightarrow> init_step lib b b' \<Longrightarrow> init_reachable ve lib opts b'"

section \<open>When New succeeds\<close>

lemma check_algs_None_iff [res_simps]: "check_algs algs = None \<longleftrightarrow> set algs \<subseteq> allowedSigningAlgs"
  by (induction algs) auto

lemma custom_dial_Inr_iff:
  "(\<exists>d. custom_dial lookup et = Inr d) \<longleftrightarrow>
     et = [] \<or> (et = ''controlplane'' \<or> et = ''cluster'') \<and> (\<exists>l d. lookup = Some l \<and> l et = Inr (Some d))"
  by (auto simp: custom_dial_def egressLookupForType_def split: option.splits sum.splits)

definition ca_content_ok :: "validation_env \<Rightarrow> string option \<Rightarrow> bool" where
  "ca_content_ok ve ca = (case ca of None \<Rightarrow> True | Some s \<Rightarrow> ve_NewPoolFromBytes ve s = None)"

lemma base_client_Inr_iff:
  "(\<exists>c. base_client ve opts = Inr c) \<longleftrightarrow>
     ko_Client opts \<noteq> None \<or>
     ca_content_ok ve (ko_CAContentProvider opts) \<and>
     (\<exists>d. custom_dial (ko_EgressLookup opts) (as_issuer_EgressSelectorType (as_jwt_Issuer (ko_JWTAuthenticator opts))) = Inr d)"
  by (cases "custom_dial (ko_EgressLookup opts) (as_issuer_EgressSelectorType (as_jwt_Issuer (ko_JWTAuthenticator opts)))")
    (simp_all add: base_client_def ca_content_ok_def split: option.split)

lemma accepted_discovery_url_parses:
  assumes "CompileAndValidateJWTAuthenticator ve a dis = (m, [])" and "as_issuer_DiscoveryURL (as_jwt_Issuer a) \<noteq> []"
  obtains d where "url_Parse (ve_ip_literal ve) (as_issuer_DiscoveryURL (as_jwt_Issuer a)) = Inr d" and "Scheme d = ''https''"
  using issuer_accepted [OF assms(1)] assms(2) by blast

lemma discovery_client_Inr_iff:
  assumes "CompileAndValidateJWTAuthenticator ve (ko_JWTAuthenticator opts) dis = (m, [])"
  shows "(\<exists>c. discovery_client ve opts client = Inr c) \<longleftrightarrow>
    as_issuer_DiscoveryURL (as_jwt_Issuer (ko_JWTAuthenticator opts)) = [] \<or> ko_KeySet opts = None"
proof (cases "as_issuer_DiscoveryURL (as_jwt_Issuer (ko_JWTAuthenticator opts)) = []")
  case True
  then show ?thesis by (simp add: discovery_client_def)
next
  case False
  obtain d where "url_Parse (ve_ip_literal ve) (as_issuer_DiscoveryURL (as_jwt_Issuer (ko_JWTAuthenticator opts))) = Inr d"
    by (rule accepted_discovery_url_parses [OF assms False])
  with False show ?thesis by (simp add: discovery_client_def Let_def)
qed

definition exclusive_client :: "'k k8s_options \<Rightarrow> bool" where
  "exclusive_client opts \<longleftrightarrow> ko_Client opts = None \<or> ko_CAContentProvider opts = None \<and> ko_EgressLookup opts = None"

lemma k8soidc_New_Inr_iff:
  "k8soidc_New ve lib opts = Inr b \<longleftrightarrow>
     (\<exists>m client0 dial client.
        CompileAndValidateJWTAuthenticator ve (ko_JWTAuthenticator opts) (ko_DisallowedIssuers opts) = (m, []) \<and>
        set (signing_algs opts) \<subseteq> allowedSigningAlgs \<and> exclusive_client opts \<and>
        base_client ve opts = Inr (client0, dial) \<and> discovery_client ve opts client0 = Inr client \<and>
        b = assemble lib opts m client dial)"
proof -
  obtain m errs where v: "CompileAndValidateJWTAuthenticator ve (ko_JWTAuthenticator opts) (ko_DisallowedIssuers opts) = (m, errs)"
    by fastforce
  have chain: "bind_res (base_client ve opts) id (\<lambda>(client0, dial).
        bind_res (discovery_client ve opts client0) id (\<lambda>client. Inr (assemble lib opts m client dial))) = Inr b \<longleftrightarrow>
      (\<exists>client0 dial client. base_client ve opts = Inr (client0, dial) \<and> discovery_client ve opts client0 = Inr client \<and>
        b = assemble lib opts m client dial)"
    by (auto simp: bind_res_Inr_iff)
  have algs: "(\<exists>e. check_algs (signing_algs opts) = Some e) \<longleftrightarrow> \<not> set (signing_algs opts) \<subseteq> allowedSigningAlgs"
    unfolding check_algs_None_iff [symmetric] by auto
  show ?thesis
  proof (cases "errs = [] \<and> set (signing_algs opts) \<subseteq> allowedSigningAlgs")
    case False
    then show ?thesis using algs by (auto simp: k8soidc_New_def v ToAggregate_def split: option.split)
  next
    case True
    then have "check_algs (signing_algs opts) = None" by (simp add: check_algs_None_iff)
    then show ?thesis using True chain by (auto simp: k8soidc_New_def v ToAggregate_def exclusive_client_def)
  qed
qed

text \<open>
  C33: exactly when \<open>New\<close> builds an authenticator: validation accepts the configuration, the signing
  algorithms are allowed, a given client excludes a CA and an egress lookup, otherwise the CA parses and
  a selected egress type has a dialer, and a discovery URL is not combined with a key set.  (The
  discovery URL of an accepted configuration always parses.)
\<close>

theorem authenticator_built_iff:
  "(\<exists>b. k8soidc_New ve lib opts = Inr b) \<longleftrightarrow>
     snd (CompileAndValidateJWTAuthenticator ve (ko_JWTAuthenticator opts) (ko_DisallowedIssuers opts)) = [] \<and>
     set (signing_algs opts) \<subseteq> allowedSigningAlgs \<and> exclusive_client opts \<and>
     (case ko_Client opts of Some client \<Rightarrow> True
      | None \<Rightarrow> ca_content_ok ve (ko_CAContentProvider opts) \<and>
       (let et = as_issuer_EgressSelectorType (as_jwt_Issuer (ko_JWTAuthenticator opts)) in
        et = [] \<or> (et = ''controlplane'' \<or> et = ''cluster'') \<and>
          (\<exists>l d. ko_EgressLookup opts = Some l \<and> l et = Inr (Some d)))) \<and>
     (as_issuer_DiscoveryURL (as_jwt_Issuer (ko_JWTAuthenticator opts)) = [] \<or> ko_KeySet opts = None)"
proof (cases "snd (CompileAndValidateJWTAuthenticator ve (ko_JWTAuthenticator opts) (ko_DisallowedIssuers opts)) = []")
  case True
  then obtain m where m: "CompileAndValidateJWTAuthenticator ve (ko_JWTAuthenticator opts) (ko_DisallowedIssuers opts) = (m, [])"
    by (cases "CompileAndValidateJWTAuthenticator ve (ko_JWTAuthenticator opts) (ko_DisallowedIssuers opts)") simp
  have "(\<exists>b. k8soidc_New ve lib opts = Inr b) \<longleftrightarrow> set (signing_algs opts) \<subseteq> allowedSigningAlgs \<and> exclusive_client opts \<and>
      (\<exists>c. base_client ve opts = Inr c \<and> (\<exists>client. discovery_client ve opts (fst c) = Inr client))"
    unfolding k8soidc_New_Inr_iff m by auto
  then have "(\<exists>b. k8soidc_New ve lib opts = Inr b) \<longleftrightarrow> set (signing_algs opts) \<subseteq> allowedSigningAlgs \<and> exclusive_client opts \<and>
      (\<exists>c. base_client ve opts = Inr c) \<and>
      (as_issuer_DiscoveryURL (as_jwt_Issuer (ko_JWTAuthenticator opts)) = [] \<or> ko_KeySet opts = None)"
    unfolding discovery_client_Inr_iff [OF m] by simp
  then show ?thesis
    unfolding base_client_Inr_iff custom_dial_Inr_iff using m by (simp add: Let_def split: option.split)
next
  case False
  then show ?thesis by (auto simp: k8soidc_New_Inr_iff)
qed

section \<open>The invariant of the initialisation\<close>

definition configured_audiences :: "built \<Rightarrow> string set" where
  "configured_audiences b = set (as_issuer_Audiences (as_jwt_Issuer (ja_jwtAuthenticator (jc_state (b_cell b)))))"

definition init_inv :: "built \<Rightarrow> bool" where
  "init_inv b \<longleftrightarrow>
     (jc_health (b_cell b) = None \<longleftrightarrow> jc_init (b_cell b) = Ready) \<and>
     (ja_verifier (jc_state (b_cell b)) = None \<longleftrightarrow> jc_init (b_cell b) \<in> {Polling, Stopped}) \<and>
     (\<forall>v. ja_verifier (jc_state (b_cell b)) = Some v \<longrightarrow> idv_audiences v = configured_audiences b) \<and>
     (\<forall>r h iss v. ja_resolver (jc_state (b_cell b)) = Some r \<longrightarrow> clr_async r h iss = Some v \<longrightarrow>
        idv_audiences v = configured_audiences b)"

lemmas cell_defs = init_inv_def configured_audiences_def store_verifier_def store_healthy_def setVerifier_def

lemma assemble_inv: "init_inv (assemble lib opts m client dial)"
  by (auto simp: assemble_def initial_cell_def cell_defs newClaimResolver_def Let_def split: option.split)

lemma poll_attempt_audiences: "poll_attempt lib b answer = Inr v \<Longrightarrow> idv_audiences v = configured_audiences b"
  by (auto simp: poll_attempt_def configured_audiences_def Let_def split: sum.splits if_splits)

lemma init_step_inv: "init_step lib b b' \<Longrightarrow> init_inv b \<Longrightarrow> init_inv b'"
proof (induction rule: init_step.induct)
  case (poll_fails b answer err)
  then show ?case by (simp add: cell_defs)
next
  case (poll_succeeds b answer v)
  from poll_attempt_audiences [OF this(2)] poll_succeeds show ?case by (simp add: cell_defs)
next
  case (report b)
  then show ?case by (simp add: cell_defs)
next
  case (cancelled b)
  then show ?case by (simp add: cell_defs)
qed

lemma reachable_inv: "init_reachable ve lib opts b \<Longrightarrow> init_inv b"
proof (induction rule: init_reachable.induct)
  case (built b)
  then show ?case by (auto simp: k8soidc_New_Inr_iff assemble_inv)
next
  case (step b b')
  then show ?case by (blast intro: init_step_inv)
qed

text \<open>
  What a step never changes: everything but the verifier, the health error and the state of the
  goroutine.
\<close>

definition same_config :: "jwt_cell \<Rightarrow> jwt_cell \<Rightarrow> bool" where
  "same_config c c' \<longleftrightarrow> (jc_state c)\<lparr>ja_verifier := None\<rparr> = (jc_state c')\<lparr>ja_verifier := None\<rparr>"

lemma init_step_frame:
  "init_step lib b b' \<Longrightarrow> same_config (b_cell b) (b_cell b') \<and> b_config b' = b_config b \<and> b_client b' = b_client b"
  by (induction rule: init_step.induct) (simp_all add: same_config_def cell_defs)

lemma HealthCheck_None_iff: "HealthCheck c = None \<longleftrightarrow> jc_health c = None"
  by (auto simp: HealthCheck_def split: option.split)

text \<open>
  C17: in every state that the initialisation can reach, a nil error of \<open>HealthCheck\<close> means that the
  verifier is stored, checks exactly the configured audiences, and will never be replaced or lost: the
  authenticator is ready and its initialisation takes no further step.
\<close>

theorem healthy_means_ready:
  assumes "init_reachable ve lib opts b" and "HealthCheck (b_cell b) = None"
  shows "\<exists>v. ja_verifier (jc_state (b_cell b)) = Some v \<and> idv_audiences v = configured_audiences b \<and>
    (\<nexists>b'. init_step lib b b')"
proof -
  have ready: "jc_init (b_cell b) = Ready"
    using reachable_inv [OF assms(1)] assms(2) by (simp add: init_inv_def HealthCheck_None_iff)
  then obtain v where v: "ja_verifier (jc_state (b_cell b)) = Some v"
    using reachable_inv [OF assms(1)] by (auto simp: init_inv_def)
  moreover have "\<nexists>b'. init_step lib b b'" using ready by (auto elim: init_step_from)
  ultimately show ?thesis using reachable_inv [OF assms(1)] by (simp add: init_inv_def)
qed

text \<open>
  As long as the goroutine polls, one successful attempt makes the authenticator ready: the very
  next steps store its verifier and then the nil error, whatever the earlier attempts were.
\<close>

theorem initialisation_progress:
  assumes "jc_init (b_cell b) = Polling" and "poll_attempt lib b answer = Inr v"
  shows "\<exists>b'. (init_step lib)\<^sup>*\<^sup>* b b' \<and> HealthCheck (b_cell b') = None \<and>
    ja_verifier (jc_state (b_cell b')) = Some v \<and> same_config (b_cell b) (b_cell b')"
proof -
  let ?b1 = "b\<lparr>b_cell := store_verifier v (b_cell b)\<rparr>"
  let ?b2 = "?b1\<lparr>b_cell := store_healthy (b_cell ?b1)\<rparr>"
  have 1: "init_step lib b ?b1" by (rule init_step.poll_succeeds [OF assms])
  have 2: "init_step lib ?b1 ?b2" by (rule init_step.report) (simp add: store_verifier_def)
  have "(init_step lib)\<^sup>*\<^sup>* b ?b2" 
    using 1 2 by (meson converse_rtranclp_into_rtranclp rtranclp.rtrancl_refl)
  then show ?thesis
    by (intro exI [of _ ?b2]) (simp add: HealthCheck_None_iff same_config_def store_verifier_def store_healthy_def)
qed

lemma accepted_audience:
  assumes "init_reachable ve lib opts b"
    and "accepts (fst (AuthenticateToken env (jc_state (b_cell b)) ctx token h)) info"
  shows "\<exists>v idToken. ja_verifier (jc_state (b_cell b)) = Some v \<and> idv_verifier v h token = Inr idToken \<and>
    set (idt_Audience idToken) \<inter> configured_audiences b \<noteq> {}"
  using assms(2) reachable_inv [OF assms(1)]
  unfolding AuthenticateToken_accepts_iff init_inv_def by blast

text \<open>
  C16: an authenticator accepts a token only for its own audiences: in every reachable state a token
  that \<open>AuthenticateToken\<close> accepts is, according to the verifier, meant for at least one of the
  configured audiences.
\<close>

theorem accepted_tokens_have_configured_audience:
  assumes "init_reachable ve lib opts b"
    and "accepts (fst (AuthenticateToken env (jc_state (b_cell b)) ctx token h)) info"
  shows "\<exists>v idToken. ja_verifier (jc_state (b_cell b)) = Some v \<and> idv_verifier v h token = Inr idToken \<and>
    set (idt_Audience idToken) \<inter> configured_audiences b \<noteq> {}"
  by (rule accepted_audience [OF assms])

section \<open>The verifier of a built authenticator\<close>

text \<open>
  A verifier that the library made for this authenticator's configuration: of a key set, or of a
  provider that was found.
\<close>

definition library_verifier :: "'k oidc_library \<Rightarrow> built \<Rightarrow> raw_verifier \<Rightarrow> bool" where
  "library_verifier lib b raw \<longleftrightarrow>
     (\<exists>ks. raw = ol_NewVerifier lib (as_issuer_URL (as_jwt_Issuer (ja_jwtAuthenticator (jc_state (b_cell b))))) ks (b_config b)) \<or>
     (\<exists>provider :: oidc_provider. raw = pr_Verifier provider (b_config b))"

lemma assembled_fields:
  "ja_jwtAuthenticator (jc_state (b_cell (assemble lib opts m client dial))) = ko_JWTAuthenticator opts"
  "b_config (assemble lib opts m client dial) = verifierConfig (as_jwt_Issuer (ko_JWTAuthenticator opts)) (signing_algs opts)"
  "jc_init (b_cell (assemble lib opts m client dial)) \<noteq> Stopped"
  by (simp_all add: assemble_def initial_cell_def Let_def cell_defs split: option.split)

lemma step_jwt:
  "init_step lib b b' \<Longrightarrow> ja_jwtAuthenticator (jc_state (b_cell b')) = ja_jwtAuthenticator (jc_state (b_cell b))"
  by (induction rule: init_step.induct) (simp_all add: cell_defs)

lemma reachable_configuration:
  "init_reachable ve lib opts b \<Longrightarrow> ja_jwtAuthenticator (jc_state (b_cell b)) = ko_JWTAuthenticator opts \<and>
     b_config b = verifierConfig (as_jwt_Issuer (ko_JWTAuthenticator opts)) (signing_algs opts)"
proof (induction rule: init_reachable.induct)
  case (built b)
  then show ?case by (auto simp: k8soidc_New_Inr_iff assembled_fields)
next
  case (step b b')
  then show ?case using step_jwt [OF step.hyps(2)] init_step_frame [OF step.hyps(2)] by simp
qed

lemma poll_attempt_library: "poll_attempt lib b answer = Inr v \<Longrightarrow> library_verifier lib b (idv_verifier v)"
  by (auto simp: poll_attempt_def library_verifier_def Let_def split: sum.splits if_splits)

lemma reachable_library_verifier:
  "init_reachable ve lib opts b \<Longrightarrow> ja_verifier (jc_state (b_cell b)) = Some v \<Longrightarrow> library_verifier lib b (idv_verifier v)"
proof (induction arbitrary: v rule: init_reachable.induct)
  case (built b)
  then obtain m client dial where b: "b = assemble lib opts m client dial" by (auto simp: k8soidc_New_Inr_iff)
  show ?case
  proof (cases "ko_KeySet opts")
    case None
    with built b show ?thesis by (simp add: assemble_def initial_cell_def Let_def)
  next
    case (Some ks)
    with built b show ?thesis
      by (auto simp: assemble_def initial_cell_def Let_def library_verifier_def cell_defs)
  qed
next
  case (step b b')
  have keep: "library_verifier lib b' raw \<longleftrightarrow> library_verifier lib b raw" for raw
    using step_jwt [OF step.hyps(2)] init_step_frame [OF step.hyps(2)] by (simp add: library_verifier_def)
  from step.hyps(2) show ?case
  proof (rule init_step_from)
    fix answer u
    assume "b' = b\<lparr>b_cell := store_verifier u (b_cell b)\<rparr>" "poll_attempt lib b answer = Inr u"
    with step.prems poll_attempt_library [of lib b answer u] keep show ?thesis by (simp add: store_verifier_def)
  qed (use step keep in \<open>auto simp: cell_defs\<close>)
qed

section \<open>Required claims\<close>

lemma update_new: "k \<notin> fst ` set al \<Longrightarrow> AList.update k v al = al @ [(k, v)]"
  by (induction al) auto

abbreviation rule_claims_of :: "as_claim_validation_rule list \<Rightarrow> string list" where
  "rule_claims_of rules \<equiv> filter (\<lambda>c. c \<noteq> []) (map as_cvr_Claim rules)"

lemma required_claims_distinct:
  assumes "distinct (rule_claims_of rules)"
  shows "required_claims rules =
    map (\<lambda>rule. (as_cvr_Claim rule, as_cvr_RequiredValue rule)) (filter (\<lambda>rule. as_cvr_Claim rule \<noteq> []) rules)"
proof -
  let ?f = "\<lambda>m rule. if as_cvr_Claim rule \<noteq> [] then AList.update (as_cvr_Claim rule) (as_cvr_RequiredValue rule) m else m"
  have "foldl ?f m rules = m @ map (\<lambda>rule. (as_cvr_Claim rule, as_cvr_RequiredValue rule))
      (filter (\<lambda>rule. as_cvr_Claim rule \<noteq> []) rules)"
    if "distinct (map fst m @ rule_claims_of rules)" for m
    using that
  proof (induction rules arbitrary: m)
    case Nil
    then show ?case by simp
  next
    case (Cons r rules)
    show ?case
    proof (cases "as_cvr_Claim r = []")
      case True
      with Cons show ?thesis by simp
    next
      case False
      then have "as_cvr_Claim r \<notin> fst ` set m" using Cons.prems by auto
      from update_new [OF this] False Cons.prems show ?thesis
        by (simp, subst Cons.IH) auto
    qed
  qed
  from this [of "[]"] assms show ?thesis by (simp add: required_claims_def)
qed

lemma accepted_rules_distinct:
  assumes "CompileAndValidateJWTAuthenticator ve a dis = (m, [])"
  shows "distinct (rule_claims_of (as_jwt_ClaimValidationRules a))"
proof -
  obtain s2 where "validateClaimValidationRules ve empty_validation_state (as_jwt_ClaimValidationRules a)
      (child [] ''claimValidationRules'') = ([], s2)"
    using assms unfolding CompileAndValidateJWTAuthenticator_def by (rule validateJWTAuthenticator_steps)
  then have scan: "fst (scan_idx (claim_rule_step ve (child [] ''claimValidationRules'')) 0 empty_scan
      (as_jwt_ClaimValidationRules a)) = []"
    by (simp add: validateClaimValidationRules_def split_beta)
  have "concat (map (\<lambda>r. if as_cvr_Claim r = [] then [] else [as_cvr_Claim r]) rs) = rule_claims_of rs" for rs
    by (induction rs) auto
  then show ?thesis using rule_claims.scan_distinct [OF scan] by simp
qed

text \<open>
  C18: an authenticator that \<open>New\<close> has built enforces every claim rule of its configuration: for each of
  them the token must carry the claim as a string with the required value, and nothing else is
  required.
\<close>

theorem built_authenticator_requires_configured_claims:
  assumes "k8soidc_New ve lib opts = Inr b"
  shows "checkRequiredClaims (ja_requiredClaims (jc_state (b_cell b))) c = None \<longleftrightarrow>
    list_all (\<lambda>rule. as_cvr_Claim rule = [] \<or>
        unmarshalClaim json_to_string c (as_cvr_Claim rule) = Inr (as_cvr_RequiredValue rule))
      (as_jwt_ClaimValidationRules (ko_JWTAuthenticator opts))"
proof -
  from assms obtain m client dial where
    v: "CompileAndValidateJWTAuthenticator ve (ko_JWTAuthenticator opts) (ko_DisallowedIssuers opts) = (m, [])"
    and b: "b = assemble lib opts m client dial"
    unfolding k8soidc_New_Inr_iff by blast
  have "ja_requiredClaims (jc_state (b_cell b)) = required_claims (as_jwt_ClaimValidationRules (ko_JWTAuthenticator opts))"
    by (simp add: b assemble_def initial_cell_def Let_def setVerifier_def store_healthy_def store_verifier_def
        split: option.split)
  then show ?thesis
    by (auto simp: required_claims_distinct [OF accepted_rules_distinct [OF v]] checkRequiredClaims_None_iff
        list_all_iff)
qed

section \<open>A sample\<close>

definition plain_as_jwt :: as_jwt_authenticator where
  "plain_as_jwt = sample_as_jwt\<lparr>as_jwt_ClaimValidationRules := [],
     as_jwt_ClaimMappings := zero_as_claim_mappings
       \<lparr>as_cm_Username := \<lparr>as_pce_Claim = ''sub'', as_pce_Prefix = Some [], as_pce_Expression = []\<rparr>\<rparr>\<rparr>"

lemma plain_fields:
  "as_issuer_URL (as_jwt_Issuer plain_as_jwt) = ''https://idp''"
  "as_issuer_Audiences (as_jwt_Issuer plain_as_jwt) = [''aud'']"
  "as_issuer_DiscoveryURL (as_jwt_Issuer plain_as_jwt) = []"
  "as_issuer_EgressSelectorType (as_jwt_Issuer plain_as_jwt) = []"
  "as_jwt_ClaimValidationRules plain_as_jwt = []" "as_jwt_UserValidationRules plain_as_jwt = []"
  "as_cm_Username (as_jwt_ClaimMappings plain_as_jwt) = \<lparr>as_pce_Claim = ''sub'', as_pce_Prefix = Some [], as_pce_Expression = []\<rparr>"
  "as_cm_Groups (as_jwt_ClaimMappings plain_as_jwt) = zero_as_pce"
  "as_cm_UID (as_jwt_ClaimMappings plain_as_jwt) = \<lparr>as_ce_Claim = [], as_ce_Expression = []\<rparr>"
  "as_cm_Extra (as_jwt_ClaimMappings plain_as_jwt) = []"
  by (simp_all add: plain_as_jwt_def sample_as_jwt_def zero_as_issuer_def zero_as_claim_mappings_def)

lemma plain_valid: "validateJWTAuthenticator sample_ve plain_as_jwt p {} = (empty_cel_mapper, [])"
proof -
  have "validateIssuer sample_ve (as_jwt_Issuer plain_as_jwt) {} q = []" for q
    using sample_issuer_valid by (simp add: plain_as_jwt_def)
  then show ?thesis
    by (simp add: validateJWTAuthenticator_def Let_def plain_fields validateClaimValidationRules_def empty_scan_def
        validateUserValidationRules_def empty_validation_state_def validateClaimMappings_def validate_gates_def
        validate_username_def validate_groups_def validate_uid_def validate_extra_def
        validatePrefixClaimOrExpression_def zero_as_pce_def sample_ve_def)
qed

definition sample_lib :: "unit oidc_library" where
  "sample_lib = \<lparr>ol_NewVerifier = (\<lambda>_ _ _ _ _. Inr \<lparr>idt_Audience = [''aud''], idt_Claims = Inr [''sub'' \<mapsto> Raw (JStr ''bob'')]\<rparr>),
     ol_NewRemoteKeySet = (\<lambda>_ _. ()), ol_asyncVerifier = (\<lambda>_ _ _ _. None), ol_JWKSMetrics = True\<rparr>"

definition sample_opts :: "unit option \<Rightarrow> unit k8s_options" where
  "sample_opts ks = \<lparr>ko_JWTAuthenticator = plain_as_jwt, ko_KeySet = ks, ko_CAContentProvider = None,
     ko_EgressLookup = None, ko_Client = None, ko_SupportedSigningAlgs = [], ko_DisallowedIssuers = {},
     ko_ClaimsExpanders = [], ko_UnknownHandler = None\<rparr>"

definition sample_client :: http_client where
  "sample_client = \<lparr>hc_Timeout = 30000, hc_Transport = Some (NetTransport (Some
     \<lparr>tc_RootCAs = None, tc_MinTLS12 = False\<rparr>))\<rparr>"

definition sample_built :: "unit option \<Rightarrow> built" where
  "sample_built ks = assemble sample_lib (sample_opts ks) empty_cel_mapper sample_client None"

lemma sample_built: "k8soidc_New sample_ve sample_lib (sample_opts ks) = Inr (sample_built ks)"
  unfolding k8soidc_New_Inr_iff
  by (rule exI [of _ empty_cel_mapper], rule exI [of _ sample_client], rule exI [of _ None], rule exI [of _ sample_client])
    (simp add: sample_opts_def plain_valid CompileAndValidateJWTAuthenticator_def signing_algs_def
      allowedSigningAlgs_def exclusive_client_def base_client_def discovery_client_def custom_dial_def plain_fields
      sample_built_def sample_client_def)

lemma sample_ready: "HealthCheck (b_cell (sample_built (Some ks))) = None"
  by (simp add: HealthCheck_None_iff sample_built_def assemble_def sample_opts_def Let_def setVerifier_def store_healthy_def)

theorem healthy_means_ready_witness:
  "\<exists>v. ja_verifier (jc_state (b_cell (sample_built (Some ())))) = Some v \<and>
     idv_audiences v = configured_audiences (sample_built (Some ())) \<and>
     (\<nexists>b'. init_step sample_lib (sample_built (Some ())) b')"
  by (rule healthy_means_ready [OF init_reachable.built [OF sample_built] sample_ready])

definition sample_provider :: oidc_provider where
  "sample_provider = \<lparr>pr_Verifier = (\<lambda>_ _ _. Inl (Errorf ''unused'' [])), pr_JWKSURL = Inr ''https://idp/keys''\<rparr>"

theorem initialisation_progress_witness:
  "\<exists>b'. (init_step sample_lib)\<^sup>*\<^sup>* (sample_built None) b' \<and> HealthCheck (b_cell b') = None"
proof -
  have "jc_init (b_cell (sample_built None)) = Polling"
    by (simp add: sample_built_def assemble_def sample_opts_def initial_cell_def Let_def)
  moreover obtain v where "poll_attempt sample_lib (sample_built None) (Inr sample_provider) = Inr v"
    by (simp add: poll_attempt_def sample_lib_def sample_provider_def Let_def)
  ultimately show ?thesis using initialisation_progress by blast
qed

lemma plain_accepts:
  assumes a: "ja_jwtAuthenticator a = plain_as_jwt" "ja_celMapper a = empty_cel_mapper" "ja_resolver a = None"
    "ja_requiredClaims a = []" "ja_claimsExpanders a = []"
    "ja_verifier a = Some \<lparr>idv_verifier = (\<lambda>_ _. Inr \<lparr>idt_Audience = [''aud''], idt_Claims = Inr [''sub'' \<mapsto> Raw (JStr ''bob'')]\<rparr>),
       idv_audiences = {''aud''}\<rparr>"
  shows "accepts (fst (AuthenticateToken env a ctx sample_token h))
    \<lparr>ui_Name = ''bob'', ui_UID = [], ui_Groups = [], ui_Extra = Map.empty\<rparr>"
proof -
  let ?c = "[''sub'' \<mapsto> Raw (JStr ''bob'')] :: claims"
  have iss: "hasCorrectIssuer ''https://idp'' sample_token" using sample_issuer by simp
  have "accepts (authenticate_claims a ?c) \<lparr>ui_Name = ''bob'', ui_UID = [], ui_Groups = [], ui_Extra = Map.empty\<rparr>"
    by (simp add: authenticate_claims_def a getUsername_def getGroups_def getUID_def getExtra_def getCredentialID_def
        plain_fields zero_as_pce_def checkClaimValidationRules_def checkUserValidationRules_def unmarshalClaim_def
        unmarshal_with_def Let_def hasClaim_def)
  then show ?thesis
    unfolding AuthenticateToken_accepts_iff a
    using iss by (simp add: plain_fields expand_distributed_def doClaimsExpansion_def)
qed

lemma sample_built_accepts:
  "accepts (fst (AuthenticateToken sample_env (jc_state (b_cell (sample_built (Some ())))) Map.empty sample_token []))
     \<lparr>ui_Name = ''bob'', ui_UID = [], ui_Groups = [], ui_Extra = Map.empty\<rparr>"
  by (rule plain_accepts)
    (simp_all add: sample_built_def assemble_def sample_opts_def initial_cell_def Let_def setVerifier_def
        store_healthy_def store_verifier_def plain_fields zero_as_pce_def required_claims_def sample_lib_def)

theorem accepted_tokens_have_configured_audience_witness:
  "\<exists>v idToken. ja_verifier (jc_state (b_cell (sample_built (Some ())))) = Some v \<and>
     idv_verifier v [] sample_token = Inr idToken \<and>
     set (idt_Audience idToken) \<inter> configured_audiences (sample_built (Some ())) \<noteq> {}"
  by (rule accepted_tokens_have_configured_audience [OF init_reachable.built [OF sample_built] sample_built_accepts])

theorem built_authenticator_requires_configured_claims_witness:
  "checkRequiredClaims (ja_requiredClaims (jc_state (b_cell (sample_built None)))) Map.empty = None"
  using built_authenticator_requires_configured_claims [OF sample_built, of None Map.empty]
  by (simp add: sample_opts_def plain_fields)

end
