(* ===== verification/Padlok_Oidc.thy ===== *)
theory Padlok_Oidc
  imports Validation_Paths Oidc_New
begin

text \<open>
  \<open>pkg/oidc/oidc.go\<close>: building the external claims expanders of an authenticator and the authenticator
  itself from a padlok configuration.  The expanders are kept as the resolvers they are, and become
  functions (\<open>ExpandClaims\<close>) when they are handed to the fork's \<open>New\<close>.  Building a client-credential
  getter asks for a first token, so that the builders extend the history of events.
\<close>

section \<open>Builders\<close>

definition buildExternalClaimsTokenGetter ::
  "environment \<Rightarrow> authentication option \<Rightarrow> history \<Rightarrow> token_getter res \<times> history" where
  "buildExternalClaimsTokenGetter env authn h =
     (case authn of
        None \<Rightarrow> (Inr Anonymous, h)
      | Some a \<Rightarrow>
     (case auth_Type a of
        None \<Rightarrow> (Inl (Errorf ''no authentication type specified'' []), h)
      | Some t \<Rightarrow>
          if t = AuthenticationTypeRequestProvidedToken then (Inr RequestProvided, h)
          else if t = AuthenticationTypeClientCredential then
            (if auth_ClientCredential a = None
             then (Inl (Errorf ''client credential configuration is required when authentication type is ClientCredential'' []), h)
             else NewClientCredential env (auth_ClientCredential a) h)
          else (Inl (Errorf ''unknown authentication type %q'' [OpS t]), h)))"

fun buildExternalClaimsExpanders ::
  "environment \<Rightarrow> cel_engine \<Rightarrow> external_claims_source list \<Rightarrow> history
     \<Rightarrow> external_claims_resolver list res \<times> history" where
  "buildExternalClaimsExpanders env compiler [] h = (Inr [], h)"
| "buildExternalClaimsExpanders env compiler (source # sources) h =
     (case buildExternalClaimsTokenGetter env (ecs_Authentication source) h of
        (Inl err, h1) \<Rightarrow> (Inl (Errorf ''building access token getter: %w'' [OpE err]), h1)
      | (Inr tokenGetter, h1) \<Rightarrow>
     (case resolver_New env compiler tokenGetter source of
        Inl err \<Rightarrow> (Inl (Errorf ''creating new external claims resolver: %w'' [OpE err]), h1)
      | Inr expander \<Rightarrow>
     (case buildExternalClaimsExpanders env compiler sources h1 of
        (Inl err, h2) \<Rightarrow> (Inl err, h2)
      | (Inr expanders, h2) \<Rightarrow> (Inr (expander # expanders), h2))))"

section \<open>New\<close>

record 'k padlok_options =
  po_JWTAuthenticator :: jwt_authenticator
  po_KeySet :: "'k option"
  po_CAContentProvider :: "string option"
  po_Client :: "http_client option"
  po_SupportedSigningAlgs :: "string list"
  po_DisallowedIssuers :: "string set"

definition k8s_opts :: "environment \<Rightarrow> 'k padlok_options \<Rightarrow> external_claims_resolver list \<Rightarrow> 'k k8s_options" where
  "k8s_opts env opts externalClaimsExpanders =
     \<lparr>ko_JWTAuthenticator = ConvertJWTAuthenticatorToApiserverJWTAuthenticator (po_JWTAuthenticator opts),
      ko_KeySet = po_KeySet opts, ko_CAContentProvider = po_CAContentProvider opts, ko_EgressLookup = None,
      ko_Client = po_Client opts, ko_SupportedSigningAlgs = po_SupportedSigningAlgs opts,
      ko_DisallowedIssuers = po_DisallowedIssuers opts,
      ko_ClaimsExpanders = map (ExpandClaims env) externalClaimsExpanders,
      ko_UnknownHandler = Some UnknownCELValueTypesToStringListHandler\<rparr>"

definition padlok_New ::
  "validation_env \<Rightarrow> environment \<Rightarrow> 'k oidc_library \<Rightarrow> 'k padlok_options \<Rightarrow> history \<Rightarrow> built res \<times> history" where
  "padlok_New ve env lib opts h =
     (case buildExternalClaimsExpanders env (ve_engine ve) (jwt_ExternalClaimsSources (po_JWTAuthenticator opts)) h of
        (Inl err, h1) \<Rightarrow> (Inl (Errorf ''building external claims expanders: %w'' [OpE err]), h1)
      | (Inr externalClaimsExpanders, h1) \<Rightarrow>
          (k8soidc_New ve lib (k8s_opts env opts externalClaimsExpanders), h1))"

section \<open>What is built\<close>

lemma buildExternalClaimsExpanders_Inr_D:
  "buildExternalClaimsExpanders env compiler sources h = (Inr ecrs, h') \<Longrightarrow>
     list_all2 (\<lambda>source ecr. \<exists>g. resolver_New env compiler g source = Inr ecr) sources ecrs"
proof (induction sources arbitrary: h ecrs)
  case Nil
  then show ?case by simp
next
  case (Cons source sources)
  then show ?case by (auto split: prod.splits sum.splits)
qed

lemma expanders_length:
  "buildExternalClaimsExpanders env compiler sources h = (Inr ecrs, h') \<Longrightarrow> length ecrs = length sources"
  by (auto dest!: buildExternalClaimsExpanders_Inr_D list_all2_lengthD)

lemma built_sourced_names:
  assumes "resolver_New env compiler g source = Inr ecr"
  shows "sourced_names ecr \<subseteq> set (source_names source)"
proof -
  have "map_res (compile_sourced_mapping compiler) (List.map_filter complete_mapping (ecs_Mappings source))
      = Inr (es_Sources (ecr_mapper ecr))"
    using assms by (auto simp: resolver_New_Inr_iff buildExternalSourceCELMapper_Inr_iff
        buildExternalClaimsMapperFromSourcedClaimMappings_def)
  then have "list_all2 (\<lambda>m r. compile_sourced_mapping compiler m = Inr r)
      (List.map_filter complete_mapping (ecs_Mappings source)) (es_Sources (ecr_mapper ecr))"
    by (simp add: map_res_Inr_iff)
  moreover have "cr_ExpressionAccessor r = ExternalSourceMappingExpression (fst m) (snd m)"
    if "compile_sourced_mapping compiler m = Inr r" for m r
    using that by (auto simp: compile_sourced_mapping_def res_simps CompileExternalSourceExpression_def dest: compile_accessor)
  ultimately have "list_all2 (\<lambda>m r. cr_ExpressionAccessor r = ExternalSourceMappingExpression (fst m) (snd m))
      (List.map_filter complete_mapping (ecs_Mappings source)) (es_Sources (ecr_mapper ecr))"
    by (rule list.rel_mono_strong) blast
  then have "sourced_names ecr \<subseteq> fst ` set (List.map_filter complete_mapping (ecs_Mappings source))"
    by (fastforce simp: sourced_names_def accessor_claims_def in_set_conv_nth list_all2_conv_all_nth)
  also have "\<dots> \<subseteq> set (source_names source)"
    by (auto simp: List.map_filter_def complete_mapping_def source_names_def mapping_names_def
        split: option.splits)
  finally show ?thesis .
qed

section \<open>Running the expanders\<close>

definition is_sent :: "event \<Rightarrow> bool" where
  "is_sent e = (case e of Sent _ _ \<Rightarrow> True | _ \<Rightarrow> False)"

definition sent_count :: "history \<Rightarrow> nat" where
  "sent_count h = length (filter is_sent h)"

lemma sent_count_simps [simp]:
  "sent_count (h @ h') = sent_count h + sent_count h'" "sent_count (map TokenAsked ts) = 0"
  "sent_count [] = 0"
  by (simp_all add: sent_count_def is_sent_def filter_map comp_def)

lemma sent_count_le: "sent_count es \<le> length es"
  by (simp add: sent_count_def)

text \<open>
  What a run of expanders may do: extend the history by requests and token requests, and set claims
  among the names \<open>N\<close>.
\<close>

definition framed :: "string set \<Rightarrow> claims \<Rightarrow> history \<Rightarrow> claims \<Rightarrow> history \<Rightarrow> bool" where
  "framed N c h c' h' \<longleftrightarrow> c' |` (- N) = c |` (- N) \<and>
     (\<exists>es. h' = h @ es \<and> list_all (\<lambda>e. is_sent e \<or> (\<exists>ts. e = TokenAsked ts)) es)"

lemma ExpandClaims_history:
  "\<exists>ts es. snd (snd (ExpandClaims env ecr ctx c h)) = h @ map TokenAsked ts @ es \<and> length es \<le> 10 \<and> list_all is_sent es"
proof -
  obtain ts where ts: "snd (GetAccessToken env ctx (ecr_accessTokenGetter ecr) h) = h @ map TokenAsked ts"
    using getter.extends by blast
  have send: ?thesis
    if "snd (snd (ExpandClaims env ecr ctx c h)) = snd (client_Do env (ecr_httpClient ecr) req (h @ map TokenAsked ts))" for req
  proof -
    obtain es where "snd (client_Do env (ecr_httpClient ecr) req (h @ map TokenAsked ts)) = (h @ map TokenAsked ts) @ es"
      "length es \<le> 10" "list_all (\<lambda>e. \<exists>tls r. e = Sent tls r \<and> rq_Method r = rq_Method req) es"
      unfolding client_Do_def
      using follow_redirects_history [of 9 env "case hc_Transport (ecr_httpClient ecr) of None \<Rightarrow> NetTransport None | Some t \<Rightarrow> t"
          req False req "h @ map TokenAsked ts"] by auto
    with that show ?thesis by (intro exI [of _ ts] exI [of _ es]) (auto simp: list_all_iff is_sent_def)
  qed
  show ?thesis
  proof (cases rule: ExpandClaims_outcome [of env ecr ctx c h])
    case 1
    then show ?thesis by (intro exI [of _ "[]"]) simp
  next
    case 2
    then show ?thesis by (intro exI [of _ ts] exI [of _ "[]"]) (simp add: ts)
  next
    case (3 req h1)
    then show ?thesis by (intro send [of req]) (simp add: ts)
  next
    case (4 req h1 resp ext)
    then show ?thesis by (intro send [of req]) (simp add: ts)
  qed
qed

lemma ExpandClaims_framed:
  assumes "sourced_names ecr \<subseteq> N" and "ExpandClaims env ecr ctx c h = (e, c', h')"
  shows "e = None \<and> framed N c h c' h'"
proof -
  have r: "c' |` (- sourced_names ecr) = c |` (- sourced_names ecr)" and e: "e = None"
    using ExpandClaims_frames [of env ecr ctx c h] assms(2) by simp_all
  have "c' |` (- N) = c |` (- N)"
  proof
    fix x
    show "(c' |` (- N)) x = (c |` (- N)) x"
      using fun_cong [OF r, of x] assms(1) by (auto simp: restrict_map_def split: if_splits)
  qed
  moreover obtain ts es where "h' = h @ map TokenAsked ts @ es" "list_all is_sent es"
    using ExpandClaims_history [of env ecr ctx c h] assms(2) by auto
  then have "h' = h @ (map TokenAsked ts @ es) \<and> list_all (\<lambda>e. is_sent e \<or> (\<exists>ts. e = TokenAsked ts)) (map TokenAsked ts @ es)"
    by (auto simp: list_all_iff)
  ultimately show ?thesis using e by (auto simp: framed_def)
qed

interpretation sourced: expander_invariant "framed (\<Union>ecr \<in> set ecrs. sourced_names ecr)" "map (ExpandClaims env) ecrs"
  for ecrs env
proof
  let ?N = "\<Union>ecr \<in> set ecrs. sourced_names ecr"
  show "framed ?N c h c h" for c h by (simp add: framed_def)
  show "framed ?N c h c' h' \<Longrightarrow> framed ?N c' h' c'' h'' \<Longrightarrow> framed ?N c h c'' h''" for c h c' h' c'' h''
    by (fastforce simp: framed_def)
  show "x \<in> set (map (ExpandClaims env) ecrs) \<Longrightarrow> x ctx c h = (e, c', h') \<Longrightarrow> framed ?N c h c' h'" for x ctx c h e c' h'
    using ExpandClaims_framed [of _ ?N env ctx c h e c' h'] by auto
  show "x \<in> set (map (ExpandClaims env) ecrs) \<Longrightarrow> fst (x ctx c h) = None" for x ctx c h
    using ExpandClaims_frames by auto
qed

lemma run_expanders_requests:
  "run_expanders (map (ExpandClaims env) ecrs) ctx c h = (e, c', h') \<Longrightarrow> sent_count h' \<le> sent_count h + 10 * length ecrs"
proof (induction ecrs arbitrary: c h)
  case Nil
  then show ?case by simp
next
  case (Cons ecr ecrs)
  obtain e1 c1 h1 where x: "ExpandClaims env ecr ctx c h = (e1, c1, h1)" by (cases "ExpandClaims env ecr ctx c h") auto
  obtain ts es where "h1 = h @ map TokenAsked ts @ es" "length es \<le> 10"
    using ExpandClaims_history [of env ecr ctx c h] x by auto
  then have "sent_count h1 \<le> sent_count h + 10" using sent_count_le [of es] by simp
  moreover have "e1 = None" using ExpandClaims_frames [of env ecr ctx c h] x by simp
  with Cons.prems x have "run_expanders (map (ExpandClaims env) ecrs) ctx c1 h1 = (e, c', h')" by simp
  ultimately show ?case using Cons.IH [of c1 h1] by simp
qed

lemma built_expanders:
  assumes "padlok_New ve env lib opts h = (Inr b, h')"
  obtains ecrs where "ja_claimsExpanders (jc_state (b_cell b)) = map (ExpandClaims env) ecrs"
    and "length ecrs = length (jwt_ExternalClaimsSources (po_JWTAuthenticator opts))"
    and "(\<Union>ecr \<in> set ecrs. sourced_names ecr)
      \<subseteq> set (concat (map source_names (jwt_ExternalClaimsSources (po_JWTAuthenticator opts))))"
proof -
  let ?sources = "jwt_ExternalClaimsSources (po_JWTAuthenticator opts)"
  obtain ecrs h1 where e: "buildExternalClaimsExpanders env (ve_engine ve) ?sources h = (Inr ecrs, h1)"
    and n: "k8soidc_New ve lib (k8s_opts env opts ecrs) = Inr b"
    using assms by (auto simp: padlok_New_def split: prod.splits sum.splits)
  obtain m client dial where "b = assemble lib (k8s_opts env opts ecrs) m client dial"
    using n unfolding k8soidc_New_Inr_iff by blast
  then have "ja_claimsExpanders (jc_state (b_cell b)) = map (ExpandClaims env) ecrs"
    by (simp add: assemble_def initial_cell_def Let_def setVerifier_def store_healthy_def store_verifier_def
        k8s_opts_def split: option.split)
  moreover have "(\<Union>ecr \<in> set ecrs. sourced_names ecr) \<subseteq> set (concat (map source_names ?sources))"
  proof -
    have "\<exists>source \<in> set ?sources. sourced_names ecr \<subseteq> set (source_names source)" if "ecr \<in> set ecrs" for ecr
    proof -
      obtain i where i: "i < length ecrs" "ecr = ecrs ! i" using \<open>ecr \<in> set ecrs\<close> by (auto simp: in_set_conv_nth)
      with buildExternalClaimsExpanders_Inr_D [OF e] obtain g where
        "resolver_New env (ve_engine ve) g (?sources ! i) = Inr ecr" and "i < length ?sources"
        by (auto simp: list_all2_conv_all_nth)
      then show ?thesis using built_sourced_names nth_mem by blast
    qed
    then show ?thesis by fastforce
  qed
  ultimately show thesis by - (rule that, assumption, rule expanders_length [OF e], assumption)
qed

text \<open>
  C8: the expansion of an authenticator that padlok builds from a configuration: it never fails (so that
  it never causes a token to be rejected), it changes no claim that the configured sources do not
  name, and it sends at most ten requests per configured source: one and those it is redirected to.
\<close>

theorem built_expansion_is_harmless:
  assumes "padlok_New ve env lib opts h = (Inr b, h')"
    and "doClaimsExpansion (ja_claimsExpanders (jc_state (b_cell b))) ctx token c h1 = (e, c2, h2)"
  shows "e = None \<and>
    (let N = set (concat (map source_names (jwt_ExternalClaimsSources (po_JWTAuthenticator opts))))
     in c2 |` (- N) = c |` (- N)) \<and>
    sent_count h2 \<le> sent_count h1 + 10 * length (jwt_ExternalClaimsSources (po_JWTAuthenticator opts))"
proof -
  let ?N = "set (concat (map source_names (jwt_ExternalClaimsSources (po_JWTAuthenticator opts))))"
  obtain ecrs where x: "ja_claimsExpanders (jc_state (b_cell b)) = map (ExpandClaims env) ecrs"
    and len: "length ecrs = length (jwt_ExternalClaimsSources (po_JWTAuthenticator opts))"
    and N: "(\<Union>ecr \<in> set ecrs. sourced_names ecr) \<subseteq> ?N"
    by (rule built_expanders [OF assms(1)])
  from assms(2) have run: "doClaimsExpansion (map (ExpandClaims env) ecrs) ctx token c h1 = (e, c2, h2)"
    by (simp add: x)
  from sourced.expansion_ok [OF run] have e: "e = None" and
    eq: "c2 |` (- (\<Union>ecr \<in> set ecrs. sourced_names ecr)) = c |` (- (\<Union>ecr \<in> set ecrs. sourced_names ecr))"
    by (simp_all add: framed_def)
  have "c2 |` (- ?N) = c |` (- ?N)"
  proof
    fix y
    show "(c2 |` (- ?N)) y = (c |` (- ?N)) y"
      using fun_cong [OF eq, of y] N by (auto simp: restrict_map_def split: if_splits)
  qed
  moreover have "sent_count h2 \<le> sent_count h1 + 10 * length ecrs"
    using run by (auto simp: doClaimsExpansion_def split: if_splits dest: run_expanders_requests)
  ultimately show ?thesis using e len by (simp add: Let_def)
qed

section \<open>Accepted configurations can be built\<close>

text \<open>
  While an authenticator is built, a token is asked for once for every source that uses client credentials, in the order of the
  sources.  Building what validation has accepted fails exactly when one of these requests does; all else that it needs is that the
  two ways of parsing PEM agree.
\<close>

definition credential_client :: "tls option \<Rightarrow> http_client" where
  "credential_client t = \<lparr>hc_Timeout = tokenEndpointRequestTimeout, hc_Transport = map_option (\<lambda>cfg. NetTransport
     (if nonempty_ca (tls_CertificateAuthority cfg)
      then Some \<lparr>tc_RootCAs = tls_CertificateAuthority cfg, tc_MinTLS12 = False\<rparr> else None)) t\<rparr>"

definition credential_token_source :: "client_credential_config \<Rightarrow> token_source" where
  "credential_token_source c = \<lparr>ts_ClientID = cc_ClientID c, ts_ClientSecret = cc_ClientSecret c,
     ts_TokenURL = cc_TokenEndpoint c, ts_Scopes = cc_Scopes c, ts_Client = credential_client (cc_TLS c)\<rparr>"

definition initial_token :: "authentication option \<Rightarrow> token_source list" where
  "initial_token authn =
     (case authn of
        None \<Rightarrow> []
      | Some a \<Rightarrow> if auth_Type a = Some AuthenticationTypeClientCredential
          then map credential_token_source (case auth_ClientCredential a of None \<Rightarrow> [] | Some c \<Rightarrow> [c]) else [])"

definition initial_tokens :: "external_claims_source list \<Rightarrow> token_source list" where
  "initial_tokens sources = concat (map (\<lambda>s. initial_token (ecs_Authentication s)) sources)"

text \<open>Whether the token endpoints answer, each at the time it is asked.\<close>

fun tokens_answer :: "environment \<Rightarrow> token_source list \<Rightarrow> history \<Rightarrow> bool" where
  "tokens_answer env [] h = True"
| "tokens_answer env (ts # tss) h \<longleftrightarrow> \<not> isl (env_token env h ts) \<and> tokens_answer env tss (h @ [TokenAsked ts])"

lemma tokens_answer_append [simp]:
  "tokens_answer env (tss @ tss') h \<longleftrightarrow> tokens_answer env tss h \<and> tokens_answer env tss' (h @ map TokenAsked tss)"
  by (induction tss arbitrary: h) auto

lemma initial_tokens_simps [simp]:
  "initial_tokens [] = []" "initial_tokens (s # sources) = initial_token (ecs_Authentication s) @ initial_tokens sources"
  by (simp_all add: initial_tokens_def)

text \<open>A step that asks for tokens: it succeeds, and extends the history by them, exactly when they are answered.\<close>

definition asks_for :: "environment \<Rightarrow> token_source list \<Rightarrow> 'a res \<times> history \<Rightarrow> history \<Rightarrow> bool" where
  "asks_for env tss r h \<longleftrightarrow>
     (if tokens_answer env tss h then \<exists>x. r = (Inr x, h @ map TokenAsked tss) else isl (fst r))"

lemma asks_for_None: "r = (Inr x, h) \<Longrightarrow> asks_for env [] r h"
  by (simp add: asks_for_def)

definition pem_agrees :: "validation_env \<Rightarrow> environment \<Rightarrow> bool" where
  "pem_agrees ve env \<longleftrightarrow> (\<forall>ca. ve_NewPoolFromBytes ve ca = None \<longrightarrow> env_pem_ok env ca)"

lemma accepted_credential_client:
  assumes "validateExternalClaimsSourceTLS ve t p = []" and "pem_agrees ve env"
  shows "httpClientForClientCredential env t = Inr (credential_client t)"
proof (cases t)
  case None
  then show ?thesis by (simp add: httpClientForClientCredential_def credential_client_def)
next
  case (Some cfg)
  show ?thesis
  proof (cases "nonempty_ca (tls_CertificateAuthority cfg)")
    case False
    then show ?thesis
      by (simp add: httpClientForClientCredential_def Some modifyTransportRootCAs_def credential_client_def)
  next
    case True
    then obtain ca where ca: "tls_CertificateAuthority cfg = Some ca" by (auto simp: nonempty_ca_def split: option.splits)
    then have "ve_NewPoolFromBytes ve ca = None"
      using assms(1) Some
      by (auto simp: validateExternalClaimsSourceTLS_def validateCertificateAuthority_def TLS_IsZero_def
          split: if_splits option.splits)
    then have "env_pem_ok env ca" using assms(2) by (simp add: pem_agrees_def)
    then show ?thesis using ca True
      by (simp add: httpClientForClientCredential_def Some modifyTransportRootCAs_def credential_client_def)
  qed
qed

lemma accepted_getter_builds:
  assumes "validateExternalClaimsSourceAuthentication ve authn p = []" and "pem_agrees ve env"
  shows "asks_for env (initial_token authn) (buildExternalClaimsTokenGetter env authn h) h"
proof (cases authn)
  case None
  then show ?thesis by (simp add: asks_for_def initial_token_def buildExternalClaimsTokenGetter_def)
next
  case (Some a)
  with assms(1) obtain t where t: "auth_Type a = Some t"
    "t = AuthenticationTypeRequestProvidedToken \<or> t = AuthenticationTypeClientCredential"
    by (auto simp: validateExternalClaimsSourceAuthentication_def split: option.splits if_splits)
  show ?thesis
  proof (cases "t = AuthenticationTypeClientCredential")
    case False
    with t Some show ?thesis by (simp add: asks_for_def initial_token_def buildExternalClaimsTokenGetter_def)
  next
    case True
    then have cred: "validateClientCredentialConfig ve (auth_ClientCredential a) (child p ''clientCredential'') = []"
      using assms(1) Some t by (simp add: validateExternalClaimsSourceAuthentication_def)
    then obtain c where c: "auth_ClientCredential a = Some c"
      by (auto simp: validateClientCredentialConfig_def split: option.splits)
    then have client: "httpClientForClientCredential env (cc_TLS c) = Inr (credential_client (cc_TLS c))"
      using cred accepted_credential_client [OF _ assms(2)] by (auto simp: validateClientCredentialConfig_def)
    have "buildExternalClaimsTokenGetter env authn h =
        (case env_token env h (credential_token_source c) of
           Inl e \<Rightarrow> (fst (buildExternalClaimsTokenGetter env authn h), h @ [TokenAsked (credential_token_source c)])
         | Inr _ \<Rightarrow> (Inr (ClientCredential (credential_token_source c)), h @ [TokenAsked (credential_token_source c)]))
      \<and> (isl (fst (buildExternalClaimsTokenGetter env authn h)) \<longleftrightarrow> isl (env_token env h (credential_token_source c)))"
      using Some t True c
      by (cases "env_token env h (credential_token_source c)")
        (simp_all add: buildExternalClaimsTokenGetter_def NewClientCredential_def client Let_def
          ClientCredential_GetAccessToken_def credential_token_source_def)
    then show ?thesis
      using Some t True c
      by (cases "env_token env h (credential_token_source c)") (auto simp: asks_for_def initial_token_def)
  qed
qed

lemma accepted_sources_build:
  assumes "list_all (\<lambda>s. \<exists>seen p. fst (validateExternalClaimsSource ve s seen p) = []) sources"
    and "pem_agrees ve env"
  shows "asks_for env (initial_tokens sources) (buildExternalClaimsExpanders env (ve_engine ve) sources h) h"
  using assms(1)
proof (induction sources arbitrary: h)
  case Nil
  show ?case by (simp add: asks_for_def)
next
  case (Cons s sources)
  then obtain seen p where s: "fst (validateExternalClaimsSource ve s seen p) = []" by auto
  then have "validateExternalClaimsSourceAuthentication ve (ecs_Authentication s) (child p ''authentication'') = []"
    by (simp add: validateExternalClaimsSource_def split_beta)
  note getter = accepted_getter_builds [OF this assms(2), of h]
  have r: "\<exists>ecr. resolver_New env (ve_engine ve) g s = Inr ecr" for g
    using source_builds [OF s, of env g] assms(2) by (auto simp: pem_agrees_def)
  show ?case
  proof (cases "tokens_answer env (initial_token (ecs_Authentication s)) h")
    case True
    then obtain g where g: "buildExternalClaimsTokenGetter env (ecs_Authentication s) h
        = (Inr g, h @ map TokenAsked (initial_token (ecs_Authentication s)))"
      using getter by (auto simp: asks_for_def)
    obtain ecr where "resolver_New env (ve_engine ve) g s = Inr ecr" using r by blast
    moreover have "asks_for env (initial_tokens sources)
        (buildExternalClaimsExpanders env (ve_engine ve) sources (h @ map TokenAsked (initial_token (ecs_Authentication s))))
        (h @ map TokenAsked (initial_token (ecs_Authentication s)))"
      by (rule Cons.IH) (use Cons.prems in simp)
    ultimately show ?thesis
      using True g by (auto simp: asks_for_def split: prod.split sum.split if_splits)
  next
    case False
    then have "isl (fst (buildExternalClaimsTokenGetter env (ecs_Authentication s) h))"
      using getter by (simp add: asks_for_def)
    then show ?thesis using False by (auto simp: asks_for_def isl_def split: prod.split)
  qed
qed

definition options_for :: "jwt_authenticator \<Rightarrow> string option \<Rightarrow> 'k padlok_options" where
  "options_for jwt ca = \<lparr>po_JWTAuthenticator = jwt, po_KeySet = None, po_CAContentProvider = ca, po_Client = None,
     po_SupportedSigningAlgs = [], po_DisallowedIssuers = {}\<rparr>"

lemma sources_accepted:
  assumes "validateExternalClaimsSources ve sources p = []"
  shows "list_all (\<lambda>s. \<exists>seen p. fst (validateExternalClaimsSource ve s seen p) = []) sources"
proof -
  have "fst (scan_idx (\<lambda>i seen s. validateExternalClaimsSource ve s seen (index p i)) 0 {} sources) = []"
    using assms by (simp add: validateExternalClaimsSources_def)
  from scan_idx_each [OF this] show ?thesis unfolding list_all_iff by blast
qed

lemma converted_egress_type:
  "as_issuer_EgressSelectorType (as_jwt_Issuer (ConvertJWTAuthenticatorToApiserverJWTAuthenticator jwt)) = []"
  by (simp add: ConvertJWTAuthenticatorToApiserverJWTAuthenticator_def convert_defs zero_as_issuer_def split: option.split)

lemma accepted_authenticator_builds:
  fixes lib :: "'k oidc_library"
  assumes "ValidateAuthenticationConfiguration ve c = []" and "jwt \<in> set (cfg_JWT c)"
    and "paths_irrelevant ve" and "pem_agrees ve env" and "ca_content_ok ve ca"
  shows "asks_for env (initial_tokens (jwt_ExternalClaimsSources jwt)) (padlok_New ve env lib (options_for jwt ca) h) h"
proof -
  let ?c = "ConvertAuthenticationConfigurationToApiserverAuthenticationConfiguration (Some c)"
  let ?jwt = "ConvertJWTAuthenticatorToApiserverJWTAuthenticator jwt"
  have api: "apiserver_ValidateAuthenticationConfiguration ve ?c {} = []"
    and src: "concat_idx (\<lambda>i jwt. validateExternalClaimsSources ve (jwt_ExternalClaimsSources jwt)
        (child (index [Child ''jwt''] i) ''externalClaimsSources'')) 0 (cfg_JWT c) = []"
    using assms(1) by (auto simp: ValidateAuthenticationConfiguration_def Let_def split: if_splits)
  have "?jwt \<in> set (as_cfg_JWT ?c)"
    using assms(2) by (simp add: ConvertAuthenticationConfigurationToApiserverAuthenticationConfiguration_def)
  from accepted_configuration_compiles [OF assms(3) api this]
  obtain m where m: "CompileAndValidateJWTAuthenticator ve ?jwt {} = (m, [])" by (metis prod.collapse)
  have "list_all (\<lambda>s. \<exists>seen p. fst (validateExternalClaimsSource ve s seen p) = []) (jwt_ExternalClaimsSources jwt)"
    using concat_idx_Nil_D [OF src assms(2)] sources_accepted by blast
  note sources = accepted_sources_build [OF this assms(4), of h]
  have "\<exists>b. k8soidc_New ve lib (k8s_opts env (options_for jwt ca :: 'k padlok_options) ecrs) = Inr b" for ecrs
  proof -
    let ?opts = "k8s_opts env (options_for jwt ca :: 'k padlok_options) ecrs"
    have fields: "ko_JWTAuthenticator ?opts = ?jwt" "ko_DisallowedIssuers ?opts = {}" "ko_Client ?opts = None"
      "ko_CAContentProvider ?opts = ca" "ko_KeySet ?opts = None" "ko_SupportedSigningAlgs ?opts = []"
      by (simp_all add: k8s_opts_def options_for_def)
    have "custom_dial (ko_EgressLookup ?opts) (as_issuer_EgressSelectorType (as_jwt_Issuer (ko_JWTAuthenticator ?opts))) = Inr None"
      by (simp add: fields converted_egress_type custom_dial_def)
    then have "\<exists>x. base_client ve ?opts = Inr x"
      unfolding base_client_Inr_iff using assms(5) by (auto simp: fields)
    then obtain client0 dial where base: "base_client ve ?opts = Inr (client0, dial)" by auto
    have "\<exists>client. discovery_client ve ?opts client0 = Inr client"
      using discovery_client_Inr_iff [of ve ?opts "{}" m] m by (simp add: fields)
    then obtain client where disc: "discovery_client ve ?opts client0 = Inr client" ..
    have "k8soidc_New ve lib ?opts = Inr (assemble lib ?opts m client dial)"
      unfolding k8soidc_New_Inr_iff
      by (rule exI [of _ m], rule exI [of _ client0], rule exI [of _ dial], rule exI [of _ client])
        (simp add: fields m base disc signing_algs_def allowedSigningAlgs_def exclusive_client_def)
    then show ?thesis ..
  qed
  then show ?thesis
    using sources by (fastforce simp: asks_for_def padlok_New_def options_for_def isl_def split: prod.split sum.split)
qed

section \<open>The sample configuration is built\<close>

definition trusting_env :: environment where
  "trusting_env = sample_env\<lparr>env_pem_ok := \<lambda>_. True\<rparr>"

lemma trusting_env_ok:
  "paths_irrelevant sample_ve" "pem_agrees sample_ve trusting_env"
  by (simp_all add: paths_irrelevant_def sample_ve_def pem_agrees_def trusting_env_def)

lemma trusting_env_answers: "tokens_answer trusting_env tss h"
  by (induction tss arbitrary: h) (simp_all add: trusting_env_def sample_env_def)

lemma sample_jwt_builds: "\<exists>b. fst (padlok_New sample_ve trusting_env sample_lib (options_for sample_padlok_jwt None) h) = Inr b"
  using accepted_authenticator_builds [OF sample_configuration_accepted _ trusting_env_ok, of sample_padlok_jwt None sample_lib h]
  by (auto simp: asks_for_def trusting_env_answers sample_configuration_def ca_content_ok_def)

theorem built_expansion_is_harmless_witness:
  "\<exists>b. fst (padlok_New sample_ve trusting_env sample_lib (options_for sample_padlok_jwt None) []) = Inr b \<and>
     (case doClaimsExpansion (ja_claimsExpanders (jc_state (b_cell b))) Map.empty sample_token [''sub'' \<mapsto> Raw (JStr ''bob'')] []
      of (e, c, h) \<Rightarrow> e = None \<and> sent_count h \<le> 10)"
proof -
  obtain b where b: "fst (padlok_New sample_ve trusting_env sample_lib (options_for sample_padlok_jwt None) []) = Inr b"
    using sample_jwt_builds by blast
  obtain e c h where x: "doClaimsExpansion (ja_claimsExpanders (jc_state (b_cell b))) Map.empty sample_token
      [''sub'' \<mapsto> Raw (JStr ''bob'')] [] = (e, c, h)"
    by (rule prod_cases3)
  from b obtain h' where "padlok_New sample_ve trusting_env sample_lib (options_for sample_padlok_jwt None) [] = (Inr b, h')"
    by (metis prod.collapse)
  from built_expansion_is_harmless [OF this x] b x show ?thesis
    by (simp add: options_for_def sample_padlok_jwt_def)
qed

end
