(* ===== verification/Token_Union.thy ===== *)
theory Token_Union
  imports Padlok_Oidc
begin

text \<open>
  Composition of token authenticators: \<open>token/union/union.go\<close>, which asks a chain of authenticators
  one after the other, and \<open>instrumentedAuthenticator\<close> of the fork's \<open>metrics.go\<close>, which wraps each of
  them.  What the wrapper observes is returned beside the answer, as the status label of the latency
  it records; the latency itself is not modelled.
\<close>

type_synonym token_auth = "ctx \<Rightarrow> string \<Rightarrow> history \<Rightarrow> auth_result \<times> history"

section \<open>The instrumented authenticator\<close>

definition instrumented_AuthenticateToken ::
  "token_auth \<Rightarrow> ctx \<Rightarrow> string \<Rightarrow> history \<Rightarrow> (auth_result \<times> history) \<times> string option" where
  "instrumented_AuthenticateToken delegate ctx token h =
     (case delegate ctx token h of ((response, ok, err), h1) \<Rightarrow>
        if \<not> ok \<and> err = None then (((response, ok, err), h1), None)
        else (((response, ok, err), h1), Some (if err \<noteq> None then ''failure'' else ''success'')))"

lemma instrumented_transparent [simp]: "fst (instrumented_AuthenticateToken auth ctx token h) = auth ctx token h"
  by (simp add: instrumented_AuthenticateToken_def split: prod.split)

text \<open>The authenticator that \<open>New\<close> returns: the built one behind its instrumentation.\<close>

definition built_auth :: "environment \<Rightarrow> built \<Rightarrow> token_auth" where
  "built_auth env b = (\<lambda>ctx token h. fst (instrumented_AuthenticateToken (AuthenticateToken env (jc_state (b_cell b))) ctx token h))"

lemma built_auth_eq: "built_auth env b = AuthenticateToken env (jc_state (b_cell b))"
  by (simp add: built_auth_def)

text \<open>
  The latency of a token is recorded exactly when the token is of the authenticator's issuer,
  and it is labelled a success exactly when the token is accepted.
\<close>

theorem latency_recorded_iff:
  "(snd (instrumented_AuthenticateToken (AuthenticateToken env a) ctx token h) = None \<longleftrightarrow>
      \<not> hasCorrectIssuer (as_issuer_URL (as_jwt_Issuer (ja_jwtAuthenticator a))) token) \<and>
   (snd (instrumented_AuthenticateToken (AuthenticateToken env a) ctx token h) = Some ''success'' \<longleftrightarrow>
      (\<exists>info auds. fst (AuthenticateToken env a ctx token h) = (Some \<lparr>ar_Audiences = auds, ar_User = Some info\<rparr>, True, None)))"
proof -
  obtain response ok err h1 where r: "AuthenticateToken env a ctx token h = ((response, ok, err), h1)" by (metis surj_pair)
  then show ?thesis
    using AuthenticateToken_no_opinion [of env a ctx token h] AuthenticateToken_wf [of env a ctx token h]
    by (auto simp: instrumented_AuthenticateToken_def auth_wf_def fail_def)
qed

lemma AuthenticateToken_ok:
  "fst (AuthenticateToken env a ctx token h) = (resp, True, None) \<Longrightarrow> \<exists>info. accepts (fst (AuthenticateToken env a ctx token h)) info"
  by (auto simp: AuthenticateToken_def authenticate_claims_def Let_def fail_def split: option.splits sum.splits prod.splits if_splits)

section \<open>The union\<close>

fun union_loop :: "bool \<Rightarrow> token_auth list \<Rightarrow> ctx \<Rightarrow> string \<Rightarrow> error list \<Rightarrow> history \<Rightarrow> auth_result \<times> history" where
  "union_loop failOnError [] ctx token errlist h = ((None, False, NewAggregate errlist), h)"
| "union_loop failOnError (currAuthRequestHandler # handlers) ctx token errlist h =
     (case currAuthRequestHandler ctx token h of ((info, ok, err), h1) \<Rightarrow>
        (case err of
           Some e \<Rightarrow> if failOnError then ((info, ok, err), h1)
             else union_loop failOnError handlers ctx token (errlist @ [e]) h1
         | None \<Rightarrow> if ok then ((info, ok, err), h1)
             else union_loop failOnError handlers ctx token errlist h1))"

definition union_with :: "bool \<Rightarrow> token_auth list \<Rightarrow> token_auth" where
  "union_with failOnError authTokenHandlers =
     (case authTokenHandlers of [a] \<Rightarrow> a
      | _ \<Rightarrow> (\<lambda>ctx token h. union_loop failOnError authTokenHandlers ctx token [] h))"

definition union_New :: "token_auth list \<Rightarrow> token_auth" where
  "union_New = union_with False"

definition union_NewFailOnError :: "token_auth list \<Rightarrow> token_auth" where
  "union_NewFailOnError = union_with True"

section \<open>The answer of a union\<close>

text \<open>The answers when every authenticator is asked, each after the events of those before it.\<close>

fun ask_all :: "token_auth list \<Rightarrow> ctx \<Rightarrow> string \<Rightarrow> history \<Rightarrow> auth_result list" where
  "ask_all [] ctx token h = []"
| "ask_all (a # as) ctx token h = fst (a ctx token h) # ask_all as ctx token (snd (a ctx token h))"

fun is_ok :: "auth_result \<Rightarrow> bool" where
  "is_ok (info, ok, err) \<longleftrightarrow> ok \<and> err = None"

fun errors_of :: "auth_result list \<Rightarrow> error list" where
  "errors_of [] = []"
| "errors_of ((info, ok, err) # rs) = (case err of None \<Rightarrow> errors_of rs | Some e \<Rightarrow> e # errors_of rs)"

text \<open>The first acceptance, else all errors together, else no opinion.\<close>

definition first_acceptance :: "error list \<Rightarrow> auth_result list \<Rightarrow> auth_result" where
  "first_acceptance errs rs =
     (case find is_ok rs of Some r \<Rightarrow> r | None \<Rightarrow> (None, False, NewAggregate (errs @ errors_of rs)))"

lemma union_loop_answer:
  "fst (union_loop False as ctx token errlist h) = first_acceptance errlist (ask_all as ctx token h)"
proof (induction as arbitrary: errlist h)
  case Nil
  show ?case by (simp add: first_acceptance_def)
next
  case (Cons a as)
  obtain info ok err h1 where r: "a ctx token h = ((info, ok, err), h1)" by (metis surj_pair)
  show ?case
  proof (cases err)
    case None
    with r Cons show ?thesis by (simp add: first_acceptance_def split: option.split)
  next
    case (Some e)
    have "union_loop False (a # as) ctx token errlist h = union_loop False as ctx token (errlist @ [e]) h1"
      by (simp add: r Some)
    moreover have "first_acceptance errlist (ask_all (a # as) ctx token h)
        = first_acceptance (errlist @ [e]) (ask_all as ctx token h1)"
      by (simp add: r Some first_acceptance_def split: option.split)
    ultimately show ?thesis using Cons by simp
  qed
qed

lemma union_loop_wf: "(\<And>a. a \<in> set as \<Longrightarrow> token_authenticator a) \<Longrightarrow> auth_wf (fst (union_loop False as ctx token errlist h))"
proof (induction as arbitrary: errlist h)
  case Nil
  show ?case by (auto simp: auth_wf_def fail_def NewAggregate_def)
next
  case (Cons a as)
  have "auth_wf (fst (a ctx token h))" using Cons.prems [of a] by (simp add: token_authenticator_def)
  moreover have "auth_wf (fst (union_loop False as ctx token es h'))" for es h' using Cons by simp
  ultimately show ?case by (auto split: prod.split option.split)
qed

interpretation built_cell: token_authenticator "built_auth env b" for env b
  by unfold_locales (simp add: built_auth_eq AuthenticateToken_wf)

interpretation union_auth: token_authenticator "union_New (map (built_auth env) bs)" for env bs
proof unfold_locales
  fix ctx token h
  have "auth_wf (fst (union_loop False (map (built_auth env) bs) ctx token [] h))"
    by (rule union_loop_wf) (auto intro: built_cell.token_authenticator_axioms)
  then show "auth_wf (fst (union_New (map (built_auth env) bs) ctx token h))"
    by (auto simp: union_New_def union_with_def built_cell.wf split: list.split)
qed

lemma union_answer:
  "fst (union_New as ctx token h) =
     (case ask_all as ctx token h of [r] \<Rightarrow> r | rs \<Rightarrow> first_acceptance [] rs)"
proof (cases as rule: remdups_adj.cases)
  case 1
  then show ?thesis by (simp add: union_New_def union_with_def first_acceptance_def)
next
  case (2 a)
  then show ?thesis by (simp add: union_New_def union_with_def)
next
  case (3 a b bs)
  then have "fst (union_New as ctx token h) = first_acceptance [] (ask_all as ctx token h)"
    unfolding union_New_def union_with_def by (simp add: union_loop_answer del: union_loop.simps ask_all.simps)
  with 3 show ?thesis by simp
qed

text \<open>
  C29: the union of the authenticators of a configuration answers like the first of them that accepts the
  token, each asked after the events of those before it; when none accepts, it returns the errors of
  all of them together (the bare error when there is a single authenticator), and has no opinion when there is none.
\<close>

theorem union_is_first_acceptance:
  "fst (union_New (map (built_auth env) bs) ctx token h) =
     (case ask_all (map (built_auth env) bs) ctx token h of [r] \<Rightarrow> r | rs \<Rightarrow> first_acceptance [] rs) \<and>
   auth_wf (fst (union_New (map (built_auth env) bs) ctx token h))"
  using union_answer union_auth.wf by blast

lemma first_acceptance_member:
  assumes "accepts (first_acceptance errs rs) info"
  shows "\<exists>r \<in> set rs. accepts r info"
proof (cases "find is_ok rs")
  case None
  with assms show ?thesis by (simp add: first_acceptance_def)
next
  case (Some r)
  then have "r \<in> set rs" by (auto simp: find_Some_iff)
  with Some assms show ?thesis by (auto simp: first_acceptance_def)
qed

lemma union_accepts_member:
  assumes "accepts (fst (union_New as ctx token h)) info"
  obtains a h' where "a \<in> set as" and "accepts (fst (a ctx token h')) info"
proof -
  have all: "\<exists>a h'. a \<in> set as \<and> r = fst (a ctx token h')" if "r \<in> set (ask_all as ctx token h)" for r
    using that by (induction as ctx token h rule: ask_all.induct) auto
  have "accepts r info \<Longrightarrow> r \<in> set (ask_all as ctx token h) \<Longrightarrow> thesis" for r
    using all that by blast
  moreover have "\<exists>r \<in> set (ask_all as ctx token h). accepts r info"
  proof (cases "\<exists>r. ask_all as ctx token h = [r]")
    case True
    with assms show ?thesis unfolding union_answer by auto
  next
    case False
    then have "(case ask_all as ctx token h of [r] \<Rightarrow> r | rs \<Rightarrow> first_acceptance [] rs)
        = first_acceptance [] (ask_all as ctx token h)"
      by (auto split: list.split)
    with assms show ?thesis unfolding union_answer by (simp add: first_acceptance_member)
  qed
  ultimately show thesis by blast
qed

end
