(* ===== verification/Api_V1alpha1.thy ===== *)
theory Api_V1alpha1
  imports Api_Types
begin

text \<open>
  The versioned types of \<open>pkg/apis/authentication/v1alpha1/types.go\<close> and the generated conversions of
  \<open>zz_generated.conversion.go\<close> between them and the internal types, in both directions.  The
  generated functions write every field of their result and never fail, so each is a function of
  its input; the one exception is the conversion of the whole configuration, which leaves the
  \<open>TypeMeta\<close> of its result as it was.  The casts through \<open>unsafe.Pointer\<close> reinterpret memory of the
  same layout: field by field they are the conversion of the pointee.

  The locale \<open>mutual_inverse\<close> is the contract of such a pair of conversions; it lifts from the leaf
  types to lists and pointers of them, and every pair of the generated file is an instance.
\<close>

section \<open>Versioned types\<close>

record v1_tls =
  v1_tls_CertificateAuthority :: "string option"

record v1_client_credential_config =
  v1_cc_ClientID :: string
  v1_cc_ClientSecret :: string
  v1_cc_TokenEndpoint :: string
  v1_cc_Scopes :: "string list"
  v1_cc_TLS :: "v1_tls option"

record v1_authentication =
  v1_auth_Type :: "string option"
  v1_auth_ClientCredential :: "v1_client_credential_config option"

record v1_source_url =
  v1_surl_Hostname :: "string option"
  v1_surl_PathExpression :: "string option"

record v1_sourced_claim_mapping =
  v1_scm_Name :: "string option"
  v1_scm_Expression :: "string option"

record v1_external_source_condition =
  v1_esc_Expression :: "string option"

record v1_external_claims_source =
  v1_ecs_Authentication :: "v1_authentication option"
  v1_ecs_TLS :: "v1_tls option"
  v1_ecs_URL :: "v1_source_url option"
  v1_ecs_Mappings :: "v1_sourced_claim_mapping list"
  v1_ecs_Conditions :: "v1_external_source_condition list"

record v1_claim_validation_rule =
  v1_cvr_Claim :: string
  v1_cvr_RequiredValue :: string
  v1_cvr_Expression :: string
  v1_cvr_Message :: string

record v1_prefixed_claim_or_expression =
  v1_pce_Claim :: string
  v1_pce_Prefix :: "string option"
  v1_pce_Expression :: string

record v1_claim_or_expression =
  v1_ce_Claim :: string
  v1_ce_Expression :: string

record v1_extra_mapping =
  v1_em_Key :: string
  v1_em_ValueExpression :: string

record v1_user_validation_rule =
  v1_uvr_Expression :: string
  v1_uvr_Message :: string

record v1_claim_mappings =
  v1_cm_Username :: v1_prefixed_claim_or_expression
  v1_cm_Groups :: v1_prefixed_claim_or_expression
  v1_cm_UID :: v1_claim_or_expression
  v1_cm_Extra :: "v1_extra_mapping list"

record v1_issuer =
  v1_issuer_URL :: string
  v1_issuer_DiscoveryURL :: string
  v1_issuer_CertificateAuthority :: string
  v1_issuer_Audiences :: "string list"
  v1_issuer_AudienceMatchPolicy :: string

record v1_jwt_authenticator =
  v1_jwt_Issuer :: "v1_issuer option"
  v1_jwt_ClaimValidationRules :: "v1_claim_validation_rule list"
  v1_jwt_ClaimMappings :: "v1_claim_mappings option"
  v1_jwt_UserValidationRules :: "v1_user_validation_rule list"
  v1_jwt_ExternalClaimsSources :: "v1_external_claims_source list"

record v1_authentication_configuration =
  v1_cfg_TypeMeta :: type_meta
  v1_cfg_JWT :: "v1_jwt_authenticator list"

section \<open>Generated conversions to the internal types\<close>

definition Convert_v1alpha1_TLS_To_authentication_TLS ::
  "v1_tls \<Rightarrow> tls" where
  "Convert_v1alpha1_TLS_To_authentication_TLS x =
     \<lparr>tls_CertificateAuthority = v1_tls_CertificateAuthority x\<rparr>"

definition Convert_v1alpha1_ClientCredentialConfig_To_authentication_ClientCredentialConfig ::
  "v1_client_credential_config \<Rightarrow> client_credential_config" where
  "Convert_v1alpha1_ClientCredentialConfig_To_authentication_ClientCredentialConfig x =
     \<lparr>cc_ClientID = v1_cc_ClientID x,
      cc_ClientSecret = v1_cc_ClientSecret x,
      cc_TokenEndpoint = v1_cc_TokenEndpoint x,
      cc_Scopes = v1_cc_Scopes x,
      cc_TLS = map_option Convert_v1alpha1_TLS_To_authentication_TLS (v1_cc_TLS x)\<rparr>"

definition Convert_v1alpha1_Authentication_To_authentication_Authentication ::
  "v1_authentication \<Rightarrow> authentication" where
  "Convert_v1alpha1_Authentication_To_authentication_Authentication x =
     \<lparr>auth_Type = v1_auth_Type x,
      auth_ClientCredential = map_option Convert_v1alpha1_ClientCredentialConfig_To_authentication_ClientCredentialConfig (v1_auth_ClientCredential x)\<rparr>"

definition Convert_v1alpha1_SourceURL_To_authentication_SourceURL ::
  "v1_source_url \<Rightarrow> source_url" where
  "Convert_v1alpha1_SourceURL_To_authentication_SourceURL x =
     \<lparr>surl_Hostname = v1_surl_Hostname x,
      surl_PathExpression = v1_surl_PathExpression x\<rparr>"

definition Convert_v1alpha1_SourcedClaimMapping_To_authentication_SourcedClaimMapping ::
  "v1_sourced_claim_mapping \<Rightarrow> sourced_claim_mapping" where
  "Convert_v1alpha1_SourcedClaimMapping_To_authentication_SourcedClaimMapping x =
     \<lparr>scm_Name = v1_scm_Name x,
      scm_Expression = v1_scm_Expression x\<rparr>"

definition Convert_v1alpha1_ExternalSourceCondition_To_authentication_ExternalSourceCondition ::
  "v1_external_source_condition \<Rightarrow> external_source_condition" where
  "Convert_v1alpha1_ExternalSourceCondition_To_authentication_ExternalSourceCondition x =
     \<lparr>esc_Expression = v1_esc_Expression x\<rparr>"

definition Convert_v1alpha1_ExternalClaimsSource_To_authentication_ExternalClaimsSource ::
  "v1_external_claims_source \<Rightarrow> external_claims_source" where
  "Convert_v1alpha1_ExternalClaimsSource_To_authentication_ExternalClaimsSource x =
     \<lparr>ecs_Authentication = map_option Convert_v1alpha1_Authentication_To_authentication_Authentication (v1_ecs_Authentication x),
      ecs_TLS = map_option Convert_v1alpha1_TLS_To_authentication_TLS (v1_ecs_TLS x),
      ecs_URL = map_option Convert_v1alpha1_SourceURL_To_authentication_SourceURL (v1_ecs_URL x),
      ecs_Mappings = map Convert_v1alpha1_SourcedClaimMapping_To_authentication_SourcedClaimMapping (v1_ecs_Mappings x),
      ecs_Conditions = map Convert_v1alpha1_ExternalSourceCondition_To_authentication_ExternalSourceCondition (v1_ecs_Conditions x)\<rparr>"

definition Convert_v1alpha1_ClaimValidationRule_To_authentication_ClaimValidationRule ::
  "v1_claim_validation_rule \<Rightarrow> claim_validation_rule" where
  "Convert_v1alpha1_ClaimValidationRule_To_authentication_ClaimValidationRule x =
     \<lparr>cvr_Claim = v1_cvr_Claim x,
      cvr_RequiredValue = v1_cvr_RequiredValue x,
      cvr_Expression = v1_cvr_Expression x,
      cvr_Message = v1_cvr_Message x\<rparr>"

definition Convert_v1alpha1_PrefixedClaimOrExpression_To_authentication_PrefixedClaimOrExpression ::
  "v1_prefixed_claim_or_expression \<Rightarrow> prefixed_claim_or_expression" where
  "Convert_v1alpha1_PrefixedClaimOrExpression_To_authentication_PrefixedClaimOrExpression x =
     \<lparr>pce_Claim = v1_pce_Claim x,
      pce_Prefix = v1_pce_Prefix x,
      pce_Expression = v1_pce_Expression x\<rparr>"

definition Convert_v1alpha1_ClaimOrExpression_To_authentication_ClaimOrExpression ::
  "v1_claim_or_expression \<Rightarrow> claim_or_expression" where
  "Convert_v1alpha1_ClaimOrExpression_To_authentication_ClaimOrExpression x =
     \<lparr>ce_Claim = v1_ce_Claim x,
      ce_Expression = v1_ce_Expression x\<rparr>"

definition Convert_v1alpha1_ExtraMapping_To_authentication_ExtraMapping ::
  "v1_extra_mapping \<Rightarrow> extra_mapping" where
  "Convert_v1alpha1_ExtraMapping_To_authentication_ExtraMapping x =
     \<lparr>em_Key = v1_em_Key x,
      em_ValueExpression = v1_em_ValueExpression x\<rparr>"

definition Convert_v1alpha1_UserValidationRule_To_authentication_UserValidationRule ::
  "v1_user_validation_rule \<Rightarrow> user_validation_rule" where
  "Convert_v1alpha1_UserValidationRule_To_authentication_UserValidationRule x =
     \<lparr>uvr_Expression = v1_uvr_Expression x,
      uvr_Message = v1_uvr_Message x\<rparr>"

definition Convert_v1alpha1_ClaimMappings_To_authentication_ClaimMappings ::
  "v1_claim_mappings \<Rightarrow> claim_mappings" where
  "Convert_v1alpha1_ClaimMappings_To_authentication_ClaimMappings x =
     \<lparr>cm_Username = Convert_v1alpha1_PrefixedClaimOrExpression_To_authentication_PrefixedClaimOrExpression (v1_cm_Username x),
      cm_Groups = Convert_v1alpha1_PrefixedClaimOrExpression_To_authentication_PrefixedClaimOrExpression (v1_cm_Groups x),
      cm_UID = Convert_v1alpha1_ClaimOrExpression_To_authentication_ClaimOrExpression (v1_cm_UID x),
      cm_Extra = map Convert_v1alpha1_ExtraMapping_To_authentication_ExtraMapping (v1_cm_Extra x)\<rparr>"

definition Convert_v1alpha1_Issuer_To_authentication_Issuer ::
  "v1_issuer \<Rightarrow> issuer" where
  "Convert_v1alpha1_Issuer_To_authentication_Issuer x =
     \<lparr>issuer_URL = v1_issuer_URL x,
      issuer_DiscoveryURL = v1_issuer_DiscoveryURL x,
      issuer_CertificateAuthority = v1_issuer_CertificateAuthority x,
      issuer_Audiences = v1_issuer_Audiences x,
      issuer_AudienceMatchPolicy = v1_issuer_AudienceMatchPolicy x\<rparr>"

definition Convert_v1alpha1_JWTAuthenticator_To_authentication_JWTAuthenticator ::
  "v1_jwt_authenticator \<Rightarrow> jwt_authenticator" where
  "Convert_v1alpha1_JWTAuthenticator_To_authentication_JWTAuthenticator x =
     \<lparr>jwt_Issuer = map_option Convert_v1alpha1_Issuer_To_authentication_Issuer (v1_jwt_Issuer x),
      jwt_ClaimValidationRules = map Convert_v1alpha1_ClaimValidationRule_To_authentication_ClaimValidationRule (v1_jwt_ClaimValidationRules x),
      jwt_ClaimMappings = map_option Convert_v1alpha1_ClaimMappings_To_authentication_ClaimMappings (v1_jwt_ClaimMappings x),
      jwt_UserValidationRules = map Convert_v1alpha1_UserValidationRule_To_authentication_UserValidationRule (v1_jwt_UserValidationRules x),
      jwt_ExternalClaimsSources = map Convert_v1alpha1_ExternalClaimsSource_To_authentication_ExternalClaimsSource (v1_jwt_ExternalClaimsSources x)\<rparr>"

definition Convert_v1alpha1_AuthenticationConfiguration_To_authentication_AuthenticationConfiguration ::
  "v1_authentication_configuration \<Rightarrow> authentication_configuration \<Rightarrow> authentication_configuration" where
  "Convert_v1alpha1_AuthenticationConfiguration_To_authentication_AuthenticationConfiguration in_cfg out =
     out\<lparr>cfg_JWT := map Convert_v1alpha1_JWTAuthenticator_To_authentication_JWTAuthenticator (v1_cfg_JWT in_cfg)\<rparr>"

section \<open>Generated conversions to the versioned types\<close>

definition Convert_authentication_TLS_To_v1alpha1_TLS ::
  "tls \<Rightarrow> v1_tls" where
  "Convert_authentication_TLS_To_v1alpha1_TLS x =
     \<lparr>v1_tls_CertificateAuthority = tls_CertificateAuthority x\<rparr>"

definition Convert_authentication_ClientCredentialConfig_To_v1alpha1_ClientCredentialConfig ::
  "client_credential_config \<Rightarrow> v1_client_credential_config" where
  "Convert_authentication_ClientCredentialConfig_To_v1alpha1_ClientCredentialConfig x =
     \<lparr>v1_cc_ClientID = cc_ClientID x,
      v1_cc_ClientSecret = cc_ClientSecret x,
      v1_cc_TokenEndpoint = cc_TokenEndpoint x,
      v1_cc_Scopes = cc_Scopes x,
      v1_cc_TLS = map_option Convert_authentication_TLS_To_v1alpha1_TLS (cc_TLS x)\<rparr>"

definition Convert_authentication_Authentication_To_v1alpha1_Authentication ::
  "authentication \<Rightarrow> v1_authentication" where
  "Convert_authentication_Authentication_To_v1alpha1_Authentication x =
     \<lparr>v1_auth_Type = auth_Type x,
      v1_auth_ClientCredential = map_option Convert_authentication_ClientCredentialConfig_To_v1alpha1_ClientCredentialConfig (auth_ClientCredential x)\<rparr>"

definition Convert_authentication_SourceURL_To_v1alpha1_SourceURL ::
  "source_url \<Rightarrow> v1_source_url" where
  "Convert_authentication_SourceURL_To_v1alpha1_SourceURL x =
     \<lparr>v1_surl_Hostname = surl_Hostname x,
      v1_surl_PathExpression = surl_PathExpression x\<rparr>"

definition Convert_authentication_SourcedClaimMapping_To_v1alpha1_SourcedClaimMapping ::
  "sourced_claim_mapping \<Rightarrow> v1_sourced_claim_mapping" where
  "Convert_authentication_SourcedClaimMapping_To_v1alpha1_SourcedClaimMapping x =
     \<lparr>v1_scm_Name = scm_Name x,
      v1_scm_Expression = scm_Expression x\<rparr>"

definition Convert_authentication_ExternalSourceCondition_To_v1alpha1_ExternalSourceCondition ::
  "external_source_condition \<Rightarrow> v1_external_source_condition" where
  "Convert_authentication_ExternalSourceCondition_To_v1alpha1_ExternalSourceCondition x =
     \<lparr>v1_esc_Expression = esc_Expression x\<rparr>"

definition Convert_authentication_ExternalClaimsSource_To_v1alpha1_ExternalClaimsSource ::
  "external_claims_source \<Rightarrow> v1_external_claims_source" where
  "Convert_authentication_ExternalClaimsSource_To_v1alpha1_ExternalClaimsSource x =
     \<lparr>v1_ecs_Authentication = map_option Convert_authentication_Authentication_To_v1alpha1_Authentication (ecs_Authentication x),
      v1_ecs_TLS = map_option Convert_authentication_TLS_To_v1alpha1_TLS (ecs_TLS x),
      v1_ecs_URL = map_option Convert_authentication_SourceURL_To_v1alpha1_SourceURL (ecs_URL x),
      v1_ecs_Mappings = map Convert_authentication_SourcedClaimMapping_To_v1alpha1_SourcedClaimMapping (ecs_Mappings x),
      v1_ecs_Conditions = map Convert_authentication_ExternalSourceCondition_To_v1alpha1_ExternalSourceCondition (ecs_Conditions x)\<rparr>"

definition Convert_authentication_ClaimValidationRule_To_v1alpha1_ClaimValidationRule ::
  "claim_validation_rule \<Rightarrow> v1_claim_validation_rule" where
  "Convert_authentication_ClaimValidationRule_To_v1alpha1_ClaimValidationRule x =
     \<lparr>v1_cvr_Claim = cvr_Claim x,
      v1_cvr_RequiredValue = cvr_RequiredValue x,
      v1_cvr_Expression = cvr_Expression x,
      v1_cvr_Message = cvr_Message x\<rparr>"

definition Convert_authentication_PrefixedClaimOrExpression_To_v1alpha1_PrefixedClaimOrExpression ::
  "prefixed_claim_or_expression \<Rightarrow> v1_prefixed_claim_or_expression" where
  "Convert_authentication_PrefixedClaimOrExpression_To_v1alpha1_PrefixedClaimOrExpression x =
     \<lparr>v1_pce_Claim = pce_Claim x,
      v1_pce_Prefix = pce_Prefix x,
      v1_pce_Expression = pce_Expression x\<rparr>"

definition Convert_authentication_ClaimOrExpression_To_v1alpha1_ClaimOrExpression ::
  "claim_or_expression \<Rightarrow> v1_claim_or_expression" where
  "Convert_authentication_ClaimOrExpression_To_v1alpha1_ClaimOrExpression x =
     \<lparr>v1_ce_Claim = ce_Claim x,
      v1_ce_Expression = ce_Expression x\<rparr>"

definition Convert_authentication_ExtraMapping_To_v1alpha1_ExtraMapping ::
  "extra_mapping \<Rightarrow> v1_extra_mapping" where
  "Convert_authentication_ExtraMapping_To_v1alpha1_ExtraMapping x =
     \<lparr>v1_em_Key = em_Key x,
      v1_em_ValueExpression = em_ValueExpression x\<rparr>"

definition Convert_authentication_UserValidationRule_To_v1alpha1_UserValidationRule ::
  "user_validation_rule \<Rightarrow> v1_user_validation_rule" where
  "Convert_authentication_UserValidationRule_To_v1alpha1_UserValidationRule x =
     \<lparr>v1_uvr_Expression = uvr_Expression x,
      v1_uvr_Message = uvr_Message x\<rparr>"

definition Convert_authentication_ClaimMappings_To_v1alpha1_ClaimMappings ::
  "claim_mappings \<Rightarrow> v1_claim_mappings" where
  "Convert_authentication_ClaimMappings_To_v1alpha1_ClaimMappings x =
     \<lparr>v1_cm_Username = Convert_authentication_PrefixedClaimOrExpression_To_v1alpha1_PrefixedClaimOrExpression (cm_Username x),
      v1_cm_Groups = Convert_authentication_PrefixedClaimOrExpression_To_v1alpha1_PrefixedClaimOrExpression (cm_Groups x),
      v1_cm_UID = Convert_authentication_ClaimOrExpression_To_v1alpha1_ClaimOrExpression (cm_UID x),
      v1_cm_Extra = map Convert_authentication_ExtraMapping_To_v1alpha1_ExtraMapping (cm_Extra x)\<rparr>"

definition Convert_authentication_Issuer_To_v1alpha1_Issuer ::
  "issuer \<Rightarrow> v1_issuer" where
  "Convert_authentication_Issuer_To_v1alpha1_Issuer x =
     \<lparr>v1_issuer_URL = issuer_URL x,
      v1_issuer_DiscoveryURL = issuer_DiscoveryURL x,
      v1_issuer_CertificateAuthority = issuer_CertificateAuthority x,
      v1_issuer_Audiences = issuer_Audiences x,
      v1_issuer_AudienceMatchPolicy = issuer_AudienceMatchPolicy x\<rparr>"

definition Convert_authentication_JWTAuthenticator_To_v1alpha1_JWTAuthenticator ::
  "jwt_authenticator \<Rightarrow> v1_jwt_authenticator" where
  "Convert_authentication_JWTAuthenticator_To_v1alpha1_JWTAuthenticator x =
     \<lparr>v1_jwt_Issuer = map_option Convert_authentication_Issuer_To_v1alpha1_Issuer (jwt_Issuer x),
      v1_jwt_ClaimValidationRules = map Convert_authentication_ClaimValidationRule_To_v1alpha1_ClaimValidationRule (jwt_ClaimValidationRules x),
      v1_jwt_ClaimMappings = map_option Convert_authentication_ClaimMappings_To_v1alpha1_ClaimMappings (jwt_ClaimMappings x),
      v1_jwt_UserValidationRules = map Convert_authentication_UserValidationRule_To_v1alpha1_UserValidationRule (jwt_UserValidationRules x),
      v1_jwt_ExternalClaimsSources = map Convert_authentication_ExternalClaimsSource_To_v1alpha1_ExternalClaimsSource (jwt_ExternalClaimsSources x)\<rparr>"

definition Convert_authentication_AuthenticationConfiguration_To_v1alpha1_AuthenticationConfiguration ::
  "authentication_configuration \<Rightarrow> v1_authentication_configuration \<Rightarrow> v1_authentication_configuration" where
  "Convert_authentication_AuthenticationConfiguration_To_v1alpha1_AuthenticationConfiguration in_cfg out =
     out\<lparr>v1_cfg_JWT := map Convert_authentication_JWTAuthenticator_To_v1alpha1_JWTAuthenticator (cfg_JWT in_cfg)\<rparr>"

section \<open>The conversions are mutual inverses\<close>

locale mutual_inverse =
  fixes to_b :: "'a \<Rightarrow> 'b" and to_a :: "'b \<Rightarrow> 'a"
  assumes back_a: "to_a (to_b x) = x"
    and back_b: "to_b (to_a y) = y"
begin

lemma back_list:
  "map to_a (map to_b xs) = xs" "map to_b (map to_a ys) = ys"
  by (simp_all add: back_a back_b comp_def)

lemma back_option:
  "map_option to_a (map_option to_b x) = x" "map_option to_b (map_option to_a y) = y"
  by (simp_all add: option.map_comp comp_def back_a back_b map_option_eq_id)

lemma to_b_eq_iff: "to_b x = to_b x' \<longleftrightarrow> x = x'"
  by (metis back_a)

lemma to_b_onto: "\<exists>x. to_b x = y"
  by (metis back_b)

lemmas roundtrips = back_a back_b back_list back_option

end

interpretation tls_conv: mutual_inverse Convert_v1alpha1_TLS_To_authentication_TLS
    Convert_authentication_TLS_To_v1alpha1_TLS
  by unfold_locales (simp_all add: Convert_v1alpha1_TLS_To_authentication_TLS_def Convert_authentication_TLS_To_v1alpha1_TLS_def)

interpretation cc_conv: mutual_inverse Convert_v1alpha1_ClientCredentialConfig_To_authentication_ClientCredentialConfig
    Convert_authentication_ClientCredentialConfig_To_v1alpha1_ClientCredentialConfig
  by unfold_locales (simp_all add: Convert_v1alpha1_ClientCredentialConfig_To_authentication_ClientCredentialConfig_def Convert_authentication_ClientCredentialConfig_To_v1alpha1_ClientCredentialConfig_def
      tls_conv.roundtrips del: map_map option.map_comp)

interpretation auth_conv: mutual_inverse Convert_v1alpha1_Authentication_To_authentication_Authentication
    Convert_authentication_Authentication_To_v1alpha1_Authentication
  by unfold_locales (simp_all add: Convert_v1alpha1_Authentication_To_authentication_Authentication_def Convert_authentication_Authentication_To_v1alpha1_Authentication_def
      cc_conv.roundtrips del: map_map option.map_comp)

interpretation surl_conv: mutual_inverse Convert_v1alpha1_SourceURL_To_authentication_SourceURL
    Convert_authentication_SourceURL_To_v1alpha1_SourceURL
  by unfold_locales (simp_all add: Convert_v1alpha1_SourceURL_To_authentication_SourceURL_def Convert_authentication_SourceURL_To_v1alpha1_SourceURL_def)

interpretation scm_conv: mutual_inverse Convert_v1alpha1_SourcedClaimMapping_To_authentication_SourcedClaimMapping
    Convert_authentication_SourcedClaimMapping_To_v1alpha1_SourcedClaimMapping
  by unfold_locales (simp_all add: Convert_v1alpha1_SourcedClaimMapping_To_authentication_SourcedClaimMapping_def Convert_authentication_SourcedClaimMapping_To_v1alpha1_SourcedClaimMapping_def)

interpretation esc_conv: mutual_inverse Convert_v1alpha1_ExternalSourceCondition_To_authentication_ExternalSourceCondition
    Convert_authentication_ExternalSourceCondition_To_v1alpha1_ExternalSourceCondition
  by unfold_locales (simp_all add: Convert_v1alpha1_ExternalSourceCondition_To_authentication_ExternalSourceCondition_def Convert_authentication_ExternalSourceCondition_To_v1alpha1_ExternalSourceCondition_def)

interpretation ecs_conv: mutual_inverse Convert_v1alpha1_ExternalClaimsSource_To_authentication_ExternalClaimsSource
    Convert_authentication_ExternalClaimsSource_To_v1alpha1_ExternalClaimsSource
  by unfold_locales (simp_all add: Convert_v1alpha1_ExternalClaimsSource_To_authentication_ExternalClaimsSource_def Convert_authentication_ExternalClaimsSource_To_v1alpha1_ExternalClaimsSource_def
      auth_conv.roundtrips tls_conv.roundtrips surl_conv.roundtrips scm_conv.roundtrips esc_conv.roundtrips del: map_map option.map_comp)

interpretation cvr_conv: mutual_inverse Convert_v1alpha1_ClaimValidationRule_To_authentication_ClaimValidationRule
    Convert_authentication_ClaimValidationRule_To_v1alpha1_ClaimValidationRule
  by unfold_locales (simp_all add: Convert_v1alpha1_ClaimValidationRule_To_authentication_ClaimValidationRule_def Convert_authentication_ClaimValidationRule_To_v1alpha1_ClaimValidationRule_def)

interpretation pce_conv: mutual_inverse Convert_v1alpha1_PrefixedClaimOrExpression_To_authentication_PrefixedClaimOrExpression
    Convert_authentication_PrefixedClaimOrExpression_To_v1alpha1_PrefixedClaimOrExpression
  by unfold_locales (simp_all add: Convert_v1alpha1_PrefixedClaimOrExpression_To_authentication_PrefixedClaimOrExpression_def Convert_authentication_PrefixedClaimOrExpression_To_v1alpha1_PrefixedClaimOrExpression_def)

interpretation ce_conv: mutual_inverse Convert_v1alpha1_ClaimOrExpression_To_authentication_ClaimOrExpression
    Convert_authentication_ClaimOrExpression_To_v1alpha1_ClaimOrExpression
  by unfold_locales (simp_all add: Convert_v1alpha1_ClaimOrExpression_To_authentication_ClaimOrExpression_def Convert_authentication_ClaimOrExpression_To_v1alpha1_ClaimOrExpression_def)

interpretation em_conv: mutual_inverse Convert_v1alpha1_ExtraMapping_To_authentication_ExtraMapping
    Convert_authentication_ExtraMapping_To_v1alpha1_ExtraMapping
  by unfold_locales (simp_all add: Convert_v1alpha1_ExtraMapping_To_authentication_ExtraMapping_def Convert_authentication_ExtraMapping_To_v1alpha1_ExtraMapping_def)

interpretation uvr_conv: mutual_inverse Convert_v1alpha1_UserValidationRule_To_authentication_UserValidationRule
    Convert_authentication_UserValidationRule_To_v1alpha1_UserValidationRule
  by unfold_locales (simp_all add: Convert_v1alpha1_UserValidationRule_To_authentication_UserValidationRule_def Convert_authentication_UserValidationRule_To_v1alpha1_UserValidationRule_def)

interpretation cm_conv: mutual_inverse Convert_v1alpha1_ClaimMappings_To_authentication_ClaimMappings
    Convert_authentication_ClaimMappings_To_v1alpha1_ClaimMappings
  by unfold_locales (simp_all add: Convert_v1alpha1_ClaimMappings_To_authentication_ClaimMappings_def Convert_authentication_ClaimMappings_To_v1alpha1_ClaimMappings_def
      pce_conv.roundtrips ce_conv.roundtrips em_conv.roundtrips del: map_map option.map_comp)

interpretation issuer_conv: mutual_inverse Convert_v1alpha1_Issuer_To_authentication_Issuer
    Convert_authentication_Issuer_To_v1alpha1_Issuer
  by unfold_locales (simp_all add: Convert_v1alpha1_Issuer_To_authentication_Issuer_def Convert_authentication_Issuer_To_v1alpha1_Issuer_def)

interpretation jwt_conv: mutual_inverse Convert_v1alpha1_JWTAuthenticator_To_authentication_JWTAuthenticator
    Convert_authentication_JWTAuthenticator_To_v1alpha1_JWTAuthenticator
  by unfold_locales (simp_all add: Convert_v1alpha1_JWTAuthenticator_To_authentication_JWTAuthenticator_def Convert_authentication_JWTAuthenticator_To_v1alpha1_JWTAuthenticator_def
      issuer_conv.roundtrips cvr_conv.roundtrips cm_conv.roundtrips uvr_conv.roundtrips ecs_conv.roundtrips del: map_map option.map_comp)

section \<open>Properties\<close>

text \<open>
  The generated conversions of a whole configuration lose nothing: converting the authenticators to
  the other version and back gives the same authenticators, in both directions, whatever the two
  result objects held before, and each conversion keeps the \<open>TypeMeta\<close> of its result object.
\<close>

theorem configuration_conversion_roundtrip:
  "cfg_JWT (Convert_v1alpha1_AuthenticationConfiguration_To_authentication_AuthenticationConfiguration
      (Convert_authentication_AuthenticationConfiguration_To_v1alpha1_AuthenticationConfiguration c vo) io)
     = cfg_JWT c \<and>
   v1_cfg_JWT (Convert_authentication_AuthenticationConfiguration_To_v1alpha1_AuthenticationConfiguration
      (Convert_v1alpha1_AuthenticationConfiguration_To_authentication_AuthenticationConfiguration v io) vo)
     = v1_cfg_JWT v \<and>
   cfg_TypeMeta (Convert_v1alpha1_AuthenticationConfiguration_To_authentication_AuthenticationConfiguration v io)
     = cfg_TypeMeta io"
  by (simp add: Convert_v1alpha1_AuthenticationConfiguration_To_authentication_AuthenticationConfiguration_def
      Convert_authentication_AuthenticationConfiguration_To_v1alpha1_AuthenticationConfiguration_def
      jwt_conv.roundtrips del: map_map)

section \<open>The constants of the version\<close>

definition v1_AudienceMatchPolicyMatchAny :: string where
  "v1_AudienceMatchPolicyMatchAny = ''MatchAny''"

definition v1_AuthenticationTypeRequestProvidedToken :: string where
  "v1_AuthenticationTypeRequestProvidedToken = ''RequestProvidedToken''"

definition v1_AuthenticationTypeClientCredential :: string where
  "v1_AuthenticationTypeClientCredential = ''ClientCredential''"

text \<open>
  The conversions copy these values as they are, which is right because both versions spell them alike: a
  versioned authentication of one of the two types becomes an internal one of the same type.
\<close>

lemma versioned_authentication_type:
  "auth_Type (Convert_v1alpha1_Authentication_To_authentication_Authentication v) = Some AuthenticationTypeRequestProvidedToken
     \<longleftrightarrow> v1_auth_Type v = Some v1_AuthenticationTypeRequestProvidedToken"
  "auth_Type (Convert_v1alpha1_Authentication_To_authentication_Authentication v) = Some AuthenticationTypeClientCredential
     \<longleftrightarrow> v1_auth_Type v = Some v1_AuthenticationTypeClientCredential"
  by (simp_all add: Convert_v1alpha1_Authentication_To_authentication_Authentication_def
      AuthenticationTypeRequestProvidedToken_def AuthenticationTypeClientCredential_def
      v1_AuthenticationTypeRequestProvidedToken_def v1_AuthenticationTypeClientCredential_def)

end
