(* ===== verification/Configurator.thy ===== *)
theory Configurator
  imports Token_Union Api_V1alpha1
begin

text \<open>
  \<open>pkg/authenticator/jwt/config/configurator.go\<close> and \<open>pkg/authenticator/jwt/jwt.go\<close>: the configuration
  file is read, validated and turned into the current token authenticator, again after every change of
  the file.

  The file system, SHA-256 and the strict YAML decoder are parameters.  The mutex of the configurator
  makes \<open>handleConfigChange\<close> and \<open>TokenAuthenticator\<close> atomic, so that each is one step.  The contexts that
  \<open>context.WithCancel\<close> derives are numbered in the order of their creation; \<open>cf_contexts\<close> says which of
  them have been cancelled.  A nil pointer dereference of the Go code is the value \<open>None\<close> of the loaders.
\<close>

section \<open>State\<close>

record 'k world =
  w_ve :: validation_env
  w_env :: environment
  w_lib :: "'k oidc_library"
  w_sha256 :: "string \<Rightarrow> string"
  w_yaml :: "string \<Rightarrow> v1_authentication_configuration res"

type_synonym filesystem = "string \<Rightarrow> string res"

record authenticator_with_cancel =
  awc_authenticator :: "built list"
  awc_cancel :: nat

record configurator =
  cf_configFile :: string
  cf_authenticatorWithCancel :: "authenticator_with_cancel option"
  cf_configHash :: string
  cf_contexts :: "bool list"

text \<open>\<open>NewConfigurator\<close>, once the flags are parsed.\<close>

definition NewConfigurator :: "string \<Rightarrow> configurator" where
  "NewConfigurator configFile = \<lparr>cf_configFile = configFile, cf_authenticatorWithCancel = None, cf_configHash = [],
     cf_contexts = []\<rparr>"

definition TokenAuthenticator :: "environment \<Rightarrow> configurator \<Rightarrow> token_auth option" where
  "TokenAuthenticator env c =
     (case cf_authenticatorWithCancel c of None \<Rightarrow> None
      | Some a \<Rightarrow> Some (union_New (map (built_auth env) (awc_authenticator a))))"

definition JWT_AuthenticateToken :: "environment \<Rightarrow> configurator \<Rightarrow> token_auth" where
  "JWT_AuthenticateToken env c ctx token h =
     (case TokenAuthenticator env c of
        Some authenticator \<Rightarrow> authenticator ctx token h
      | None \<Rightarrow> (fail (Errorf ''jwt token authenticator is not initialized'' []), h))"

section \<open>Reading and validating\<close>

definition zero_configuration :: authentication_configuration where
  "zero_configuration = \<lparr>cfg_TypeMeta = \<lparr>tm_Kind = [], tm_APIVersion = []\<rparr>, cfg_JWT = []\<rparr>"

definition AuthenticationConfigurationFromConfigurationFile ::
  "'k world \<Rightarrow> filesystem \<Rightarrow> string \<Rightarrow> (authentication_configuration \<times> string) res" where
  "AuthenticationConfigurationFromConfigurationFile w fs cfgPath =
     (if cfgPath = [] then Inl (Errorf ''configuration file must be specified'' [])
      else
     (case fs cfgPath of
        Inl err \<Rightarrow> Inl (Errorf ''reading configuration file: %w'' [OpE err])
      | Inr configBytes \<Rightarrow>
     (case w_yaml w configBytes of
        Inl err \<Rightarrow> Inl (Errorf ''unmarshalling configuration: %w'' [OpE err])
      | Inr config \<Rightarrow>
          Inr (Convert_v1alpha1_AuthenticationConfiguration_To_authentication_AuthenticationConfiguration
                 config zero_configuration, w_sha256 w configBytes))))"

definition Configurator_Validate ::
  "'k world \<Rightarrow> filesystem \<Rightarrow> configurator \<Rightarrow> (authentication_configuration \<times> string) res" where
  "Configurator_Validate w fs c =
     (if cf_configFile c = [] then Inl (Errorf ''configuration file must be specified'' [])
      else
     (case AuthenticationConfigurationFromConfigurationFile w fs (cf_configFile c) of
        Inl err \<Rightarrow> Inl (Errorf ''reading authentication configuration from config file: %w'' [OpE err])
      | Inr (authnConfig, hash) \<Rightarrow>
     (case ToAggregate (ValidateAuthenticationConfiguration (w_ve w) authnConfig) of
        Some err \<Rightarrow> Inl (Errorf ''validating authentication configuration: %w'' [OpE err])
      | None \<Rightarrow> Inr (authnConfig, hash))))"

section \<open>Building the authenticators\<close>

definition NewStaticCAContent :: "validation_env \<Rightarrow> string \<Rightarrow> string \<Rightarrow> string res" where
  "NewStaticCAContent ve name caBundle =
     (if caBundle = [] then Inl (Errorf ''missing content for CA bundle %q'' [OpS name])
      else
     (case ve_NewPoolFromBytes ve caBundle of
        Some err \<Rightarrow> Inl (Errorf ''error loading CA bundle for %q: %v'' [OpS name, OpE err])
      | None \<Rightarrow> Inr caBundle))"

definition issuer_ca :: "validation_env \<Rightarrow> issuer \<Rightarrow> string option res" where
  "issuer_ca ve issuer =
     (if issuer_CertificateAuthority issuer \<noteq> [] then
        (case NewStaticCAContent ve ''oidc-authenticator'' (issuer_CertificateAuthority issuer) of
           Inl err \<Rightarrow> Inl (Errorf ''creating CA content provider: %w'' [OpE err])
         | Inr ca \<Rightarrow> Inr (Some ca))
      else Inr None)"

fun build_authenticators ::
  "'k world \<Rightarrow> jwt_authenticator list \<Rightarrow> history \<Rightarrow> (built list res \<times> history) option" where
  "build_authenticators w [] h = Some (Inr [], h)"
| "build_authenticators w (jwt # jwts) h =
     (case jwt_Issuer jwt of
        None \<Rightarrow> None
      | Some issuer \<Rightarrow>
     (case issuer_ca (w_ve w) issuer of
        Inl err \<Rightarrow> Some (Inl err, h)
      | Inr caContentProvider \<Rightarrow>
     (case padlok_New (w_ve w) (w_env w) (w_lib w) (options_for jwt caContentProvider) h of
        (Inl err, h1) \<Rightarrow> Some (Inl (Errorf ''creating token authenticator: %w'' [OpE err]), h1)
      | (Inr tokenAuthenticator, h1) \<Rightarrow>
     (case build_authenticators w jwts h1 of
        None \<Rightarrow> None
      | Some (Inl err, h2) \<Rightarrow> Some (Inl err, h2)
      | Some (Inr jwtAuthenticators, h2) \<Rightarrow> Some (Inr (tokenAuthenticator # jwtAuthenticators), h2)))))"

definition TokenAuthenticatorForAuthenticationConfiguration ::
  "'k world \<Rightarrow> authentication_configuration \<Rightarrow> history \<Rightarrow> (built list res \<times> history) option" where
  "TokenAuthenticatorForAuthenticationConfiguration w cfg h = build_authenticators w (cfg_JWT cfg) h"

section \<open>A change of the file\<close>

definition cancel_context :: "nat \<Rightarrow> configurator \<Rightarrow> configurator" where
  "cancel_context i c = c\<lparr>cf_contexts := (cf_contexts c)[i := True]\<rparr>"

definition cancel_current :: "configurator \<Rightarrow> configurator" where
  "cancel_current c = (case cf_authenticatorWithCancel c of None \<Rightarrow> c | Some a \<Rightarrow> cancel_context (awc_cancel a) c)"

definition handleConfigChange ::
  "'k world \<Rightarrow> filesystem \<Rightarrow> configurator \<Rightarrow> history \<Rightarrow> (error option \<times> configurator \<times> history) option" where
  "handleConfigChange w fs c h =
     (case Configurator_Validate w fs c of
        Inl err \<Rightarrow> Some (Some (Errorf ''validating configuration: %w'' [OpE err]), c, h)
      | Inr (authnCfg, cfgHash) \<Rightarrow>
          if cf_configHash c \<noteq> [] \<and> cfgHash = cf_configHash c then Some (None, c, h)
          else
           (let cancel = length (cf_contexts c);
                c1 = c\<lparr>cf_contexts := cf_contexts c @ [False]\<rparr>
            in case TokenAuthenticatorForAuthenticationConfiguration w authnCfg h of
                 None \<Rightarrow> None
               | Some (Inl err, h1) \<Rightarrow>
                   Some (Some (Errorf ''creating token authenticator: %w'' [OpE err]), cancel_context cancel c1, h1)
               | Some (Inr tokenAuthenticator, h1) \<Rightarrow>
                   Some (None, (cancel_current c1)
                     \<lparr>cf_authenticatorWithCancel := Some \<lparr>awc_authenticator = tokenAuthenticator, awc_cancel = cancel\<rparr>,
                      cf_configHash := cfgHash\<rparr>, h1)))"

text \<open>
  \<open>Configurator.Run\<close>: a first load whose error is final, then the same handler whenever the watcher
  reports a change or a minute has passed; the errors of reloads are only logged.
\<close>

fun run_reloads :: "'k world \<Rightarrow> filesystem list \<Rightarrow> configurator \<Rightarrow> history \<Rightarrow> (configurator \<times> history) option" where
  "run_reloads w [] c h = Some (c, h)"
| "run_reloads w (fs # fss) c h =
     (case handleConfigChange w fs c h of None \<Rightarrow> None | Some (_, c1, h1) \<Rightarrow> run_reloads w fss c1 h1)"

definition Configurator_Run ::
  "'k world \<Rightarrow> filesystem \<Rightarrow> filesystem list \<Rightarrow> configurator \<Rightarrow> history \<Rightarrow> (error option \<times> configurator \<times> history) option" where
  "Configurator_Run w fs fss c h =
     (case handleConfigChange w fs c h of
        None \<Rightarrow> None
      | Some (Some err, c1, h1) \<Rightarrow> Some (Some (Errorf ''loading configuration: %w'' [OpE err]), c1, h1)
      | Some (None, c1, h1) \<Rightarrow>
          (case run_reloads w fss c1 h1 of None \<Rightarrow> None | Some (c2, h2) \<Rightarrow> Some (None, c2, h2)))"

text \<open>
  The states of a running configurator: reloads with any content of the file system, initialisation
  steps of the current authenticators (a goroutine stops only when its context is done), and
  any events from requests that are served meanwhile.
\<close>

inductive config_reachable :: "'k world \<Rightarrow> string \<Rightarrow> configurator \<Rightarrow> history \<Rightarrow> bool" for w cfgFile where
  start: "config_reachable w cfgFile (NewConfigurator cfgFile) h"
| reload: "config_reachable w cfgFile c h \<Longrightarrow> handleConfigChange w fs c h = Some (e, c', h') \<Longrightarrow>
     config_reachable w cfgFile c' h'"
| serve: "config_reachable w cfgFile c h \<Longrightarrow> config_reachable w cfgFile c (h @ es)"
| initialise: "config_reachable w cfgFile c h \<Longrightarrow> cf_authenticatorWithCancel c = Some a \<Longrightarrow>
     i < length (awc_authenticator a) \<Longrightarrow> init_step (w_lib w) (awc_authenticator a ! i) b \<Longrightarrow>
     (jc_init (b_cell b) = Stopped \<Longrightarrow> cf_contexts c ! awc_cancel a) \<Longrightarrow>
     config_reachable w cfgFile (c\<lparr>cf_authenticatorWithCancel :=
       Some (a\<lparr>awc_authenticator := (awc_authenticator a)[i := b]\<rparr>)\<rparr>) h"

section \<open>Accepted configurations do not panic and do load\<close>

lemma accepted_jwt:
  assumes "ValidateAuthenticationConfiguration ve c = []" and "jwt \<in> set (cfg_JWT c)"
  obtains issuer where "jwt_Issuer jwt = Some issuer" and "issuer_URL issuer \<noteq> []"
    and "issuer_CertificateAuthority issuer = [] \<or> ve_NewPoolFromBytes ve (issuer_CertificateAuthority issuer) = None"
proof -
  let ?c = "ConvertAuthenticationConfigurationToApiserverAuthenticationConfiguration (Some c)"
  let ?jwt = "ConvertJWTAuthenticatorToApiserverJWTAuthenticator jwt"
  have "apiserver_ValidateAuthenticationConfiguration ve ?c {} = []"
    using assms(1) by (auto simp: ValidateAuthenticationConfiguration_def Let_def split: if_splits)
  from configuration_accepts [OF this] assms(2) obtain p where
    "snd (validateJWTAuthenticator ve ?jwt p {}) = []"
    by (auto simp: ConvertAuthenticationConfigurationToApiserverAuthenticationConfiguration_def list_all_iff)
  then obtain m where "validateJWTAuthenticator ve ?jwt p {} = (m, [])" by (metis prod.collapse)
  then have v: "validateIssuer ve (as_jwt_Issuer ?jwt) {} (child p ''issuer'') = []"
    by (rule validateJWTAuthenticator_steps)
  show thesis
  proof (cases "jwt_Issuer jwt")
    case None
    with v show ?thesis
      by (simp add: validateIssuer_def validateIssuerURL_def ConvertJWTAuthenticatorToApiserverJWTAuthenticator_def
          convert_defs zero_as_issuer_def)
  next
    case (Some issuer)
    with v have "issuer_URL issuer \<noteq> []"
      "issuer_CertificateAuthority issuer = [] \<or> ve_NewPoolFromBytes ve (issuer_CertificateAuthority issuer) = None"
      by (auto simp: validateIssuer_def validateIssuerURL_def validateCertificateAuthority_def
          ConvertJWTAuthenticatorToApiserverJWTAuthenticator_def convert_defs split: if_splits option.splits)
    with Some show ?thesis by (rule that)
  qed
qed

lemma accepted_issuer_ca:
  assumes "issuer_CertificateAuthority issuer = [] \<or> ve_NewPoolFromBytes ve (issuer_CertificateAuthority issuer) = None"
  obtains ca where "issuer_ca ve issuer = Inr ca" and "ca_content_ok ve ca"
  using assms that by (cases "issuer_CertificateAuthority issuer = []") (auto simp: issuer_ca_def NewStaticCAContent_def ca_content_ok_def)

lemma build_authenticators_no_panic:
  "list_all (\<lambda>jwt. jwt_Issuer jwt \<noteq> None) jwts \<Longrightarrow> build_authenticators w jwts h \<noteq> None"
proof (induction jwts arbitrary: h)
  case (Cons jwt jwts)
  then have "build_authenticators w jwts h1 \<noteq> None" for h1 by simp
  with Cons.prems show ?case by (auto split: option.split sum.split prod.split simp del: not_None_eq)
qed simp

lemma handleConfigChange_no_panic: "handleConfigChange w fs c h \<noteq> None"
proof (cases "Configurator_Validate w fs c")
  case (Inl err)
  then show ?thesis by (simp add: handleConfigChange_def)
next
  case (Inr r)
  obtain cfg hash where r: "r = (cfg, hash)" by (cases r)
  from Inr r have "ValidateAuthenticationConfiguration (w_ve w) cfg = []"
    by (auto simp: Configurator_Validate_def split: if_splits sum.splits prod.splits option.splits)
  then have "list_all (\<lambda>jwt. jwt_Issuer jwt \<noteq> None) (cfg_JWT cfg)"
    unfolding list_all_iff using accepted_jwt by blast
  then have "TokenAuthenticatorForAuthenticationConfiguration w cfg h \<noteq> None"
    unfolding TokenAuthenticatorForAuthenticationConfiguration_def by (rule build_authenticators_no_panic)
  then show ?thesis using Inr r by (auto simp: handleConfigChange_def Let_def split: option.splits sum.splits prod.splits)
qed

lemma run_reloads_reachable:
  "config_reachable w cfgFile c h \<Longrightarrow> \<exists>c' h'. run_reloads w fss c h = Some (c', h') \<and> config_reachable w cfgFile c' h'"
proof (induction fss arbitrary: c h)
  case Nil
  then show ?case by simp
next
  case (Cons fs fss)
  obtain e c1 h1 where r: "handleConfigChange w fs c h = Some (e, c1, h1)" using handleConfigChange_no_panic by fastforce
  then have "config_reachable w cfgFile c1 h1" by (rule config_reachable.reload [OF Cons.prems])
  from Cons.IH [OF this] r show ?case by simp
qed

text \<open>
  C26: the configurator never panics on what it reads: whatever the file system returns in the first load and in
  every later reload, and whatever it decodes to, \<open>Run\<close> goes on; it fails exactly when the
  first load fails, and every state it goes through is one of those the invariant speaks of.
\<close>

theorem configurator_runs:
  "\<exists>e c' h'. Configurator_Run w fs fss (NewConfigurator cfgFile) h = Some (e, c', h') \<and>
     config_reachable w cfgFile c' h' \<and>
     (e = None \<longleftrightarrow> (\<exists>c1 h1. handleConfigChange w fs (NewConfigurator cfgFile) h = Some (None, c1, h1)))"
proof -
  obtain e c1 h1 where r: "handleConfigChange w fs (NewConfigurator cfgFile) h = Some (e, c1, h1)"
    using handleConfigChange_no_panic by fastforce
  then have c1: "config_reachable w cfgFile c1 h1" by (rule config_reachable.reload [OF config_reachable.start])
  show ?thesis
  proof (cases e)
    case None
    with r run_reloads_reachable [OF c1, of fss] show ?thesis by (auto simp: Configurator_Run_def)
  next
    case (Some err)
    with r c1 show ?thesis by (auto simp: Configurator_Run_def)
  qed
qed

lemma handle_cases:
  assumes "handleConfigChange w fs c h = Some (e, c', h')"
  obtains (invalid) err where "Configurator_Validate w fs c = Inl err" "c' = c" "h' = h"
      "e = Some (Errorf ''validating configuration: %w'' [OpE err])"
  | (unchanged) cfg where "Configurator_Validate w fs c = Inr (cfg, cf_configHash c)" "cf_configHash c \<noteq> []"
      "c' = c" "h' = h" "e = None"
  | (not_built) cfg hash err where "Configurator_Validate w fs c = Inr (cfg, hash)"
      "TokenAuthenticatorForAuthenticationConfiguration w cfg h = Some (Inl err, h')"
      "c' = c\<lparr>cf_contexts := cf_contexts c @ [True]\<rparr>" "e \<noteq> None"
  | (loaded) cfg hash bs where "Configurator_Validate w fs c = Inr (cfg, hash)"
      "TokenAuthenticatorForAuthenticationConfiguration w cfg h = Some (Inr bs, h')"
      "c' = (cancel_current (c\<lparr>cf_contexts := cf_contexts c @ [False]\<rparr>))
         \<lparr>cf_authenticatorWithCancel := Some \<lparr>awc_authenticator = bs, awc_cancel = length (cf_contexts c)\<rparr>,
          cf_configHash := hash\<rparr>" "e = None"
proof (cases "Configurator_Validate w fs c")
  case (Inl err)
  with assms show thesis by (intro invalid) (auto simp: handleConfigChange_def)
next
  case (Inr r)
  obtain cfg hash where r: "r = (cfg, hash)" by (cases r)
  show thesis
  proof (cases "cf_configHash c \<noteq> [] \<and> hash = cf_configHash c")
    case True
    with assms Inr r show thesis by (intro unchanged) (auto simp: handleConfigChange_def)
  next
    case False
    from assms Inr r False obtain res where
      t: "TokenAuthenticatorForAuthenticationConfiguration w cfg h = Some (res, h')"
      by (auto simp: handleConfigChange_def Let_def split: if_splits option.splits sum.splits prod.splits)
    show thesis
    proof (cases res)
      case (Inl err)
      show thesis
        by (rule not_built [of cfg hash err])
          (use assms \<open>Configurator_Validate w fs c = Inr r\<close> r False t Inl in
            \<open>auto simp: handleConfigChange_def Let_def cancel_context_def list_update_append split: if_splits\<close>)
    next
      case (Inr bs)
      show thesis
        by (rule loaded [of cfg hash bs])
          (use assms \<open>Configurator_Validate w fs c = Inr r\<close> r False t Inr in
            \<open>auto simp: handleConfigChange_def Let_def split: if_splits\<close>)
    qed
  qed
qed

text \<open>
  C10: a reload that fails keeps the authenticator that is in use and the hash of its configuration; if it
  had begun to build another one, the context of that one is cancelled and no other context changes.
\<close>

theorem failed_reload_keeps_authenticator:
  assumes "handleConfigChange w fs c h = Some (Some err, c', h')"
  shows "TokenAuthenticator env c' = TokenAuthenticator env c \<and> cf_configHash c' = cf_configHash c \<and>
    (cf_contexts c' = cf_contexts c \<or> cf_contexts c' = cf_contexts c @ [True])"
  using assms by (cases rule: handle_cases) (auto simp: TokenAuthenticator_def)

text \<open>
  A reload of a file that has just been loaded does nothing: it succeeds, keeps the authenticator and all
  contexts, and causes no event.
\<close>

theorem reload_of_same_file_is_idle:
  assumes "handleConfigChange w fs c h = Some (None, c', h')" and "\<And>bytes. w_sha256 w bytes \<noteq> []"
  shows "handleConfigChange w fs c' h'' = Some (None, c', h'')"
proof -
  have hash: "hash \<noteq> []" if "Configurator_Validate w fs c = Inr (cfg, hash)" for cfg hash
    using that assms(2) by (auto simp: Configurator_Validate_def AuthenticationConfigurationFromConfigurationFile_def
        split: if_splits sum.splits option.splits)
  from assms(1) show ?thesis
  proof (cases rule: handle_cases)
    case (unchanged cfg)
    then show ?thesis by (simp add: handleConfigChange_def)
  next
    case (loaded cfg hash bs)
    have "cf_configFile c' = cf_configFile c"
      by (simp add: loaded(3) cancel_current_def cancel_context_def split: option.split)
    then have "Configurator_Validate w fs c' = Configurator_Validate w fs c" by (simp add: Configurator_Validate_def)
    then have "Configurator_Validate w fs c' = Inr (cfg, hash)" using loaded(1) by simp
    moreover have "cf_configHash c' = hash" by (simp add: loaded(3))
    ultimately show ?thesis using hash [OF loaded(1)] by (simp add: handleConfigChange_def)
  qed (use assms in simp_all)
qed

section \<open>The invariant of the configurator\<close>

text \<open>
  The authenticators \<open>bs\<close> are those of an accepted configuration whose file has the given hash, each
  at some point of its initialisation.
\<close>

definition built_for :: "'k world \<Rightarrow> jwt_authenticator \<Rightarrow> built \<Rightarrow> bool" where
  "built_for w jwt b \<longleftrightarrow>
     (\<exists>ca ecrs. init_reachable (w_ve w) (w_lib w) (k8s_opts (w_env w) (options_for jwt ca) ecrs) b)"

lemma built_for_step: "built_for w jwt b \<Longrightarrow> init_step (w_lib w) b b' \<Longrightarrow> built_for w jwt b'"
  unfolding built_for_def by (blast intro: init_reachable.step)

definition accepted_file :: "'k world \<Rightarrow> string \<Rightarrow> authentication_configuration \<Rightarrow> bool" where
  "accepted_file w hash cfg \<longleftrightarrow>
     (\<exists>configBytes v. w_yaml w configBytes = Inr v \<and> hash = w_sha256 w configBytes \<and>
        cfg = Convert_v1alpha1_AuthenticationConfiguration_To_authentication_AuthenticationConfiguration v zero_configuration) \<and>
     ValidateAuthenticationConfiguration (w_ve w) cfg = []"

definition loaded_from :: "'k world \<Rightarrow> string \<Rightarrow> authentication_configuration \<Rightarrow> built list \<Rightarrow> bool" where
  "loaded_from w hash cfg bs \<longleftrightarrow> accepted_file w hash cfg \<and>
     list_all2 (built_for w) (cfg_JWT cfg) bs"

definition config_inv :: "'k world \<Rightarrow> configurator \<Rightarrow> bool" where
  "config_inv w c \<longleftrightarrow>
     (cf_authenticatorWithCancel c = None \<longleftrightarrow> cf_configHash c = []) \<and>
     (\<forall>i < length (cf_contexts c). cf_contexts c ! i \<or> map_option awc_cancel (cf_authenticatorWithCancel c) = Some i) \<and>
     (case cf_authenticatorWithCancel c of None \<Rightarrow> True
      | Some a \<Rightarrow> awc_cancel a < length (cf_contexts c) \<and> \<not> cf_contexts c ! awc_cancel a \<and>
          (\<exists>cfg. loaded_from w (cf_configHash c) cfg (awc_authenticator a)) \<and>
          list_all (\<lambda>b. jc_init (b_cell b) \<noteq> Stopped) (awc_authenticator a))"

lemma build_authenticators_built:
  "build_authenticators w jwts h = Some (Inr bs, h') \<Longrightarrow>
     list_all2 (\<lambda>jwt b. built_for w jwt b \<and> jc_init (b_cell b) \<noteq> Stopped) jwts bs"
proof (induction jwts arbitrary: h bs)
  case Nil
  then show ?case by simp
next
  case (Cons jwt jwts)
  from Cons.prems obtain ca h1 b bs' where b: "padlok_New (w_ve w) (w_env w) (w_lib w) (options_for jwt ca) h = (Inr b, h1)"
    and bs: "bs = b # bs'" "build_authenticators w jwts h1 = Some (Inr bs', h')"
    by (auto split: option.splits sum.splits prod.splits)
  from b obtain ecrs where n: "k8soidc_New (w_ve w) (w_lib w) (k8s_opts (w_env w) (options_for jwt ca) ecrs) = Inr b"
    by (auto simp: padlok_New_def split: prod.splits sum.splits)
  then have "jc_init (b_cell b) \<noteq> Stopped" by (auto simp: k8soidc_New_Inr_iff assembled_fields)
  moreover from init_reachable.built [OF n] have "built_for w jwt b" unfolding built_for_def by blast
  ultimately show ?case using Cons.IH [OF bs(2)] by (simp add: bs(1))
qed

lemma validate_hash:
  assumes "Configurator_Validate w fs c = Inr (cfg, hash)"
  shows "accepted_file w hash cfg"
proof -
  obtain configBytes v where "w_yaml w configBytes = Inr v" "hash = w_sha256 w configBytes"
    "cfg = Convert_v1alpha1_AuthenticationConfiguration_To_authentication_AuthenticationConfiguration v zero_configuration"
    "ValidateAuthenticationConfiguration (w_ve w) cfg = []"
    using assms by (auto simp: Configurator_Validate_def AuthenticationConfigurationFromConfigurationFile_def
        split: if_splits sum.splits option.splits)
  then show ?thesis unfolding accepted_file_def by blast
qed

lemma loaded_inv:
  assumes "config_inv w c" and "Configurator_Validate w fs c = Inr (cfg, hash)" and "\<And>bytes. w_sha256 w bytes \<noteq> []"
    and "TokenAuthenticatorForAuthenticationConfiguration w cfg h = Some (Inr bs, h')"
  shows "config_inv w ((cancel_current (c\<lparr>cf_contexts := cf_contexts c @ [False]\<rparr>))
     \<lparr>cf_authenticatorWithCancel := Some \<lparr>awc_authenticator = bs, awc_cancel = length (cf_contexts c)\<rparr>,
      cf_configHash := hash\<rparr>)"
proof -
  let ?n = "length (cf_contexts c)"
  from build_authenticators_built [OF assms(4) [unfolded TokenAuthenticatorForAuthenticationConfiguration_def]]
  have built: "list_all2 (\<lambda>jwt b. built_for w jwt b \<and> jc_init (b_cell b) \<noteq> Stopped) (cfg_JWT cfg) bs" .
  then have "list_all (\<lambda>b. jc_init (b_cell b) \<noteq> Stopped) bs"
    by (auto simp: list_all2_conv_all_nth list_all_length)
  moreover have "list_all2 (built_for w) (cfg_JWT cfg) bs" using built by (rule list_all2_mono) simp
  with validate_hash [OF assms(2)] have "loaded_from w hash cfg bs" by (simp add: loaded_from_def)
  moreover have "hash \<noteq> []" using validate_hash [OF assms(2)] assms(3) by (auto simp: accepted_file_def)
  moreover obtain cs where cs: "cf_contexts (cancel_current (c\<lparr>cf_contexts := cf_contexts c @ [False]\<rparr>)) = cs @ [False]"
    and len: "length cs = ?n" and done_all: "\<forall>i < ?n. cs ! i"
  proof (cases "cf_authenticatorWithCancel c")
    case None
    with assms(1) show thesis by (intro that [of "cf_contexts c"]) (auto simp: config_inv_def cancel_current_def)
  next
    case (Some a)
    with assms(1) show thesis
      by (intro that [of "(cf_contexts c)[awc_cancel a := True]"])
        (auto simp: config_inv_def cancel_current_def cancel_context_def list_update_append nth_list_update)
  qed
  ultimately show ?thesis by (auto simp: config_inv_def nth_append)
qed

lemma reachable_config_inv:
  assumes "config_reachable w cfgFile c h" and "\<And>bytes. w_sha256 w bytes \<noteq> []"
  shows "config_inv w c"
  using assms(1)
proof (induction rule: config_reachable.induct)
  case (start h)
  show ?case by (simp add: config_inv_def NewConfigurator_def)
next
  case (reload c h fs e c' h')
  from reload.hyps(2) show ?case
  proof (cases rule: handle_cases)
    case (not_built cfg hash err)
    with reload.IH show ?thesis by (auto simp: config_inv_def nth_append split: option.splits)
  next
    case (loaded cfg hash bs)
    from loaded_inv [OF reload.IH loaded(1) assms(2) loaded(2)] show ?thesis by (simp add: loaded(3))
  qed (use reload.IH in simp_all)
next
  case (serve c h es)
  then show ?case by simp
next
  case (initialise c h a i b)
  let ?bs = "(awc_authenticator a)[i := b]"
  from initialise.IH initialise.hyps(2) obtain cfg where a: "awc_cancel a < length (cf_contexts c)"
    "\<not> cf_contexts c ! awc_cancel a" "loaded_from w (cf_configHash c) cfg (awc_authenticator a)"
    "list_all (\<lambda>b. jc_init (b_cell b) \<noteq> Stopped) (awc_authenticator a)"
    by (auto simp: config_inv_def)
  have running: "jc_init (b_cell b) \<noteq> Stopped" using a(2) initialise.hyps(5) by blast
  have "loaded_from w (cf_configHash c) cfg ?bs"
    using a(3) initialise.hyps(3) built_for_step [OF _ initialise.hyps(4)]
    unfolding loaded_from_def list_all2_conv_all_nth by (auto simp: nth_list_update)
  moreover have "list_all (\<lambda>b. jc_init (b_cell b) \<noteq> Stopped) ?bs"
    using a(4) running initialise.hyps(3) by (auto simp: list_all_length nth_list_update)
  ultimately show ?case using initialise.IH initialise.hyps(2) a by (auto simp: config_inv_def)
qed

text \<open>
  C5: in every reachable state of the configurator there is an authenticator exactly when there is a hash; the
  authenticators in use are those of an accepted configuration that was read from bytes with this
  hash, one for each of its entries and each reachable from the one that \<open>New\<close> built for it; of all contexts only
  theirs is not cancelled, so that none of them has stopped initialising and all those of earlier
  configurations may stop.
\<close>

theorem configurator_invariant:
  assumes "config_reachable w cfgFile c h" and "\<And>bytes. w_sha256 w bytes \<noteq> []"
  shows "(cf_authenticatorWithCancel c = None \<longleftrightarrow> cf_configHash c = []) \<and>
    (\<forall>i < length (cf_contexts c). \<not> cf_contexts c ! i \<longleftrightarrow> map_option awc_cancel (cf_authenticatorWithCancel c) = Some i) \<and>
    (\<forall>a. cf_authenticatorWithCancel c = Some a \<longrightarrow>
       (\<exists>cfg. loaded_from w (cf_configHash c) cfg (awc_authenticator a)) \<and>
       list_all (\<lambda>b. jc_init (b_cell b) \<noteq> Stopped) (awc_authenticator a))"
  using reachable_config_inv [OF assms] by (auto simp: config_inv_def)

section \<open>Valid files are loaded\<close>

text \<open>The tokens that are asked for while the authenticators of a configuration are built.\<close>

definition configuration_tokens :: "jwt_authenticator list \<Rightarrow> token_source list" where
  "configuration_tokens jwts = concat (map (\<lambda>jwt. initial_tokens (jwt_ExternalClaimsSources jwt)) jwts)"

lemma configuration_tokens_simps [simp]:
  "configuration_tokens [] = []"
  "configuration_tokens (jwt # jwts) = initial_tokens (jwt_ExternalClaimsSources jwt) @ configuration_tokens jwts"
  by (simp_all add: configuration_tokens_def)

lemma build_authenticators_total:
  assumes "\<And>jwt. jwt \<in> set jwts \<Longrightarrow> jwt \<in> set (cfg_JWT cfg)"
    and "ValidateAuthenticationConfiguration (w_ve w) cfg = []" and "paths_irrelevant (w_ve w)"
    and "pem_agrees (w_ve w) (w_env w)"
  shows "\<exists>r. build_authenticators w jwts h = Some r \<and> asks_for (w_env w) (configuration_tokens jwts) r h"
  using assms(1)
proof (induction jwts arbitrary: h)
  case Nil
  show ?case by (simp add: asks_for_def)
next
  case (Cons jwt jwts)
  then have jwt: "jwt \<in> set (cfg_JWT cfg)" by simp
  let ?tss = "initial_tokens (jwt_ExternalClaimsSources jwt)"
  let ?h = "h @ map TokenAsked ?tss"
  obtain issuer where i: "jwt_Issuer jwt = Some issuer"
    "issuer_CertificateAuthority issuer = [] \<or> ve_NewPoolFromBytes (w_ve w) (issuer_CertificateAuthority issuer) = None"
    by (rule accepted_jwt [OF assms(2) jwt])
  obtain ca where ca: "issuer_ca (w_ve w) issuer = Inr ca" "ca_content_ok (w_ve w) ca"
    by (rule accepted_issuer_ca [OF i(2)])
  have new: "asks_for (w_env w) ?tss (padlok_New (w_ve w) (w_env w) (w_lib w) (options_for jwt ca) h) h"
    by (rule accepted_authenticator_builds [OF assms(2) jwt assms(3,4) ca(2)])
  show ?case
  proof (cases "tokens_answer (w_env w) ?tss h")
    case True
    then obtain b where b: "padlok_New (w_ve w) (w_env w) (w_lib w) (options_for jwt ca) h = (Inr b, ?h)"
      using new by (auto simp: asks_for_def)
    obtain rest h2 where r: "build_authenticators w jwts ?h = Some (rest, h2)"
      "asks_for (w_env w) (configuration_tokens jwts) (rest, h2) ?h"
      using Cons.IH [of ?h] Cons.prems by fastforce
    show ?thesis
      using i ca b r True by (cases rest) (auto simp: asks_for_def split: if_splits)
  next
    case False
    then obtain err h1 where "padlok_New (w_ve w) (w_env w) (w_lib w) (options_for jwt ca) h = (Inl err, h1)"
      using new by (auto simp: asks_for_def isl_def prod_eq_iff)
    then show ?thesis using i ca False by (simp add: asks_for_def)
  qed
qed

lemma validate_accepts:
  assumes "cf_configFile c \<noteq> []" and "fs (cf_configFile c) = Inr configBytes" and "w_yaml w configBytes = Inr v"
    and "ValidateAuthenticationConfiguration (w_ve w)
      (Convert_v1alpha1_AuthenticationConfiguration_To_authentication_AuthenticationConfiguration v zero_configuration) = []"
  shows "Configurator_Validate w fs c =
    Inr (Convert_v1alpha1_AuthenticationConfiguration_To_authentication_AuthenticationConfiguration v zero_configuration,
      w_sha256 w configBytes)"
  using assms by (simp add: Configurator_Validate_def AuthenticationConfigurationFromConfigurationFile_def ToAggregate_def)

lemma valid_file_loads:
  assumes "cf_configFile c \<noteq> []" and "fs (cf_configFile c) = Inr configBytes" and "w_yaml w configBytes = Inr v"
    and cfg: "cfg = Convert_v1alpha1_AuthenticationConfiguration_To_authentication_AuthenticationConfiguration v zero_configuration"
    and "ValidateAuthenticationConfiguration (w_ve w) cfg = []"
    and "paths_irrelevant (w_ve w)" and "pem_agrees (w_ve w) (w_env w)"
    and handle: "handleConfigChange w fs c h = Some (e, c', h')"
  shows "(e = None \<longleftrightarrow> cf_configHash c \<noteq> [] \<and> cf_configHash c = w_sha256 w configBytes \<or>
      tokens_answer (w_env w) (configuration_tokens (cfg_JWT cfg)) h) \<and>
    (e = None \<longrightarrow> cf_configHash c' = w_sha256 w configBytes)"
proof -
  have v: "Configurator_Validate w fs c = Inr (cfg, w_sha256 w configBytes)"
    using validate_accepts [of c fs configBytes w v] assms(1-5) by simp
  obtain res h1 where t: "TokenAuthenticatorForAuthenticationConfiguration w cfg h = Some (res, h1)"
    "asks_for (w_env w) (configuration_tokens (cfg_JWT cfg)) (res, h1) h"
    unfolding TokenAuthenticatorForAuthenticationConfiguration_def
    using build_authenticators_total [OF _ assms(5-7), of "cfg_JWT cfg" h] by fastforce
  then have answer: "tokens_answer (w_env w) (configuration_tokens (cfg_JWT cfg)) h \<longleftrightarrow> \<not> isl res"
    by (auto simp: asks_for_def split: if_splits)
  show ?thesis
  proof (cases "cf_configHash c \<noteq> [] \<and> cf_configHash c = w_sha256 w configBytes")
    case True
    with handle v show ?thesis by (auto simp: handleConfigChange_def)
  next
    case False
    with handle v t(1) answer show ?thesis
      by (cases res) (auto simp: handleConfigChange_def Let_def)
  qed
qed

text \<open>
  C25: exactly when a configuration file that validation accepts is loaded by the next reload, whatever is in use at that time:
  it is when it is the file in use, and else when the token endpoint of each of its sources with client
  credentials gives a token on the first request; nothing else can fail once the file is accepted.  If it is not loaded, the reload
  reports an error.  This needs apimachinery's check of domain prefixed paths to depend on the path for its messages only, and the two PEM
  parsers to agree.
\<close>

theorem valid_file_is_loaded:
  assumes "cf_configFile c \<noteq> []" and "fs (cf_configFile c) = Inr configBytes" and "w_yaml w configBytes = Inr v"
    and "cfg = Convert_v1alpha1_AuthenticationConfiguration_To_authentication_AuthenticationConfiguration v zero_configuration"
    and "ValidateAuthenticationConfiguration (w_ve w) cfg = []"
    and "paths_irrelevant (w_ve w)" and "pem_agrees (w_ve w) (w_env w)"
  shows "\<exists>e c' h'. handleConfigChange w fs c h = Some (e, c', h') \<and>
    (e = None \<longleftrightarrow> cf_configHash c \<noteq> [] \<and> cf_configHash c = w_sha256 w configBytes \<or>
      tokens_answer (w_env w) (configuration_tokens (cfg_JWT cfg)) h) \<and>
    (e = None \<longrightarrow> cf_configHash c' = w_sha256 w configBytes)"
proof -
  obtain e c' h' where r: "handleConfigChange w fs c h = Some (e, c', h')" using handleConfigChange_no_panic by fastforce
  from valid_file_loads [OF assms r] r show ?thesis by blast
qed

section \<open>Who may authenticate\<close>

text \<open>
  A token that the running configurator accepts, as a user: it is of the issuer of an entry of the accepted
  configuration in use, and for one of its audiences, according to a verifier that the library made for this
  entry.
\<close>

definition accepted_by_entry :: "'k world \<Rightarrow> jwt_authenticator \<Rightarrow> string \<Rightarrow> bool" where
  "accepted_by_entry w jwt token \<longleftrightarrow>
     (\<exists>issuer raw h idToken. jwt_Issuer jwt = Some issuer \<and> hasCorrectIssuer (issuer_URL issuer) token \<and>
        raw h token = Inr idToken \<and> set (idt_Audience idToken) \<inter> set (issuer_Audiences issuer) \<noteq> {} \<and>
        (let config = verifierConfig (as_jwt_Issuer (ConvertJWTAuthenticatorToApiserverJWTAuthenticator jwt)) [''RS256''] in
         (\<exists>ks. raw = ol_NewVerifier (w_lib w) (issuer_URL issuer) ks config) \<or>
         (\<exists>provider :: oidc_provider. raw = pr_Verifier provider config)))"

lemma built_for_accepts:
  assumes "built_for w jwt b" and "jwt_Issuer jwt = Some issuer"
    and "accepts (fst (built_auth env b ctx token h)) info"
  shows "accepted_by_entry w jwt token"
proof -
  let ?jwt = "ConvertJWTAuthenticatorToApiserverJWTAuthenticator jwt"
  obtain ca ecrs where r: "init_reachable (w_ve w) (w_lib w) (k8s_opts (w_env w) (options_for jwt ca) ecrs) b"
    using assms(1) unfolding built_for_def by blast
  have conv: "as_issuer_URL (as_jwt_Issuer ?jwt) = issuer_URL issuer" "as_issuer_Audiences (as_jwt_Issuer ?jwt) = issuer_Audiences issuer"
    using assms(2) by (simp_all add: ConvertJWTAuthenticatorToApiserverJWTAuthenticator_def convert_defs)
  have cell: "ja_jwtAuthenticator (jc_state (b_cell b)) = ?jwt" "b_config b = verifierConfig (as_jwt_Issuer ?jwt) [''RS256'']"
    using reachable_configuration [OF r] by (simp_all add: k8s_opts_def options_for_def signing_algs_def)
  have acc: "accepts (fst (AuthenticateToken env (jc_state (b_cell b)) ctx token h)) info"
    using assms(3) by (simp add: built_auth_eq)
  then have iss: "hasCorrectIssuer (issuer_URL issuer) token"
    unfolding AuthenticateToken_accepts_iff by (simp add: cell conv)
  obtain v idToken where v: "ja_verifier (jc_state (b_cell b)) = Some v" "idv_verifier v h token = Inr idToken"
    "set (idt_Audience idToken) \<inter> configured_audiences b \<noteq> {}"
    using accepted_audience [OF r acc] by blast
  have "library_verifier (w_lib w) b (idv_verifier v)" by (rule reachable_library_verifier [OF r v(1)])
  then have "(\<exists>ks. idv_verifier v = ol_NewVerifier (w_lib w) (issuer_URL issuer) ks (verifierConfig (as_jwt_Issuer ?jwt) [''RS256''])) \<or>
      (\<exists>provider :: oidc_provider. idv_verifier v = pr_Verifier provider (verifierConfig (as_jwt_Issuer ?jwt) [''RS256'']))"
    by (simp add: library_verifier_def cell conv)
  with assms(2) iss v(2,3) show ?thesis
    unfolding accepted_by_entry_def Let_def configured_audiences_def cell conv by blast
qed

lemma union_accepts_entry:
  assumes "list_all2 (built_for w) (cfg_JWT cfg) bs" and "ValidateAuthenticationConfiguration (w_ve w) cfg = []"
    and "accepts (fst (union_New (map (built_auth env) bs) ctx token h)) info"
  shows "\<exists>jwt \<in> set (cfg_JWT cfg). accepted_by_entry w jwt token"
proof -
  obtain x h' where "x \<in> set (map (built_auth env) bs)" "accepts (fst (x ctx token h')) info"
    using assms(3) by (rule union_accepts_member)
  then obtain i where i: "i < length bs" "accepts (fst (built_auth env (bs ! i) ctx token h')) info"
    by (auto simp: in_set_conv_nth)
  with assms(1) have jwt: "cfg_JWT cfg ! i \<in> set (cfg_JWT cfg)" and b: "built_for w (cfg_JWT cfg ! i) (bs ! i)"
    by (auto simp: list_all2_conv_all_nth)
  obtain issuer where "jwt_Issuer (cfg_JWT cfg ! i) = Some issuer"
    using assms(2) jwt accepted_jwt by blast
  from built_for_accepts [OF b this i(2)] jwt show ?thesis by blast
qed

lemma authenticators_accept:
  assumes "cf_authenticatorWithCancel c = Some a" and "list_all2 (built_for w) (cfg_JWT cfg) (awc_authenticator a)"
    and "ValidateAuthenticationConfiguration (w_ve w) cfg = []"
    and "accepts (fst (JWT_AuthenticateToken env c ctx token h)) info"
  shows "\<exists>jwt \<in> set (cfg_JWT cfg). accepted_by_entry w jwt token"
  using union_accepts_entry [OF assms(2,3)] assms(1,4) by (simp add: JWT_AuthenticateToken_def TokenAuthenticator_def)

lemma unloaded_accepts_nothing:
  "cf_authenticatorWithCancel c = None \<Longrightarrow> \<not> accepts (fst (JWT_AuthenticateToken env c ctx token h)) info"
  by (simp add: JWT_AuthenticateToken_def TokenAuthenticator_def)

lemma configurator_accepts:
  assumes "config_reachable w cfgFile c h0" and "\<And>bytes. w_sha256 w bytes \<noteq> []"
    and "accepts (fst (JWT_AuthenticateToken env c ctx token h)) info"
  shows "\<exists>cfg jwt. accepted_file w (cf_configHash c) cfg \<and> jwt \<in> set (cfg_JWT cfg) \<and> accepted_by_entry w jwt token"
proof (cases "cf_authenticatorWithCancel c")
  case None
  with assms(3) unloaded_accepts_nothing show ?thesis by blast
next
  case (Some a)
  obtain cfg where cfg: "accepted_file w (cf_configHash c) cfg" "list_all2 (built_for w) (cfg_JWT cfg) (awc_authenticator a)"
    using reachable_config_inv [OF assms(1,2)] Some by (auto simp: config_inv_def loaded_from_def)
  with authenticators_accept [OF Some cfg(2) _ assms(3)] show ?thesis by (auto simp: accepted_file_def)
qed

section \<open>One authenticator per token\<close>

lemma hasCorrectIssuer_unique: "hasCorrectIssuer iss token \<Longrightarrow> hasCorrectIssuer iss' token \<Longrightarrow> iss = iss'"
  by (auto simp: hasCorrectIssuer_def split: sum.splits)

lemma built_auth_opinion_issuer:
  assumes "built_for w jwt b" and "fst (built_auth env b ctx token h) \<noteq> (None, False, None)"
  shows "hasCorrectIssuer (as_issuer_URL (as_jwt_Issuer (ConvertJWTAuthenticatorToApiserverJWTAuthenticator jwt))) token"
proof -
  obtain ca ecrs where r: "init_reachable (w_ve w) (w_lib w) (k8s_opts (w_env w) (options_for jwt ca) ecrs) b"
    using assms(1) unfolding built_for_def by blast
  have "ja_jwtAuthenticator (jc_state (b_cell b)) = ConvertJWTAuthenticatorToApiserverJWTAuthenticator jwt"
    using reachable_configuration [OF r] by (simp add: k8s_opts_def options_for_def)
  then show ?thesis
    using AuthenticateToken_no_opinion [of env "jc_state (b_cell b)" ctx token h] assms(2) by (simp add: built_auth_eq)
qed

text \<open>
  C9: of the authenticators in use, at most one has anything to say on a token, be it an error or an
  acceptance: the issuers of an accepted configuration are distinct, and an authenticator abstains, without calling a
  verifier, on the tokens of other issuers.  So the order of the authenticators does not matter.
\<close>

theorem at_most_one_authenticator_answers:
  assumes "config_reachable w cfgFile c h0" and "\<And>bytes. w_sha256 w bytes \<noteq> []"
    and "cf_authenticatorWithCancel c = Some a"
  shows "length (filter (\<lambda>b. \<exists>ctx h. fst (built_auth env b ctx token h) \<noteq> (None, False, None)) (awc_authenticator a)) \<le> 1"
proof -
  let ?url = "\<lambda>jwt. as_issuer_URL (as_jwt_Issuer (ConvertJWTAuthenticatorToApiserverJWTAuthenticator jwt))"
  obtain cfg where cfg: "accepted_file w (cf_configHash c) cfg" "list_all2 (built_for w) (cfg_JWT cfg) (awc_authenticator a)"
    using reachable_config_inv [OF assms(1,2)] assms(3) by (auto simp: config_inv_def loaded_from_def)
  have d: "distinct (map ?url (cfg_JWT cfg))"
    using cfg(1) configuration_bounds unfolding accepted_file_def by blast
  have len: "length (cfg_JWT cfg) = length (awc_authenticator a)" using cfg(2) by (rule list_all2_lengthD)
  let ?answers = "{k. k < length (awc_authenticator a) \<and>
    (\<exists>ctx h. fst (built_auth env (awc_authenticator a ! k) ctx token h) \<noteq> (None, False, None))}"
  have iss: "hasCorrectIssuer (map ?url (cfg_JWT cfg) ! k) token" if "k \<in> ?answers" for k
  proof -
    from that obtain ctx h where k: "k < length (awc_authenticator a)"
      "fst (built_auth env (awc_authenticator a ! k) ctx token h) \<noteq> (None, False, None)" by blast
    from cfg(2) k(1) len have "built_for w (cfg_JWT cfg ! k) (awc_authenticator a ! k)" by (simp add: list_all2_conv_all_nth)
    from built_auth_opinion_issuer [OF this k(2)] k(1) len show ?thesis by simp
  qed
  have "i = j" if ij: "i \<in> ?answers" "j \<in> ?answers" for i j
  proof -
    have "map ?url (cfg_JWT cfg) ! i = map ?url (cfg_JWT cfg) ! j"
      by (rule hasCorrectIssuer_unique [OF iss [OF ij(1)] iss [OF ij(2)]])
    moreover from ij len have "i < length (map ?url (cfg_JWT cfg))" "j < length (map ?url (cfg_JWT cfg))" by simp_all
    ultimately show ?thesis using nth_eq_iff_index_eq [OF d] by blast
  qed
  then have "card ?answers \<le> Suc 0" by (simp add: card_le_Suc0_iff_eq)
  then show ?thesis by (simp add: length_filter_conv_card)
qed

section \<open>A sample world\<close>

definition plain_padlok_jwt :: jwt_authenticator where
  "plain_padlok_jwt = sample_padlok_jwt\<lparr>jwt_ClaimValidationRules := [],
     jwt_ClaimMappings := Some \<lparr>cm_Username = \<lparr>pce_Claim = ''sub'', pce_Prefix = Some [], pce_Expression = []\<rparr>,
       cm_Groups = \<lparr>pce_Claim = [], pce_Prefix = None, pce_Expression = []\<rparr>,
       cm_UID = \<lparr>ce_Claim = [], ce_Expression = []\<rparr>, cm_Extra = []\<rparr>,
     jwt_ExternalClaimsSources := []\<rparr>"

definition plain_configuration :: authentication_configuration where
  "plain_configuration = \<lparr>cfg_TypeMeta = \<lparr>tm_Kind = [], tm_APIVersion = []\<rparr>, cfg_JWT = [plain_padlok_jwt]\<rparr>"

definition sample_file :: v1_authentication_configuration where
  "sample_file = \<lparr>v1_cfg_TypeMeta = \<lparr>tm_Kind = [], tm_APIVersion = []\<rparr>,
     v1_cfg_JWT = [Convert_authentication_JWTAuthenticator_To_v1alpha1_JWTAuthenticator plain_padlok_jwt]\<rparr>"

definition sample_world :: "unit world" where
  "sample_world = \<lparr>w_ve = sample_ve, w_env = trusting_env, w_lib = sample_lib, w_sha256 = (\<lambda>bytes. CHR ''#'' # bytes),
     w_yaml = (\<lambda>bytes. if bytes = ''jwt: ...'' then Inr sample_file else Inl (Errorf ''yaml'' []))\<rparr>"

definition sample_fs :: filesystem where
  "sample_fs path = (if path = ''padlok.yaml'' then Inr ''jwt: ...'' else Inl (Errorf ''no such file'' []))"

lemma sample_world_fields [simp]:
  "w_ve sample_world = sample_ve" "w_env sample_world = trusting_env" "w_lib sample_world = sample_lib"
  "w_sha256 sample_world bytes = CHR ''#'' # bytes" "w_yaml sample_world ''jwt: ...'' = Inr sample_file"
  "sample_fs ''padlok.yaml'' = Inr ''jwt: ...''"
  by (simp_all add: sample_world_def sample_fs_def)

lemma sample_file_converts:
  "Convert_v1alpha1_AuthenticationConfiguration_To_authentication_AuthenticationConfiguration sample_file zero_configuration
     = plain_configuration"
  by (simp add: Convert_v1alpha1_AuthenticationConfiguration_To_authentication_AuthenticationConfiguration_def
      sample_file_def zero_configuration_def plain_configuration_def jwt_conv.roundtrips)

lemma plain_padlok_jwt_converted: "ConvertJWTAuthenticatorToApiserverJWTAuthenticator plain_padlok_jwt = plain_as_jwt"
  by (simp add: convert_defs ConvertJWTAuthenticatorToApiserverJWTAuthenticator_def zero_as_issuer_def plain_padlok_jwt_def
      sample_padlok_jwt_def plain_as_jwt_def sample_as_jwt_def zero_as_claim_mappings_def zero_as_pce_def)

lemma plain_configuration_accepted: "ValidateAuthenticationConfiguration sample_ve plain_configuration = []"
proof -
  have "jwt_ExternalClaimsSources plain_padlok_jwt = []" by (simp add: plain_padlok_jwt_def)
  then show ?thesis
    by (simp add: ValidateAuthenticationConfiguration_def Let_def plain_configuration_def plain_padlok_jwt_converted
        ConvertAuthenticationConfigurationToApiserverAuthenticationConfiguration_def plain_fields
        apiserver_ValidateAuthenticationConfiguration_def authenticator_step_def plain_valid validateExternalClaimsSources_def
        maxExternalClaimSources_def)
qed

definition plain_built :: built where
  "plain_built = assemble sample_lib (k8s_opts trusting_env (options_for plain_padlok_jwt None) []) empty_cel_mapper
     sample_client None"

lemma plain_built: "padlok_New sample_ve trusting_env sample_lib (options_for plain_padlok_jwt None) h = (Inr plain_built, h)"
proof -
  let ?opts = "k8s_opts trusting_env (options_for plain_padlok_jwt None :: unit padlok_options) []"
  have "k8soidc_New sample_ve sample_lib ?opts = Inr plain_built"
    unfolding k8soidc_New_Inr_iff
    by (rule exI [of _ empty_cel_mapper], rule exI [of _ sample_client], rule exI [of _ None], rule exI [of _ sample_client])
      (simp add: k8s_opts_def options_for_def plain_padlok_jwt_converted plain_valid CompileAndValidateJWTAuthenticator_def
        signing_algs_def allowedSigningAlgs_def exclusive_client_def base_client_def discovery_client_def custom_dial_def
        plain_fields plain_built_def sample_client_def)
  moreover have "jwt_ExternalClaimsSources plain_padlok_jwt = []" by (simp add: plain_padlok_jwt_def)
  ultimately show ?thesis by (simp add: padlok_New_def options_for_def)
qed

definition loaded_configurator :: configurator where
  "loaded_configurator = \<lparr>cf_configFile = ''padlok.yaml'',
     cf_authenticatorWithCancel = Some \<lparr>awc_authenticator = [plain_built], awc_cancel = 0\<rparr>,
     cf_configHash = ''#jwt: ...'', cf_contexts = [False]\<rparr>"

lemma sample_loads:
  "handleConfigChange sample_world sample_fs (NewConfigurator ''padlok.yaml'') h = Some (None, loaded_configurator, h)"
proof -
  have "Configurator_Validate sample_world sample_fs (NewConfigurator ''padlok.yaml'') = Inr (plain_configuration, ''#jwt: ...'')"
    using validate_accepts [of "NewConfigurator ''padlok.yaml''" sample_fs "''jwt: ...''" sample_world sample_file]
    by (simp add: NewConfigurator_def sample_file_converts plain_configuration_accepted)
  moreover obtain issuer where "jwt_Issuer plain_padlok_jwt = Some issuer" "issuer_ca sample_ve issuer = Inr None"
    by (simp add: plain_padlok_jwt_def sample_padlok_jwt_def issuer_ca_def)
  then have "TokenAuthenticatorForAuthenticationConfiguration sample_world plain_configuration h = Some (Inr [plain_built], h)"
    by (simp add: TokenAuthenticatorForAuthenticationConfiguration_def plain_configuration_def plain_built)
  ultimately show ?thesis
    by (simp add: handleConfigChange_def Let_def NewConfigurator_def loaded_configurator_def cancel_current_def)
qed

lemma sample_reachable: "config_reachable sample_world ''padlok.yaml'' loaded_configurator []"
  by (rule config_reachable.reload [OF config_reachable.start sample_loads])

theorem configurator_invariant_witness:
  "\<exists>cfg. loaded_from sample_world ''#jwt: ...'' cfg [plain_built]"
  using configurator_invariant [OF sample_reachable] by (simp add: loaded_configurator_def)

theorem reload_of_same_file_is_idle_witness:
  "handleConfigChange sample_world sample_fs loaded_configurator [] = Some (None, loaded_configurator, [])"
  by (rule reload_of_same_file_is_idle [OF sample_loads]) simp

theorem valid_file_is_loaded_witness:
  "\<exists>c' h'. handleConfigChange sample_world sample_fs (NewConfigurator ''padlok.yaml'') [] = Some (None, c', h') \<and>
     cf_configHash c' = ''#jwt: ...''"
  using valid_file_is_loaded [of "NewConfigurator ''padlok.yaml''" sample_fs "''jwt: ...''" sample_world sample_file
      plain_configuration "[]"]
  by (auto simp: NewConfigurator_def sample_file_converts plain_configuration_accepted trusting_env_ok trusting_env_answers)

theorem failed_reload_keeps_authenticator_witness:
  "\<exists>e c' h'. handleConfigChange sample_world (\<lambda>_. Inr ''x'') loaded_configurator [] = Some (Some e, c', h') \<and>
     TokenAuthenticator sample_env c' = TokenAuthenticator sample_env loaded_configurator"
proof -
  obtain e c' h' where r: "handleConfigChange sample_world (\<lambda>_. Inr ''x'') loaded_configurator [] = Some (Some e, c', h')"
    by (simp add: handleConfigChange_def Configurator_Validate_def loaded_configurator_def
        AuthenticationConfigurationFromConfigurationFile_def sample_world_def)
  from failed_reload_keeps_authenticator [OF r] r show ?thesis by blast
qed

section \<open>The sample becomes ready\<close>

definition ready_built :: built where
  "ready_built = plain_built\<lparr>b_cell := setVerifier
     \<lparr>idv_verifier = (\<lambda>_ _. Inr \<lparr>idt_Audience = [''aud''], idt_Claims = Inr [''sub'' \<mapsto> Raw (JStr ''bob'')]\<rparr>),
      idv_audiences = {''aud''}\<rparr> (b_cell plain_built)\<rparr>"

definition ready_configurator :: configurator where
  "ready_configurator = loaded_configurator\<lparr>cf_authenticatorWithCancel :=
     Some \<lparr>awc_authenticator = [ready_built], awc_cancel = 0\<rparr>\<rparr>"

lemma ready_accepts:
  "accepts (fst (JWT_AuthenticateToken env ready_configurator ctx sample_token h))
    \<lparr>ui_Name = ''bob'', ui_UID = [], ui_Groups = [], ui_Extra = Map.empty\<rparr>"
proof -
  have "accepts (fst (AuthenticateToken env (jc_state (b_cell ready_built)) ctx sample_token h))
      \<lparr>ui_Name = ''bob'', ui_UID = [], ui_Groups = [], ui_Extra = Map.empty\<rparr>"
    by (rule plain_accepts)
      (simp_all add: ready_built_def plain_built_def assemble_def k8s_opts_def options_for_def initial_cell_def Let_def
        setVerifier_def store_healthy_def store_verifier_def plain_padlok_jwt_converted plain_fields zero_as_pce_def
        required_claims_def)
  then show ?thesis
    by (simp add: JWT_AuthenticateToken_def TokenAuthenticator_def ready_configurator_def union_New_def union_with_def
        built_auth_eq)
qed

lemma ready_steps:
  obtains b1 where "init_step sample_lib plain_built b1" "jc_init (b_cell b1) \<noteq> Stopped"
    "init_step sample_lib b1 ready_built" "jc_init (b_cell ready_built) \<noteq> Stopped"
proof -
  let ?v = "\<lparr>idv_verifier = (\<lambda>_ _. Inr \<lparr>idt_Audience = [''aud''], idt_Claims = Inr [''sub'' \<mapsto> Raw (JStr ''bob'')]\<rparr>),
      idv_audiences = {''aud''}\<rparr>"
  let ?b1 = "plain_built\<lparr>b_cell := store_verifier ?v (b_cell plain_built)\<rparr>"
  have cell: "jc_init (b_cell plain_built) = Polling" "ja_jwtAuthenticator (jc_state (b_cell plain_built)) = plain_as_jwt"
    by (simp_all add: plain_built_def assemble_def k8s_opts_def options_for_def initial_cell_def Let_def plain_padlok_jwt_converted)
  have "poll_attempt sample_lib plain_built (Inr sample_provider) = Inr ?v"
    by (simp add: poll_attempt_def cell plain_fields sample_lib_def sample_provider_def Let_def)
  from init_step.poll_succeeds [OF cell(1) this] have "init_step sample_lib plain_built ?b1" .
  moreover have "init_step sample_lib ?b1 ready_built"
    using init_step.report [of ?b1 sample_lib] by (simp add: ready_built_def setVerifier_def store_verifier_def store_healthy_def)
  moreover have "jc_init (b_cell ?b1) \<noteq> Stopped" "jc_init (b_cell ready_built) \<noteq> Stopped"
    by (simp_all add: ready_built_def setVerifier_def store_verifier_def store_healthy_def)
  ultimately show thesis by (intro that)
qed

lemma ready_reachable: "config_reachable sample_world ''padlok.yaml'' ready_configurator []"
proof -
  let ?c = "\<lambda>b. loaded_configurator\<lparr>cf_authenticatorWithCancel := Some \<lparr>awc_authenticator = [b], awc_cancel = 0\<rparr>\<rparr>"
  obtain b1 where b1: "init_step sample_lib plain_built b1" "jc_init (b_cell b1) \<noteq> Stopped"
    "init_step sample_lib b1 ready_built" "jc_init (b_cell ready_built) \<noteq> Stopped" by (rule ready_steps)
  have r1: "config_reachable sample_world ''padlok.yaml'' (?c b1) []"
    using config_reachable.initialise [OF sample_reachable, of "\<lparr>awc_authenticator = [plain_built], awc_cancel = 0\<rparr>" 0 b1] b1(1,2)
    by (simp add: loaded_configurator_def)
  then show ?thesis
    using config_reachable.initialise [OF r1, of "\<lparr>awc_authenticator = [b1], awc_cancel = 0\<rparr>" 0 ready_built] b1(3,4)
    by (simp add: loaded_configurator_def ready_configurator_def)
qed

theorem at_most_one_authenticator_answers_witness:
  "length (filter (\<lambda>b. \<exists>ctx h. fst (built_auth sample_env b ctx sample_token h) \<noteq> (None, False, None)) [ready_built]) \<le> 1"
  using at_most_one_authenticator_answers [OF ready_reachable, of "\<lparr>awc_authenticator = [ready_built], awc_cancel = 0\<rparr>"
      sample_env sample_token]
  by (simp add: ready_configurator_def)

end
