(* ===== verification/Webhook_Server.thy ===== *)
theory Webhook_Server
  imports Configurator
begin

text \<open>
  \<open>pkg/handlers/authenticate.go\<close> and \<open>pkg/server/server.go\<close>: the webhook that answers a TokenReview, and the
  server around it.  The JSON codec of TokenReviews (types of \<open>k8s.io/api\<close>) and the texts of errors are
  parameters, as are OpenShift's tables of TLS versions and cipher suites.  The listener is modelled by
  how it ends.
\<close>

section \<open>TokenReviews\<close>

record review_user =
  ru_Username :: string
  ru_UID :: string
  ru_Groups :: "string list"
  ru_Extra :: "string \<rightharpoonup> string list"

record token_review_status =
  trs_Authenticated :: bool
  trs_User :: review_user
  trs_Audiences :: "string list"
  trs_Error :: string

record token_review =
  tr_APIVersion :: string
  tr_Kind :: string
  tr_Status :: token_review_status

record review_codec =
  rc_Unmarshal :: "string \<Rightarrow> string res"
  rc_Marshal :: "token_review \<Rightarrow> string res"
  rc_ErrorText :: "error \<Rightarrow> string"

record incoming_request =
  ir_Method :: string
  ir_Path :: string
  ir_Body :: "string res"
  ir_Context :: ctx

record reply =
  rp_Status :: nat
  rp_Header :: "(string \<times> string) list"
  rp_Body :: string

definition zero_review_user :: review_user where
  "zero_review_user = \<lparr>ru_Username = [], ru_UID = [], ru_Groups = [], ru_Extra = Map.empty\<rparr>"

definition not_authenticated :: "string \<Rightarrow> token_review_status" where
  "not_authenticated err = \<lparr>trs_Authenticated = False, trs_User = zero_review_user, trs_Audiences = [], trs_Error = err\<rparr>"

text \<open>The user of a review; its extra values are the user's, key by key.\<close>

definition review_user_of :: "user_info \<Rightarrow> review_user" where
  "review_user_of user = \<lparr>ru_Username = ui_Name user, ru_UID = ui_UID user, ru_Groups = ui_Groups user,
     ru_Extra = (\<lambda>key. ui_Extra user key)\<rparr>"

definition review_status :: "review_codec \<Rightarrow> auth_result \<Rightarrow> token_review_status" where
  "review_status codec result =
     (case result of (resp, authenticated, err) \<Rightarrow>
        (case err of
           Some e \<Rightarrow> not_authenticated (rc_ErrorText codec e)
         | None \<Rightarrow>
             if \<not> authenticated then not_authenticated []
             else (case resp of
                 None \<Rightarrow> not_authenticated []
               | Some r \<Rightarrow>
             (case ar_User r of
                 None \<Rightarrow> not_authenticated []
               | Some user \<Rightarrow> \<lparr>trs_Authenticated = True, trs_User = review_user_of user,
                   trs_Audiences = ar_Audiences r, trs_Error = []\<rparr>))))"

section \<open>The handler\<close>

definition status_only :: "nat \<Rightarrow> reply" where
  "status_only code = \<lparr>rp_Status = code, rp_Header = [], rp_Body = []\<rparr>"

text \<open>\<open>ServeHTTP\<close> up to the response review: a status code of an early return, or the review.\<close>

definition review_request ::
  "review_codec \<Rightarrow> token_auth \<Rightarrow> incoming_request \<Rightarrow> history \<Rightarrow> (nat + token_review) \<times> history" where
  "review_request codec auth req h =
     (if ir_Method req \<noteq> ''POST'' then (Inl 405, h)
      else (case ir_Body req of
        Inl err \<Rightarrow> (Inl 500, h)
      | Inr requestedTokenReviewBytes \<Rightarrow>
     (case rc_Unmarshal codec requestedTokenReviewBytes of
        Inl err \<Rightarrow> (Inl 500, h)
      | Inr token \<Rightarrow>
     (case auth (ir_Context req) token h of (result, h1) \<Rightarrow>
        (Inr \<lparr>tr_APIVersion = ''authentication.k8s.io/v1'', tr_Kind = ''TokenReview'',
           tr_Status = review_status codec result\<rparr>, h1)))))"

definition ServeHTTP :: "review_codec \<Rightarrow> token_auth \<Rightarrow> incoming_request \<Rightarrow> history \<Rightarrow> reply \<times> history" where
  "ServeHTTP codec auth req h =
     (case review_request codec auth req h of
        (Inl code, h1) \<Rightarrow> (status_only code, h1)
      | (Inr responseTokenReview, h1) \<Rightarrow>
     (case rc_Marshal codec responseTokenReview of
        Inl err \<Rightarrow> (status_only 500, h1)
      | Inr trBytes \<Rightarrow>
          (\<lparr>rp_Status = 200, rp_Header = [(''Content-Type'', ''application/json'')], rp_Body = trBytes\<rparr>, h1)))"

section \<open>The server\<close>

abbreviation authenticatePath :: string where "authenticatePath \<equiv> ''/authenticate''"

text \<open>\<open>None\<close> is a reply of the multiplexer itself: not found, or a redirect to a clean path.\<close>

definition serve_mux ::
  "review_codec \<Rightarrow> token_auth \<Rightarrow> incoming_request \<Rightarrow> history \<Rightarrow> reply option \<times> history" where
  "serve_mux codec auth req h =
     (if ir_Path req = authenticatePath then
        (case ServeHTTP codec auth req h of (r, h1) \<Rightarrow> (Some r, h1))
      else (None, h))"

record instance_flags =
  securePort :: string
  tlsPrivateKeyFile :: string
  tlsCertFile :: string
  tlsCipherSuites :: "string list"
  tlsMinVersion :: string

definition default_flags :: instance_flags where
  "default_flags = \<lparr>securePort = ''6443'', tlsPrivateKeyFile = ''tls.key'', tlsCertFile = ''tls.crt'',
     tlsCipherSuites = [], tlsMinVersion = []\<rparr>"

text \<open>The tables of \<open>library-go\<close>; the functions that end in \<open>OrDie\<close> panic on unknown names (\<open>None\<close>).\<close>

record tls_tables =
  DefaultCiphers :: "nat list"
  DefaultTLSVersion :: nat
  CipherSuitesOrDie :: "string list \<Rightarrow> nat list option"
  TLSVersionOrDie :: "string \<Rightarrow> nat option"

text \<open>The fields of the \<open>http.Server\<close>; times are in milliseconds.\<close>

record server_config =
  srv_Addr :: string
  srv_ReadHeaderTimeout :: nat
  srv_IdleTimeout :: nat
  srv_MaxHeaderBytes :: nat
  srv_ReadTimeout :: nat
  srv_CipherSuites :: "nat list"
  srv_MinVersion :: nat

definition server_of_flags :: "tls_tables \<Rightarrow> instance_flags \<Rightarrow> server_config option" where
  "server_of_flags t i =
     (case (if tlsCipherSuites i \<noteq> [] then CipherSuitesOrDie t (tlsCipherSuites i) else Some (DefaultCiphers t)) of
        None \<Rightarrow> None
      | Some cipherSuites \<Rightarrow>
     (case (if tlsMinVersion i \<noteq> [] then TLSVersionOrDie t (tlsMinVersion i) else Some (DefaultTLSVersion t)) of
        None \<Rightarrow> None
      | Some minVersion \<Rightarrow> Some
          \<lparr>srv_Addr = '':'' @ securePort i, srv_ReadHeaderTimeout = 32000, srv_IdleTimeout = 90000,
           srv_MaxHeaderBytes = 1048576, srv_ReadTimeout = 60000,
           srv_CipherSuites = cipherSuites, srv_MinVersion = minVersion\<rparr>))"

text \<open>
  How \<open>Serve\<close> ends: the context is done, with what \<open>Shutdown\<close> and then the listener return, or the listener
  returns on its own.
\<close>

datatype serve_end = ContextDone "error option" "error option" | ListenerReturned "error option"

definition ErrServerClosed :: error where
  "ErrServerClosed = Errorf ''http: Server closed'' []"

definition error_operand :: "error option \<Rightarrow> operand" where
  "error_operand err = (case err of None \<Rightarrow> OpS ''<nil>'' | Some e \<Rightarrow> OpE e)"

fun serve_result :: "serve_end \<Rightarrow> error option" where
  "serve_result (ContextDone shutdownErr serverErr) =
     (case shutdownErr of
        Some err \<Rightarrow> Some (Errorf ''server shutdown failed: %w'' [OpE err])
      | None \<Rightarrow>
     (case serverErr of
        None \<Rightarrow> None
      | Some err \<Rightarrow> if err \<noteq> ErrServerClosed then Some (Errorf ''server error: %w'' [OpE err]) else None))"
| "serve_result (ListenerReturned err) = Some (Errorf ''server error: %w'' [error_operand err])"

text \<open>The context that is passed to \<open>Serve\<close>.  The \<open>Done\<close> channel of the background context is nil, on which nothing is ever received.\<close>

datatype go_context = BackgroundContext | CancellableContext

definition serve_may_end :: "go_context \<Rightarrow> serve_end \<Rightarrow> bool" where
  "serve_may_end ctx ends \<longleftrightarrow> (case ends of ContextDone _ _ \<Rightarrow> ctx = CancellableContext | ListenerReturned _ \<Rightarrow> True)"

lemma graceful_shutdown_iff:
  "serve_result ends = None \<longleftrightarrow> ends = ContextDone None None \<or> ends = ContextDone None (Some ErrServerClosed)"
  by (cases ends) (auto split: option.split)

section \<open>What the webhook answers\<close>

lemma ask_all_built:
  "r \<in> set (ask_all (map (built_auth env) bs) ctx token h) \<Longrightarrow> \<exists>(b :: built) h'. r = fst (AuthenticateToken env (jc_state (b_cell b)) ctx token h')"
proof (induction bs arbitrary: h)
  case (Cons b bs)
  show ?case
  proof (cases "r = fst (AuthenticateToken env (jc_state (b_cell b)) ctx token h)")
    case False
    with Cons.prems show ?thesis by (intro Cons.IH) (simp add: built_auth_eq)
  next
    case True
    show ?thesis by (rule exI, rule exI, rule True)
  qed
qed simp

lemma union_ok_accepts:
  assumes "fst (union_New (map (built_auth env) bs) ctx token h) = (resp, True, None)"
  shows "\<exists>info. accepts (resp, True, None) info"
proof -
  let ?rs = "ask_all (map (built_auth env) bs) ctx token h"
  have "(resp, True, None) \<in> set ?rs"
  proof (cases "\<exists>r. ?rs = [r]")
    case True
    with assms show ?thesis by (auto simp: union_answer)
  next
    case False
    then have "(case ?rs of [r] \<Rightarrow> r | rs \<Rightarrow> first_acceptance [] rs) = first_acceptance [] ?rs" by (auto split: list.split)
    with assms show ?thesis by (auto simp: union_answer first_acceptance_def find_Some_iff split: option.splits)
  qed
  from ask_all_built [OF this] obtain b :: built and h' where
    "(resp, True, None) = fst (AuthenticateToken env (jc_state (b_cell b)) ctx token h')" by blast
  with AuthenticateToken_ok [of env "jc_state (b_cell b)" ctx token h' resp] show ?thesis by metis
qed

lemma JWT_wf: "auth_wf (fst (JWT_AuthenticateToken env c ctx token h))"
  by (auto simp: JWT_AuthenticateToken_def TokenAuthenticator_def union_auth.wf split: option.split)

interpretation jwt_webhook: token_authenticator "JWT_AuthenticateToken env c" for env c
  by unfold_locales (rule JWT_wf)

lemma JWT_ok_accepts:
  assumes "fst (JWT_AuthenticateToken env c ctx token h) = (resp, True, None)"
  shows "\<exists>info. accepts (fst (JWT_AuthenticateToken env c ctx token h)) info"
proof (cases "cf_authenticatorWithCancel c")
  case None
  with assms show ?thesis by (simp add: JWT_AuthenticateToken_def TokenAuthenticator_def fail_def)
next
  case (Some a)
  with assms show ?thesis
    using union_ok_accepts [of env "awc_authenticator a" ctx token h resp]
    by (simp add: JWT_AuthenticateToken_def TokenAuthenticator_def)
qed

lemma review_status_authenticated:
  assumes "\<And>resp. r = (resp, True, None) \<Longrightarrow> \<exists>info. accepts r info"
  shows "trs_Authenticated (review_status codec r) \<longleftrightarrow> (\<exists>info. accepts r info)"
proof -
  obtain resp ok err where r: "r = (resp, ok, err)" by (rule prod_cases3)
  show ?thesis
  proof (cases "ok \<and> err = None")
    case True
    with assms r obtain info where "accepts r info" by blast
    then show ?thesis by (auto simp: accepts_def review_status_def)
  next
    case False
    with r show ?thesis by (auto simp: review_status_def not_authenticated_def accepts_def split: option.split)
  qed
qed

lemma review_status_of_accepted:
  "accepts r info \<Longrightarrow> trs_User (review_status codec r) = review_user_of info"
  by (simp add: accepts_def review_status_def)

lemma review_request_early: "review_request codec auth req h = (Inl code, h') \<Longrightarrow> code = 405 \<or> code = 500"
  by (auto simp: review_request_def split: if_splits sum.splits prod.splits)

lemma review_request_authenticated:
  "(\<exists>review. fst (review_request codec (JWT_AuthenticateToken env c) req h) = Inr review \<and>
      trs_Authenticated (tr_Status review) \<and> trs_User (tr_Status review) = u) \<longleftrightarrow>
   ir_Method req = ''POST'' \<and>
   (\<exists>body token info. ir_Body req = Inr body \<and> rc_Unmarshal codec body = Inr token \<and>
      accepts (fst (JWT_AuthenticateToken env c (ir_Context req) token h)) info \<and> u = review_user_of info)"
proof -
  have ok: "trs_Authenticated (review_status codec (fst (JWT_AuthenticateToken env c (ir_Context req) token h))) \<and>
      trs_User (review_status codec (fst (JWT_AuthenticateToken env c (ir_Context req) token h))) = u \<longleftrightarrow>
      (\<exists>info. accepts (fst (JWT_AuthenticateToken env c (ir_Context req) token h)) info \<and> u = review_user_of info)" for token
  proof -
    let ?r = "fst (JWT_AuthenticateToken env c (ir_Context req) token h)"
    have "trs_Authenticated (review_status codec ?r) \<longleftrightarrow> (\<exists>info. accepts ?r info)"
      by (rule review_status_authenticated) (use JWT_ok_accepts in metis)
    then show ?thesis using review_status_of_accepted [of ?r _ codec] by auto
  qed
  show ?thesis
    by (simp add: review_request_def split_beta ok split: sum.split)
qed

text \<open>
  C34: an early return of the handler never asks the authenticator: the reply is 405 exactly for requests that
  are not POST requests; when the authenticator was asked, the reply is 200 or, if the review cannot be encoded, 500.
\<close>

theorem webhook_status:
  "(rp_Status (fst (ServeHTTP codec auth req h)) = 405 \<longleftrightarrow> ir_Method req \<noteq> ''POST'') \<and>
   rp_Status (fst (ServeHTTP codec auth req h)) \<in> {200, 405, 500} \<and>
   (rp_Status (fst (ServeHTTP codec auth req h)) = 200 \<longleftrightarrow>
      ir_Method req = ''POST'' \<and>
      (\<exists>body token review. ir_Body req = Inr body \<and> rc_Unmarshal codec body = Inr token \<and>
         fst (review_request codec auth req h) = Inr review \<and>
         rc_Marshal codec review = Inr (rp_Body (fst (ServeHTTP codec auth req h))))) \<and>
   (snd (ServeHTTP codec auth req h) = h \<or>
      (\<exists>body token. ir_Method req = ''POST'' \<and> ir_Body req = Inr body \<and> rc_Unmarshal codec body = Inr token \<and>
         snd (ServeHTTP codec auth req h) = snd (auth (ir_Context req) token h)))"
  by (auto simp: ServeHTTP_def review_request_def status_only_def split: sum.splits prod.splits)

section \<open>End to end\<close>

text \<open>
  The API server reads from the body whether the review is authenticated, so that reviews with the same
  encoding agree on it.
\<close>

definition codec_reads_back :: "review_codec \<Rightarrow> bool" where
  "codec_reads_back codec \<longleftrightarrow>
     (\<forall>r r' s. rc_Marshal codec r = Inr s \<longrightarrow> rc_Marshal codec r' = Inr s \<longrightarrow>
        trs_Authenticated (tr_Status r) = trs_Authenticated (tr_Status r'))"

lemma authenticated_review_accepts:
  assumes "codec_reads_back codec" and "serve_mux codec (JWT_AuthenticateToken env c) req h = (Some reply, h')"
    and "rp_Status reply = 200" and "rc_Marshal codec review = Inr (rp_Body reply)" and "trs_Authenticated (tr_Status review)"
  obtains body token info where "ir_Body req = Inr body" "rc_Unmarshal codec body = Inr token"
    "accepts (fst (JWT_AuthenticateToken env c (ir_Context req) token h)) info"
proof -
  let ?auth = "JWT_AuthenticateToken env c"
  from assms(2) have s: "ServeHTTP codec ?auth req h = (reply, h')"
    by (auto simp: serve_mux_def split: if_splits prod.splits)
  then obtain review' where r: "fst (review_request codec ?auth req h) = Inr review'"
    "rc_Marshal codec review' = Inr (rp_Body reply)"
    using assms(3) by (auto simp: ServeHTTP_def status_only_def dest: review_request_early split: prod.splits sum.splits)
  with assms(1,4,5) have "trs_Authenticated (tr_Status review')" unfolding codec_reads_back_def by blast
  with r(1) show thesis
    using review_request_authenticated [of codec env c req h "trs_User (tr_Status review')"] that by blast
qed

text \<open>The review of an accepted user.\<close>

definition accepted_review :: "user_info \<Rightarrow> token_review" where
  "accepted_review info = \<lparr>tr_APIVersion = ''authentication.k8s.io/v1'', tr_Kind = ''TokenReview'',
     tr_Status = \<lparr>trs_Authenticated = True, trs_User = review_user_of info, trs_Audiences = [], trs_Error = []\<rparr>\<rparr>"

lemma serve_accepted:
  assumes "ir_Path req = authenticatePath" and "ir_Method req = ''POST''" and "ir_Body req = Inr body"
    and "rc_Unmarshal codec body = Inr token" and "accepts (fst (auth (ir_Context req) token h)) info"
  shows "fst (serve_mux codec auth req h) = Some (case rc_Marshal codec (accepted_review info) of
      Inl _ \<Rightarrow> status_only 500
    | Inr bytes \<Rightarrow> \<lparr>rp_Status = 200, rp_Header = [(''Content-Type'', ''application/json'')], rp_Body = bytes\<rparr>)"
  using assms
  by (cases "auth (ir_Context req) token h")
    (simp add: serve_mux_def ServeHTTP_def review_request_def accepted_review_def accepts_def review_status_def split: sum.split)

text \<open>
  C24: exactly when the server's reply to a request is 200 with an authenticated TokenReview: the request is a POST to the path of the webhook,
  its body decodes to a TokenReview with a token that the JWT authenticator accepts, and the review can be encoded.  The reply to such a request is then
  the encoding of the review with the user that the token was mapped to, sent as JSON, or 500 when it cannot be encoded.  Encoded
  reviews must show whether they are authenticated.
\<close>

theorem webhook_authenticates_iff:
  assumes "codec_reads_back codec"
  shows "(\<forall>body token info. ir_Path req = authenticatePath \<and> ir_Method req = ''POST'' \<and> ir_Body req = Inr body \<and>
      rc_Unmarshal codec body = Inr token \<and> accepts (fst (JWT_AuthenticateToken env c (ir_Context req) token h)) info \<longrightarrow>
      fst (serve_mux codec (JWT_AuthenticateToken env c) req h) = Some (case rc_Marshal codec (accepted_review info) of
          Inl _ \<Rightarrow> status_only 500
        | Inr bytes \<Rightarrow> \<lparr>rp_Status = 200, rp_Header = [(''Content-Type'', ''application/json'')], rp_Body = bytes\<rparr>)) \<and>
    ((\<exists>reply review. fst (serve_mux codec (JWT_AuthenticateToken env c) req h) = Some reply \<and> rp_Status reply = 200 \<and>
        rc_Marshal codec review = Inr (rp_Body reply) \<and> trs_Authenticated (tr_Status review)) \<longleftrightarrow>
     ir_Path req = authenticatePath \<and> ir_Method req = ''POST'' \<and>
     (\<exists>body token info bytes. ir_Body req = Inr body \<and> rc_Unmarshal codec body = Inr token \<and>
        accepts (fst (JWT_AuthenticateToken env c (ir_Context req) token h)) info \<and>
        rc_Marshal codec (accepted_review info) = Inr bytes))"
    (is "?exact \<and> (?answered \<longleftrightarrow> ?accepted)")
proof -
  let ?auth = "JWT_AuthenticateToken env c"
  have exact: ?exact using serve_accepted [where auth = ?auth] by blast
  have "?accepted" if ?answered
  proof -
    from that obtain reply review where a: "fst (serve_mux codec ?auth req h) = Some reply" "rp_Status reply = 200"
      "rc_Marshal codec review = Inr (rp_Body reply)" "trs_Authenticated (tr_Status review)" by blast
    then obtain h' where s: "serve_mux codec ?auth req h = (Some reply, h')" by (metis prod.collapse)
    then have path: "ir_Path req = authenticatePath" by (auto simp: serve_mux_def split: if_splits)
    have post: "ir_Method req = ''POST''"
      using s a(2) by (auto simp: serve_mux_def ServeHTTP_def review_request_def status_only_def split: if_splits)
    obtain body token info where t: "ir_Body req = Inr body" "rc_Unmarshal codec body = Inr token"
      "accepts (fst (?auth (ir_Context req) token h)) info"
      by (rule authenticated_review_accepts [OF assms s a(2-4)])
    have "\<exists>bytes. rc_Marshal codec (accepted_review info) = Inr bytes"
      using serve_accepted [where auth = ?auth, OF path post t] a(1,2) by (auto simp: status_only_def split: sum.splits)
    with path post t show ?thesis by blast
  qed
  moreover have "?answered" if ?accepted
  proof -
    from that obtain body token info bytes where t: "ir_Path req = authenticatePath" "ir_Method req = ''POST''" "ir_Body req = Inr body"
      "rc_Unmarshal codec body = Inr token" "accepts (fst (?auth (ir_Context req) token h)) info"
      and m: "rc_Marshal codec (accepted_review info) = Inr bytes" by blast
    from serve_accepted [where auth = ?auth, OF t] m show ?thesis
      by (intro exI [of _ "\<lparr>rp_Status = 200, rp_Header = [(''Content-Type'', ''application/json'')], rp_Body = bytes\<rparr>"]
          exI [of _ "accepted_review info"]) (simp add: accepted_review_def)
  qed
  ultimately show ?thesis using exact by blast
qed

text \<open>
  Whenever the running webhook replies to a request with an authenticated TokenReview, the token of
  the request is of the issuer of an entry of the accepted configuration in use, and for one
  of that entry's audiences, as a verifier that the library made for this entry and RS256 says.
\<close>

theorem webhook_accepts_only_configured_tokens:
  assumes "config_reachable w cfgFile c h0" and "\<And>bytes. w_sha256 w bytes \<noteq> []"
    and "codec_reads_back codec"
    and "serve_mux codec (JWT_AuthenticateToken (w_env w) c) req h = (Some reply, h')" and "rp_Status reply = 200"
    and "rc_Marshal codec review = Inr (rp_Body reply)" and "trs_Authenticated (tr_Status review)"
  shows "\<exists>body token cfg jwt. ir_Body req = Inr body \<and> rc_Unmarshal codec body = Inr token \<and>
    accepted_file w (cf_configHash c) cfg \<and> jwt \<in> set (cfg_JWT cfg) \<and> accepted_by_entry w jwt token"
proof -
  obtain body token info where t: "ir_Body req = Inr body" "rc_Unmarshal codec body = Inr token"
    "accepts (fst (JWT_AuthenticateToken (w_env w) c (ir_Context req) token h)) info"
    by (rule authenticated_review_accepts [OF assms(3-7)])
  from configurator_accepts [OF assms(1,2) t(3)] t(1,2) show ?thesis by blast
qed

section \<open>A sample\<close>

text \<open>A codec that writes the flag only; request bodies are the token.\<close>

definition sample_codec :: review_codec where
  "sample_codec = \<lparr>rc_Unmarshal = Inr,
     rc_Marshal = (\<lambda>r. Inr (if trs_Authenticated (tr_Status r) then ''yes'' else ''no'')), rc_ErrorText = (\<lambda>_. ''error'')\<rparr>"

definition sample_request :: incoming_request where
  "sample_request = \<lparr>ir_Method = ''POST'', ir_Path = ''/authenticate'', ir_Body = Inr sample_token, ir_Context = Map.empty\<rparr>"

lemma sample_review_answer:
  "\<exists>review reply h'. serve_mux sample_codec (JWT_AuthenticateToken (w_env sample_world) ready_configurator) sample_request []
      = (Some reply, h') \<and> rp_Status reply = 200 \<and> rc_Marshal sample_codec review = Inr (rp_Body reply) \<and>
    trs_Authenticated (tr_Status review)"
proof -
  let ?auth = "JWT_AuthenticateToken (w_env sample_world) ready_configurator"
  obtain review where r: "fst (review_request sample_codec ?auth sample_request []) = Inr review"
    "trs_Authenticated (tr_Status review)"
    using review_request_authenticated [of sample_codec "w_env sample_world" ready_configurator sample_request "[]"]
      ready_accepts [of "w_env sample_world" Map.empty "[]"]
    by (auto simp: sample_request_def sample_codec_def)
  then show ?thesis
    by (cases "review_request sample_codec ?auth sample_request []")
      (auto simp: serve_mux_def ServeHTTP_def sample_codec_def sample_request_def intro!: exI [of _ review])
qed

lemma sample_codec_reads_back: "codec_reads_back sample_codec"
  by (auto simp: codec_reads_back_def sample_codec_def split: if_splits)

theorem webhook_authenticates_iff_witness:
  "fst (serve_mux sample_codec (JWT_AuthenticateToken (w_env sample_world) ready_configurator) sample_request []) =
     Some \<lparr>rp_Status = 200, rp_Header = [(''Content-Type'', ''application/json'')], rp_Body = ''yes''\<rparr>"
proof -
  let ?info = "\<lparr>ui_Name = ''bob'', ui_UID = [], ui_Groups = [], ui_Extra = Map.empty\<rparr>"
  have "accepts (fst (JWT_AuthenticateToken (w_env sample_world) ready_configurator (ir_Context sample_request) sample_token [])) ?info"
    by (rule ready_accepts)
  moreover have "ir_Path sample_request = authenticatePath" "ir_Method sample_request = ''POST''"
    "ir_Body sample_request = Inr sample_token" "rc_Unmarshal sample_codec sample_token = Inr sample_token"
    "rc_Marshal sample_codec (accepted_review ?info) = Inr ''yes''"
    by (simp_all add: sample_request_def sample_codec_def accepted_review_def)
  ultimately show ?thesis
    using webhook_authenticates_iff [OF sample_codec_reads_back, THEN conjunct1, rule_format,
        of sample_request sample_token sample_token "w_env sample_world" ready_configurator "[]" ?info]
    by simp
qed

theorem webhook_accepts_only_configured_tokens_witness:
  "\<exists>cfg jwt. accepted_file sample_world ''#jwt: ...'' cfg \<and> jwt \<in> set (cfg_JWT cfg) \<and>
     accepted_by_entry sample_world jwt sample_token"
proof -
  obtain review reply h' where s: "serve_mux sample_codec (JWT_AuthenticateToken (w_env sample_world) ready_configurator)
        sample_request [] = (Some reply, h')" "rp_Status reply = 200"
      "rc_Marshal sample_codec review = Inr (rp_Body reply)" "trs_Authenticated (tr_Status review)"
    using sample_review_answer by blast
  have hash: "\<And>bytes. w_sha256 sample_world bytes \<noteq> []" by simp
  from webhook_accepts_only_configured_tokens [OF ready_reachable hash sample_codec_reads_back s] show ?thesis
    by (auto simp: sample_request_def sample_codec_def ready_configurator_def loaded_configurator_def)
qed

end
