(* ===== verification/Configurator_Spec.thy ===== *)
theory Configurator_Spec
  imports Configurator
begin

text \<open>
  What the configurator promises, as an abstract machine: a register that holds the content of the
  configuration file that was loaded last, together with the configuration it decodes to.  A content
  that validation accepts and whose authenticators can be built overwrites the register, anything else leaves it; building may
  fail although the content is accepted, since token endpoints are asked (\<open>valid_file_is_loaded\<close> says exactly when).
  The configurator implements the register: \<open>implements\<close> relates its state to the register, every step preserves
  it, and so the authenticators in use are always those of the content that was loaded last.
\<close>

section \<open>The register\<close>

definition accepted_content ::
  "'k world \<Rightarrow> string \<Rightarrow> filesystem \<Rightarrow> (string \<times> authentication_configuration) option" where
  "accepted_content w path fs =
     (if path = [] then None
      else
     (case fs path of
        Inl _ \<Rightarrow> None
      | Inr bytes \<Rightarrow>
     (case w_yaml w bytes of
        Inl _ \<Rightarrow> None
      | Inr v \<Rightarrow>
          let cfg = Convert_v1alpha1_AuthenticationConfiguration_To_authentication_AuthenticationConfiguration
                v zero_configuration
          in if ValidateAuthenticationConfiguration (w_ve w) cfg = [] then Some (bytes, cfg) else None)))"

type_synonym register = "(string \<times> authentication_configuration) option"

text \<open>One attempt to load what the file holds, with the history: a content that is held already is not loaded again.\<close>

definition register_load :: "'k world \<Rightarrow> string \<Rightarrow> filesystem \<Rightarrow> register \<times> history \<Rightarrow> register \<times> history" where
  "register_load w path fs s =
     (case accepted_content w path fs of
        None \<Rightarrow> s
      | Some (bytes, cfg) \<Rightarrow>
          if map_option fst (fst s) = Some bytes then s
          else (case TokenAuthenticatorForAuthenticationConfiguration w cfg (snd s) of
              Some (Inr _, h) \<Rightarrow> (Some (bytes, cfg), h)
            | Some (Inl _, h) \<Rightarrow> (fst s, h)
            | None \<Rightarrow> s))"

text \<open>Attempts in a row, and attempts at given times, between which the history may have grown.\<close>

definition register_run :: "'k world \<Rightarrow> string \<Rightarrow> filesystem list \<Rightarrow> register \<times> history \<Rightarrow> register \<times> history" where
  "register_run w path fss s = foldl (\<lambda>s fs. register_load w path fs s) s fss"

type_synonym attempt = "filesystem \<times> history"

definition last_loaded :: "'k world \<Rightarrow> string \<Rightarrow> attempt list \<Rightarrow> register" where
  "last_loaded w path attempts = foldl (\<lambda>r (fs, h). fst (register_load w path fs (r, h))) None attempts"

definition implements :: "'k world \<Rightarrow> string \<Rightarrow> configurator \<Rightarrow> register \<Rightarrow> bool" where
  "implements w path c r \<longleftrightarrow> cf_configFile c = path \<and>
     (case r of
        None \<Rightarrow> cf_authenticatorWithCancel c = None \<and> cf_configHash c = []
      | Some (bytes, cfg) \<Rightarrow> cf_configHash c = w_sha256 w bytes \<and>
          (\<exists>a. cf_authenticatorWithCancel c = Some a \<and>
             list_all2 (built_for w) (cfg_JWT cfg) (awc_authenticator a)))"

lemma implements_cong:
  assumes "implements w path c r" and "cf_configFile c' = cf_configFile c" and "cf_configHash c' = cf_configHash c"
    and "cf_authenticatorWithCancel c' = cf_authenticatorWithCancel c"
  shows "implements w path c' r"
  using assms(1) unfolding implements_def assms(2-4) .

lemma last_loaded_simps [simp]:
  "last_loaded w path [] = None"
  "last_loaded w path (as @ [(fs, h)]) = fst (register_load w path fs (last_loaded w path as, h))"
  by (simp_all add: last_loaded_def)

lemma register_run_simps [simp]:
  "register_run w path [] s = s"
  "register_run w path (fss @ [fs]) s = register_load w path fs (register_run w path fss s)"
  by (simp_all add: register_run_def)

lemma register_load_content:
  "fst (register_load w path fs s) = Some content \<Longrightarrow> fst s = Some content \<or> accepted_content w path fs = Some content"
  by (auto simp: register_load_def split: option.splits if_splits sum.splits prod.splits)

lemma last_loaded_is_content:
  "last_loaded w path as = Some content \<Longrightarrow> \<exists>fs \<in> set (map fst as). accepted_content w path fs = Some content"
  by (induction as rule: rev_induct) (auto dest!: register_load_content)

lemma register_run_is_content:
  "fst (register_run w path fss (None, h)) = Some content \<Longrightarrow> \<exists>fs \<in> set fss. accepted_content w path fs = Some content"
  by (induction fss rule: rev_induct) (auto dest!: register_load_content)

section \<open>One step\<close>

definition file_contents :: "string \<Rightarrow> filesystem list \<Rightarrow> string set" where
  "file_contents path fss = {bytes. \<exists>fs \<in> set fss. fs path = Inr bytes}"

lemma accepted_content_bytes: "accepted_content w path fs = Some (bytes, cfg) \<Longrightarrow> fs path = Inr bytes"
  by (auto simp: accepted_content_def Let_def split: if_splits sum.splits)

lemma accepted_content_valid:
  "accepted_content w path fs = Some (bytes, cfg) \<Longrightarrow> ValidateAuthenticationConfiguration (w_ve w) cfg = []"
  by (auto simp: accepted_content_def Let_def split: if_splits sum.splits)

lemma accepted_content_determined:
  "accepted_content w path fs = Some (bytes, cfg) \<Longrightarrow> accepted_content w path fs' = Some (bytes, cfg')
    \<Longrightarrow> cfg' = cfg"
  by (auto simp: accepted_content_def Let_def split: if_splits sum.splits)

lemma validate_is_accepted_content:
  "Configurator_Validate w fs c = Inr (cfg, hash) \<longleftrightarrow>
     (\<exists>bytes. accepted_content w (cf_configFile c) fs = Some (bytes, cfg) \<and> hash = w_sha256 w bytes)"
  by (auto simp: Configurator_Validate_def AuthenticationConfigurationFromConfigurationFile_def
      accepted_content_def ToAggregate_def Let_def split: if_splits sum.splits option.splits)

lemma handle_keeps_file:
  "handleConfigChange w fs c h = Some (e, c', h') \<Longrightarrow> cf_configFile c' = cf_configFile c"
  by (erule handle_cases) (auto simp: cancel_current_def cancel_context_def split: option.splits)

lemma handle_same:
  "Configurator_Validate w fs c = Inr (cfg, cf_configHash c) \<Longrightarrow> cf_configHash c \<noteq> [] \<Longrightarrow>
     handleConfigChange w fs c h = Some (None, c, h)"
  by (simp add: handleConfigChange_def)

lemma handle_implements:
  assumes impl: "implements w path c r" and sha: "\<And>bytes. w_sha256 w bytes \<noteq> []"
    and handle: "handleConfigChange w fs c h = Some (e, c', h')"
    and content: "\<And>bytes cfg. r = Some (bytes, cfg) \<Longrightarrow> \<exists>fs0 \<in> set fss. accepted_content w path fs0 = Some (bytes, cfg)"
    and inj: "inj_on (w_sha256 w) (file_contents path (fss @ [fs]))"
  shows "implements w path c' (fst (register_load w path fs (r, h))) \<and> h' = snd (register_load w path fs (r, h))"
proof -
  have path: "cf_configFile c = path" using impl by (simp add: implements_def)
  have held: "map_option fst r = Some bytes \<longleftrightarrow> cf_configHash c = w_sha256 w bytes"
    if "accepted_content w path fs = Some (bytes, cfg)" for bytes cfg
  proof (cases r)
    case None
    with impl sha [THEN not_sym] show ?thesis by (simp add: implements_def)
  next
    case (Some x)
    obtain bytes0 cfg0 where r: "r = Some (bytes0, cfg0)" using Some by (cases x) auto
    have "bytes \<in> file_contents path (fss @ [fs])" "bytes0 \<in> file_contents path (fss @ [fs])"
      using accepted_content_bytes [OF that] content [OF r] by (auto simp: file_contents_def dest: accepted_content_bytes)
    from inj_on_eq_iff [OF inj this] impl r show ?thesis by (auto simp: implements_def)
  qed
  have new: "map_option fst r \<noteq> Some bytes"
    if "accepted_content w path fs = Some (bytes, cfg)" and "handleConfigChange w fs c h \<noteq> Some (None, c, h)" for bytes cfg
  proof
    assume "map_option fst r = Some bytes"
    then have "Configurator_Validate w fs c = Inr (cfg, cf_configHash c)" and "cf_configHash c \<noteq> []"
      using held [OF that(1)] that(1) sha by (auto simp: validate_is_accepted_content path)
    from handle_same [OF this] that(2) show False by blast
  qed
  from handle show ?thesis
  proof (cases rule: handle_cases)
    case (invalid err)
    have "accepted_content w path fs = None"
      using validate_is_accepted_content [of w fs c] invalid(1) path by (cases "accepted_content w path fs") auto
    with impl invalid show ?thesis by (simp add: register_load_def)
  next
    case (unchanged cfg)
    then obtain bytes where "accepted_content w path fs = Some (bytes, cfg)" "cf_configHash c = w_sha256 w bytes"
      using validate_is_accepted_content [of w fs c] path by auto
    with held impl unchanged show ?thesis by (simp add: register_load_def)
  next
    case (not_built cfg hash err)
    then obtain bytes where acc: "accepted_content w path fs = Some (bytes, cfg)"
      using validate_is_accepted_content [of w fs c] path by auto
    have "map_option fst r \<noteq> Some bytes" using new [OF acc] handle not_built(4) by simp
    moreover have "implements w path c' r" by (rule implements_cong [OF impl]) (simp_all add: not_built(3))
    ultimately show ?thesis by (simp add: register_load_def acc not_built(2))
  next
    case (loaded cfg hash bs)
    then obtain bytes where acc: "accepted_content w path fs = Some (bytes, cfg)"
      and hash: "hash = w_sha256 w bytes"
      using validate_is_accepted_content [of w fs c] path by auto
    have "length (cf_contexts c') \<noteq> length (cf_contexts c)"
      by (simp add: loaded(3) cancel_current_def cancel_context_def split: option.split)
    then have "handleConfigChange w fs c h \<noteq> Some (None, c, h)" using handle by auto
    from new [OF acc this] have "map_option fst r \<noteq> Some bytes" .
    moreover have "list_all2 (built_for w) (cfg_JWT cfg) bs"
      by (rule list_all2_mono
          [OF build_authenticators_built [OF loaded(2) [unfolded TokenAuthenticatorForAuthenticationConfiguration_def]]])
        simp
    ultimately show ?thesis
      using acc hash loaded(2-4) handle_keeps_file [OF handle] path
      by (simp add: implements_def register_load_def)
  qed
qed

text \<open>One reload of a running configurator.\<close>

lemma reload_implements:
  assumes impl: "implements w path c (last_loaded w path as)" and sha: "\<And>bytes. w_sha256 w bytes \<noteq> []"
    and handle: "handleConfigChange w fs c h = Some (e, c', h')"
    and inj: "inj_on (w_sha256 w) (file_contents path (map fst (as @ [(fs, h)])))"
  shows "implements w path c' (last_loaded w path (as @ [(fs, h)]))"
  using handle_implements [OF impl sha handle last_loaded_is_content] inj by simp

section \<open>Every run\<close>

text \<open>The reachable states of \<open>Configurator\<close>, with the attempts that its handler has made so far: the file system
  it has seen, and the history at that time.\<close>

inductive config_trace ::
  "'k world \<Rightarrow> string \<Rightarrow> attempt list \<Rightarrow> configurator \<Rightarrow> history \<Rightarrow> bool" for w path where
  start: "config_trace w path [] (NewConfigurator path) h"
| reload: "config_trace w path as c h \<Longrightarrow> handleConfigChange w fs c h = Some (e, c', h') \<Longrightarrow>
     config_trace w path (as @ [(fs, h)]) c' h'"
| serve: "config_trace w path as c h \<Longrightarrow> config_trace w path as c (h @ es)"
| initialise: "config_trace w path as c h \<Longrightarrow> cf_authenticatorWithCancel c = Some a \<Longrightarrow>
     i < length (awc_authenticator a) \<Longrightarrow> init_step (w_lib w) (awc_authenticator a ! i) b \<Longrightarrow>
     (jc_init (b_cell b) = Stopped \<Longrightarrow> cf_contexts c ! awc_cancel a) \<Longrightarrow>
     config_trace w path as (c\<lparr>cf_authenticatorWithCancel :=
       Some (a\<lparr>awc_authenticator := (awc_authenticator a)[i := b]\<rparr>)\<rparr>) h"

lemma reachable_iff_trace: "config_reachable w path c h \<longleftrightarrow> (\<exists>as. config_trace w path as c h)"
proof
  show "config_reachable w path c h \<Longrightarrow> \<exists>as. config_trace w path as c h"
    by (induction rule: config_reachable.induct) (blast intro: config_trace.intros)+
  assume "\<exists>as. config_trace w path as c h"
  then obtain as where "config_trace w path as c h" ..
  then show "config_reachable w path c h"
    by (induction rule: config_trace.induct) (blast intro: config_reachable.intros)+
qed

lemma trace_implements:
  assumes "config_trace w path as c h" and sha: "\<And>bytes. w_sha256 w bytes \<noteq> []"
    and "inj_on (w_sha256 w) (file_contents path (map fst as))"
  shows "implements w path c (last_loaded w path as)"
  using assms(1,3)
proof (induction rule: config_trace.induct)
  case (start h)
  show ?case by (simp add: implements_def NewConfigurator_def)
next
  case (reload as c h fs e c' h')
  from reload.prems have "inj_on (w_sha256 w) (file_contents path (map fst as))"
    by (rule inj_on_subset) (auto simp: file_contents_def)
  then show ?case by (rule reload_implements [OF reload.IH sha reload.hyps(2) reload.prems])
next
  case (serve as c h es)
  then show ?case by blast
next
  case (initialise as c h a i b)
  then have "implements w path c (last_loaded w path as)" by blast
  with initialise.hyps(2-4) show ?case
    by (auto simp: implements_def list_all2_conv_all_nth nth_list_update split: option.splits
        intro: built_for_step)
qed

text \<open>
  C6: the configurator refines the register of the content that was loaded last.  In every reachable state, with any number of
  reloads, failing ones among them, initialisation steps and requests in between, the authenticators in use are those of the last content
  that was accepted and whose authenticators could be built when it was read, one for each entry of its configuration, and the stored hash is
  its hash; there is none exactly when no content has been loaded.  In particular an accepted content that could not be built, because
  a token endpoint did not answer, leaves the one before in use.  The hash must tell apart the contents that were actually read.
\<close>

theorem configurator_refines_register:
  assumes "config_trace w path as c h" and "\<And>bytes. w_sha256 w bytes \<noteq> []"
    and "inj_on (w_sha256 w) (file_contents path (map fst as))"
  shows "(case last_loaded w path as of
      None \<Rightarrow> cf_authenticatorWithCancel c = None \<and> cf_configHash c = []
    | Some (bytes, cfg) \<Rightarrow> cf_configHash c = w_sha256 w bytes \<and>
        (\<exists>a. cf_authenticatorWithCancel c = Some a \<and>
           list_all2 (built_for w) (cfg_JWT cfg) (awc_authenticator a)))"
  using trace_implements [OF assms] by (simp add: implements_def)

section \<open>At the sample world\<close>

text \<open>The sample file is loaded, and then the file is replaced by one that does not decode.\<close>

definition broken_fs :: filesystem where
  "broken_fs path = Inr ''jwt: ['' "

lemma sample_content:
  "accepted_content sample_world ''padlok.yaml'' sample_fs = Some (''jwt: ...'', plain_configuration)"
  "accepted_content sample_world ''padlok.yaml'' broken_fs = None"
  by (simp_all add: accepted_content_def Let_def sample_file_converts plain_configuration_accepted)
    (simp add: broken_fs_def sample_world_def)

lemma sample_content_loads:
  "register_load sample_world ''padlok.yaml'' sample_fs (None, h) = (Some (''jwt: ...'', plain_configuration), h)"
  "register_load sample_world ''padlok.yaml'' broken_fs s = s"
proof -
  obtain issuer where "jwt_Issuer plain_padlok_jwt = Some issuer" "issuer_ca sample_ve issuer = Inr None"
    by (simp add: plain_padlok_jwt_def sample_padlok_jwt_def issuer_ca_def)
  then have "TokenAuthenticatorForAuthenticationConfiguration sample_world plain_configuration h = Some (Inr [plain_built], h)"
    by (simp add: TokenAuthenticatorForAuthenticationConfiguration_def plain_configuration_def plain_built)
  then show "register_load sample_world ''padlok.yaml'' sample_fs (None, h) = (Some (''jwt: ...'', plain_configuration), h)"
    by (simp add: register_load_def sample_content)
qed (simp add: register_load_def sample_content)

lemma sample_last_loaded:
  "last_loaded sample_world ''padlok.yaml'' [(sample_fs, h)] = Some (''jwt: ...'', plain_configuration)"
  "last_loaded sample_world ''padlok.yaml'' [(sample_fs, h), (broken_fs, h')] = Some (''jwt: ...'', plain_configuration)"
  by (simp_all add: last_loaded_def sample_content_loads)

lemma sample_register_run:
  "register_run sample_world ''padlok.yaml'' [sample_fs, broken_fs] (None, h) = (Some (''jwt: ...'', plain_configuration), h)"
  by (simp add: register_run_def sample_content_loads)

lemma sample_inj: "inj_on (w_sha256 sample_world) A"
  by (simp add: inj_on_def)

lemma sample_trace:
  "config_trace sample_world ''padlok.yaml'' [(sample_fs, []), (broken_fs, [])] loaded_configurator []"
proof -
  have "config_trace sample_world ''padlok.yaml'' ([] @ [(sample_fs, [])]) loaded_configurator []"
    by (rule config_trace.reload [OF config_trace.start sample_loads])
  moreover have "\<exists>e. handleConfigChange sample_world broken_fs loaded_configurator [] = Some (e, loaded_configurator, [])"
    by (simp add: handleConfigChange_def Configurator_Validate_def loaded_configurator_def
        AuthenticationConfigurationFromConfigurationFile_def sample_world_def broken_fs_def)
  ultimately show ?thesis using config_trace.reload [of sample_world _ "[(sample_fs, [])]"] by fastforce
qed

theorem configurator_refines_register_witness:
  "cf_configHash loaded_configurator = w_sha256 sample_world ''jwt: ...'' \<and>
    list_all2 (built_for sample_world) (cfg_JWT plain_configuration) [plain_built]"
  using configurator_refines_register [OF sample_trace _ sample_inj]
  by (simp add: sample_last_loaded loaded_configurator_def)

end
