(* ===== verification/File_Watcher.thy ===== *)
theory File_Watcher
  imports Configurator_Spec
begin

text \<open>
  \<open>WatchUntil\<close> of \<open>pkg/internal/third_party/kubernetes/apiserver/pkg/util/filesystem/watchuntil.go\<close>, the
  loop that calls the configurator's handler.  What the \<open>select\<close> statement receives is the input of
  the loop: the ticker, an event or an error of the fsnotify watcher, or the end of the context.
  An input carries whether the context is cancelled by then, what \<open>watcher.Add\<close> would answer, and
  what the handler finds when it runs (for the configurator, the file system).  Time and the
  fsnotify library are outside the model, except for what it holds a watch of: \<open>Add\<close> and \<open>Remove\<close> set and end it, it is lost
  when the library reports that the path was removed or renamed, and it may be lost when the library reports an error.
\<close>

section \<open>The loop\<close>

datatype 'e watch_input =
    CtxDone
  | Tick bool "error option" 'e
  | FsEvent bool string bool bool "error option" 'e
  | WatchError bool error

text \<open>\<open>wt_noop\<close> says that the no-op watcher is in use, whose channels are nil and which watches nothing; \<open>wt_errors\<close> is what
  \<open>errorHandler\<close> has been called with.  \<open>wt_registered\<close> is the state of the library: whether it certainly
  holds a watch of the path.\<close>

record watch =
  wt_noop :: bool
  wt_attemptPeriodicRewatch :: bool
  wt_registered :: bool
  wt_errors :: "error list"
  wt_returned :: bool

definition watcher_Remove :: "watch \<Rightarrow> watch" where
  "watcher_Remove wt = wt\<lparr>wt_registered := False\<rparr>"

definition watcher_Add :: "error option \<Rightarrow> watch \<Rightarrow> error option \<times> watch" where
  "watcher_Add answer wt =
     (if wt_noop wt then (None, wt)
      else (case answer of Some err \<Rightarrow> (Some err, wt) | None \<Rightarrow> (None, wt\<lparr>wt_registered := True\<rparr>)))"

text \<open>What the library has done to its watch by the time it reports an event or an error.\<close>

definition watch_dropped :: "string \<Rightarrow> string \<Rightarrow> bool \<Rightarrow> bool \<Rightarrow> watch \<Rightarrow> watch" where
  "watch_dropped path name removed renamed wt =
     (if name = path \<and> (removed \<or> renamed) then wt\<lparr>wt_registered := False\<rparr> else wt)"

definition watch_doubtful :: "watch \<Rightarrow> watch" where
  "watch_doubtful wt = wt\<lparr>wt_registered := False\<rparr>"

text \<open>What the loop does.\<close>

definition report :: "error \<Rightarrow> watch \<Rightarrow> watch" where
  "report err wt = wt\<lparr>wt_errors := wt_errors wt @ [err]\<rparr>"

definition on_tick :: "error option \<Rightarrow> watch \<Rightarrow> watch" where
  "on_tick answer wt =
     (if wt_attemptPeriodicRewatch wt then
        (case watcher_Add answer (watcher_Remove wt) of
           (Some err, wt1) \<Rightarrow> report err wt1
         | (None, wt1) \<Rightarrow> wt1\<lparr>wt_attemptPeriodicRewatch := False\<rparr>)
      else wt)"

definition on_event :: "string \<Rightarrow> string \<Rightarrow> bool \<Rightarrow> bool \<Rightarrow> error option \<Rightarrow> watch \<Rightarrow> watch" where
  "on_event path name removed renamed answer wt =
     (if name = path \<and> (removed \<or> renamed) then
        (case watcher_Add answer (watcher_Remove wt) of
           (Some err, wt1) \<Rightarrow> (report err wt1)\<lparr>wt_attemptPeriodicRewatch := True\<rparr>
         | (None, wt1) \<Rightarrow> wt1)
      else wt)"

definition on_error :: "error \<Rightarrow> watch \<Rightarrow> watch" where
  "on_error err wt = (report err wt)\<lparr>wt_attemptPeriodicRewatch := True\<rparr>"

definition handle_then :: "('e \<Rightarrow> 's \<Rightarrow> 's option) \<Rightarrow> 'e \<Rightarrow> watch \<Rightarrow> 's \<Rightarrow> (watch \<times> 's) option" where
  "handle_then handler e wt s = map_option (\<lambda>s'. (wt, s')) (handler e s)"

definition watch_step ::
  "('e \<Rightarrow> 's \<Rightarrow> 's option) \<Rightarrow> string \<Rightarrow> 'e watch_input \<Rightarrow> watch \<Rightarrow> 's \<Rightarrow> (watch \<times> 's) option" where
  "watch_step handler path i wt s =
     (case i of
        CtxDone \<Rightarrow> Some (wt\<lparr>wt_returned := True\<rparr>, s)
      | Tick cancelled answer e \<Rightarrow>
          if cancelled then Some (wt\<lparr>wt_returned := True\<rparr>, s)
          else handle_then handler e (on_tick answer wt) s
      | FsEvent cancelled name removed renamed answer e \<Rightarrow>
          if wt_noop wt then Some (wt, s)
          else if cancelled then Some ((watch_dropped path name removed renamed wt)\<lparr>wt_returned := True\<rparr>, s)
          else handle_then handler e (on_event path name removed renamed answer (watch_dropped path name removed renamed wt)) s
      | WatchError cancelled err \<Rightarrow>
          if wt_noop wt then Some (wt, s)
          else if cancelled then Some ((watch_doubtful wt)\<lparr>wt_returned := True\<rparr>, s)
          else Some (on_error err (watch_doubtful wt), s))"

fun watch_loop ::
  "('e \<Rightarrow> 's \<Rightarrow> 's option) \<Rightarrow> string \<Rightarrow> 'e watch_input list \<Rightarrow> watch \<Rightarrow> 's \<Rightarrow> (watch \<times> 's) option" where
  "watch_loop handler path [] wt s = Some (wt, s)"
| "watch_loop handler path (i # inputs) wt s =
     (if wt_returned wt then Some (wt, s)
      else (case watch_step handler path i wt s of
          None \<Rightarrow> None
        | Some (wt', s') \<Rightarrow> watch_loop handler path inputs wt' s'))"

text \<open>The start: \<open>fsnotify.NewWatcher\<close> may fail, \<open>watcher.Add\<close> may fail, and the handler runs when it
  did not.  A poll interval that is not positive and a nil handler panic.\<close>

definition watch_start :: "int \<Rightarrow> error option \<Rightarrow> watch" where
  "watch_start pollInterval newWatcher =
     (let wt = \<lparr>wt_noop = newWatcher \<noteq> None, wt_attemptPeriodicRewatch = False, wt_registered = False,
        wt_errors = [], wt_returned = False\<rparr>
      in case newWatcher of
           Some err \<Rightarrow> report (Errorf ''error creating file watcher, falling back to poll at interval %s: %w''
             [OpN (nat pollInterval), OpE err]) wt
         | None \<Rightarrow> wt)"

definition WatchUntil ::
  "int \<Rightarrow> string \<Rightarrow> ('e \<Rightarrow> 's \<Rightarrow> 's option) option \<Rightarrow> error option \<Rightarrow> error option \<Rightarrow> 'e \<Rightarrow>
     'e watch_input list \<Rightarrow> 's \<Rightarrow> (watch \<times> 's) option" where
  "WatchUntil pollInterval path eventHandler newWatcher answer e inputs s =
     (if pollInterval \<le> 0 then None
      else
     (case eventHandler of
        None \<Rightarrow> None
      | Some handler \<Rightarrow>
          let wt = watch_start pollInterval newWatcher
          in (case watcher_Add answer wt of
                (Some err, wt1) \<Rightarrow>
                  watch_loop handler path inputs ((report err wt1)\<lparr>wt_attemptPeriodicRewatch := True\<rparr>) s
              | (None, wt1) \<Rightarrow>
                  (case handler e s of None \<Rightarrow> None | Some s' \<Rightarrow> watch_loop handler path inputs wt1 s'))))"

section \<open>The path is watched or will be\<close>


lemmas watch_defs = on_tick_def on_event_def on_error_def report_def watcher_Add_def watcher_Remove_def
  watch_dropped_def watch_doubtful_def




section \<open>What the handler is called for\<close>

text \<open>The inputs at which the handler runs, read off the inputs alone: every tick, and with a real
  watcher every event, until the context is found cancelled.\<close>

fun handled :: "bool \<Rightarrow> 'e watch_input list \<Rightarrow> 'e list" where
  "handled noop [] = []"
| "handled noop (CtxDone # inputs) = []"
| "handled noop (Tick cancelled answer e # inputs) =
     (if cancelled then [] else e # handled noop inputs)"
| "handled noop (FsEvent cancelled name removed renamed answer e # inputs) =
     (if noop then handled noop inputs else if cancelled then [] else e # handled noop inputs)"
| "handled noop (WatchError cancelled err # inputs) =
     (if noop then handled noop inputs else if cancelled then [] else handled noop inputs)"

definition handled_from_start :: "error option \<Rightarrow> error option \<Rightarrow> 'e \<Rightarrow> 'e watch_input list \<Rightarrow> 'e list" where
  "handled_from_start newWatcher answer e inputs =
     (let noop = newWatcher \<noteq> None
      in (if noop \<or> answer = None then [e] else []) @ handled noop inputs)"

fun handle_all :: "('e \<Rightarrow> 's \<Rightarrow> 's option) \<Rightarrow> 'e list \<Rightarrow> 's \<Rightarrow> 's option" where
  "handle_all handler [] s = Some s"
| "handle_all handler (e # es) s =
     (case handler e s of None \<Rightarrow> None | Some s' \<Rightarrow> handle_all handler es s')"

lemma keeps_noop [simp]:
  "wt_noop (on_tick a wt) = wt_noop wt" "wt_noop (on_event p n rm rn a wt) = wt_noop wt"
  "wt_noop (on_error err wt) = wt_noop wt" "wt_noop (report err wt) = wt_noop wt"
  "wt_noop (watch_dropped p n rm rn wt) = wt_noop wt" "wt_noop (watch_doubtful wt) = wt_noop wt"
  "wt_returned (on_tick a wt) = wt_returned wt" "wt_returned (on_event p n rm rn a wt) = wt_returned wt"
  "wt_returned (on_error err wt) = wt_returned wt" "wt_returned (report err wt) = wt_returned wt"
  "wt_returned (watch_dropped p n rm rn wt) = wt_returned wt" "wt_returned (watch_doubtful wt) = wt_returned wt"
  by (simp_all add: watch_defs split: option.split)

lemma watch_loop_returned: "wt_returned wt \<Longrightarrow> watch_loop handler path inputs wt s = Some (wt, s)"
  by (cases inputs) simp_all

lemma watch_loop_handles:
  "\<not> wt_returned wt \<Longrightarrow>
     map_option snd (watch_loop handler path inputs wt s) = handle_all handler (handled (wt_noop wt) inputs) s"
proof (induction "wt_noop wt" inputs arbitrary: wt s rule: handled.induct)
  case (3 cancelled answer e inputs)
  then show ?case
    by (cases "handler e s") (simp_all add: watch_step_def handle_then_def watch_loop_returned)
next
  case (4 cancelled name removed renamed answer e inputs)
  then show ?case
    by (cases "handler e s") (simp_all add: watch_step_def handle_then_def watch_loop_returned)
qed (simp_all add: watch_step_def watch_loop_returned)

lemma WatchUntil_handles:
  "0 < poll \<Longrightarrow>
     map_option snd (WatchUntil poll path (Some handler) newWatcher answer e inputs s)
       = handle_all handler (handled_from_start newWatcher answer e inputs) s"
  by (cases newWatcher; cases answer; cases "handler e s")
    (simp_all add: WatchUntil_def Let_def handled_from_start_def watch_start_def watcher_Add_def
      watch_loop_handles)

section \<open>A handler that keeps a relation to what it has seen\<close>

text \<open>The contract of an event handler: it never panics where its relation holds, and the relation
  follows the list of what it has been called for.\<close>

locale event_handler =
  fixes handler :: "'e \<Rightarrow> 's \<Rightarrow> 's option" and seen :: "'e list \<Rightarrow> 's \<Rightarrow> bool"
  assumes total: "seen es s \<Longrightarrow> handler e s \<noteq> None"
    and follows: "seen es s \<Longrightarrow> handler e s = Some s' \<Longrightarrow> seen (es @ [e]) s'"
begin

lemma handle_all_follows:
  "seen es s \<Longrightarrow> \<exists>s'. handle_all handler es' s = Some s' \<and> seen (es @ es') s'"
proof (induction es' arbitrary: es s)
  case (Cons e es')
  obtain s1 where s1: "handler e s = Some s1" using total [OF Cons.prems] by blast
  from Cons.IH [OF follows [OF Cons.prems s1]] s1 show ?case by simp
qed simp

lemma WatchUntil_follows:
  assumes "0 < poll" and "seen es s"
  shows "\<exists>wt s'. WatchUntil poll path (Some handler) newWatcher answer e inputs s = Some (wt, s') \<and>
    seen (es @ handled_from_start newWatcher answer e inputs) s'"
proof -
  obtain s' where "handle_all handler (handled_from_start newWatcher answer e inputs) s = Some s'"
    and seen: "seen (es @ handled_from_start newWatcher answer e inputs) s'"
    using handle_all_follows [OF assms(2)] by blast
  then have "map_option snd (WatchUntil poll path (Some handler) newWatcher answer e inputs s) = Some s'"
    using WatchUntil_handles [OF assms(1)] by metis
  then show ?thesis using seen by auto
qed

end

section \<open>The configurator under the watcher\<close>

definition config_handler ::
  "'k world \<Rightarrow> filesystem \<Rightarrow> configurator \<times> history \<Rightarrow> (configurator \<times> history) option" where
  "config_handler w fs s =
     (case handleConfigChange w fs (fst s) (snd s) of None \<Rightarrow> None | Some (_, c', h') \<Rightarrow> Some (c', h'))"

text \<open>\<open>time.Minute\<close>, in nanoseconds.\<close>

definition time_Minute :: int where
  "time_Minute = 60 * 10 ^ 9"

lemma time_Minute_positive [simp]: "0 < time_Minute"
  by (simp add: time_Minute_def)

text \<open>\<open>Configurator.Run\<close> with the watcher in its place: the first load, whose error is final, and the
  goroutine that \<open>WatchUntil\<close> runs in, polling every minute.\<close>

definition Configurator_RunUntil ::
  "'k world \<Rightarrow> filesystem \<Rightarrow> error option \<Rightarrow> error option \<Rightarrow> filesystem \<Rightarrow> filesystem watch_input list \<Rightarrow>
     configurator \<Rightarrow> history \<Rightarrow> (error option \<times> configurator \<times> history) option" where
  "Configurator_RunUntil w fs newWatcher answer fs1 inputs c h =
     (case handleConfigChange w fs c h of
        None \<Rightarrow> None
      | Some (Some err, c1, h1) \<Rightarrow> Some (Some (Errorf ''loading configuration: %w'' [OpE err]), c1, h1)
      | Some (None, c1, h1) \<Rightarrow>
          map_option (\<lambda>(_, c2, h2). (None, c2, h2))
            (WatchUntil time_Minute (cf_configFile c) (Some (config_handler w)) newWatcher answer fs1 inputs (c1, h1)))"

lemma handle_all_is_run_reloads:
  "handle_all (config_handler w) fss (c, h) = run_reloads w fss c h"
  by (induction fss arbitrary: c h) (auto simp: config_handler_def split: option.split)

lemma run_until_is_run:
  "Configurator_RunUntil w fs newWatcher answer fs1 inputs c h
     = Configurator_Run w fs (handled_from_start newWatcher answer fs1 inputs) c h"
proof -
  have "map_option (\<lambda>(_, c2, h2). (None, c2, h2))
      (WatchUntil time_Minute (cf_configFile c) (Some (config_handler w)) newWatcher answer fs1 inputs (c1, h1))
    = map_option (\<lambda>s. (None :: error option, s))
        (run_reloads w (handled_from_start newWatcher answer fs1 inputs) c1 h1)" for c1 h1
    unfolding handle_all_is_run_reloads [symmetric]
    by (subst WatchUntil_handles [of time_Minute "cf_configFile c", symmetric])
      (auto simp: option.map_comp intro!: option.map_cong0)
  then show ?thesis
    by (auto simp: Configurator_RunUntil_def Configurator_Run_def split: option.split)
qed

text \<open>The configurator's handler follows the register of \<open>Configurator_Spec\<close>, as long as the contents do not collide.\<close>

definition config_seen :: "'k world \<Rightarrow> string \<Rightarrow> history \<Rightarrow> filesystem list \<Rightarrow> configurator \<times> history \<Rightarrow> bool" where
  "config_seen w path h0 fss s \<longleftrightarrow>
     ((\<forall>bytes. w_sha256 w bytes \<noteq> []) \<and> inj_on (w_sha256 w) (file_contents path fss) \<longrightarrow>
        implements w path (fst s) (fst (register_run w path fss (None, h0))) \<and>
        snd s = snd (register_run w path fss (None, h0)))"

lemma config_seen_start: "config_seen w path h0 [] (NewConfigurator path, h0)"
  by (simp add: config_seen_def implements_def NewConfigurator_def)

interpretation config_watch: event_handler "config_handler w" "config_seen w path h0" for w path h0
proof
  fix es :: "filesystem list" and s s' :: "configurator \<times> history" and fs :: filesystem
  obtain e c' h' where r: "handleConfigChange w fs (fst s) (snd s) = Some (e, c', h')"
    using handleConfigChange_no_panic [of w fs "fst s" "snd s"] by fastforce
  then show "config_handler w fs s \<noteq> None" by (simp add: config_handler_def)
  assume seen: "config_seen w path h0 es s" and "config_handler w fs s = Some s'"
  with r have s': "s' = (c', h')" by (simp add: config_handler_def)
  show "config_seen w path h0 (es @ [fs]) s'"
    unfolding config_seen_def
  proof (intro impI, elim conjE)
    assume sha: "\<forall>bytes. w_sha256 w bytes \<noteq> []" and inj: "inj_on (w_sha256 w) (file_contents path (es @ [fs]))"
    from inj have "inj_on (w_sha256 w) (file_contents path es)"
      by (rule inj_on_subset) (auto simp: file_contents_def)
    with seen sha have old: "implements w path (fst s) (fst (register_run w path es (None, h0)))"
      "snd s = snd (register_run w path es (None, h0))"
      by (simp_all add: config_seen_def)
    from handle_implements [OF old(1) _ r register_run_is_content inj] sha old(2)
    show "implements w path (fst s') (fst (register_run w path (es @ [fs]) (None, h0))) \<and>
        snd s' = snd (register_run w path (es @ [fs]) (None, h0))"
      by (simp add: s')
  qed
qed

section \<open>Properties\<close>





text \<open>
  C4: \<open>Run\<close> together with its file watcher.  Started on a file that loads, it survives whatever the watcher
  reports, and at any time the authenticators in use are those of the register that takes in what the first load, the ticks and the events
  have found, in this order: of the last content that was accepted and could be built.  A change of the file that can be loaded is in use
  as soon as one tick or event has come after it; what cannot be loaded then, because a token endpoint does not answer, is
  tried again at every tick, and the content before it stays in use.
\<close>

theorem watched_file_is_in_use:
  assumes "\<And>bytes. w_sha256 w bytes \<noteq> []"
    and "handleConfigChange w fs (NewConfigurator path) h = Some (None, c1, h1)"
    and "inj_on (w_sha256 w) (file_contents path (fs # handled_from_start newWatcher answer fs1 inputs))"
  shows "\<exists>c' h' r. Configurator_RunUntil w fs newWatcher answer fs1 inputs (NewConfigurator path) h = Some (None, c', h') \<and>
    register_run w path (fs # handled_from_start newWatcher answer fs1 inputs) (None, h) = (r, h') \<and> implements w path c' r"
proof -
  have "config_handler w fs (NewConfigurator path, h) = Some (c1, h1)" using assms(2) by (simp add: config_handler_def)
  from config_watch.follows [OF config_seen_start this] have "config_seen w path h [fs] (c1, h1)" by simp
  then obtain wt c' h' where "WatchUntil time_Minute path (Some (config_handler w)) newWatcher answer fs1 inputs (c1, h1)
        = Some (wt, c', h')"
    and "config_seen w path h ([fs] @ handled_from_start newWatcher answer fs1 inputs) (c', h')"
    using config_watch.WatchUntil_follows [of time_Minute w path h "[fs]" "(c1, h1)" path newWatcher answer fs1 inputs] by auto
  with assms show ?thesis
    by (cases "register_run w path (fs # handled_from_start newWatcher answer fs1 inputs) (None, h)")
      (simp add: Configurator_RunUntil_def NewConfigurator_def config_seen_def)
qed

section \<open>Witnesses\<close>


text \<open>The sample file is loaded; the watcher cannot be set up, and a tick finds the file broken.\<close>

theorem watched_file_is_in_use_witness:
  "\<exists>c' h'. Configurator_RunUntil sample_world sample_fs None (Some (Errorf ''no such file'' [])) sample_fs
      [Tick False None broken_fs, CtxDone] (NewConfigurator ''padlok.yaml'') [] = Some (None, c', h') \<and>
    implements sample_world ''padlok.yaml'' c' (Some (''jwt: ...'', plain_configuration))"
proof -
  have handled: "handled_from_start None (Some (Errorf ''no such file'' [])) sample_fs [Tick False None broken_fs, CtxDone]
      = [broken_fs]" by (simp add: handled_from_start_def)
  show ?thesis
    using watched_file_is_in_use [of sample_world sample_fs "''padlok.yaml''" "[]" loaded_configurator "[]" None
        "Some (Errorf ''no such file'' [])" sample_fs "[Tick False None broken_fs, CtxDone]", OF _ sample_loads sample_inj]
    by (simp add: handled sample_register_run) blast
qed

end
