(* ===== verification/Program.thy ===== *)
theory Program
  imports Webhook_Server File_Watcher
begin

text \<open>
  The program as a whole: \<open>padlok run\<close> (\<open>pkg/cmd/run.go\<close>) wires the flags, the JWT authenticator
  (\<open>jwt.go\<close>) with its configurator and file watcher, and the server.  Command line parsing is pflag's: the
  parsed values are an argument.  The configurator and the server are two goroutines, and how the process ends is a relation, since each
  of them may end it; the properties about them hold in every state that \<open>config_trace\<close> reaches, whatever requests have been
  served in between.
\<close>

section \<open>Flags\<close>

record parsed_flags =
  pf_String :: "string \<rightharpoonup> string"
  pf_StringArray :: "string \<rightharpoonup> string list"

definition StringVar :: "parsed_flags \<Rightarrow> string \<Rightarrow> string \<Rightarrow> string" where
  "StringVar fs name def = (case pf_String fs name of Some v \<Rightarrow> v | None \<Rightarrow> def)"

definition StringArrayVar :: "parsed_flags \<Rightarrow> string \<Rightarrow> string list \<Rightarrow> string list" where
  "StringArrayVar fs name def = (case pf_StringArray fs name of Some v \<Rightarrow> v | None \<Rightarrow> def)"

definition Instance_AddFlags :: "parsed_flags \<Rightarrow> instance_flags" where
  "Instance_AddFlags fs = \<lparr>
     securePort = StringVar fs ''secure-port'' (securePort default_flags),
     tlsPrivateKeyFile = StringVar fs ''tls-private-key-file'' (tlsPrivateKeyFile default_flags),
     tlsCertFile = StringVar fs ''tls-cert-file'' (tlsCertFile default_flags),
     tlsCipherSuites = StringArrayVar fs ''tls-cipher-suites'' (tlsCipherSuites default_flags),
     tlsMinVersion = StringVar fs ''tls-min-version'' (tlsMinVersion default_flags)\<rparr>"

definition Configurator_AddFlags :: "parsed_flags \<Rightarrow> configurator" where
  "Configurator_AddFlags fs = NewConfigurator (StringVar fs ''config'' [])"

text \<open>\<open>JWT\<close> only passes on to its configurator.\<close>

definition JWT_AddFlags :: "parsed_flags \<Rightarrow> configurator" where
  "JWT_AddFlags fs = Configurator_AddFlags fs"

definition JWT_Run ::
  "'k world \<Rightarrow> filesystem \<Rightarrow> error option \<Rightarrow> error option \<Rightarrow> filesystem \<Rightarrow> filesystem watch_input list \<Rightarrow>
     configurator \<Rightarrow> history \<Rightarrow> (error option \<times> configurator \<times> history) option" where
  "JWT_Run = Configurator_RunUntil"

section \<open>The run command\<close>

text \<open>
  How the command may end: the function of the command returns what the server returns, or the goroutine of the configurator ends the
  process over its first load, or the TLS flags make the server panic.  The two goroutines race, so that each of these may
  happen whatever the other does.
\<close>

datatype run_end =
    Returned "error option"
  | FatalExit error
  | Panicked

inductive NewRunCommand ::
  "'k world \<Rightarrow> tls_tables \<Rightarrow> parsed_flags \<Rightarrow> filesystem \<Rightarrow> error option \<Rightarrow> error option \<Rightarrow> filesystem \<Rightarrow>
     filesystem watch_input list \<Rightarrow> go_context \<Rightarrow> history \<Rightarrow> run_end \<Rightarrow> bool"
  for w tables flags fs newWatcher answer fs1 inputs ctx h where
  fatal: "JWT_Run w fs newWatcher answer fs1 inputs (JWT_AddFlags flags) h = Some (Some err, c, h') \<Longrightarrow>
     NewRunCommand w tables flags fs newWatcher answer fs1 inputs ctx h (FatalExit (Errorf ''jwt.Run error: %v'' [OpE err]))"
| panic: "server_of_flags tables (Instance_AddFlags flags) = None \<Longrightarrow>
     NewRunCommand w tables flags fs newWatcher answer fs1 inputs ctx h Panicked"
| served: "server_of_flags tables (Instance_AddFlags flags) = Some srv \<Longrightarrow> serve_may_end ctx ends \<Longrightarrow>
     NewRunCommand w tables flags fs newWatcher answer fs1 inputs ctx h (Returned (serve_result ends))"

inductive_simps run_ends: "NewRunCommand w tables flags fs newWatcher answer fs1 inputs ctx h r"

lemma configurator_survives:
  "\<exists>e c' h'. Configurator_RunUntil w fs newWatcher answer fs1 inputs (NewConfigurator path) h = Some (e, c', h')"
proof -
  obtain e c1 h1 where r: "handleConfigChange w fs (NewConfigurator path) h = Some (e, c1, h1)"
    using handleConfigChange_no_panic by fastforce
  have c1: "config_reachable w path c1 h1" by (rule config_reachable.reload [OF config_reachable.start r])
  show ?thesis
    using r run_reloads_reachable [OF c1, of "handled_from_start newWatcher answer fs1 inputs"] unfolding run_until_is_run
    by (cases e) (auto simp: Configurator_Run_def)
qed

lemma run_fatal_iff:
  "(\<exists>err c h'. JWT_Run w fs newWatcher answer fs1 inputs (JWT_AddFlags flags) h = Some (Some err, c, h')) \<longleftrightarrow>
     (\<exists>err c h'. handleConfigChange w fs (JWT_AddFlags flags) h = Some (Some err, c, h'))"
proof -
  obtain e c h' where "Configurator_RunUntil w fs newWatcher answer fs1 inputs (JWT_AddFlags flags) h = Some (e, c, h')"
    using configurator_survives unfolding JWT_AddFlags_def Configurator_AddFlags_def by blast
  then show ?thesis by (auto simp: JWT_Run_def Configurator_RunUntil_def split: option.splits)
qed

section \<open>The process\<close>

text \<open>
  What cobra makes of the command line is an argument: the run command with its flags, or anything else (help, an unknown command)
  with the error that it gives.  \<open>NewRootCommand\<close> gives the commands the context that \<open>Execute\<close> runs with.
\<close>

datatype invocation =
    InvokeRun parsed_flags
  | InvokeOther "error option"

definition NewRootCommand ::
  "'k world \<Rightarrow> tls_tables \<Rightarrow> invocation \<Rightarrow> filesystem \<Rightarrow> error option \<Rightarrow> error option \<Rightarrow> filesystem \<Rightarrow>
     filesystem watch_input list \<Rightarrow> go_context \<Rightarrow> history \<Rightarrow> run_end \<Rightarrow> bool" where
  "NewRootCommand w tables invoked fs newWatcher answer fs1 inputs ctx h r \<longleftrightarrow>
     (case invoked of
        InvokeRun flags \<Rightarrow> NewRunCommand w tables flags fs newWatcher answer fs1 inputs ctx h r
      | InvokeOther err \<Rightarrow> r = Returned err)"

text \<open>
  \<open>main\<close> calls \<open>Execute\<close>, for which cobra takes the background context when it was given none.  The exit status is 1 after an error and 2
  after a panic; as no signal is handled, a signal may kill the process at any time.
\<close>

datatype process_end = Exited nat | Killed

fun exit_status :: "run_end \<Rightarrow> nat" where
  "exit_status (Returned None) = 0"
| "exit_status (Returned (Some err)) = 1"
| "exit_status (FatalExit err) = 1"
| "exit_status Panicked = 2"

definition padlok_main ::
  "'k world \<Rightarrow> tls_tables \<Rightarrow> invocation \<Rightarrow> filesystem \<Rightarrow> error option \<Rightarrow> error option \<Rightarrow> filesystem \<Rightarrow>
     filesystem watch_input list \<Rightarrow> history \<Rightarrow> process_end \<Rightarrow> bool" where
  "padlok_main w tables invoked fs newWatcher answer fs1 inputs h ending \<longleftrightarrow>
     (case ending of
        Killed \<Rightarrow> True
      | Exited n \<Rightarrow> \<exists>r. NewRootCommand w tables invoked fs newWatcher answer fs1 inputs BackgroundContext h r \<and> n = exit_status r)"

text \<open>
  All the ways in which \<open>padlok run\<close> may end.  Status 0 is not among them: with the background context the graceful shutdown is not reached.
\<close>

lemma run_process_ends:
  "padlok_main w tables (InvokeRun flags) fs newWatcher answer fs1 inputs h ending \<longleftrightarrow>
     ending = Killed \<or>
     ending = Exited 1 \<and> (server_of_flags tables (Instance_AddFlags flags) \<noteq> None \<or>
       (\<exists>err c h'. handleConfigChange w fs (JWT_AddFlags flags) h = Some (Some err, c, h'))) \<or>
     ending = Exited 2 \<and> server_of_flags tables (Instance_AddFlags flags) = None"
proof (cases ending)
  case (Exited n)
  have "\<exists>ends. serve_may_end BackgroundContext ends \<and> serve_result ends = Some (Errorf ''server error: %w'' [error_operand None])"
    by (rule exI [of _ "ListenerReturned None"]) (simp add: serve_may_end_def)
  moreover have "serve_result ends \<noteq> None" if "serve_may_end BackgroundContext ends" for ends
    using that by (auto simp: graceful_shutdown_iff serve_may_end_def)
  ultimately show ?thesis
    unfolding run_fatal_iff [symmetric, of w fs flags h newWatcher answer fs1 inputs]
    using Exited by (fastforce simp: padlok_main_def NewRootCommand_def run_ends)
qed (simp add: padlok_main_def)

lemma run_needs_a_file:
  assumes "StringVar flags ''config'' [] = []"
  shows "\<exists>err. NewRunCommand w tables flags fs newWatcher answer fs1 inputs ctx h (FatalExit err)"
proof -
  have "\<exists>err c h'. handleConfigChange w fs (JWT_AddFlags flags) h = Some (Some err, c, h')"
    using assms
    by (simp add: JWT_AddFlags_def Configurator_AddFlags_def handleConfigChange_def Configurator_Validate_def NewConfigurator_def)
  then show ?thesis
    unfolding run_fatal_iff [symmetric, of w fs flags h newWatcher answer fs1 inputs] by (blast intro: NewRunCommand.fatal)
qed

section \<open>Who is authenticated\<close>


section \<open>Witnesses\<close>


end
