(* ===== verification/Concurrent_Requests.thy ===== *)
theory Concurrent_Requests
  imports Webhook_Server Configurator_Spec
begin

text \<open>
  Requests and reloads at the same time.  Every request runs in a goroutine of its own: \<open>AuthenticateToken\<close> of
  \<open>jwt.go\<close> first takes the authenticator from the configurator, under its mutex, and then uses it without the
  mutex, so that any number of reloads, initialisations and other requests may happen in between.  What it has
  taken is a pointer, so that it sees later changes of the authenticators themselves, but keeps using them
  after they have been replaced and their context has been cancelled.

  The state therefore keeps the authenticators that have been replaced, under the number of their context, and the
  requests under way, each with the number of the authenticators it has taken.
\<close>

section \<open>The state\<close>

text \<open>\<open>pn_since\<close> is not in the code: it is the number of reloads that had happened when the request took its
  authenticator.\<close>

record pending_request =
  pn_request :: incoming_request
  pn_authenticator :: "nat option"
  pn_since :: nat

record serving =
  sv_configurator :: configurator
  sv_history :: history
  sv_retired :: "nat \<rightharpoonup> built list"
  sv_pending :: "nat \<rightharpoonup> pending_request"


text \<open>What a pointer to authenticators refers to.\<close>

definition authenticators_of :: "serving \<Rightarrow> nat \<Rightarrow> built list option" where
  "authenticators_of s g =
     (case cf_authenticatorWithCancel (sv_configurator s) of
        Some a \<Rightarrow> if awc_cancel a = g then Some (awc_authenticator a) else sv_retired s g
      | None \<Rightarrow> sv_retired s g)"

definition captured :: "serving \<Rightarrow> pending_request \<Rightarrow> built list option" where
  "captured s p = Option.bind (pn_authenticator p) (authenticators_of s)"

section \<open>The two halves of a request\<close>

definition begin_request :: "nat \<Rightarrow> incoming_request \<Rightarrow> nat \<Rightarrow> serving \<Rightarrow> serving" where
  "begin_request rid req since s =
     s\<lparr>sv_pending := (sv_pending s)(rid \<mapsto> \<lparr>pn_request = req,
       pn_authenticator = map_option awc_cancel (cf_authenticatorWithCancel (sv_configurator s)), pn_since = since\<rparr>)\<rparr>"

text \<open>\<open>AuthenticateToken\<close> once it has taken what the configurator had.\<close>

definition captured_auth :: "environment \<Rightarrow> built list option \<Rightarrow> token_auth" where
  "captured_auth env taken ctx token h =
     (case taken of
        Some bs \<Rightarrow> union_New (map (built_auth env) bs) ctx token h
      | None \<Rightarrow> (fail (Errorf ''jwt token authenticator is not initialized'' []), h))"

definition finish_request ::
  "review_codec \<Rightarrow> environment \<Rightarrow> nat \<Rightarrow> serving \<Rightarrow> (reply option \<times> serving) option" where
  "finish_request codec env rid s =
     (case sv_pending s rid of
        None \<Rightarrow> None
      | Some p \<Rightarrow>
          (case serve_mux codec (captured_auth env (captured s p)) (pn_request p) (sv_history s) of
             (reply, h') \<Rightarrow> Some (reply, s\<lparr>sv_history := h', sv_pending := (sv_pending s)(rid := None)\<rparr>)))"



text \<open>The polling of an authenticator writes through its pointer, in use or not.\<close>

definition initialise_serving :: "nat \<Rightarrow> nat \<Rightarrow> built \<Rightarrow> serving \<Rightarrow> serving" where
  "initialise_serving g i b s =
     (case cf_authenticatorWithCancel (sv_configurator s) of
        Some a \<Rightarrow>
          if awc_cancel a = g then s\<lparr>sv_configurator := (sv_configurator s)\<lparr>cf_authenticatorWithCancel :=
            Some (a\<lparr>awc_authenticator := (awc_authenticator a)[i := b]\<rparr>)\<rparr>\<rparr>
          else s\<lparr>sv_retired := (sv_retired s)(g := map_option (\<lambda>bs. bs[i := b]) (sv_retired s g))\<rparr>
      | None \<Rightarrow> s\<lparr>sv_retired := (sv_retired s)(g := map_option (\<lambda>bs. bs[i := b]) (sv_retired s g))\<rparr>)"


section \<open>A request without interleaving\<close>

lemma captured_auth_is_JWT:
  "captured_auth env (map_option awc_authenticator (cf_authenticatorWithCancel c)) = JWT_AuthenticateToken env c"
  by (simp add: captured_auth_def JWT_AuthenticateToken_def TokenAuthenticator_def fun_eq_iff split: option.split)

lemma captured_current:
  "captured s p = map_option awc_authenticator (cf_authenticatorWithCancel (sv_configurator s))"
  if "pn_authenticator p = map_option awc_cancel (cf_authenticatorWithCancel (sv_configurator s))"
  using that by (cases "cf_authenticatorWithCancel (sv_configurator s)") (simp_all add: captured_def authenticators_of_def)

text \<open>A request that ends before anything else happens is answered as by the sequential program.\<close>

lemma finish_at_once:
  "finish_request codec env rid (begin_request rid req since s) =
     (case serve_mux codec (JWT_AuthenticateToken env (sv_configurator s)) req (sv_history s) of
        (reply, h') \<Rightarrow> Some (reply, s\<lparr>sv_history := h', sv_pending := (sv_pending s)(rid := None)\<rparr>))"
proof -
  let ?s = "begin_request rid req since s"
  let ?p = "\<lparr>pn_request = req, pn_authenticator = map_option awc_cancel (cf_authenticatorWithCancel (sv_configurator s)), pn_since = since\<rparr>"
  have c: "sv_configurator ?s = sv_configurator s" "sv_pending ?s rid = Some ?p"
    by (simp_all add: begin_request_def)
  then have "captured_auth env (captured ?s ?p) = JWT_AuthenticateToken env (sv_configurator s)"
    using captured_current [of ?p ?s] captured_auth_is_JWT by simp
  with c show ?thesis by (simp add: finish_request_def begin_request_def split: prod.split)
qed

section \<open>The invariant\<close>




lemma cancel_current_fields [simp]:
  "length (cf_contexts (cancel_current c)) = length (cf_contexts c)"
  "cf_authenticatorWithCancel (cancel_current c) = cf_authenticatorWithCancel c"
  by (simp_all add: cancel_current_def cancel_context_def split: option.split)



lemma initialise_fields [simp]:
  "sv_pending (initialise_serving g i b s) = sv_pending s"
  "cf_contexts (sv_configurator (initialise_serving g i b s)) = cf_contexts (sv_configurator s)"
  by (simp_all add: initialise_serving_def split: option.split)










section \<open>Requests are judged by the content in use when they start\<close>



section \<open>A sample interleaving\<close>




end
