(* ===== verification/Expression_Types.thy ===== *)
theory Expression_Types
  imports Oidc_Authenticator Padlok_Validation
begin

text \<open>
  Type safety of the expressions.  Validation compiles every rule and condition against its return type; the
  code that evaluates them still checks that the value is a boolean and that its accessor is of the right kind.
  Given that the expression engine respects the types it has checked, these checks never fail for an accepted
  configuration.
\<close>

section \<open>The engine's type soundness\<close>

text \<open>What the CEL checker promises: a compiled expression of type bool evaluates to a bool or to an error.\<close>

definition bool_sound :: "cel_engine \<Rightarrow> bool" where
  "bool_sound eng \<longleftrightarrow>
     (\<forall>var e ast prog names v. eng_Compile eng var e = Inr ast \<longrightarrow> eng_Program eng var ast = Inr prog \<longrightarrow> ast_OutputType ast = BoolType \<longrightarrow>
        prog names = Inr v \<longrightarrow> is_BoolType v)"

lemma bool_soundD:
  "\<lbrakk>bool_sound eng; compile eng a var = Inr r; ReturnTypes a = [BoolType]; cr_Program r names = Inr v\<rbrakk>
    \<Longrightarrow> is_BoolType v"
proof -
  assume sound: "bool_sound eng" and c: "compile eng a var = Inr r" "ReturnTypes a = [BoolType]"
    and v: "cr_Program r names = Inr v"
  have "ast_OutputType (cr_AST r) = BoolType" using c by (rule compile_bool)
  moreover have "eng_Compile eng var (GetExpression a) = Inr (cr_AST r)"
    "eng_Program eng var (cr_AST r) = Inr (cr_Program r)"
    using c(1) by (simp_all add: compile_Inr_iff)
  ultimately show "is_BoolType v" using sound v unfolding bool_sound_def by blast
qed

section \<open>Rules\<close>

text \<open>The two ways in which a rule may be reported: its evaluation fails, or it is false.\<close>

definition rule_error :: "string \<Rightarrow> string \<Rightarrow> error \<Rightarrow> bool" where
  "rule_error expression message e \<longleftrightarrow>
     (\<exists>err. e = Errorf ''expression '%s' resulted in error: %w'' [OpS expression, OpE err]) \<or>
     e = Errorf ''validation expression '%s' failed: %s'' [OpS expression, OpS message]"

lemma mapper_eval_Inl:
  "mapper_eval m input = Inl e \<Longrightarrow>
     \<exists>r \<in> set m. \<exists>err. e = Errorf ''expression '%s' resulted in error: %w''
       [OpS (GetExpression (cr_ExpressionAccessor r)), OpE err]"
  unfolding mapper_eval_def
  by (induction m) (auto simp: eval_one_def split: sum.splits)

lemma mapper_eval_member:
  "mapper_eval m input = Inr es \<Longrightarrow> x \<in> set es \<Longrightarrow>
     \<exists>r \<in> set m. er_ExpressionAccessor x = cr_ExpressionAccessor r \<and>
       cr_Program r (ResolveName input) = Inr (er_EvalResult x)"
  unfolding mapper_eval_def
  by (induction m arbitrary: es) (auto simp: eval_one_Inr_iff split: sum.splits)

lemma check_rules_Some:
  "checkValidationRulesEvaluation es messageFn = Some e \<Longrightarrow> \<forall>x \<in> set es. is_BoolType (er_EvalResult x) \<Longrightarrow>
     \<exists>x \<in> set es. (case messageFn (er_ExpressionAccessor x) of
        Inl err \<Rightarrow> e = err
      | Inr message \<Rightarrow> e = Errorf ''validation expression '%s' failed: %s''
          [OpS (GetExpression (er_ExpressionAccessor x)), OpS message])"
  by (induction es) (auto split: if_splits sum.splits)

text \<open>The common argument: a list of rules compiled with accessors that carry their message.\<close>

lemma compiled_rules_errors:
  assumes sound: "bool_sound eng"
    and compiled: "\<And>r. r \<in> set m \<Longrightarrow> \<exists>x \<in> set rules. compile eng (acc x) var = Inr r"
    and acc: "\<And>x. ReturnTypes (acc x) = [BoolType]" "\<And>x. messageFn (acc x) = Inr (message x)"
    and failed: "(case mapper_eval m input of Inl err \<Rightarrow> Some err
      | Inr es \<Rightarrow> checkValidationRulesEvaluation es messageFn) = Some e"
  shows "\<exists>x \<in> set rules. rule_error (GetExpression (acc x)) (message x) e"
proof (cases "mapper_eval m input")
  case (Inl err)
  then obtain r err' where "r \<in> set m" and e: "e = Errorf ''expression '%s' resulted in error: %w''
      [OpS (GetExpression (cr_ExpressionAccessor r)), OpE err']"
    using failed mapper_eval_Inl [OF Inl] by auto
  then obtain x where "x \<in> set rules" "cr_ExpressionAccessor r = acc x"
    using compiled compile_accessor by blast
  with e show ?thesis unfolding rule_error_def by auto
next
  case (Inr es)
  have member: "\<exists>y \<in> set rules. er_ExpressionAccessor x = acc y \<and> is_BoolType (er_EvalResult x)"
    if x: "x \<in> set es" for x
  proof -
    obtain r where r: "r \<in> set m" "er_ExpressionAccessor x = cr_ExpressionAccessor r"
      "cr_Program r (ResolveName input) = Inr (er_EvalResult x)"
      using mapper_eval_member [OF Inr x] by blast
    obtain y where y: "y \<in> set rules" "compile eng (acc y) var = Inr r" using compiled [OF r(1)] by blast
    show ?thesis
      using y r bool_soundD [OF sound y(2) acc(1) r(3)] compile_accessor [OF y(2)] by auto
  qed
  then obtain x where x: "x \<in> set es" "case messageFn (er_ExpressionAccessor x) of Inl err \<Rightarrow> e = err
      | Inr message \<Rightarrow> e = Errorf ''validation expression '%s' failed: %s''
          [OpS (GetExpression (er_ExpressionAccessor x)), OpS message]"
    using check_rules_Some [of es messageFn e] failed Inr by auto
  then obtain y where "y \<in> set rules" "er_ExpressionAccessor x = acc y" using member by blast
  with x(2) acc(2) show ?thesis unfolding rule_error_def by auto
qed

lemma programs_member:
  assumes "programs (Some m) = programs_or_none rs" and "r \<in> set m"
  shows "Inr r \<in> set rs"
proof -
  have "map Inr m = rs" using assms(1) by (auto simp: programs_or_none_def split: if_splits)
  with assms(2) show ?thesis by auto
qed

lemma claim_rules_boolean:
  assumes "CompileAndValidateJWTAuthenticator ve a dis = (ja_celMapper s, [])" and "ve_structured_authn ve"
    and "bool_sound (ve_engine ve)" and "checkClaimValidationRules s v = Some e"
  shows "\<exists>rule \<in> set (as_jwt_ClaimValidationRules a). \<exists>e'.
    rule_error (as_cvr_Expression rule) (as_cvr_Message rule) e' \<and>
    e = Errorf ''oidc: error evaluating claim validation expression: %w'' [OpE e']"
proof -
  obtain m e' where m: "cm_map_ClaimValidationRules (ja_celMapper s) = Some m"
    and e': "(case mapper_eval m \<lparr>va_name = claimsVarName, va_value = v\<rparr> of Inl err \<Rightarrow> Some err
        | Inr es \<Rightarrow> checkValidationRulesEvaluation es claim_rule_message) = Some e'"
      "e = Errorf ''oidc: error evaluating claim validation expression: %w'' [OpE e']"
    using assms(4) by (auto simp: checkClaimValidationRules_def EvalClaimMappings_def split: option.splits sum.splits)
  have "\<exists>rule \<in> set (as_jwt_ClaimValidationRules a). rule_error
      (GetExpression (ClaimValidationCondition (as_cvr_Expression rule) (as_cvr_Message rule))) (as_cvr_Message rule) e'"
  proof (rule compiled_rules_errors [OF assms(3) _ _ _ e'(1)])
    show "\<exists>rule \<in> set (as_jwt_ClaimValidationRules a). compile (ve_engine ve)
        (ClaimValidationCondition (as_cvr_Expression rule) (as_cvr_Message rule)) claimsVarName = Inr r"
      if "r \<in> set m" for r
      using programs_member [OF _ that] mapper_is_configuration [OF assms(1,2)]
      by (fastforce simp: m CompileClaimsExpression_def)
  qed (simp_all add: claim_rule_message_def)
  with e'(2) show ?thesis by auto
qed

lemma user_rules_boolean:
  assumes "CompileAndValidateJWTAuthenticator ve a dis = (ja_celMapper s, [])" and "ve_structured_authn ve"
    and "bool_sound (ve_engine ve)" and "checkUserValidationRules s info = Some e"
  shows "\<exists>rule \<in> set (as_jwt_UserValidationRules a). \<exists>e'.
    rule_error (as_uvr_Expression rule) (as_uvr_Message rule) e' \<and>
    e = Errorf ''oidc: error evaluating user info validation rule: %w'' [OpE e']"
proof -
  obtain m e' where m: "cm_map_UserValidationRules (ja_celMapper s) = Some m"
    and e': "(case mapper_eval m \<lparr>va_name = userVarName, va_value = newUserInfoValue info\<rparr> of Inl err \<Rightarrow> Some err
        | Inr es \<Rightarrow> checkValidationRulesEvaluation es user_rule_message) = Some e'"
      "e = Errorf ''oidc: error evaluating user info validation rule: %w'' [OpE e']"
    using assms(4) by (auto simp: checkUserValidationRules_def EvalUser_def split: option.splits sum.splits)
  have "\<exists>rule \<in> set (as_jwt_UserValidationRules a). rule_error
      (GetExpression (UserValidationCondition (as_uvr_Expression rule) (as_uvr_Message rule))) (as_uvr_Message rule) e'"
  proof (rule compiled_rules_errors [OF assms(3) _ _ _ e'(1)])
    show "\<exists>rule \<in> set (as_jwt_UserValidationRules a). compile (ve_engine ve)
        (UserValidationCondition (as_uvr_Expression rule) (as_uvr_Message rule)) userVarName = Inr r"
      if "r \<in> set m" for r
      using programs_member [OF _ that] mapper_is_configuration [OF assms(1,2)]
      by (fastforce simp: m CompileUserExpression_def)
  qed (simp_all add: user_rule_message_def)
  with e'(2) show ?thesis by auto
qed

text \<open>
  C12: for an authenticator that validation accepts, and an engine that respects the types it has checked, a
  validation rule is reported for one of two reasons only: its evaluation failed, or it was false, with the
  expression and the message of the configuration.  The errors for values that are not boolean and for
  accessors of the wrong kind never occur.
\<close>

theorem accepted_rules_are_boolean:
  assumes "CompileAndValidateJWTAuthenticator ve a dis = (ja_celMapper s, [])" and "ve_structured_authn ve"
    and "bool_sound (ve_engine ve)"
  shows "(\<forall>v e. checkClaimValidationRules s v = Some e \<longrightarrow>
      (\<exists>rule \<in> set (as_jwt_ClaimValidationRules a). \<exists>e'.
        rule_error (as_cvr_Expression rule) (as_cvr_Message rule) e' \<and>
        e = Errorf ''oidc: error evaluating claim validation expression: %w'' [OpE e'])) \<and>
    (\<forall>info e. checkUserValidationRules s info = Some e \<longrightarrow>
      (\<exists>rule \<in> set (as_jwt_UserValidationRules a). \<exists>e'.
        rule_error (as_uvr_Expression rule) (as_uvr_Message rule) e' \<and>
        e = Errorf ''oidc: error evaluating user info validation rule: %w'' [OpE e']))"
  using claim_rules_boolean [OF assms] user_rules_boolean [OF assms] by blast

section \<open>Sourcing conditions\<close>

lemma conditions_satisfied_total:
  "\<forall>x \<in> set rs. is_BoolType (er_EvalResult x) \<Longrightarrow> \<exists>b. conditions_satisfied rs = Inr b"
  by (induction rs) (auto simp: is_BoolType_def split: cel_val.splits)

lemma map_res_member: "map_res f xs = Inr ys \<Longrightarrow> y \<in> set ys \<Longrightarrow> \<exists>x \<in> set xs. f x = Inr y"
  by (induction xs arbitrary: ys) (auto split: sum.splits)

text \<open>The conditions of a resolver never yield a value that is not boolean, either: they fail only when an
  evaluation does.\<close>

lemma built_conditions_boolean:
  assumes "resolver_New env eng g source = Inr ecr" and "bool_sound eng"
    and "evaluateConditionsWithClaims c (es_Conditions (ecr_mapper ecr)) = Inl e"
  shows "\<exists>err. EvalClaimMappings (es_Conditions (ecr_mapper ecr)) (newClaimsValue c) = Inl err"
proof (rule ccontr)
  assume "\<nexists>err. EvalClaimMappings (es_Conditions (ecr_mapper ecr)) (newClaimsValue c) = Inl err"
  then obtain es where es: "EvalClaimMappings (es_Conditions (ecr_mapper ecr)) (newClaimsValue c) = Inr es"
    by (cases "EvalClaimMappings (es_Conditions (ecr_mapper ecr)) (newClaimsValue c)") auto
  have built: "map_res (compile_condition eng) (List.map_filter esc_Expression (ecs_Conditions source))
      = Inr (es_Conditions (ecr_mapper ecr))"
    using assms(1) by (auto simp: resolver_New_Inr_iff buildExternalSourceCELMapper_Inr_iff
        buildExternalSourceConditionMapperFromConditions_def)
  have conds: "\<exists>a. ReturnTypes a = [BoolType] \<and> compile eng a claimsVarName = Inr r"
    if r: "r \<in> set (es_Conditions (ecr_mapper ecr))" for r
  proof -
    obtain expression where "compile_condition eng expression = Inr r"
      using map_res_member [OF built r] by blast
    then show ?thesis
      by (intro exI [of _ "ExternalSourceConditionExpression expression"])
        (auto simp: compile_condition_def CompileClaimsExpression_def res_simps)
  qed
  have "is_BoolType (er_EvalResult x)" if "x \<in> set es" for x
    using mapper_eval_member [OF es [unfolded EvalClaimMappings_def] that] conds bool_soundD [OF assms(2)] by blast
  then obtain b where "conditions_satisfied es = Inr b" using conditions_satisfied_total by blast
  with es assms(3) show False by (simp add: evaluateConditionsWithClaims_def)
qed

section \<open>At the sample engine\<close>

lemma sample_engine_sound: "bool_sound sample_engine"
  by (auto simp: bool_sound_def sample_engine_def sample_compile_def sample_program_def is_BoolType_def
      split: if_splits)

text \<open>An authenticator of the mapper that validation compiles for the sample, whose one rule is true.\<close>

definition sample_rule_state :: jwt_authenticator_state where
  "sample_rule_state = sample_jwt\<lparr>ja_celMapper := fst (CompileAndValidateJWTAuthenticator sample_ve sample_as_jwt {})\<rparr>"

theorem accepted_rules_are_boolean_witness:
  "checkClaimValidationRules sample_rule_state (ClaimsValue Map.empty) = None \<or>
    (\<exists>e'. rule_error ''true'' ''m'' e' \<and> checkClaimValidationRules sample_rule_state (ClaimsValue Map.empty)
      = Some (Errorf ''oidc: error evaluating claim validation expression: %w'' [OpE e']))"
proof -
  have "CompileAndValidateJWTAuthenticator sample_ve sample_as_jwt {} = (ja_celMapper sample_rule_state, [])"
    using sample_valid by (simp add: sample_rule_state_def prod_eq_iff)
  moreover have "ve_structured_authn sample_ve" "ve_engine sample_ve = sample_engine" by (simp_all add: sample_ve_def)
  ultimately have "\<forall>v e. checkClaimValidationRules sample_rule_state v = Some e \<longrightarrow>
      (\<exists>rule \<in> set (as_jwt_ClaimValidationRules sample_as_jwt). \<exists>e'.
        rule_error (as_cvr_Expression rule) (as_cvr_Message rule) e' \<and>
        e = Errorf ''oidc: error evaluating claim validation expression: %w'' [OpE e'])"
    using accepted_rules_are_boolean [of sample_ve sample_as_jwt "{}" sample_rule_state] sample_engine_sound by simp
  then have "\<exists>e'. rule_error ''true'' ''m'' e' \<and>
      e = Errorf ''oidc: error evaluating claim validation expression: %w'' [OpE e']"
    if "checkClaimValidationRules sample_rule_state (ClaimsValue Map.empty) = Some e" for e
    using that by (simp add: sample_as_jwt_def)
  then show ?thesis
    by (cases "checkClaimValidationRules sample_rule_state (ClaimsValue Map.empty)") auto
qed

end
