(* ===== verification/Cel_Escaping.thy ===== *)
theory Cel_Escaping
  imports Go_Json
begin

text \<open>
  The escaping of field names in CEL expressions
  (\<open>pkg/internal/third_party/kubernetes/apiserver/pkg/cel/escaping.go\<close>): a field whose name is not a CEL
  identifier is written with \<open>Escape\<close> of its name, and the maps of claims undo this with \<open>Unescape\<close>.
  A byte of a rune outside ASCII is in none of the character classes, so that the loops over runes
  may go byte by byte.  The two regular expressions are simple enough to be written as scanners: they
  are tried at every position from the left, on what the previous match has left.
\<close>

section \<open>Characters\<close>

definition celReservedSymbols :: "string list" where
  "celReservedSymbols =
     [''true'', ''false'', ''null'', ''in'', ''as'', ''break'', ''const'', ''continue'', ''else'',
      ''for'', ''function'', ''if'', ''import'', ''let'', ''loop'', ''package'', ''namespace'', ''return'',
      ''var'', ''void'', ''while'']"

text \<open>\<open>validCharacterFilter\<close>, the class \<open>[a-zA-Z0-9_]\<close>.\<close>

definition validCharacter :: "char \<Rightarrow> bool" where
  "validCharacter c \<longleftrightarrow>
     (97 \<le> byte c \<and> byte c \<le> 122) \<or> (65 \<le> byte c \<and> byte c \<le> 90) \<or> is_digit c \<or> c = CHR ''_''"

definition separator :: "char \<Rightarrow> bool" where
  "separator c \<longleftrightarrow> c = CHR ''-'' \<or> c = CHR ''.'' \<or> c = CHR ''/''"

section \<open>Escape\<close>

text \<open>\<open>skipRegexCheck\<close>: can the regular expression be skipped, and was an invalid character found; the
  first argument is \<open>previous_underscore\<close>.\<close>

fun skipRegexCheck :: "bool \<Rightarrow> string \<Rightarrow> bool \<times> bool" where
  "skipRegexCheck previous [] = (True, False)"
| "skipRegexCheck previous (c # ident) =
     (if separator c then (False, False)
      else if \<not> validCharacter c then (True, True)
      else if c = CHR ''_'' \<and> previous then (False, False)
      else skipRegexCheck (c = CHR ''_'') ident)"

text \<open>\<open>expandMatcher.ReplaceAllStringFunc\<close>: the alternatives \<open>__\<close>, \<open>[-./]\<close> and any other character
  that is not valid, which makes the whole escape fail.\<close>

fun expand :: "string \<Rightarrow> string option" where
  "expand [] = Some []"
| "expand (c # ident) =
     (if c = CHR ''_'' then
        (if ident \<noteq> [] \<and> hd ident = CHR ''_'' then
           map_option ((@) ''__underscores__'') (expand (tl ident))
         else map_option ((#) c) (expand ident))
      else if c = CHR ''.'' then map_option ((@) ''__dot__'') (expand ident)
      else if c = CHR ''-'' then map_option ((@) ''__dash__'') (expand ident)
      else if c = CHR ''/'' then map_option ((@) ''__slash__'') (expand ident)
      else if validCharacter c then map_option ((#) c) (expand ident)
      else None)"

definition Escape :: "string \<Rightarrow> string option" where
  "Escape ident =
     (if ident = [] \<or> is_digit (hd ident) then None
      else if ident \<in> set celReservedSymbols then Some (''__'' @ ident @ ''__'')
      else
     (case skipRegexCheck False ident of
        (canSkipRegex, invalidCharFound) \<Rightarrow>
          if invalidCharFound then None
          else if canSkipRegex then Some ident
          else expand ident))"

section \<open>Unescape\<close>

text \<open>\<open>unexpandMatcher\<close>, the expression \<open>_{2}[^_]+_{2}\<close> at the current position: the contents of the match and
  the text after it.  The run of other characters must be a maximal one, as an underscore follows it.\<close>

definition unexpand_match :: "string \<Rightarrow> (string \<times> string) option" where
  "unexpand_match s =
     (if take 2 s = ''__'' then
        (let contents = takeWhile (\<lambda>c. c \<noteq> CHR ''_'') (drop 2 s);
             rest = dropWhile (\<lambda>c. c \<noteq> CHR ''_'') (drop 2 s)
         in if contents \<noteq> [] \<and> take 2 rest = ''__'' then Some (contents, drop 2 rest) else None)
      else None)"

text \<open>The replacement of a match, given the length of the whole escaped string.\<close>

definition unescape_sequence :: "nat \<Rightarrow> string \<Rightarrow> string option" where
  "unescape_sequence len contents =
     (if contents = ''underscores'' then Some ''__''
      else if contents = ''dot'' then Some ''.''
      else if contents = ''dash'' then Some ''-''
      else if contents = ''slash'' then Some ''/''
      else if contents \<in> set celReservedSymbols then
        (if length contents + 4 \<noteq> len then None else Some contents)
      else None)"

lemma unexpand_match_shorter:
  "unexpand_match s = Some (contents, rest) \<Longrightarrow> length rest < length s"
proof -
  assume "unexpand_match s = Some (contents, rest)"
  then have "contents = takeWhile (\<lambda>c. c \<noteq> CHR ''_'') (drop 2 s)" "contents \<noteq> []"
    "rest = drop 2 (dropWhile (\<lambda>c. c \<noteq> CHR ''_'') (drop 2 s))"
    by (auto simp: unexpand_match_def Let_def split: if_splits)
  moreover have "length (drop 2 s) = length (takeWhile (\<lambda>c. c \<noteq> CHR ''_'') (drop 2 s))
      + length (dropWhile (\<lambda>c. c \<noteq> CHR ''_'') (drop 2 s))"
    by (metis length_append takeWhile_dropWhile_id)
  ultimately show ?thesis by (cases s) auto
qed

function unexpand :: "nat \<Rightarrow> string \<Rightarrow> string option" where
  "unexpand len [] = Some []"
| "unexpand len (c # s) =
     (case unexpand_match (c # s) of
        Some (contents, rest) \<Rightarrow>
          (case unescape_sequence len contents of
             None \<Rightarrow> None
           | Some r \<Rightarrow> map_option ((@) r) (unexpand len rest))
      | None \<Rightarrow> map_option ((#) c) (unexpand len s))"
  by pat_completeness auto
termination
  by (relation "measure (\<lambda>(len, s). length s)") (auto dest: unexpand_match_shorter)

declare unexpand.simps(2) [simp del]

definition Unescape :: "string \<Rightarrow> string option" where
  "Unescape escaped = unexpand (length escaped) escaped"

section \<open>Facts on the scanners\<close>

lemma special_characters [simp]:
  "validCharacter CHR ''_''" "\<not> separator CHR ''_''"
  "\<not> validCharacter CHR ''.''" "\<not> validCharacter CHR ''-''" "\<not> validCharacter CHR ''/''"
  by (simp_all add: validCharacter_def separator_def is_digit_def byte_def)

lemma unexpand_match_first:
  "c \<noteq> CHR ''_'' \<Longrightarrow> unexpand_match (c # s) = None"
  "s = [] \<or> hd s \<noteq> CHR ''_'' \<Longrightarrow> unexpand_match (c # s) = None"
  "unexpand_match (c # CHR ''_'' # CHR ''_'' # s) = None"
  by (cases s; simp add: unexpand_match_def Let_def)+

lemma unexpand_plain:
  "unexpand_match (c # s) = None \<Longrightarrow> unexpand len (c # s) = map_option ((#) c) (unexpand len s)"
  by (simp add: unexpand.simps(2))

lemma unexpand_token:
  assumes "contents \<noteq> []" and "CHR ''_'' \<notin> set contents"
  shows "unexpand len (''__'' @ contents @ ''__'' @ s) =
    (case unescape_sequence len contents of None \<Rightarrow> None
     | Some r \<Rightarrow> map_option ((@) r) (unexpand len s))"
proof -
  have "takeWhile (\<lambda>c. c \<noteq> CHR ''_'') (contents @ ''__'' @ s) = contents"
    "dropWhile (\<lambda>c. c \<noteq> CHR ''_'') (contents @ ''__'' @ s) = ''__'' @ s"
    using assms(2) by (subst takeWhile_append2 dropWhile_append2; auto)+
  then have "unexpand_match (''__'' @ contents @ ''__'' @ s) = Some (contents, s)"
    using assms(1) by (simp add: unexpand_match_def)
  then show ?thesis by (simp add: unexpand.simps(2))
qed

lemma unexpand_sequences:
  "unexpand len (''__underscores__'' @ s) = map_option ((@) ''__'') (unexpand len s)"
  "unexpand len (''__dot__'' @ s) = map_option ((@) ''.'') (unexpand len s)"
  "unexpand len (''__dash__'' @ s) = map_option ((@) ''-'') (unexpand len s)"
  "unexpand len (''__slash__'' @ s) = map_option ((@) ''/'') (unexpand len s)"
  using unexpand_token [of "''underscores''" len s] unexpand_token [of "''dot''" len s]
    unexpand_token [of "''dash''" len s] unexpand_token [of "''slash''" len s]
  by (simp_all add: unescape_sequence_def)

lemmas unexpand_tokens [simp] = unexpand_sequences [simplified]

text \<open>What an expansion can start with, when its argument does not start with an underscore.\<close>

lemma expand_start:
  "expand s = Some e \<Longrightarrow> s = [] \<or> hd s \<noteq> CHR ''_'' \<Longrightarrow>
     e = [] \<or> hd e \<noteq> CHR ''_'' \<or> (\<exists>e'. e = CHR ''_'' # CHR ''_'' # e')"
  by (cases s) (auto split: if_splits)

lemma expand_underscore:
  "expand (CHR ''_'' # s) =
     (if s \<noteq> [] \<and> hd s = CHR ''_'' then map_option ((@) ''__underscores__'') (expand (tl s))
      else map_option ((#) CHR ''_'') (expand s))"
  by simp

declare expand.simps(2) [simp del]

lemma expand_induct [case_names empty pair single char]:
  assumes "P []"
    and "\<And>s. P s \<Longrightarrow> P (CHR ''_'' # CHR ''_'' # s)"
    and "\<And>s. P s \<Longrightarrow> s = [] \<or> hd s \<noteq> CHR ''_'' \<Longrightarrow> P (CHR ''_'' # s)"
    and "\<And>c s. P s \<Longrightarrow> c \<noteq> CHR ''_'' \<Longrightarrow> P (c # s)"
  shows "P s"
proof (induction s rule: length_induct)
  case (1 s)
  show ?case
  proof (cases s)
    case Nil
    with assms(1) show ?thesis by simp
  next
    case (Cons c t)
    with 1 have t: "P t" by simp
    show ?thesis
    proof (cases "c = CHR ''_'' \<and> t \<noteq> [] \<and> hd t = CHR ''_''")
      case True
      then obtain u where u: "t = CHR ''_'' # u" by (cases t) auto
      with 1 Cons have "P u" by simp
      with True u Cons assms(2) show ?thesis by simp
    next
      case False
      with t Cons assms(3,4) show ?thesis by (cases "c = CHR ''_''") auto
    qed
  qed
qed

lemma unexpand_expand:
  "expand s = Some e \<Longrightarrow> unexpand len e = Some s"
proof (induction s arbitrary: e rule: expand_induct)
  case empty
  then show ?case by simp
next
  case (pair s)
  then show ?case by (auto simp: expand_underscore)
next
  case (single s)
  then obtain e' where e: "expand s = Some e'" "e = CHR ''_'' # e'" by (auto simp: expand_underscore)
  have "unexpand_match e = None"
    using expand_start [OF e(1) single.hyps] e(2) by (auto simp: unexpand_match_first)
  with e single.IH show ?case by (simp add: unexpand_plain)
next
  case (char c s)
  then show ?case
    by (auto simp: expand.simps(2) unexpand_match_first unexpand_plain split: if_splits)
qed

lemma skip_after_underscore:
  "skipRegexCheck True s = (True, False) \<Longrightarrow> s = [] \<or> hd s \<noteq> CHR ''_''"
  by (cases s) (auto split: if_splits)

lemma skipped_is_expanded:
  "skipRegexCheck previous s = (True, False) \<Longrightarrow> expand s = Some s"
proof (induction previous s rule: skipRegexCheck.induct)
  case (2 previous c ident)
  show ?case
  proof (cases "c = CHR ''_''")
    case True
    with 2 have "skipRegexCheck True ident = (True, False)" by (auto split: if_splits)
    from skip_after_underscore [OF this] 2 True show ?thesis
      by (auto simp: expand_underscore split: if_splits)
  next
    case False
    with 2 show ?thesis by (auto simp: expand.simps(2) separator_def split: if_splits)
  qed
qed simp

lemma skip_invalid:
  "skipRegexCheck previous s = (True, True) \<or> skipRegexCheck previous s = (True, False) \<or>
     skipRegexCheck previous s = (False, False)"
  by (induction previous s rule: skipRegexCheck.induct) auto

definition escapable :: "string \<Rightarrow> bool" where
  "escapable s \<longleftrightarrow> s \<noteq> [] \<and> \<not> is_digit (hd s) \<and> list_all (\<lambda>c. validCharacter c \<or> separator c) s"

lemma expand_Some_iff:
  "(\<exists>e. expand s = Some e) \<longleftrightarrow> list_all (\<lambda>c. validCharacter c \<or> separator c) s"
  by (induction s rule: expand_induct) (auto simp: expand_underscore expand.simps(2) separator_def)

lemma skip_finds_invalid:
  "skipRegexCheck previous s = (True, True) \<Longrightarrow> \<not> list_all (\<lambda>c. validCharacter c \<or> separator c) s"
  by (induction previous s rule: skipRegexCheck.induct) (auto split: if_splits)

text \<open>Every output of \<open>Escape\<close> that is not a reserved word in underscores is the expansion.\<close>

lemma Escape_cases:
  assumes "Escape s = Some e"
  obtains (reserved) "s \<in> set celReservedSymbols" "e = ''__'' @ s @ ''__''"
  | (expanded) "expand s = Some e"
  using assms skipped_is_expanded [of False s]
  by (auto simp: Escape_def split: if_splits prod.splits)

lemma reserved_words:
  assumes "s \<in> set celReservedSymbols"
  shows "s \<noteq> []" "CHR ''_'' \<notin> set s" "list_all validCharacter s" "\<not> is_digit (hd s)"
    "s \<notin> {''underscores'', ''dot'', ''dash'', ''slash''}"
  using assms
  by (auto simp: celReservedSymbols_def validCharacter_def is_digit_def byte_def)

lemma escape_unescape:
  assumes "Escape s = Some e"
  shows "Unescape e = Some s"
  using assms
proof (cases rule: Escape_cases)
  case reserved
  note w = reserved_words [OF reserved(1)]
  from reserved(2) have "Unescape e = unexpand (length s + 4) (''__'' @ s @ ''__'' @ [])"
    by (simp add: Unescape_def eval_nat_numeral)
  also have "\<dots> = Some s"
    using w(5) reserved(1) by (subst unexpand_token [OF w(1,2)]) (simp add: unescape_sequence_def)
  finally show ?thesis .
next
  case expanded
  then show ?thesis unfolding Unescape_def by (rule unexpand_expand)
qed

text \<open>The output is an identifier of the CEL grammar.\<close>

definition cel_identifier :: "string \<Rightarrow> bool" where
  "cel_identifier e \<longleftrightarrow> e \<noteq> [] \<and> \<not> is_digit (hd e) \<and> list_all validCharacter e \<and>
     e \<notin> set celReservedSymbols"

lemma token_characters: "list_all validCharacter ''underscores''" "list_all validCharacter ''dot''"
  "list_all validCharacter ''dash''" "list_all validCharacter ''slash''"
  by (simp_all add: validCharacter_def is_digit_def byte_def)

lemma expand_valid: "expand s = Some e \<Longrightarrow> list_all validCharacter e"
  using token_characters
  by (induction s arbitrary: e rule: expand_induct)
    (auto simp: expand_underscore expand.simps(2) split: if_splits)

lemma expand_first:
  "expand s = Some e \<Longrightarrow> s \<noteq> [] \<Longrightarrow> \<not> is_digit (hd s) \<Longrightarrow> e \<noteq> [] \<and> \<not> is_digit (hd e)"
  by (cases s) (auto simp: expand.simps(2) is_digit_def byte_def split: if_splits)

lemma expand_without_underscores:
  "expand s = Some e \<Longrightarrow> CHR ''_'' \<notin> set e \<Longrightarrow> e = s"
  by (induction s arbitrary: e rule: expand_induct)
    (auto simp: expand_underscore expand.simps(2) split: if_splits)

lemma escape_identifier:
  assumes "Escape s = Some e"
  shows "cel_identifier e"
  using assms
proof (cases rule: Escape_cases)
  case reserved
  then have "CHR ''_'' \<in> set e" by simp
  then have "e \<notin> set celReservedSymbols" using reserved_words(2) by blast
  with reserved reserved_words [OF reserved(1)] show ?thesis
    by (simp add: cel_identifier_def is_digit_def byte_def)
next
  case expanded
  from assms have s: "s \<noteq> []" "\<not> is_digit (hd s)" by (auto simp: Escape_def split: if_splits)
  have "e \<notin> set celReservedSymbols"
  proof
    assume e: "e \<in> set celReservedSymbols"
    with expand_without_underscores [OF expanded] reserved_words(2) have "e = s" by blast
    with assms e s show False by (simp add: Escape_def)
  qed
  with expand_valid [OF expanded] expand_first [OF expanded s] show ?thesis
    by (simp add: cel_identifier_def)
qed

lemma escapes_iff: "(\<exists>e. Escape s = Some e) \<longleftrightarrow> escapable s"
proof (cases "s = [] \<or> is_digit (hd s)")
  case True
  then show ?thesis by (auto simp: Escape_def escapable_def)
next
  case False
  show ?thesis
  proof (cases "s \<in> set celReservedSymbols")
    case True
    with reserved_words [OF True] False show ?thesis
      by (auto simp: Escape_def escapable_def list_all_iff)
  next
    case word: False
    from False skip_invalid [of False s] skip_finds_invalid [of False s] expand_Some_iff [of s]
      skipped_is_expanded [of False s] word
    show ?thesis by (auto simp: Escape_def escapable_def)
  qed
qed

text \<open>
  C21: escaping a field name succeeds exactly on non-empty names of letters, digits, underscores, dots, dashes and slashes that do
  not start with a digit; the result is a CEL identifier and unescapes to the name again, so that
  distinct names have distinct escapes.
\<close>

theorem escape_roundtrip:
  "((\<exists>e. Escape s = Some e) \<longleftrightarrow> escapable s) \<and>
   (case Escape s of None \<Rightarrow> True | Some e \<Rightarrow> cel_identifier e \<and> Unescape e = Some s)"
  using escapes_iff [of s] escape_identifier [of s] escape_unescape [of s]
  by (auto split: option.split)

text \<open>Cases of \<open>escaping_test.go\<close>.\<close>

lemma escape_test_cases:
  "Escape ''a.-/__a'' = Some ''a__dot____dash____slash____underscores__a''"
  "Escape ''a._a'' = Some ''a__dot___a''"
  "Escape ''a___a'' = Some ''a__underscores___a''"
  "Escape ''a__dot__a'' = Some ''a__underscores__dot__underscores__a''"
  "Escape ''namespace'' = Some ''__namespace__''"
  "Escape ''_if'' = Some ''_if''"
  "Escape ''@'' = None" "Escape ''1up'' = None"
  by (simp_all add: Escape_def is_digit_def byte_def celReservedSymbols_def separator_def
      validCharacter_def expand.simps(2))

lemma unescape_test_cases:
  "Unescape ''__int__extra'' = None" "Unescape ''__illegal__'' = None"
  by (simp_all add: Unescape_def unexpand.simps(2) unexpand_match_def unescape_sequence_def
      celReservedSymbols_def)

end
