(* ===== verification/Lazy_Claims.thy ===== *)
theory Lazy_Claims
  imports Cel_Escaping Oidc_Claims
begin

text \<open>
  How a CEL expression reads the claims: \<open>MapValue\<close> of
  \<open>pkg/internal/third_party/kubernetes/apiserver/pkg/cel/lazy/lazy.go\<close>, which decodes a claim when it is first looked
  up and keeps the value, and the unescaping wrappers at the end of \<open>oidc.go\<close>, through which the fields of nested
  objects are looked up.  \<open>Cel\<close> and \<open>Oidc_Claims\<close> let a program see the claims as a mere map
  (\<open>ClaimsValue\<close>); here this is justified.

  A callback takes no argument that matters and computes from the claims only, so that it is represented
  by its result; \<open>mv_calls\<close> records which callbacks have been called.  The conversion of decoded JSON into CEL
  values is the library's; what the code asks of it is the parameter \<open>cel_native\<close>.
\<close>

section \<open>Values\<close>

datatype cel_key = StringKey string | OtherKey

datatype ref_val =
    NativeVal json
  | UnescapeMapper json
  | UnescapeLister json
  | ErrVal error
  | NoSuchOverload

record cel_native =
  nat_Find :: "json \<Rightarrow> cel_key \<Rightarrow> json option"
  nat_Get :: "json \<Rightarrow> nat \<Rightarrow> json option"

text \<open>What the library documents: a map finds the value of a string key, a list gives its elements.\<close>

definition native_law :: "cel_native \<Rightarrow> bool" where
  "native_law nt \<longleftrightarrow>
     (\<forall>ms k. nat_Find nt (JObj ms) (StringKey k) = map_of (rev ms) k) \<and>
     (\<forall>xs i. nat_Get nt (JArr xs) i = (if i < length xs then Some (xs ! i) else None))"

definition unescapeWrapper :: "ref_val \<Rightarrow> ref_val" where
  "unescapeWrapper value =
     (case value of
        NativeVal (JObj ms) \<Rightarrow> UnescapeMapper (JObj ms)
      | NativeVal (JArr xs) \<Rightarrow> UnescapeLister (JArr xs)
      | _ \<Rightarrow> value)"

definition nativeToValueWithUnescape :: "json \<Rightarrow> ref_val" where
  "nativeToValueWithUnescape value = unescapeWrapper (NativeVal value)"

definition unescapedName :: "cel_key \<Rightarrow> string option" where
  "unescapedName key =
     (case key of
        OtherKey \<Rightarrow> None
      | StringKey ns \<Rightarrow>
          (case Unescape ns of None \<Rightarrow> None | Some name \<Rightarrow> if name = ns then None else Some name))"

definition unescapeMapper_Find :: "cel_native \<Rightarrow> json \<Rightarrow> cel_key \<Rightarrow> ref_val option" where
  "unescapeMapper_Find nt m key =
     map_option (\<lambda>value. unescapeWrapper (NativeVal value))
       (nat_Find nt m (case unescapedName key of None \<Rightarrow> key | Some name \<Rightarrow> StringKey name))"

definition unescapeLister_Get :: "cel_native \<Rightarrow> json \<Rightarrow> nat \<Rightarrow> ref_val" where
  "unescapeLister_Get nt l i =
     (case nat_Get nt l i of
        Some value \<Rightarrow> unescapeWrapper (NativeVal value)
      | None \<Rightarrow> ErrVal (Errorf ''index out of bounds: %v'' [OpN i]))"

section \<open>The lazy map\<close>

record map_value =
  mv_values :: "string \<rightharpoonup> ref_val"
  mv_callbacks :: "string \<rightharpoonup> ref_val"
  mv_knownValues :: "string list"
  mv_calls :: "string list"

definition NewMapValue :: map_value where
  "NewMapValue = \<lparr>mv_values = Map.empty, mv_callbacks = Map.empty, mv_knownValues = [], mv_calls = []\<rparr>"

definition Append :: "string \<Rightarrow> ref_val \<Rightarrow> map_value \<Rightarrow> map_value" where
  "Append name callback m =
     m\<lparr>mv_knownValues := mv_knownValues m @ [name], mv_callbacks := (mv_callbacks m)(name \<mapsto> callback)\<rparr>"

text \<open>\<open>resolveField\<close>, which is called for names with a callback only.\<close>

definition resolveField :: "string \<Rightarrow> map_value \<Rightarrow> ref_val \<times> map_value" where
  "resolveField name m =
     (case mv_values m name of
        Some v \<Rightarrow> (v, m)
      | None \<Rightarrow>
          let v = the (mv_callbacks m name)
          in (v, m\<lparr>mv_values := (mv_values m)(name \<mapsto> v), mv_calls := mv_calls m @ [name]\<rparr>))"

text \<open>The value, which may be nil, and whether it was found.\<close>

definition Find :: "cel_key \<Rightarrow> map_value \<Rightarrow> (ref_val option \<times> bool) \<times> map_value" where
  "Find key m =
     (case key of
        OtherKey \<Rightarrow> ((Some NoSuchOverload, True), m)
      | StringKey n \<Rightarrow>
          (case Unescape n of
             None \<Rightarrow> ((None, False), m)
           | Some name \<Rightarrow>
               if mv_callbacks m name = None then ((None, False), m)
               else (case resolveField name m of (v, m') \<Rightarrow> ((Some v, True), m'))))"

definition no_such_key :: "cel_key \<Rightarrow> ref_val" where
  "no_such_key key =
     (case key of StringKey n \<Rightarrow> ErrVal (Errorf ''no such key: %v'' [OpS n])
      | OtherKey \<Rightarrow> ErrVal (Errorf ''no such key: %v'' []))"

definition Get :: "cel_key \<Rightarrow> map_value \<Rightarrow> ref_val \<times> map_value" where
  "Get key m =
     (case Find key m of ((v, found), m') \<Rightarrow> (if found then the v else no_such_key key, m'))"

definition is_error :: "ref_val \<Rightarrow> bool" where
  "is_error v = (case v of ErrVal _ \<Rightarrow> True | NoSuchOverload \<Rightarrow> True | _ \<Rightarrow> False)"

text \<open>\<open>Contains\<close>: the error value as it is, or a boolean.\<close>

definition Contains :: "cel_key \<Rightarrow> map_value \<Rightarrow> (ref_val + bool) \<times> map_value" where
  "Contains key m =
     (case Find key m of ((v, found), m') \<Rightarrow>
        ((case v of Some e \<Rightarrow> if is_error e then Inl e else Inr found | None \<Rightarrow> Inr found), m'))"

definition Size :: "map_value \<Rightarrow> nat" where
  "Size m = card (dom (mv_callbacks m))"

text \<open>The iterator: an index into the known names.\<close>

definition HasNext :: "nat \<Rightarrow> map_value \<Rightarrow> bool" where
  "HasNext i m \<longleftrightarrow> i < length (mv_knownValues m)"

definition Next :: "nat \<Rightarrow> map_value \<Rightarrow> (ref_val \<times> nat) \<times> map_value" where
  "Next i m =
     (case Get (StringKey (mv_knownValues m ! i)) m of (ret, m') \<Rightarrow> ((ret, Suc i), m'))"

lemma Next_fields:
  assumes "Next i m = ((v, i'), m')"
  shows "i' = Suc i \<and> mv_knownValues m' = mv_knownValues m"
  using assms
  by (auto simp: Next_def Get_def Find_def resolveField_def Let_def split: prod.splits option.splits if_splits)

text \<open>What cel-go does with the iterator of a map: \<open>Next\<close> as long as there is a next one.\<close>

function iterate :: "nat \<Rightarrow> map_value \<Rightarrow> ref_val list \<times> map_value" where
  "iterate i m =
     (if HasNext i m then
        (case Next i m of ((v, i'), m1) \<Rightarrow> (case iterate i' m1 of (vs, m2) \<Rightarrow> (v # vs, m2)))
      else ([], m))"
  by pat_completeness auto
termination
  by (relation "measure (\<lambda>(i, m). length (mv_knownValues m) - i)") (auto simp: HasNext_def dest!: Next_fields [OF sym])

declare iterate.simps [simp del]

section \<open>The claims\<close>

definition claim_callback :: "string \<Rightarrow> raw_message \<Rightarrow> ref_val" where
  "claim_callback name msg =
     (case unmarshal_with json_to_any msg of
        Inl err \<Rightarrow> ErrVal (Errorf ''claim %q failed to unmarshal: %w'' [OpS name, OpE err])
      | Inr value \<Rightarrow> nativeToValueWithUnescape value)"

text \<open>\<open>newClaimsValue\<close>, given the order in which the loop ranges over the map of claims.\<close>

definition lazyClaimsValue :: "string list \<Rightarrow> claims \<Rightarrow> map_value" where
  "lazyClaimsValue order c =
     foldl (\<lambda>m name. case c name of None \<Rightarrow> m | Some msg \<Rightarrow> Append name (claim_callback name msg) m)
       NewMapValue order"

definition ranges_over :: "string list \<Rightarrow> claims \<Rightarrow> bool" where
  "ranges_over order c \<longleftrightarrow> distinct order \<and> set order = dom c"

text \<open>\<open>newUserInfoValue\<close>: four fields.  Strings and lists of strings become the CEL values that JSON would
  give; \<open>extra\<close> is the map of the extra values in this form.\<close>

definition groups_json :: "string list \<Rightarrow> json" where
  "groups_json gs = JArr (map JStr gs)"

definition lazyUserInfoValue :: "json \<Rightarrow> user_info \<Rightarrow> map_value" where
  "lazyUserInfoValue extra info =
     Append ''extra'' (nativeToValueWithUnescape extra)
       (Append ''groups'' (nativeToValueWithUnescape (groups_json (ui_Groups info)))
         (Append ''uid'' (nativeToValueWithUnescape (JStr (ui_UID info)))
           (Append ''username'' (nativeToValueWithUnescape (JStr (ui_Name info))) NewMapValue)))"

text \<open>The abstract view: what a lookup in the plain map of claims gives.\<close>

definition lookup_claim :: "claims \<Rightarrow> cel_key \<Rightarrow> ref_val option \<times> bool" where
  "lookup_claim c key =
     (case key of
        OtherKey \<Rightarrow> (Some NoSuchOverload, True)
      | StringKey n \<Rightarrow>
          (case Option.bind (Unescape n) (\<lambda>name. map_option (claim_callback name) (c name)) of
             None \<Rightarrow> (None, False)
           | Some v \<Rightarrow> (Some v, True)))"

fun find_all :: "cel_key list \<Rightarrow> map_value \<Rightarrow> (ref_val option \<times> bool) list \<times> map_value" where
  "find_all [] m = ([], m)"
| "find_all (key # keys) m =
     (case Find key m of (r, m1) \<Rightarrow> (case find_all keys m1 of (rs, m2) \<Rightarrow> (r # rs, m2)))"

section \<open>The lazy map is the map of claims\<close>

text \<open>The cache holds results of callbacks, for exactly the names whose callback was called.\<close>

definition lazy_inv :: "claims \<Rightarrow> map_value \<Rightarrow> bool" where
  "lazy_inv c m \<longleftrightarrow>
     (\<forall>name. mv_callbacks m name = map_option (claim_callback name) (c name)) \<and>
     mv_values m = mv_callbacks m |` set (mv_calls m) \<and>
     distinct (mv_calls m) \<and> set (mv_calls m) \<subseteq> dom c"

lemma lazyClaimsValue_fields:
  "mv_values (lazyClaimsValue order c) = Map.empty" "mv_calls (lazyClaimsValue order c) = []"
  "mv_knownValues (lazyClaimsValue order c) = filter (\<lambda>name. c name \<noteq> None) order"
  "mv_callbacks (lazyClaimsValue order c) name =
     (if name \<in> set order then map_option (claim_callback name) (c name) else None)"
  by (induction order rule: rev_induct)
    (auto simp: lazyClaimsValue_def NewMapValue_def Append_def split: option.split)

lemma lazyClaimsValue_inv: "ranges_over order c \<Longrightarrow> lazy_inv c (lazyClaimsValue order c)"
  by (auto simp: lazy_inv_def ranges_over_def lazyClaimsValue_fields domIff)

lemma Find_lazy:
  assumes "lazy_inv c m"
  obtains m' where "Find key m = (lookup_claim c key, m')" "lazy_inv c m'"
    "mv_knownValues m' = mv_knownValues m"
proof (cases "\<exists>n name. key = StringKey n \<and> Unescape n = Some name \<and> name \<in> dom c \<and> mv_values m name = None")
  case True
  then obtain n name msg where k: "key = StringKey n" "Unescape n = Some name" "c name = Some msg"
    and new: "mv_values m name = None" by blast
  let ?m = "m\<lparr>mv_values := (mv_values m)(name \<mapsto> claim_callback name msg), mv_calls := mv_calls m @ [name]\<rparr>"
  have cb: "mv_callbacks m name = Some (claim_callback name msg)"
    using assms k(3) by (simp add: lazy_inv_def)
  have "name \<notin> set (mv_calls m)"
    using assms new cb by (auto simp: lazy_inv_def restrict_map_def)
  then have "lazy_inv c ?m"
    using assms cb k(3) by (auto simp: lazy_inv_def restrict_map_def fun_eq_iff)
  moreover have "Find key m = (lookup_claim c key, ?m)"
    using k new cb by (simp add: Find_def lookup_claim_def resolveField_def Let_def)
  ultimately show thesis by (intro that [of ?m]) simp_all
next
  case False
  have "Find key m = (lookup_claim c key, m)"
  proof (cases key)
    case (StringKey n)
    with False assms show ?thesis
      by (auto simp: Find_def lookup_claim_def resolveField_def lazy_inv_def restrict_map_def
          split: option.split if_splits)
  qed (simp add: Find_def lookup_claim_def)
  with assms show thesis by (intro that) simp_all
qed

lemma find_all_lazy:
  "lazy_inv c m \<Longrightarrow> \<exists>m'. find_all keys m = (map (lookup_claim c) keys, m') \<and> lazy_inv c m'"
proof (induction keys arbitrary: m)
  case (Cons key keys)
  obtain m1 where "Find key m = (lookup_claim c key, m1)" "lazy_inv c m1"
    by (rule Find_lazy [OF Cons.prems])
  with Cons.IH [of m1] show ?case by auto
qed simp

text \<open>
  C20: the lazily decoded claims behave as the plain map of claims: any sequence of lookups gives what the
  map gives, in whatever order the loop has registered the claims, and every claim is decoded at most once.
\<close>

theorem lazy_claims_refine_map:
  assumes "ranges_over order c"
  shows "\<exists>m'. find_all keys (lazyClaimsValue order c) = (map (lookup_claim c) keys, m') \<and>
    distinct (mv_calls m') \<and> set (mv_calls m') \<subseteq> dom c"
  using find_all_lazy [OF lazyClaimsValue_inv [OF assms], of keys] by (auto simp: lazy_inv_def)

section \<open>Escaped names reach every field\<close>

fun json_path :: "json \<Rightarrow> string list \<Rightarrow> json option" where
  "json_path j [] = Some j"
| "json_path (JObj ms) (k # ks) = Option.bind (map_of (rev ms) k) (\<lambda>j. json_path j ks)"
| "json_path _ (k # ks) = None"

text \<open>The selection \<open>v.e1.e2\<close> in an expression, each step by the \<open>Find\<close> of the value.\<close>

fun select_path :: "cel_native \<Rightarrow> ref_val \<Rightarrow> string list \<Rightarrow> ref_val option" where
  "select_path nt v [] = Some v"
| "select_path nt (UnescapeMapper m) (e # es) =
     Option.bind (unescapeMapper_Find nt m (StringKey e)) (\<lambda>v. select_path nt v es)"
| "select_path nt _ (e # es) = None"

lemma unescapeMapper_Find_escaped:
  assumes "native_law nt" and "Escape k = Some e"
  shows "unescapeMapper_Find nt (JObj ms) (StringKey e) =
    map_option nativeToValueWithUnescape (map_of (rev ms) k)"
  using assms escape_unescape [OF assms(2)]
  by (auto simp: unescapeMapper_Find_def unescapedName_def native_law_def nativeToValueWithUnescape_def
      comp_def intro: option.map_cong)

lemma select_path_escaped:
  assumes "native_law nt" and "list_all2 (\<lambda>k e. Escape k = Some e) ks es"
  shows "select_path nt (nativeToValueWithUnescape j) es = map_option nativeToValueWithUnescape (json_path j ks)"
  using assms(2)
proof (induction ks es arbitrary: j rule: list_all2_induct)
  case Nil
  show ?case by simp
next
  case (Cons k ks e es)
  show ?case
  proof (cases j)
    case (JObj ms)
    then show ?thesis
      using unescapeMapper_Find_escaped [OF assms(1) Cons.hyps(1), of ms] Cons.IH
      by (cases "map_of (rev ms) k") (simp_all add: nativeToValueWithUnescape_def unescapeWrapper_def)
  qed (simp_all add: nativeToValueWithUnescape_def unescapeWrapper_def)
qed

text \<open>
  C22: every field of the claims, however deeply nested, whose names can be escaped is read by an expression that
  selects the escaped names one after the other: the claims give the value that the JSON text has there; the value of a claim with
  a number that is too large for a \<open>float64\<close> is an error.
\<close>

theorem escaped_selection_reads_claim:
  assumes "native_law nt" and "ranges_over order c" and "c k = Some (Raw j)" and "Escape k = Some e"
    and "list_all2 (\<lambda>k e. Escape k = Some e) ks es"
  shows "\<exists>v. fst (Find (StringKey e) (lazyClaimsValue order c)) = (Some v, True) \<and>
    (if json_fits j then select_path nt v es = map_option nativeToValueWithUnescape (json_path j ks) else is_error v)"
proof -
  obtain m' where "Find (StringKey e) (lazyClaimsValue order c) = (lookup_claim c (StringKey e), m')"
    by (rule Find_lazy [OF lazyClaimsValue_inv [OF assms(2)]])
  moreover have "lookup_claim c (StringKey e) = (Some (claim_callback k (Raw j)), True)"
    using escape_unescape [OF assms(4)] assms(3) by (simp add: lookup_claim_def)
  moreover have "if json_fits j then claim_callback k (Raw j) = nativeToValueWithUnescape j else is_error (claim_callback k (Raw j))"
    by (simp add: claim_callback_def unmarshal_with_def json_to_any_def is_error_def)
  ultimately show ?thesis using select_path_escaped [OF assms(1,5), of j] by (simp split: if_splits)
qed

section \<open>Iteration\<close>

lemma known_claims: "ranges_over order c \<Longrightarrow> mv_knownValues (lazyClaimsValue order c) = order"
  by (auto simp: lazyClaimsValue_fields ranges_over_def intro!: filter_True)

text \<open>
  What the iterator gives for a name of a claim: not the name, but what the map has under the name that it unescapes to, which may
  be another claim or none.
\<close>

definition iterated_value :: "claims \<Rightarrow> string \<Rightarrow> ref_val" where
  "iterated_value c name =
     (case Unescape name of
        None \<Rightarrow> no_such_key (StringKey name)
      | Some unescaped \<Rightarrow>
          (case c unescaped of
             None \<Rightarrow> no_such_key (StringKey name)
           | Some msg \<Rightarrow> claim_callback unescaped msg))"

lemma Next_lazy:
  assumes "lazy_inv c m" and "HasNext i m"
  shows "\<exists>m'. Next i m = ((iterated_value c (mv_knownValues m ! i), Suc i), m') \<and> lazy_inv c m' \<and>
    mv_knownValues m' = mv_knownValues m"
proof -
  obtain m' where "Find (StringKey (mv_knownValues m ! i)) m = (lookup_claim c (StringKey (mv_knownValues m ! i)), m')"
    "lazy_inv c m'" "mv_knownValues m' = mv_knownValues m"
    by (rule Find_lazy [OF assms(1)])
  then show ?thesis
    by (auto simp: Next_def Get_def lookup_claim_def iterated_value_def split: option.split)
qed

lemma iterate_lazy:
  "lazy_inv c m \<Longrightarrow> \<exists>m'. iterate i m = (map (iterated_value c) (drop i (mv_knownValues m)), m') \<and> lazy_inv c m'"
proof (induction "length (mv_knownValues m) - i" arbitrary: i m)
  case 0
  then show ?case by (simp add: iterate.simps HasNext_def)
next
  case (Suc n)
  then have i: "HasNext i m" by (simp add: HasNext_def)
  obtain m1 where m1: "Next i m = ((iterated_value c (mv_knownValues m ! i), Suc i), m1)" "lazy_inv c m1"
    "mv_knownValues m1 = mv_knownValues m"
    using Next_lazy [OF Suc.prems i] by blast
  have "n = length (mv_knownValues m1) - Suc i" using Suc.hyps(2) m1(3) by simp
  from Suc.hyps(1) [OF this m1(2)] obtain m2 where
    "iterate (Suc i) m1 = (map (iterated_value c) (drop (Suc i) (mv_knownValues m)), m2)" "lazy_inv c m2"
    using m1(3) by auto
  then show ?case
    using i m1(1) by (subst iterate.simps) (simp add: HasNext_def Cons_nth_drop_Suc [symmetric])
qed

lemma Find_keeps_names: "Find key m = (r, m') \<Longrightarrow> mv_knownValues m' = mv_knownValues m"
  by (auto simp: Find_def resolveField_def Let_def split: prod.splits option.splits cel_key.splits if_splits)

lemma find_all_keeps_names: "find_all keys m = (rs, m') \<Longrightarrow> mv_knownValues m' = mv_knownValues m"
  by (induction keys arbitrary: m rs) (auto split: prod.splits dest!: Find_keeps_names)

text \<open>
  C39: an expression that iterates over the claims is given, for each claim in the order in which they were registered, not its name but what
  a lookup of its name gives, although the claims are declared as a map of strings: the value of the claim when the name unescapes to itself, the
  value of another claim when it unescapes to the name of that one, and else the error that there is no such key.  This holds whatever
  has been looked up before; every claim is still decoded at most once.
\<close>

theorem claims_iterator_yields_values:
  assumes "ranges_over order c"
  shows "\<exists>m'. iterate 0 (snd (find_all keys (lazyClaimsValue order c))) = (map (iterated_value c) order, m') \<and>
    distinct (mv_calls m')"
proof -
  obtain m where m: "find_all keys (lazyClaimsValue order c) = (map (lookup_claim c) keys, m)" "lazy_inv c m"
    using find_all_lazy [OF lazyClaimsValue_inv [OF assms], of keys] by blast
  then have "mv_knownValues m = order"
    using find_all_keeps_names [OF m(1)] known_claims [OF assms] by simp
  with iterate_lazy [OF m(2), of 0] m(1) show ?thesis by (auto simp: lazy_inv_def)
qed

section \<open>Witnesses\<close>

definition nested_claims :: claims where
  "nested_claims = [''sub'' \<mapsto> Raw (JStr ''jane''), ''acme.io/org'' \<mapsto> Raw (JObj [(''in'', JStr ''dev'')])]"

definition plain_native :: cel_native where
  "plain_native = \<lparr>
     nat_Find = (\<lambda>j key. case (j, key) of (JObj ms, StringKey k) \<Rightarrow> map_of (rev ms) k | _ \<Rightarrow> None),
     nat_Get = (\<lambda>j i. case j of JArr xs \<Rightarrow> if i < length xs then Some (xs ! i) else None | _ \<Rightarrow> None)\<rparr>"

lemma nested_claims_order: "ranges_over [''acme.io/org'', ''sub''] nested_claims"
  by (simp add: ranges_over_def nested_claims_def)

lemma plain_native_law: "native_law plain_native"
  by (simp add: native_law_def plain_native_def)

lemma nested_escapes:
  "Escape ''acme.io/org'' = Some ''acme__dot__io__slash__org''" "Escape ''in'' = Some ''__in__''"
  by (simp_all add: Escape_def is_digit_def byte_def celReservedSymbols_def separator_def validCharacter_def
      expand.simps(2))

theorem lazy_claims_refine_map_witness:
  "\<exists>m'. find_all [StringKey ''sub'', StringKey ''sub''] (lazyClaimsValue [''acme.io/org'', ''sub''] nested_claims)
      = (map (lookup_claim nested_claims) [StringKey ''sub'', StringKey ''sub''], m') \<and> distinct (mv_calls m')"
  using lazy_claims_refine_map [OF nested_claims_order] by blast

theorem escaped_selection_reads_claim_witness:
  "\<exists>v. fst (Find (StringKey ''acme__dot__io__slash__org'') (lazyClaimsValue [''acme.io/org'', ''sub''] nested_claims))
      = (Some v, True) \<and> select_path plain_native v [''__in__''] = Some (NativeVal (JStr ''dev''))"
proof -
  have "nested_claims ''acme.io/org'' = Some (Raw (JObj [(''in'', JStr ''dev'')]))"
    by (simp add: nested_claims_def)
  from escaped_selection_reads_claim [OF plain_native_law nested_claims_order this nested_escapes(1),
      of "[''in'']" "[''__in__'']"] nested_escapes(2)
  show ?thesis by (simp add: nativeToValueWithUnescape_def unescapeWrapper_def)
qed

text \<open>A claim whose name reads as an escaped one: iterating gives the value of \<open>a.b\<close> twice and an error for \<open>c__dot__d\<close>.\<close>

definition odd_claims :: claims where
  "odd_claims = [''a.b'' \<mapsto> Raw (JStr ''x''), ''a__dot__b'' \<mapsto> Raw (JStr ''y''), ''c__dot__d'' \<mapsto> Raw (JStr ''z'')]"

theorem claims_iterator_yields_values_witness:
  "\<exists>m'. iterate 0 (snd (find_all [] (lazyClaimsValue [''a.b'', ''a__dot__b'', ''c__dot__d''] odd_claims))) =
     ([NativeVal (JStr ''x''), NativeVal (JStr ''x''), no_such_key (StringKey ''c__dot__d'')], m')"
proof -
  have u: "Unescape ''a.b'' = Some ''a.b''" "Unescape ''a__dot__b'' = Some ''a.b''" "Unescape ''c__dot__d'' = Some ''c.d''"
    by code_simp+
  have "ranges_over [''a.b'', ''a__dot__b'', ''c__dot__d''] odd_claims"
    by (auto simp: ranges_over_def odd_claims_def)
  from claims_iterator_yields_values [OF this, of "[]"]
  obtain m' where "iterate 0 (snd (find_all [] (lazyClaimsValue [''a.b'', ''a__dot__b'', ''c__dot__d''] odd_claims))) =
      (map (iterated_value odd_claims) [''a.b'', ''a__dot__b'', ''c__dot__d''], m')" by blast
  moreover have "map (iterated_value odd_claims) [''a.b'', ''a__dot__b'', ''c__dot__d''] =
      [NativeVal (JStr ''x''), NativeVal (JStr ''x''), no_such_key (StringKey ''c__dot__d'')]"
    by (simp add: iterated_value_def u odd_claims_def claim_callback_def unmarshal_with_def json_to_any_def nativeToValueWithUnescape_def
        unescapeWrapper_def)
  ultimately show ?thesis by simp
qed

end
