(* ===== verification/Cel_Versions.thy ===== *)
theory Cel_Versions
  imports Main
begin

text \<open>
  Versions of the API server, by which the libraries of a CEL environment are chosen: the two components that
  \<open>version.MajorMinor\<close> takes, ordered by the major and then by the minor one.  \<open>AtLeast\<close> and
  \<open>LessThan\<close> of the version library are this order.
\<close>

datatype apiserver_version = MajorMinor (Major: nat) (Minor: nat)

instantiation apiserver_version :: linorder
begin

definition less_eq_apiserver_version :: "apiserver_version \<Rightarrow> apiserver_version \<Rightarrow> bool" where
  "v \<le> w \<longleftrightarrow> Major v < Major w \<or> Major v = Major w \<and> Minor v \<le> Minor w"

definition less_apiserver_version :: "apiserver_version \<Rightarrow> apiserver_version \<Rightarrow> bool" where
  "v < w \<longleftrightarrow> Major v < Major w \<or> Major v = Major w \<and> Minor v < Minor w"

instance
  by standard (auto simp: less_eq_apiserver_version_def less_apiserver_version_def intro: apiserver_version.expand)

end

lemma MajorMinor_le [simp]: "MajorMinor a b \<le> MajorMinor c d \<longleftrightarrow> a < c \<or> a = c \<and> b \<le> d"
  by (simp add: less_eq_apiserver_version_def)

lemma MajorMinor_less [simp]: "MajorMinor a b < MajorMinor c d \<longleftrightarrow> a < c \<or> a = c \<and> b < d"
  by (simp add: less_apiserver_version_def)

definition AtLeast :: "apiserver_version \<Rightarrow> apiserver_version \<Rightarrow> bool" where
  "AtLeast v w \<longleftrightarrow> w \<le> v"

definition LessThan :: "apiserver_version \<Rightarrow> apiserver_version \<Rightarrow> bool" where
  "LessThan v w \<longleftrightarrow> v < w"

lemmas version_defs = AtLeast_def LessThan_def

definition MaxUint :: nat where
  "MaxUint = 2 ^ 64 - 1"

end
