(* ===== verification/Cel_Environments.thy ===== *)
theory Cel_Environments
  imports Lazy_Claims Cel_Versions "HOL-Library.AList"
begin

text \<open>
  The environments in which expressions are compiled: the type declarations of
  \<open>pkg/cel/types.go\<close>, the versioned environment sets of \<open>pkg/cel/environment/environment.go\<close>, the environments of
  \<open>pkg/authentication/cel/compile.go\<close> and \<open>compile_patch.go\<close>, and the one that padlok adds in
  \<open>pkg/oidc/externalclaims/cel/compiler.go\<close>.

  A \<open>cel.Env\<close> belongs to cel-go; it is a type parameter, and what the code calls of it is the record
  \<open>cel_library\<close>.  Library options are names.
\<close>

section \<open>Type declarations\<close>

text \<open>
  A \<open>DeclType\<close> by the constructor function that made it.  The map of fields is the list of its entries.
\<close>

datatype decl_type =
    SimpleDecl string
  | ListDecl decl_type int
  | MapDecl decl_type decl_type int
  | ObjectDecl string "decl_field list"
and decl_field = DeclField (df_Name: string) (df_Type: decl_type) (df_Required: bool)

abbreviation StringDecl :: decl_type where "StringDecl \<equiv> SimpleDecl ''string''"
abbreviation AnyDecl :: decl_type where "AnyDecl \<equiv> SimpleDecl ''any''"
abbreviation DynDecl :: decl_type where "DynDecl \<equiv> SimpleDecl ''dyn''"

definition decl_TypeName :: "decl_type \<Rightarrow> string" where
  "decl_TypeName t = (case t of SimpleDecl n \<Rightarrow> n | ListDecl _ _ \<Rightarrow> ''list'' | MapDecl _ _ _ \<Rightarrow> ''map'' | ObjectDecl n _ \<Rightarrow> n)"

text \<open>The map that a literal call of \<open>fields\<close> makes: a later field replaces one of the same name.\<close>

definition field_map :: "decl_field list \<Rightarrow> (string \<times> decl_field) list" where
  "field_map fs = foldl (\<lambda>result f. AList.update (df_Name f) f result) [] fs"

text \<open>\<open>buildDeclTypes\<close>: the named types nested in a type, added to a map.\<close>

fun buildDeclTypes :: "string \<Rightarrow> decl_type \<Rightarrow> (string \<times> decl_type) list \<Rightarrow> (string \<times> decl_type) list"
  and buildFieldTypes :: "string \<Rightarrow> decl_field list \<Rightarrow> (string \<times> decl_type) list \<Rightarrow> (string \<times> decl_type) list" where
  "buildDeclTypes path (SimpleDecl n) ts = ts"
| "buildDeclTypes path (ListDecl el m) ts = AList.update path (ListDecl el m) (buildDeclTypes (path @ ''.@idx'') el ts)"
| "buildDeclTypes path (MapDecl k el m) ts = AList.update path (MapDecl k el m) (buildDeclTypes (path @ ''.@elem'') el ts)"
| "buildDeclTypes path (ObjectDecl n fs) ts = buildFieldTypes path fs (AList.update n (ObjectDecl n fs) ts)"
| "buildFieldTypes path [] ts = ts"
| "buildFieldTypes path (DeclField n t r # fs) ts = buildFieldTypes path fs (buildDeclTypes (path @ ''.'' @ n) t ts)"

definition FieldTypeMap :: "string \<Rightarrow> decl_type \<Rightarrow> (string \<times> decl_type) list" where
  "FieldTypeMap path t =
     (let path' = (case t of ObjectDecl n _ \<Rightarrow> if n \<noteq> ''object'' then n else path | _ \<Rightarrow> path)
      in buildDeclTypes path' t [])"

definition allTypesForDecl :: "decl_type list \<Rightarrow> (string \<times> decl_type) list" where
  "allTypesForDecl declTypes = foldl (\<lambda>all declType. foldl (\<lambda>m (k, t). AList.update k t m) all (FieldTypeMap (decl_TypeName declType) declType)) []
     declTypes"

definition findScalar :: "string \<Rightarrow> decl_type option" where
  "findScalar typename =
     (if typename \<in> {''bool'', ''bytes'', ''double'', ''duration'', ''int'', ''null_type'', ''string'', ''timestamp'', ''uint''}
      then Some (SimpleDecl typename)
      else if typename = ''list'' then Some (ListDecl AnyDecl (2 ^ 63 - 1))
      else if typename = ''map'' then Some (MapDecl AnyDecl AnyDecl (2 ^ 63 - 1))
      else None)"

text \<open>A \<open>DeclTypeProvider\<close> that has been given the provider of an environment.\<close>

record 'e decl_provider =
  dp_registeredTypes :: "(string \<times> decl_type) list"
  dp_recognizeKeywordAsFieldName :: bool
  dp_typeProvider :: 'e

definition findDeclType :: "'e decl_provider \<Rightarrow> string \<Rightarrow> decl_type option" where
  "findDeclType rt typeName =
     (case map_of (dp_registeredTypes rt) typeName of Some t \<Rightarrow> Some t | None \<Rightarrow> findScalar typeName)"

definition decl_Fields :: "decl_type \<Rightarrow> string \<Rightarrow> decl_type option" where
  "decl_Fields t name =
     (case t of ObjectDecl _ fs \<Rightarrow> map_of (map (\<lambda>f. (df_Name f, df_Type f)) fs) name | _ \<Rightarrow> None)"

text \<open>The type of a field, by which the checker accepts or refuses a selection; the second argument is
  the lookup of the provider of the environment.\<close>

definition FindStructFieldType ::
  "'e decl_provider \<Rightarrow> (string \<Rightarrow> string \<Rightarrow> decl_type option) \<Rightarrow> string \<Rightarrow> string \<Rightarrow> decl_type option" where
  "FindStructFieldType rt next typeName fieldName =
     (case findDeclType rt typeName of
        None \<Rightarrow> next typeName fieldName
      | Some st \<Rightarrow>
     (case (case decl_Fields st fieldName of
              Some t \<Rightarrow> Some t
            | None \<Rightarrow> if dp_recognizeKeywordAsFieldName rt \<and> fieldName \<in> set celReservedSymbols
                then decl_Fields st (''__'' @ fieldName @ ''__'') else None) of
        Some t \<Rightarrow> Some t
      | None \<Rightarrow> (case st of MapDecl _ el _ \<Rightarrow> Some el | _ \<Rightarrow> None)))"

section \<open>Environment sets\<close>

datatype 'e env_option =
    Variable string decl_type
  | CustomTypes "'e decl_provider"
  | LibraryOption string

record 'e versioned_options =
  vo_IntroducedVersion :: apiserver_version
  vo_RemovedVersion :: "apiserver_version option"
  vo_FeatureEnabled :: "bool option"
  vo_EnvOptions :: "'e env_option list"
  vo_ProgramOptions :: "string list"
  vo_DeclTypes :: "decl_type list"

text \<open>\<open>CustomTypes\<close> stands for the two options of a provider, as type provider and as type adapter.
  \<open>vo_FeatureEnabled\<close> is the answer of the function, \<open>None\<close> when it is nil.  The fields of the library: extending
  an environment, whether the provider of an environment has a struct type of a name that is not the
  declared one, compiling, checking and building a program.\<close>

record 'e cel_library =
  cl_Extend :: "'e \<Rightarrow> 'e env_option list \<Rightarrow> string list \<Rightarrow> 'e res"
  cl_differs :: "'e \<Rightarrow> string \<Rightarrow> decl_type \<Rightarrow> bool"
  cl_Compile :: "'e \<Rightarrow> string \<Rightarrow> string + cel_ast"
  cl_AstToCheckedExpr :: "cel_ast \<Rightarrow> error option"
  cl_Program :: "'e \<Rightarrow> cel_ast \<Rightarrow> cel_program res"

record 'e env_set =
  es_compatibilityVersion :: apiserver_version
  es_newExpressions :: 'e
  es_storedExpressions :: 'e

definition allowed_option :: "apiserver_version \<Rightarrow> bool \<Rightarrow> 'e versioned_options \<Rightarrow> bool" where
  "allowed_option compatVer honorFeatureGateEnablement opt \<longleftrightarrow>
     (case vo_FeatureEnabled opt of
        Some enabled \<Rightarrow>
          if honorFeatureGateEnablement then enabled
          else AtLeast compatVer (vo_IntroducedVersion opt) \<and>
            (case vo_RemovedVersion opt of None \<Rightarrow> True | Some r \<Rightarrow> LessThan compatVer r)
      | None \<Rightarrow> AtLeast compatVer (vo_IntroducedVersion opt) \<and>
          (case vo_RemovedVersion opt of None \<Rightarrow> True | Some r \<Rightarrow> LessThan compatVer r))"

text \<open>\<open>NewDeclTypeProvider\<close> with the keyword setting, and its \<open>EnvOptions\<close>; the loop of \<open>WithTypeProvider\<close> asks for
  each registered type whether the environment has another one of its name.\<close>

definition provider_EnvOptions ::
  "'e cel_library \<Rightarrow> 'e \<Rightarrow> bool \<Rightarrow> decl_type list \<Rightarrow> 'e env_option list res" where
  "provider_EnvOptions lib base recognize declTypes =
     (let types = allTypesForDecl declTypes in
      case find (\<lambda>(name, t). cl_differs lib base name t) types of
        Some (name, _) \<Rightarrow> Inl (Errorf ''type %s definition differs between CEL environment and type provider'' [OpS name])
      | None \<Rightarrow> Inr [CustomTypes \<lparr>dp_registeredTypes = types, dp_recognizeKeywordAsFieldName = recognize, dp_typeProvider = base\<rparr>])"

definition filterAndBuildOpts ::
  "'e cel_library \<Rightarrow> 'e \<Rightarrow> apiserver_version \<Rightarrow> bool \<Rightarrow> 'e versioned_options list
    \<Rightarrow> ('e env_option list \<times> string list) res" where
  "filterAndBuildOpts lib base compatVer honorFeatureGateEnablement opts =
     (let allowed = filter (allowed_option compatVer honorFeatureGateEnablement) opts;
          envOpts = concat (map vo_EnvOptions allowed);
          progOpts = concat (map vo_ProgramOptions allowed);
          declTypes = concat (map vo_DeclTypes allowed)
      in if declTypes = [] then Inr (envOpts, progOpts)
         else bind_res (provider_EnvOptions lib base (AtLeast compatVer (MajorMinor 1 31)) declTypes) id
           (\<lambda>providerOpts. Inr (envOpts @ providerOpts, progOpts)))"

definition EnvSet_Extend ::
  "'e cel_library \<Rightarrow> 'e env_set \<Rightarrow> 'e versioned_options list \<Rightarrow> 'e env_set res" where
  "EnvSet_Extend lib e options =
     (if options = [] then Inr e
      else
        bind_res (filterAndBuildOpts lib (es_newExpressions e) (es_compatibilityVersion e) True options) id (\<lambda>(newOpts, newProg).
        bind_res (cl_Extend lib (es_newExpressions e) newOpts newProg) id (\<lambda>p.
        bind_res (filterAndBuildOpts lib (es_storedExpressions e) (MajorMinor MaxUint MaxUint) False options) id (\<lambda>(storedOpts, storedProg).
        bind_res (cl_Extend lib (es_storedExpressions e) storedOpts storedProg) id (\<lambda>s.
        Inr \<lparr>es_compatibilityVersion = es_compatibilityVersion e, es_newExpressions = p, es_storedExpressions = s\<rparr>)))))"

datatype env_kind = NewExpressions | StoredExpressions | UnknownExpressions string

definition EnvSet_Env :: "'e env_set \<Rightarrow> env_kind \<Rightarrow> 'e res" where
  "EnvSet_Env e envType =
     (case envType of
        NewExpressions \<Rightarrow> Inr (es_newExpressions e)
      | StoredExpressions \<Rightarrow> Inr (es_storedExpressions e)
      | UnknownExpressions t \<Rightarrow> Inl (Errorf ''unsupported environment type: %v'' [OpS t]))"

section \<open>The environments of the expressions\<close>

definition user_fields :: "decl_field list" where
  "user_fields =
    [DeclField ''username'' StringDecl False,
     DeclField ''uid'' StringDecl False,
     DeclField ''groups'' (ListDecl StringDecl (- 1)) False,
     DeclField ''extra'' (MapDecl StringDecl (ListDecl StringDecl (- 1)) (- 1)) False]"

definition buildUserType :: decl_type where
  "buildUserType = ObjectDecl ''kubernetes.UserInfo'' (map snd (field_map user_fields))"

definition claimsType :: decl_type where
  "claimsType = MapDecl StringDecl AnyDecl (- 1)"

definition responseType :: decl_type where
  "responseType = MapDecl StringDecl DynDecl (- 1)"

definition env_options :: "'e env_option list \<Rightarrow> decl_type list \<Rightarrow> 'e versioned_options" where
  "env_options envOpts declTypes =
     \<lparr>vo_IntroducedVersion = MajorMinor 1 0, vo_RemovedVersion = None, vo_FeatureEnabled = None, vo_EnvOptions = envOpts,
      vo_ProgramOptions = [], vo_DeclTypes = declTypes\<rparr>"

text \<open>The compiler is its map of environments; the construction panics (\<open>None\<close>) when a base cannot be extended.\<close>

type_synonym 'e cel_compiler = "string \<rightharpoonup> 'e env_set"

definition buildEnvSet ::
  "'e cel_library \<Rightarrow> 'e env_set \<Rightarrow> 'e env_option list \<Rightarrow> decl_type list \<Rightarrow> 'e env_set option" where
  "buildEnvSet lib baseEnv envOpts declTypes =
     (case EnvSet_Extend lib baseEnv [env_options envOpts declTypes] of Inl err \<Rightarrow> None | Inr env \<Rightarrow> Some env)"

definition mustBuildEnvs :: "'e cel_library \<Rightarrow> 'e env_set \<Rightarrow> 'e cel_compiler option" where
  "mustBuildEnvs lib baseEnv =
     (case buildEnvSet lib baseEnv [Variable claimsVarName claimsType] [claimsType] of
        None \<Rightarrow> None
      | Some claimsEnv \<Rightarrow>
     (case buildEnvSet lib baseEnv [Variable userVarName buildUserType] [buildUserType] of
        None \<Rightarrow> None
      | Some userEnv \<Rightarrow> Some [claimsVarName \<mapsto> claimsEnv, userVarName \<mapsto> userEnv]))"

definition NewCompiler :: "'e cel_library \<Rightarrow> 'e env_set \<Rightarrow> 'e cel_compiler option" where
  "NewCompiler lib env = mustBuildEnvs lib env"

record 'e environment_set =
  en_variableName :: string
  en_envOptions :: "'e env_option list"
  en_declTypes :: "decl_type list"

definition NewEnvironmentSet ::
  "string \<Rightarrow> 'e env_option list \<Rightarrow> decl_type list \<Rightarrow> 'e environment_set option" where
  "NewEnvironmentSet variableName options declTypes =
     (if variableName = [] then None
      else Some \<lparr>en_variableName = variableName, en_envOptions = options, en_declTypes = declTypes\<rparr>)"

definition EnvironmentSet_Build ::
  "'e cel_library \<Rightarrow> 'e environment_set \<Rightarrow> 'e env_set \<Rightarrow> 'e env_set res" where
  "EnvironmentSet_Build lib es baseEnv =
     EnvSet_Extend lib baseEnv [env_options (en_envOptions es) (en_declTypes es)]"

fun add_environments ::
  "'e cel_library \<Rightarrow> 'e env_set \<Rightarrow> 'e environment_set list \<Rightarrow> 'e cel_compiler \<Rightarrow> 'e cel_compiler option" where
  "add_environments lib baseEnv [] varEnvs = Some varEnvs"
| "add_environments lib baseEnv (envSet # envSets) varEnvs =
     (case EnvironmentSet_Build lib envSet baseEnv of
        Inl err \<Rightarrow> None
      | Inr built \<Rightarrow> add_environments lib baseEnv envSets (varEnvs(en_variableName envSet \<mapsto> built)))"

definition NewExtendableCompiler ::
  "'e cel_library \<Rightarrow> 'e env_set \<Rightarrow> 'e environment_set list \<Rightarrow> 'e cel_compiler option" where
  "NewExtendableCompiler lib baseEnv additionalEnvSets =
     Option.bind (mustBuildEnvs lib baseEnv) (add_environments lib baseEnv additionalEnvSets)"

text \<open>The compiler of external claims sources.\<close>

definition external_NewCompiler :: "'e cel_library \<Rightarrow> 'e env_set \<Rightarrow> 'e cel_compiler option" where
  "external_NewCompiler lib baseEnv =
     Option.bind (NewEnvironmentSet responseVarName [Variable responseVarName responseType] [responseType])
       (\<lambda>envSet. NewExtendableCompiler lib baseEnv [envSet])"

text \<open>
  The engine of \<open>Cel\<close> that a compiler amounts to: expressions are compiled in the environment for stored
  expressions of their variable.
\<close>

definition compiler_engine :: "'e cel_library \<Rightarrow> 'e cel_compiler \<Rightarrow> cel_engine" where
  "compiler_engine lib varEnvs =
     \<lparr>eng_Env = (\<lambda>var. case EnvSet_Env (the (varEnvs var)) StoredExpressions of Inl err \<Rightarrow> Some err | Inr env \<Rightarrow> None),
      eng_Compile = (\<lambda>var e. cl_Compile lib (es_storedExpressions (the (varEnvs var))) e),
      eng_AstToCheckedExpr = cl_AstToCheckedExpr lib,
      eng_Program = (\<lambda>var ast. cl_Program lib (es_storedExpressions (the (varEnvs var))) ast)\<rparr>"

section \<open>Every environment declares its own variable\<close>

definition variable_type :: "string \<Rightarrow> decl_type" where
  "variable_type v = (if v = claimsVarName then claimsType else if v = userVarName then buildUserType else responseType)"

text \<open>The options of one variable as the environment for stored expressions gets them.\<close>

lemma stored_options:
  assumes "filterAndBuildOpts lib b (MajorMinor MaxUint MaxUint) False [env_options [Variable v t] [t]] = Inr r"
  shows "r = ([Variable v t, CustomTypes \<lparr>dp_registeredTypes = allTypesForDecl [t],
    dp_recognizeKeywordAsFieldName = True, dp_typeProvider = b\<rparr>], [])"
  using assms
  by (auto simp: filterAndBuildOpts_def allowed_option_def env_options_def version_defs MaxUint_def
      provider_EnvOptions_def Let_def bind_res_Inr_iff split: option.splits)

lemma buildEnvSet_stored:
  assumes "buildEnvSet lib base [Variable v t] [t] = Some e"
  shows "cl_Extend lib (es_storedExpressions base) [Variable v t, CustomTypes \<lparr>dp_registeredTypes = allTypesForDecl [t],
    dp_recognizeKeywordAsFieldName = True, dp_typeProvider = es_storedExpressions base\<rparr>] [] = Inr (es_storedExpressions e)"
  using assms
  by (auto simp: buildEnvSet_def EnvSet_Extend_def bind_res_Inr_iff split: sum.splits dest!: stored_options)

lemma mustBuildEnvs_Some_iff:
  "mustBuildEnvs lib base = Some c \<longleftrightarrow>
     (\<exists>ce ue. buildEnvSet lib base [Variable claimsVarName claimsType] [claimsType] = Some ce \<and>
        buildEnvSet lib base [Variable userVarName buildUserType] [buildUserType] = Some ue \<and>
        c = [claimsVarName \<mapsto> ce, userVarName \<mapsto> ue])"
  by (auto simp: mustBuildEnvs_def split: option.splits)

lemma external_NewCompiler_Some_iff:
  "external_NewCompiler lib base = Some c \<longleftrightarrow>
     (\<exists>d re. NewCompiler lib base = Some d \<and>
        buildEnvSet lib base [Variable responseVarName responseType] [responseType] = Some re \<and>
        c = d(responseVarName \<mapsto> re))"
  by (auto simp: external_NewCompiler_def NewEnvironmentSet_def NewExtendableCompiler_def NewCompiler_def buildEnvSet_def
      EnvironmentSet_Build_def bind_eq_Some_conv split: sum.splits)

text \<open>A compiler is what its environments for stored expressions make of it.\<close>

lemma compile_same_environment:
  assumes "es_storedExpressions (the (c v)) = es_storedExpressions (the (d v))"
  shows "compile (compiler_engine lib c) a v = compile (compiler_engine lib d) a v"
proof -
  have same: "eng_Env (compiler_engine lib c) v = eng_Env (compiler_engine lib d) v"
    "eng_Compile (compiler_engine lib c) v = eng_Compile (compiler_engine lib d) v"
    "eng_AstToCheckedExpr (compiler_engine lib c) = eng_AstToCheckedExpr (compiler_engine lib d)"
    "eng_Program (compiler_engine lib c) v = eng_Program (compiler_engine lib d) v"
    using assms by (simp_all add: compiler_engine_def EnvSet_Env_def)
  show ?thesis unfolding compile_def same by (rule refl)
qed

text \<open>Padlok's compiler compiles everything but external claims as the compiler of the fork does.\<close>

lemma external_compiler_extends:
  assumes "external_NewCompiler lib base = Some c" and "NewCompiler lib base = Some d" and "v \<noteq> responseVarName"
  shows "compile (compiler_engine lib c) a v = compile (compiler_engine lib d) a v"
  using assms by (intro compile_same_environment) (auto simp: external_NewCompiler_Some_iff)

lemma external_compiler_environment:
  assumes "external_NewCompiler lib base = Some c" and "c v = Some e"
  shows "v \<in> {claimsVarName, userVarName, responseVarName} \<and>
    buildEnvSet lib base [Variable v (variable_type v)] [variable_type v] = Some e"
  using assms
  by (auto simp: external_NewCompiler_Some_iff NewCompiler_def mustBuildEnvs_Some_iff variable_type_def
      split: if_splits)

text \<open>
  What cel-go documents.  \<open>declares\<close> gives the variables of an environment: extending it adds the variables
  among the options, provided that they are new.  \<open>mentions\<close> gives the variables that an expression
  mentions freely: an expression that mentions an undeclared one does not compile.
\<close>

fun option_variables :: "'e env_option list \<Rightarrow> (string \<times> decl_type) list" where
  "option_variables [] = []"
| "option_variables (Variable v t # os) = (v, t) # option_variables os"
| "option_variables (_ # os) = option_variables os"

definition extend_declares :: "'e cel_library \<Rightarrow> ('e \<Rightarrow> string \<rightharpoonup> decl_type) \<Rightarrow> bool" where
  "extend_declares lib declares \<longleftrightarrow>
     (\<forall>b os ps e. cl_Extend lib b os ps = Inr e \<longrightarrow> distinct (map fst (option_variables os)) \<longrightarrow>
        fst ` set (option_variables os) \<inter> dom (declares b) = {} \<longrightarrow>
        declares e = declares b ++ map_of (option_variables os))"

definition checks_references :: "'e cel_library \<Rightarrow> ('e \<Rightarrow> string \<rightharpoonup> decl_type) \<Rightarrow> (string \<Rightarrow> string set) \<Rightarrow> bool" where
  "checks_references lib declares mentions \<longleftrightarrow>
     (\<forall>b e ast. cl_Compile lib b e = Inr ast \<longrightarrow> mentions e \<subseteq> dom (declares b))"

lemma environment_declares:
  assumes lib: "extend_declares lib declares"
    and c: "external_NewCompiler lib base = Some c" and e: "c v = Some e"
    and fresh: "declares (es_storedExpressions base) v = None"
  shows "declares (es_storedExpressions e) = (declares (es_storedExpressions base))(v \<mapsto> variable_type v)"
proof -
  have ext: "cl_Extend lib (es_storedExpressions base) [Variable v (variable_type v), CustomTypes
      \<lparr>dp_registeredTypes = allTypesForDecl [variable_type v], dp_recognizeKeywordAsFieldName = True,
       dp_typeProvider = es_storedExpressions base\<rparr>] [] = Inr (es_storedExpressions e)"
    using external_compiler_environment [OF c e] by (blast intro: buildEnvSet_stored)
  show ?thesis
    using lib [unfolded extend_declares_def, rule_format, OF ext] fresh by (simp add: domIff)
qed

text \<open>
  C13: an expression sees one variable only: what padlok's compiler accepts as an expression over the claims, over
  the user or over the response of an external source mentions none of the other two, and its
  variable has the type declared for it, provided that the base environment does not declare these names.
\<close>

theorem expressions_see_only_their_variable:
  assumes "extend_declares lib declares" and "checks_references lib declares mentions"
    and c: "external_NewCompiler lib base = Some c"
    and fresh: "\<forall>v \<in> {claimsVarName, userVarName, responseVarName}. declares (es_storedExpressions base) v = None"
    and v: "v \<in> {claimsVarName, userVarName, responseVarName}"
    and accepted: "compile (compiler_engine lib c) a v = Inr r"
  shows "mentions (GetExpression a) \<inter> {claimsVarName, userVarName, responseVarName} \<subseteq> {v} \<and>
    declares (es_storedExpressions (the (c v))) v = Some (variable_type v)"
proof -
  obtain e where e: "c v = Some e"
    using c v by (auto simp: external_NewCompiler_Some_iff NewCompiler_def mustBuildEnvs_Some_iff)
  have d: "declares (es_storedExpressions e) = (declares (es_storedExpressions base))(v \<mapsto> variable_type v)"
    by (rule environment_declares [OF assms(1) c e bspec [OF fresh v]])
  have "cl_Compile lib (es_storedExpressions e) (GetExpression a) = Inr (cr_AST r)"
    using accepted e by (simp add: compile_Inr_iff compiler_engine_def)
  then have "mentions (GetExpression a) \<subseteq> dom (declares (es_storedExpressions e))"
    using assms(2) unfolding checks_references_def by blast
  then have "x = v" if "x \<in> mentions (GetExpression a)" "x \<in> {claimsVarName, userVarName, responseVarName}" for x
    using that fresh by (auto simp: d split: if_splits)
  then show ?thesis using d e by auto
qed


definition sample_env_library :: "(string \<times> decl_type) list cel_library" where
  "sample_env_library =
     \<lparr>cl_Extend = (\<lambda>e os ps. Inr (option_variables os @ e)), cl_differs = (\<lambda>e name t. False),
      cl_Compile = (\<lambda>e s. if s \<in> set (map fst e) then Inr \<lparr>ast_OutputType = BoolType, ast_Expr = Some (IdentExpr s)\<rparr>
        else Inl ''undeclared reference''),
      cl_AstToCheckedExpr = (\<lambda>ast. None), cl_Program = (\<lambda>e ast. Inr (\<lambda>names. Inr (CelBool True)))\<rparr>"

definition sample_base :: "(string \<times> decl_type) list env_set" where
  "sample_base = \<lparr>es_compatibilityVersion = MajorMinor 1 34, es_newExpressions = [], es_storedExpressions = []\<rparr>"

lemma sample_env_library_laws:
  "extend_declares sample_env_library map_of" "checks_references sample_env_library map_of (\<lambda>e. {e})"
proof -
  show "extend_declares sample_env_library map_of"
  proof (unfold extend_declares_def, intro allI impI)
    fix b :: "(string \<times> decl_type) list" and os ps e
    assume "cl_Extend sample_env_library b os ps = Inr e"
      and "fst ` set (option_variables os) \<inter> dom (map_of b) = {}"
    moreover from this have "e = option_variables os @ b" by (simp add: sample_env_library_def)
    ultimately show "map_of e = map_of b ++ map_of (option_variables os)"
      by (simp add: map_add_comm dom_map_of_conv_image_fst Int_commute)
  qed
  show "checks_references sample_env_library map_of (\<lambda>e. {e})"
    by (auto simp: checks_references_def sample_env_library_def dom_map_of_conv_image_fst split: if_splits)
qed

lemma sample_buildEnvSet:
  "buildEnvSet sample_env_library sample_base [Variable v t] [t]
    = Some \<lparr>es_compatibilityVersion = MajorMinor 1 34, es_newExpressions = [(v, t)], es_storedExpressions = [(v, t)]\<rparr>"
proof -
  have none: "find (\<lambda>(name, t). False) xs = None" for xs :: "(string \<times> decl_type) list"
    by (simp add: find_None_iff)
  show ?thesis
    by (simp add: buildEnvSet_def EnvSet_Extend_def sample_base_def filterAndBuildOpts_def allowed_option_def env_options_def
        version_defs MaxUint_def provider_EnvOptions_def Let_def bind_res_def sample_env_library_def none)
qed

theorem expressions_see_only_their_variable_witness:
  "\<exists>c r. external_NewCompiler sample_env_library sample_base = Some c \<and>
     compile (compiler_engine sample_env_library c) (ClaimValidationCondition ''claims'' ''message'') claimsVarName = Inr r \<and>
     map_of (es_storedExpressions (the (c claimsVarName))) claimsVarName = Some (variable_type claimsVarName)"
proof -
  let ?env = "\<lambda>v t. \<lparr>es_compatibilityVersion = MajorMinor 1 34, es_newExpressions = [(v, t)], es_storedExpressions = [(v, t)]\<rparr>"
  let ?c = "[claimsVarName \<mapsto> ?env claimsVarName claimsType, userVarName \<mapsto> ?env userVarName buildUserType,
    responseVarName \<mapsto> ?env responseVarName responseType]"
  let ?a = "ClaimValidationCondition ''claims'' ''message''"
  have c: "external_NewCompiler sample_env_library sample_base = Some ?c"
    by (simp add: external_NewCompiler_Some_iff NewCompiler_def mustBuildEnvs_Some_iff sample_buildEnvSet)
  have accepted: "compile (compiler_engine sample_env_library ?c) ?a claimsVarName
      = Inr \<lparr>cr_Program = (\<lambda>names. Inr (CelBool True)), cr_AST = \<lparr>ast_OutputType = BoolType, ast_Expr = Some (IdentExpr ''claims'')\<rparr>,
        cr_ExpressionAccessor = ?a\<rparr>"
    by (simp add: compile_Inr_iff compiler_engine_def EnvSet_Env_def sample_env_library_def)
  show ?thesis
    using expressions_see_only_their_variable [OF sample_env_library_laws c _ _ accepted] c accepted
    by (fastforce simp: sample_base_def)
qed

section \<open>The user as it is declared and as it is evaluated\<close>

text \<open>Whether a CEL value, by the JSON it stands for, is of a declared type.\<close>

fun json_has_type :: "decl_type \<Rightarrow> json \<Rightarrow> bool" where
  "json_has_type (SimpleDecl n) j =
     (if n = ''string'' then (case j of JStr _ \<Rightarrow> True | _ \<Rightarrow> False) else n \<in> {''any'', ''dyn''})"
| "json_has_type (ListDecl el m) j = (case j of JArr xs \<Rightarrow> list_all (json_has_type el) xs | _ \<Rightarrow> False)"
| "json_has_type (MapDecl k el m) j =
     (case j of JObj ms \<Rightarrow> json_has_type k (JStr []) \<and> list_all (\<lambda>(name, x). json_has_type el x) ms | _ \<Rightarrow> False)"
| "json_has_type (ObjectDecl n fs) j = False"

definition value_has_type :: "decl_type \<Rightarrow> ref_val \<Rightarrow> bool" where
  "value_has_type t v =
     (case v of NativeVal j \<Rightarrow> json_has_type t j | UnescapeMapper j \<Rightarrow> json_has_type t j
      | UnescapeLister j \<Rightarrow> json_has_type t j | _ \<Rightarrow> False)"

text \<open>The extra values as the library turns a Go map of lists of strings into a CEL value, in the order of some listing.\<close>

definition extra_json :: "string list \<Rightarrow> user_info \<Rightarrow> json" where
  "extra_json order info = JObj (map (\<lambda>k. (k, groups_json (the (ui_Extra info k)))) order)"

lemma value_has_type_native [simp]: "value_has_type t (nativeToValueWithUnescape j) \<longleftrightarrow> json_has_type t j"
  by (simp add: value_has_type_def nativeToValueWithUnescape_def unescapeWrapper_def split: json.split)

lemma groups_have_type: "json_has_type (ListDecl StringDecl m) (groups_json gs)"
  by (induction gs) (auto simp: groups_json_def)

lemma extra_has_type: "json_has_type (MapDecl StringDecl (ListDecl StringDecl m) n) (extra_json order info)"
  using groups_have_type by (simp add: extra_json_def list_all_iff)

lemma user_registered:
  "map_of (allTypesForDecl [buildUserType]) ''kubernetes.UserInfo'' = Some buildUserType"
  by code_simp

lemma user_field_types:
  "FindStructFieldType \<lparr>dp_registeredTypes = allTypesForDecl [buildUserType], dp_recognizeKeywordAsFieldName = True,
     dp_typeProvider = b\<rparr> next ''kubernetes.UserInfo'' f =
   (if f = ''username'' \<or> f = ''uid'' then Some StringDecl
    else if f = ''groups'' then Some (ListDecl StringDecl (- 1))
    else if f = ''extra'' then Some (MapDecl StringDecl (ListDecl StringDecl (- 1)) (- 1)) else None)"
proof -
  have fields: "decl_Fields buildUserType g =
      (if g = ''username'' \<or> g = ''uid'' then Some StringDecl
       else if g = ''groups'' then Some (ListDecl StringDecl (- 1))
       else if g = ''extra'' then Some (MapDecl StringDecl (ListDecl StringDecl (- 1)) (- 1)) else None)" for g
    by (simp add: decl_Fields_def buildUserType_def field_map_def user_fields_def)
  have keyword: "decl_Fields buildUserType (''__'' @ g @ ''__'') = None" for g by (simp add: fields)
  have no_map: "(case buildUserType of MapDecl k el m \<Rightarrow> Some el | _ \<Rightarrow> None) = None" by (simp add: buildUserType_def)
  have "FindStructFieldType \<lparr>dp_registeredTypes = allTypesForDecl [buildUserType], dp_recognizeKeywordAsFieldName = True,
     dp_typeProvider = b\<rparr> next ''kubernetes.UserInfo'' f = decl_Fields buildUserType f"
    unfolding FindStructFieldType_def findDeclType_def decl_provider.simps user_registered option.case keyword no_map
    by (cases "decl_Fields buildUserType f") (simp_all only: option.case if_cancel)
  then show ?thesis unfolding fields .
qed

lemma user_field_values:
  "fst (Find (StringKey ''username'') (lazyUserInfoValue extra info)) = (Some (nativeToValueWithUnescape (JStr (ui_Name info))), True)"
  "fst (Find (StringKey ''uid'') (lazyUserInfoValue extra info)) = (Some (nativeToValueWithUnescape (JStr (ui_UID info))), True)"
  "fst (Find (StringKey ''groups'') (lazyUserInfoValue extra info)) = (Some (nativeToValueWithUnescape (groups_json (ui_Groups info))), True)"
  "fst (Find (StringKey ''extra'') (lazyUserInfoValue extra info)) = (Some (nativeToValueWithUnescape extra), True)"
proof -
  have "Unescape ''username'' = Some ''username''" "Unescape ''uid'' = Some ''uid''"
    "Unescape ''groups'' = Some ''groups''" "Unescape ''extra'' = Some ''extra''"
    by code_simp+
  then show
    "fst (Find (StringKey ''username'') (lazyUserInfoValue extra info)) = (Some (nativeToValueWithUnescape (JStr (ui_Name info))), True)"
    "fst (Find (StringKey ''uid'') (lazyUserInfoValue extra info)) = (Some (nativeToValueWithUnescape (JStr (ui_UID info))), True)"
    "fst (Find (StringKey ''groups'') (lazyUserInfoValue extra info)) = (Some (nativeToValueWithUnescape (groups_json (ui_Groups info))), True)"
    "fst (Find (StringKey ''extra'') (lazyUserInfoValue extra info)) = (Some (nativeToValueWithUnescape extra), True)"
    by (simp_all add: Find_def lazyUserInfoValue_def Append_def NewMapValue_def resolveField_def Let_def)
qed

text \<open>
  C14: the declared type of the user is the type of its value: with the types that the environment for user
  expressions is extended with, a selection from the user passes the type checker exactly for the four fields of
  the declaration, and what it then reads from the lazy value of any user is of the declared type.
\<close>

theorem user_value_has_declared_type:
  assumes "filterAndBuildOpts lib b (MajorMinor MaxUint MaxUint) False [env_options [Variable userVarName buildUserType] [buildUserType]]
      = Inr (opts, progs)" and "CustomTypes p \<in> set opts"
  shows "if f \<in> {''username'', ''uid'', ''groups'', ''extra''}
    then \<exists>t v. FindStructFieldType p next ''kubernetes.UserInfo'' f = Some t \<and>
      fst (Find (StringKey f) (lazyUserInfoValue (extra_json order info) info)) = (Some v, True) \<and> value_has_type t v
    else FindStructFieldType p next ''kubernetes.UserInfo'' f = None"
proof -
  have p: "p = \<lparr>dp_registeredTypes = allTypesForDecl [buildUserType], dp_recognizeKeywordAsFieldName = True, dp_typeProvider = b\<rparr>"
    using stored_options [OF assms(1)] assms(2) by simp
  note types = user_field_types [of b "next", folded p]
  consider "f = ''username''" | "f = ''uid''" | "f = ''groups''" | "f = ''extra''"
    | "f \<noteq> ''username''" "f \<noteq> ''uid''" "f \<noteq> ''groups''" "f \<noteq> ''extra''"
    by blast
  then show ?thesis
  proof cases
    case 3
    then show ?thesis using groups_have_type by (simp add: types user_field_values del: json_has_type.simps)
  next
    case 4
    then show ?thesis using extra_has_type by (simp add: types user_field_values del: json_has_type.simps)
  qed (simp_all add: types user_field_values)
qed

theorem user_value_has_declared_type_witness:
  "\<exists>(p :: (string \<times> decl_type) list decl_provider) t v. FindStructFieldType p (\<lambda>typeName fieldName. None) ''kubernetes.UserInfo'' ''groups'' = Some t \<and>
     fst (Find (StringKey ''groups'') (lazyUserInfoValue (extra_json []
       \<lparr>ui_Name = ''jane'', ui_UID = [], ui_Groups = [''dev'', ''ops''], ui_Extra = Map.empty\<rparr>)
       \<lparr>ui_Name = ''jane'', ui_UID = [], ui_Groups = [''dev'', ''ops''], ui_Extra = Map.empty\<rparr>)) = (Some v, True) \<and>
     value_has_type t v"
proof -
  let ?p = "\<lparr>dp_registeredTypes = allTypesForDecl [buildUserType], dp_recognizeKeywordAsFieldName = True,
    dp_typeProvider = [] :: (string \<times> decl_type) list\<rparr>"
  have none: "find (\<lambda>(name, t). False) xs = None" for xs :: "(string \<times> decl_type) list"
    by (simp add: find_None_iff)
  have opts: "filterAndBuildOpts sample_env_library [] (MajorMinor MaxUint MaxUint) False
      [env_options [Variable userVarName buildUserType] [buildUserType]] = Inr ([Variable userVarName buildUserType, CustomTypes ?p], [])"
    by (simp add: filterAndBuildOpts_def allowed_option_def env_options_def version_defs MaxUint_def
        provider_EnvOptions_def Let_def bind_res_def sample_env_library_def none)
  have types: "CustomTypes ?p \<in> set [Variable userVarName buildUserType, CustomTypes ?p]" by simp
  have field: "''groups'' \<in> {''username'', ''uid'', ''groups'', ''extra''}" by simp
  obtain t v where "FindStructFieldType ?p (\<lambda>typeName fieldName. None) ''kubernetes.UserInfo'' ''groups'' = Some t"
    "fst (Find (StringKey ''groups'') (lazyUserInfoValue (extra_json []
       \<lparr>ui_Name = ''jane'', ui_UID = [], ui_Groups = [''dev'', ''ops''], ui_Extra = Map.empty\<rparr>)
       \<lparr>ui_Name = ''jane'', ui_UID = [], ui_Groups = [''dev'', ''ops''], ui_Extra = Map.empty\<rparr>)) = (Some v, True)"
    "value_has_type t v"
    using user_value_has_declared_type [OF opts types, of "''groups''"] unfolding if_P [OF field] by blast
  then show ?thesis by (intro exI conjI)
qed

end
