(* ===== verification/Cel_Base.thy ===== *)
theory Cel_Base
  imports Cel_Environments
begin

text \<open>
  The base environments of \<open>pkg/cel/environment/base.go\<close>: the versioned options that every environment
  starts from, and \<open>MustBaseEnvSet\<close>, which builds the environment set of a version once and keeps it in a global
  table.  A function library or a language setting of cel-go is a name.

  The table fills over the life of the process, while feature gates may change; padlok, like any
  caller, gets what was built first.  The property is that this does not matter for padlok, which compiles in the
  environment for stored expressions only.
\<close>

section \<open>The base options\<close>

text \<open>The argument is the answer of the feature gate \<open>AuthorizeWithSelectors\<close> when it is asked.\<close>

definition StrictCostOpt :: "'e versioned_options" where
  "StrictCostOpt = \<lparr>vo_IntroducedVersion = MajorMinor 1 0, vo_RemovedVersion = None, vo_FeatureEnabled = None,
     vo_EnvOptions = [], vo_ProgramOptions = [''CostTracking(CostEstimator)''], vo_DeclTypes = []\<rparr>"

definition library_options :: "apiserver_version \<Rightarrow> string list \<Rightarrow> 'e versioned_options" where
  "library_options v names = \<lparr>vo_IntroducedVersion = v, vo_RemovedVersion = None, vo_FeatureEnabled = None,
     vo_EnvOptions = map LibraryOption names, vo_ProgramOptions = [], vo_DeclTypes = []\<rparr>"

definition baseOpts :: "bool \<Rightarrow> 'e versioned_options list" where
  "baseOpts AuthorizeWithSelectors =
    [(library_options (MajorMinor 1 0) [''HomogeneousAggregateLiterals'', ''EagerlyValidateDeclarations(true)'',
        ''DefaultUTCTimeZone(true)'', ''library.URLs'', ''library.Regex'', ''library.Lists'',
        ''CostEstimatorOptions(PresenceTestHasCost(false))''])
      \<lparr>vo_ProgramOptions := [''EvalOptions(OptOptimize, OptTrackCost)'', ''CostLimit(1000000)'',
        ''CostTrackerOptions(PresenceTestHasCost(false))'']\<rparr>,
     library_options (MajorMinor 1 27) [''library.Authz''],
     library_options (MajorMinor 1 28) [''CrossTypeNumericComparisons(true)'', ''OptionalTypes'', ''library.Quantity''],
     library_options (MajorMinor 1 29) [''ASTValidators''],
     (library_options (MajorMinor 1 0) [''ext.Strings(0)''])\<lparr>vo_RemovedVersion := Some (MajorMinor 1 29)\<rparr>,
     library_options (MajorMinor 1 29) [''ext.Strings(2)''],
     library_options (MajorMinor 1 29) [''ext.Sets''],
     library_options (MajorMinor 1 30) [''library.IP'', ''library.CIDR''],
     library_options (MajorMinor 1 31) [''library.Format''],
     (library_options (MajorMinor 1 31) [''library.AuthzSelectors''])\<lparr>vo_FeatureEnabled := Some AuthorizeWithSelectors\<rparr>,
     library_options (MajorMinor 1 32) [''ext.TwoVarComprehensions''],
     library_options (MajorMinor 1 33) [''library.SemverLib(1)''],
     library_options (MajorMinor 1 34) [''ext.Lists(3)''],
     StrictCostOpt]"

section \<open>Building and caching\<close>

text \<open>The first argument after the library is the result of \<open>cel.NewEnv\<close>; a panic is \<open>None\<close>.\<close>

definition newEnvSet ::
  "'e cel_library \<Rightarrow> 'e res \<Rightarrow> apiserver_version \<Rightarrow> 'e versioned_options list \<Rightarrow> 'e env_set res" where
  "newEnvSet lib newEnv compatibilityVersion opts =
     bind_res newEnv id (\<lambda>base.
       EnvSet_Extend lib \<lparr>es_compatibilityVersion = compatibilityVersion, es_newExpressions = base,
         es_storedExpressions = base\<rparr> opts)"

definition mustNewEnvSet ::
  "'e cel_library \<Rightarrow> 'e res \<Rightarrow> apiserver_version \<Rightarrow> 'e versioned_options list \<Rightarrow> 'e env_set option" where
  "mustNewEnvSet lib newEnv ver opts =
     (case newEnvSet lib newEnv ver opts of Inl err \<Rightarrow> None | Inr envSet \<Rightarrow> Some envSet)"

text \<open>The key of a version is its two numbers; a nil version panics.\<close>

definition MustBaseEnvSet ::
  "'e cel_library \<Rightarrow> 'e res \<Rightarrow> bool \<Rightarrow> bool \<Rightarrow> apiserver_version option \<Rightarrow> (nat \<times> nat \<rightharpoonup> 'e env_set)
    \<Rightarrow> ('e env_set \<times> (nat \<times> nat \<rightharpoonup> 'e env_set)) option" where
  "MustBaseEnvSet lib newEnv cacheBaseEnvs gate version baseEnvs =
     (case version of
        None \<Rightarrow> None
      | Some ver \<Rightarrow>
          let key = (Major ver, Minor ver) in
          (case baseEnvs key of
             Some entry \<Rightarrow> Some (entry, baseEnvs)
           | None \<Rightarrow>
          (case mustNewEnvSet lib newEnv ver (baseOpts gate) of
             None \<Rightarrow> None
           | Some entry \<Rightarrow> Some (entry, if cacheBaseEnvs then baseEnvs(key \<mapsto> entry) else baseEnvs))))"

text \<open>The calls in the life of a process, each with the gate as it is then.\<close>

fun base_calls ::
  "'e cel_library \<Rightarrow> 'e res \<Rightarrow> bool \<Rightarrow> (bool \<times> apiserver_version) list \<Rightarrow> (nat \<times> nat \<rightharpoonup> 'e env_set)
    \<Rightarrow> ('e env_set list \<times> (nat \<times> nat \<rightharpoonup> 'e env_set)) option" where
  "base_calls lib newEnv cacheBaseEnvs [] baseEnvs = Some ([], baseEnvs)"
| "base_calls lib newEnv cacheBaseEnvs ((gate, ver) # calls) baseEnvs =
     (case MustBaseEnvSet lib newEnv cacheBaseEnvs gate (Some ver) baseEnvs of
        None \<Rightarrow> None
      | Some (entry, baseEnvs1) \<Rightarrow>
     (case base_calls lib newEnv cacheBaseEnvs calls baseEnvs1 of
        None \<Rightarrow> None
      | Some (entries, baseEnvs2) \<Rightarrow> Some (entry # entries, baseEnvs2)))"

section \<open>The environment for stored expressions\<close>

text \<open>What the environment for stored expressions is extended with: everything that has not been removed.\<close>

definition stored_libraries :: "string list" where
  "stored_libraries = [''HomogeneousAggregateLiterals'', ''EagerlyValidateDeclarations(true)'',
     ''DefaultUTCTimeZone(true)'', ''library.URLs'', ''library.Regex'', ''library.Lists'',
     ''CostEstimatorOptions(PresenceTestHasCost(false))'', ''library.Authz'', ''CrossTypeNumericComparisons(true)'',
     ''OptionalTypes'', ''library.Quantity'', ''ASTValidators'', ''ext.Strings(2)'', ''ext.Sets'', ''library.IP'',
     ''library.CIDR'', ''library.Format'', ''library.AuthzSelectors'', ''ext.TwoVarComprehensions'',
     ''library.SemverLib(1)'', ''ext.Lists(3)'']"

definition stored_programs :: "string list" where
  "stored_programs = [''EvalOptions(OptOptimize, OptTrackCost)'', ''CostLimit(1000000)'',
     ''CostTrackerOptions(PresenceTestHasCost(false))'', ''CostTracking(CostEstimator)'']"

lemmas base_option_defs = baseOpts_def library_options_def StrictCostOpt_def

lemma stored_allows:
  "allowed_option (MajorMinor MaxUint MaxUint) False opt" if "vo_IntroducedVersion opt = MajorMinor 1 n" "vo_RemovedVersion opt = None"
  using that by (simp add: allowed_option_def version_defs MaxUint_def split: option.split)

lemma stored_excludes:
  "\<not> allowed_option (MajorMinor MaxUint MaxUint) False opt" if "vo_RemovedVersion opt = Some (MajorMinor 1 n)"
  using that by (simp add: allowed_option_def version_defs MaxUint_def split: option.split)

lemma library_options_fields [simp]:
  "vo_IntroducedVersion (library_options v names) = v" "vo_RemovedVersion (library_options v names) = None"
  "vo_EnvOptions (library_options v names) = map LibraryOption names" "vo_ProgramOptions (library_options v names) = []"
  "vo_DeclTypes (library_options v names) = []"
  by (simp_all add: library_options_def)

lemma stored_base_options:
  "filterAndBuildOpts lib b (MajorMinor MaxUint MaxUint) False (baseOpts gate)
     = Inr (map LibraryOption stored_libraries, stored_programs)"
proof -
  have "filter (allowed_option (MajorMinor MaxUint MaxUint) False) (baseOpts gate) =
      take 4 (baseOpts gate) @ drop 5 (baseOpts gate :: 'a versioned_options list)"
    by (simp add: baseOpts_def StrictCostOpt_def stored_allows stored_excludes)
  then show ?thesis
    by (simp add: filterAndBuildOpts_def baseOpts_def StrictCostOpt_def stored_libraries_def stored_programs_def)
qed

definition stored_base :: "'e cel_library \<Rightarrow> 'e res \<Rightarrow> 'e res" where
  "stored_base lib newEnv =
     bind_res newEnv id (\<lambda>b. cl_Extend lib b (map LibraryOption stored_libraries) stored_programs)"

lemma mustNewEnvSet_stored:
  assumes "mustNewEnvSet lib newEnv ver (baseOpts gate) = Some e"
  shows "stored_base lib newEnv = Inr (es_storedExpressions e)"
proof -
  have "baseOpts gate \<noteq> ([] :: 'a versioned_options list)" by (simp add: baseOpts_def)
  with assms show ?thesis
    by (auto simp: mustNewEnvSet_def newEnvSet_def EnvSet_Extend_def bind_res_Inr_iff stored_base_options stored_base_def
        split: sum.splits)
qed

text \<open>The invariant of the table: all its entries have the same environment for stored expressions.\<close>

definition base_table_inv :: "'e cel_library \<Rightarrow> 'e res \<Rightarrow> (nat \<times> nat \<rightharpoonup> 'e env_set) \<Rightarrow> bool" where
  "base_table_inv lib newEnv baseEnvs \<longleftrightarrow>
     (\<forall>entry \<in> ran baseEnvs. stored_base lib newEnv = Inr (es_storedExpressions entry))"

lemma base_table_inv_upd:
  "base_table_inv lib newEnv t \<Longrightarrow> stored_base lib newEnv = Inr (es_storedExpressions entry) \<Longrightarrow>
     base_table_inv lib newEnv (t(k \<mapsto> entry))"
  by (auto simp: base_table_inv_def ran_def)

lemma MustBaseEnvSet_inv:
  assumes "base_table_inv lib newEnv t" and "MustBaseEnvSet lib newEnv cached gate ver t = Some (entry, t')"
  shows "base_table_inv lib newEnv t' \<and> stored_base lib newEnv = Inr (es_storedExpressions entry)"
proof -
  obtain v where v: "ver = Some v" using assms(2) by (auto simp: MustBaseEnvSet_def split: option.splits)
  show ?thesis
  proof (cases "t (Major v, Minor v)")
    case None
    with assms(2) v have new: "mustNewEnvSet lib newEnv v (baseOpts gate) = Some entry"
      and "t' = (if cached then t((Major v, Minor v) \<mapsto> entry) else t)"
      by (auto simp: MustBaseEnvSet_def split: option.splits)
    with assms(1) mustNewEnvSet_stored [OF new] base_table_inv_upd show ?thesis by auto
  next
    case (Some e)
    with assms v show ?thesis by (auto simp: MustBaseEnvSet_def base_table_inv_def ranI)
  qed
qed

lemma base_calls_stored:
  "base_table_inv lib newEnv t \<Longrightarrow> base_calls lib newEnv cached calls t = Some (entries, t') \<Longrightarrow>
     \<forall>entry \<in> set entries. stored_base lib newEnv = Inr (es_storedExpressions entry)"
proof (induction calls arbitrary: t entries)
  case (Cons call calls)
  obtain gate ver where call: "call = (gate, ver)" by (cases call)
  from Cons.prems(2) obtain entry t1 rest where
    step: "MustBaseEnvSet lib newEnv cached gate (Some ver) t = Some (entry, t1)"
    "base_calls lib newEnv cached calls t1 = Some (rest, t')" "entries = entry # rest"
    by (auto simp: call split: option.splits)
  from MustBaseEnvSet_inv [OF Cons.prems(1) step(1)] Cons.IH [OF _ step(2)] step(3) show ?case by auto
qed simp

lemma external_compiler_from_stored:
  assumes "external_NewCompiler lib e = Some c" and "external_NewCompiler lib e' = Some c'"
    and "es_storedExpressions e = es_storedExpressions e'" and v: "v \<in> {claimsVarName, userVarName, responseVarName}"
  shows "es_storedExpressions (the (c v)) = es_storedExpressions (the (c' v))"
proof -
  obtain x x' where x: "c v = Some x" "c' v = Some x'"
    using assms(1,2) v by (auto simp: external_NewCompiler_Some_iff NewCompiler_def mustBuildEnvs_Some_iff)
  have "buildEnvSet lib e [Variable v (variable_type v)] [variable_type v] = Some x"
    "buildEnvSet lib e' [Variable v (variable_type v)] [variable_type v] = Some x'"
    using external_compiler_environment [OF assms(1) x(1)] external_compiler_environment [OF assms(2) x(2)] by blast+
  from buildEnvSet_stored [OF this(1)] buildEnvSet_stored [OF this(2)] assms(3) x show ?thesis by simp
qed

text \<open>
  C15: what padlok accepts as an expression, and how it is evaluated, depends neither on the compatibility version nor
  on the feature gates nor on which environments were built before: compilers made from any two base environments of one
  process agree on every expression over each of the three variables.
\<close>

theorem compiled_expressions_are_stable:
  assumes "base_calls lib newEnv cached calls Map.empty = Some (entries, t)"
    and "e \<in> set entries" and "e' \<in> set entries"
    and "external_NewCompiler lib e = Some c" and "external_NewCompiler lib e' = Some c'"
    and "v \<in> {claimsVarName, userVarName, responseVarName}"
  shows "compile (compiler_engine lib c) a v = compile (compiler_engine lib c') a v"
proof -
  have "base_table_inv lib newEnv Map.empty" by (simp add: base_table_inv_def)
  from base_calls_stored [OF this assms(1)] assms(2,3)
  have "Inr (es_storedExpressions e) = (Inr (es_storedExpressions e') :: 'a res)" by metis
  then have "es_storedExpressions (the (c v)) = es_storedExpressions (the (c' v))"
    using external_compiler_from_stored [OF assms(4,5) _ assms(6)] by simp
  then show ?thesis by (rule compile_same_environment)
qed

section \<open>A sample process\<close>

lemma option_variables_append [simp]: "option_variables (xs @ ys) = option_variables xs @ option_variables ys"
  by (induction xs rule: option_variables.induct) auto

lemma option_variables_libraries [simp]: "option_variables (map LibraryOption ns) = []"
  by (induction ns) auto

lemma base_without_types:
  assumes "opt \<in> set (baseOpts gate)"
  shows "option_variables (vo_EnvOptions opt) = []" "vo_DeclTypes opt = []"
  using assms by (auto simp: baseOpts_def StrictCostOpt_def library_options_def)

lemma filtered_base:
  "\<exists>os ps. filterAndBuildOpts lib b ver honor (baseOpts gate) = Inr (os, ps) \<and> option_variables os = []"
proof -
  have types: "concat (map vo_DeclTypes (filter P opts)) = []"
    and vars: "option_variables (concat (map vo_EnvOptions (filter P opts))) = []"
    if "set opts \<subseteq> set (baseOpts gate)" for P and opts :: "'a versioned_options list"
    using that by (induction opts) (auto dest: base_without_types)
  show ?thesis
    using types [of "baseOpts gate" "allowed_option ver honor"] vars [of "baseOpts gate" "allowed_option ver honor"]
    by (simp add: filterAndBuildOpts_def Let_def)
qed

lemma external_NewCompiler_total:
  assumes "\<And>v t. \<exists>x. buildEnvSet lib e [Variable v t] [t] = Some x"
  shows "\<exists>c. external_NewCompiler lib e = Some c"
proof -
  obtain ce ue re where "buildEnvSet lib e [Variable claimsVarName claimsType] [claimsType] = Some ce"
    "buildEnvSet lib e [Variable userVarName buildUserType] [buildUserType] = Some ue"
    "buildEnvSet lib e [Variable responseVarName responseType] [responseType] = Some re"
    using assms by meson
  then show ?thesis by (simp add: external_NewCompiler_Some_iff NewCompiler_def mustBuildEnvs_Some_iff)
qed

lemma sample_mustNewEnvSet:
  "mustNewEnvSet sample_env_library (Inr []) ver (baseOpts gate)
     = Some \<lparr>es_compatibilityVersion = ver, es_newExpressions = [], es_storedExpressions = []\<rparr>"
proof -
  have "baseOpts gate \<noteq> ([] :: (string \<times> decl_type) list versioned_options list)" by (simp add: baseOpts_def)
  moreover obtain os ps where "filterAndBuildOpts sample_env_library [] ver True (baseOpts gate) = Inr (os, ps)"
    "option_variables os = []" using filtered_base [of sample_env_library "[]" ver True gate] by blast
  ultimately show ?thesis
    by (simp add: mustNewEnvSet_def newEnvSet_def EnvSet_Extend_def bind_res_def stored_base_options sample_env_library_def)
qed

theorem compiled_expressions_are_stable_witness:
  "\<exists>e e' c c' t. base_calls sample_env_library (Inr []) True [(False, MajorMinor 1 30), (True, MajorMinor 1 34)] Map.empty
       = Some ([e, e'], t) \<and>
     es_compatibilityVersion e \<noteq> es_compatibilityVersion e' \<and>
     external_NewCompiler sample_env_library e = Some c \<and> external_NewCompiler sample_env_library e' = Some c' \<and>
     compile (compiler_engine sample_env_library c) (ClaimValidationCondition ''claims'' ''message'') claimsVarName =
       compile (compiler_engine sample_env_library c') (ClaimValidationCondition ''claims'' ''message'') claimsVarName"
proof -
  let ?e = "\<lambda>ver. \<lparr>es_compatibilityVersion = ver, es_newExpressions = [] :: (string \<times> decl_type) list, es_storedExpressions = []\<rparr>"
  have build: "\<exists>x. buildEnvSet sample_env_library (?e ver) [Variable v t] [t] = Some x" for ver v t
  proof -
    have none: "find (\<lambda>(name, t). False) xs = None" for xs :: "(string \<times> decl_type) list"
      by (simp add: find_None_iff)
    have "\<exists>os ps. filterAndBuildOpts sample_env_library [] w honor [env_options [Variable v t] [t]] = Inr (os, ps)" for w honor
      by (simp add: filterAndBuildOpts_def Let_def provider_EnvOptions_def bind_res_def none sample_env_library_def)
    then obtain os ps os' ps' where
      "filterAndBuildOpts sample_env_library [] ver True [env_options [Variable v t] [t]] = Inr (os, ps)"
      "filterAndBuildOpts sample_env_library [] (MajorMinor MaxUint MaxUint) False [env_options [Variable v t] [t]] = Inr (os', ps')"
      by blast
    then show ?thesis
      by (simp add: buildEnvSet_def EnvSet_Extend_def bind_res_def) (simp add: sample_env_library_def)
  qed
  then have "\<exists>c. external_NewCompiler sample_env_library (?e ver) = Some c" for ver
    by (rule external_NewCompiler_total)
  then obtain c c' where c: "external_NewCompiler sample_env_library (?e (MajorMinor 1 30)) = Some c"
    "external_NewCompiler sample_env_library (?e (MajorMinor 1 34)) = Some c'" by blast
  have calls: "\<exists>t. base_calls sample_env_library (Inr []) True [(False, MajorMinor 1 30), (True, MajorMinor 1 34)] Map.empty
      = Some ([?e (MajorMinor 1 30), ?e (MajorMinor 1 34)], t)"
    by (simp add: MustBaseEnvSet_def Let_def sample_mustNewEnvSet)
  then obtain t where calls: "base_calls sample_env_library (Inr []) True [(False, MajorMinor 1 30), (True, MajorMinor 1 34)] Map.empty
      = Some ([?e (MajorMinor 1 30), ?e (MajorMinor 1 34)], t)" by blast
  have "compile (compiler_engine sample_env_library c) (ClaimValidationCondition ''claims'' ''message'') claimsVarName =
      compile (compiler_engine sample_env_library c') (ClaimValidationCondition ''claims'' ''message'') claimsVarName"
    by (rule compiled_expressions_are_stable [OF calls _ _ c]) simp_all
  moreover have "es_compatibilityVersion (?e (MajorMinor 1 30)) \<noteq> es_compatibilityVersion (?e (MajorMinor 1 34))" by simp
  ultimately show ?thesis using calls c by blast
qed

end
