(* ===== verification/Jwks_Metrics.thy ===== *)
theory Jwks_Metrics
  imports Token_Union
begin

text \<open>
  The metrics of the fork's OIDC authenticator (\<open>metrics.go\<close>): the latencies of authentications, the hash of the last
  key set and the times of the last fetches for each issuer, with their registration and collection; and \<open>metricsRoundTripper\<close> of \<open>oidc.go\<close>, which sits
  between the key set of go-oidc and the network and records what passes.

  The state is one record for the three tables; of a histogram it keeps the observations.  SHA-256 in hexadecimal, the decoder of key sets, the parser of
  media types and the clock are parameters; so is the transport below, as a function of a state of its own.
  Whether the lifecycle of the authenticator is still running is asked twice, before and after the request; both
  answers are arguments.
\<close>

section \<open>The tables\<close>

record jwks_hash_key =
  jk_jwtIssuerHash :: string
  jk_apiServerIDHash :: string

record jwks_metrics =
  jm_hashes :: "jwks_hash_key \<rightharpoonup> string"
  jm_timestamps :: "string \<times> string \<times> string \<rightharpoonup> nat"
  jm_latency :: "string \<times> string \<Rightarrow> nat list"

record jwks_library =
  jl_hex_sha256 :: "string \<Rightarrow> string"
  jl_unmarshal_keys :: "string \<Rightarrow> error option"
  jl_ParseMediaType :: "string \<Rightarrow> string option"

definition getHash :: "jwks_library \<Rightarrow> string \<Rightarrow> string" where
  "getHash lib data = (if data \<noteq> [] then ''sha256:'' @ jl_hex_sha256 lib data else [])"

definition hash_key :: "jwks_library \<Rightarrow> string \<Rightarrow> string \<Rightarrow> jwks_hash_key" where
  "hash_key lib jwtIssuer apiServerID =
     \<lparr>jk_jwtIssuerHash = getHash lib jwtIssuer, jk_apiServerIDHash = getHash lib apiServerID\<rparr>"

definition setHash :: "jwks_library \<Rightarrow> string \<Rightarrow> string \<Rightarrow> string \<Rightarrow> jwks_metrics \<Rightarrow> jwks_metrics" where
  "setHash lib jwtIssuer apiServerID keySet m =
     m\<lparr>jm_hashes := (jm_hashes m)(hash_key lib jwtIssuer apiServerID \<mapsto> getHash lib keySet)\<rparr>"

definition deleteHash :: "jwks_library \<Rightarrow> string \<Rightarrow> string \<Rightarrow> jwks_metrics \<Rightarrow> jwks_metrics" where
  "deleteHash lib jwtIssuer apiServerID m =
     m\<lparr>jm_hashes := (jm_hashes m)(hash_key lib jwtIssuer apiServerID := None)\<rparr>"

definition recordJWKSFetchTimestamp ::
  "jwks_library \<Rightarrow> nat \<Rightarrow> string \<Rightarrow> string \<Rightarrow> string \<Rightarrow> jwks_metrics \<Rightarrow> jwks_metrics" where
  "recordJWKSFetchTimestamp lib now result jwtIssuer apiServerID m =
     m\<lparr>jm_timestamps := (jm_timestamps m)((result, getHash lib jwtIssuer, getHash lib apiServerID) \<mapsto> now)\<rparr>"

definition recordJWKSFetchKeySetSuccess ::
  "jwks_library \<Rightarrow> nat \<Rightarrow> string \<Rightarrow> string \<Rightarrow> string \<Rightarrow> jwks_metrics \<Rightarrow> jwks_metrics" where
  "recordJWKSFetchKeySetSuccess lib now jwtIssuer apiServerID keySet m =
     recordJWKSFetchTimestamp lib now ''success'' jwtIssuer apiServerID (setHash lib jwtIssuer apiServerID keySet m)"

definition recordJWKSFetchKeySetFailure ::
  "jwks_library \<Rightarrow> nat \<Rightarrow> string \<Rightarrow> string \<Rightarrow> jwks_metrics \<Rightarrow> jwks_metrics" where
  "recordJWKSFetchKeySetFailure lib now jwtIssuer apiServerID m =
     recordJWKSFetchTimestamp lib now ''failure'' jwtIssuer apiServerID m"

definition DeleteJWKSFetchMetrics :: "jwks_library \<Rightarrow> string \<Rightarrow> string \<Rightarrow> jwks_metrics \<Rightarrow> jwks_metrics" where
  "DeleteJWKSFetchMetrics lib jwtIssuer apiServerID m =
     (let m1 = deleteHash lib jwtIssuer apiServerID m in
      m1\<lparr>jm_timestamps := (jm_timestamps m1)
        ((''success'', getHash lib jwtIssuer, getHash lib apiServerID) := None,
         (''failure'', getHash lib jwtIssuer, getHash lib apiServerID) := None)\<rparr>)"

definition ResetMetrics :: "jwks_metrics \<Rightarrow> jwks_metrics" where
  "ResetMetrics m = m\<lparr>jm_latency := (\<lambda>_. []), jm_timestamps := Map.empty, jm_hashes := Map.empty\<rparr>"

definition recordAuthenticationLatency :: "string \<Rightarrow> string \<Rightarrow> nat \<Rightarrow> jwks_metrics \<Rightarrow> jwks_metrics" where
  "recordAuthenticationLatency result jwtIssuerHash duration m =
     m\<lparr>jm_latency := (jm_latency m)((result, jwtIssuerHash) := jm_latency m (result, jwtIssuerHash) @ [duration])\<rparr>"

text \<open>The instrumented authenticator of an issuer with its clock, read at the start and at the end.\<close>

definition instrumented_authenticate ::
  "jwks_library \<Rightarrow> string \<Rightarrow> token_auth \<Rightarrow> nat \<Rightarrow> nat \<Rightarrow> ctx \<Rightarrow> string \<Rightarrow> history \<Rightarrow> jwks_metrics
    \<Rightarrow> (auth_result \<times> history) \<times> jwks_metrics" where
  "instrumented_authenticate lib jwtIssuer delegate start now ctx token h m =
     (case instrumented_AuthenticateToken delegate ctx token h of
        (answer, None) \<Rightarrow> (answer, m)
      | (answer, Some result) \<Rightarrow> (answer, recordAuthenticationLatency result (getHash lib jwtIssuer) (now - start) m))"

section \<open>Registration and collection\<close>

text \<open>What is registered, behind a \<open>sync.Once\<close>: the flag and the registry.\<close>

definition RegisterMetrics :: "bool \<times> string list \<Rightarrow> bool \<times> string list" where
  "RegisterMetrics r =
     (case r of (done, registry) \<Rightarrow>
        if done then (done, registry)
        else (True, registry @ [''jwt_authenticator_latency_seconds'', ''jwt_authenticator_jwks_fetch_last_timestamp_seconds'',
          ''jwt_authenticator_jwks_fetch_last_key_set_info'']))"

text \<open>The collector shows every hash with the value 1 and the three labels; the order is that in which the loop ranges
  over the table.\<close>

definition getHashes :: "jwks_metrics \<Rightarrow> jwks_hash_key \<rightharpoonup> string" where
  "getHashes m = jm_hashes m"

definition CollectWithStability :: "jwks_hash_key list \<Rightarrow> jwks_metrics \<Rightarrow> (nat \<times> string \<times> string \<times> string) list" where
  "CollectWithStability order m =
     List.map_filter (\<lambda>key. map_option (\<lambda>h. (1, jk_jwtIssuerHash key, jk_apiServerIDHash key, h)) (getHashes m key)) order"

lemma registered_once: "(RegisterMetrics ^^ Suc n) (False, []) = RegisterMetrics (False, [])"
  by (induction n) (simp_all add: RegisterMetrics_def)

lemma collected_iff:
  assumes "set order = dom (jm_hashes m)"
  shows "(n, iss, api, h) \<in> set (CollectWithStability order m) \<longleftrightarrow>
    n = 1 \<and> jm_hashes m \<lparr>jk_jwtIssuerHash = iss, jk_apiServerIDHash = api\<rparr> = Some h"
proof -
  have "(n, iss, api, h) \<in> set (CollectWithStability order m) \<longleftrightarrow>
      (\<exists>key. jm_hashes m key = Some h \<and> n = 1 \<and> jk_jwtIssuerHash key = iss \<and> jk_apiServerIDHash key = api)"
    using assms by (force simp: CollectWithStability_def getHashes_def map_filter_def)
  also have "\<dots> \<longleftrightarrow> n = 1 \<and> jm_hashes m \<lparr>jk_jwtIssuerHash = iss, jk_apiServerIDHash = api\<rparr> = Some h"
    by (metis (full_types) jwks_hash_key.surjective jwks_hash_key.select_convs old.unit.exhaust)
  finally show ?thesis .
qed

text \<open>
  Instrumentation does not change an answer; it records one latency for each token of the authenticator's issuer, as a success
  exactly when the token is accepted, and nothing for tokens of other issuers.
\<close>

lemma instrumented_authenticate_records:
  "instrumented_authenticate lib jwtIssuer (AuthenticateToken env a) start now ctx token h m =
     (AuthenticateToken env a ctx token h,
      if \<not> hasCorrectIssuer (as_issuer_URL (as_jwt_Issuer (ja_jwtAuthenticator a))) token then m
      else recordAuthenticationLatency
        (if \<exists>info. accepts (fst (AuthenticateToken env a ctx token h)) info then ''success'' else ''failure'')
        (getHash lib jwtIssuer) (now - start) m)"
proof -
  obtain response ok err h1 where r: "AuthenticateToken env a ctx token h = ((response, ok, err), h1)" by (metis surj_pair)
  have no_opinion: "(\<not> ok \<and> err = None) \<longleftrightarrow> \<not> hasCorrectIssuer (as_issuer_URL (as_jwt_Issuer (ja_jwtAuthenticator a))) token"
    using AuthenticateToken_no_opinion [of env a ctx token h] AuthenticateToken_wf [of env a ctx token h]
    by (auto simp: r auth_wf_def fail_def)
  have accepted: "(\<exists>info. accepts (response, ok, err) info) \<longleftrightarrow> ok \<and> err = None"
  proof
    assume "ok \<and> err = None"
    then show "\<exists>info. accepts (response, ok, err) info"
      using AuthenticateToken_ok [of env a ctx token h response] by (simp add: r)
  qed (auto simp: accepts_def)
  show ?thesis
    using no_opinion accepted
    by (auto simp: instrumented_authenticate_def instrumented_AuthenticateToken_def r)
qed

section \<open>The round tripper\<close>

text \<open>A body is what reading it to its end gives; a nil body is \<open>None\<close>.\<close>

record jwks_response =
  jr_StatusCode :: nat
  jr_ContentType :: string
  jr_Body :: "string res option"

text \<open>The two results of a round trip.\<close>

type_synonym jwks_answer = "jwks_response option \<times> error option"

record 'h metrics_round_tripper =
  mt_base :: "'h \<Rightarrow> http_request \<Rightarrow> jwks_answer \<times> 'h"
  mt_jwksURL :: string
  mt_jwtIssuer :: string
  mt_apiServerID :: string

definition unmarshalResp :: "jwks_library \<Rightarrow> jwks_response \<Rightarrow> string \<Rightarrow> error option" where
  "unmarshalResp lib r body =
     (case jl_unmarshal_keys lib body of
        None \<Rightarrow> None
      | Some err \<Rightarrow>
          if jl_ParseMediaType lib (jr_ContentType r) = Some ''application/json''
          then Some (Errorf ''got Content-Type = application/json, but could not unmarshal as JSON: %w'' [OpE err])
          else Some (Errorf ''expected Content-Type = application/json, got %q: %w'' [OpS (jr_ContentType r), OpE err]))"

definition read_after_close :: error where
  "read_after_close = Errorf ''http: read on closed response body'' []"

text \<open>\<open>RoundTrip\<close>; a nil response without an error makes it panic (\<open>None\<close>).\<close>

definition metrics_RoundTrip ::
  "jwks_library \<Rightarrow> nat \<Rightarrow> bool \<Rightarrow> bool \<Rightarrow> 'h metrics_round_tripper \<Rightarrow> http_request \<Rightarrow> 'h \<Rightarrow> jwks_metrics
    \<Rightarrow> ((jwks_answer \<times> 'h) \<times> jwks_metrics) option" where
  "metrics_RoundTrip lib now shouldRecord1 shouldRecord2 t req h m =
     (let failed = (if shouldRecord2
            then recordJWKSFetchKeySetFailure lib now (mt_jwtIssuer t) (mt_apiServerID t) m else m) in
      if rq_URL req \<noteq> mt_jwksURL t \<or> \<not> shouldRecord1 then Some (mt_base t h req, m)
      else (case mt_base t h req of
        ((resp, Some err), h1) \<Rightarrow> Some (((resp, Some err), h1), failed)
      | ((None, None), h1) \<Rightarrow> None
      | ((Some resp, None), h1) \<Rightarrow>
          if jr_StatusCode resp \<noteq> 200 then Some (((Some resp, None), h1), failed)
          else (case jr_Body resp of
            None \<Rightarrow> Some (((Some resp, None), h1), failed)
          | Some (Inl err) \<Rightarrow>
              Some (((Some (resp\<lparr>jr_Body := Some (Inl read_after_close)\<rparr>),
                Some (Errorf ''error reading JWKS response: %w'' [OpE err])), h1), failed)
          | Some (Inr body) \<Rightarrow>
              Some (((Some (resp\<lparr>jr_Body := Some (Inr body)\<rparr>), None), h1),
                (if \<not> shouldRecord2 then m
                 else (case unmarshalResp lib resp body of
                   Some unmarshalErr \<Rightarrow> failed
                 | None \<Rightarrow> recordJWKSFetchKeySetSuccess lib now (mt_jwtIssuer t) (mt_apiServerID t) body m))))))"

section \<open>The round tripper is transparent\<close>

text \<open>What a client sees that makes the request and reads the body: the status, the content type and the bytes, or
  that the fetch has failed.\<close>

definition fetched :: "jwks_answer \<Rightarrow> (nat \<times> string \<times> string) option" where
  "fetched a =
     (case a of
        (Some r, None) \<Rightarrow>
          (case jr_Body r of Some (Inr body) \<Rightarrow> Some (jr_StatusCode r, jr_ContentType r, body) | _ \<Rightarrow> None)
      | _ \<Rightarrow> None)"

text \<open>The contract of \<open>http.RoundTripper\<close> that the code relies on: without an error there is a response.\<close>

definition round_tripper_contract :: "('h \<Rightarrow> http_request \<Rightarrow> jwks_answer \<times> 'h) \<Rightarrow> bool" where
  "round_tripper_contract base \<longleftrightarrow> (\<forall>h req. snd (fst (base h req)) = None \<longrightarrow> fst (fst (base h req)) \<noteq> None)"

text \<open>What is recorded, from what a client of the transport below would see.\<close>

definition recorded_fetch ::
  "jwks_library \<Rightarrow> nat \<Rightarrow> 'h metrics_round_tripper \<Rightarrow> jwks_answer \<Rightarrow> jwks_metrics \<Rightarrow> jwks_metrics" where
  "recorded_fetch lib now t answer m =
     (case fetched answer of
        Some (status, contentType, body) \<Rightarrow>
          if status = 200 \<and> jl_unmarshal_keys lib body = None
          then recordJWKSFetchKeySetSuccess lib now (mt_jwtIssuer t) (mt_apiServerID t) body m
          else recordJWKSFetchKeySetFailure lib now (mt_jwtIssuer t) (mt_apiServerID t) m
      | None \<Rightarrow> recordJWKSFetchKeySetFailure lib now (mt_jwtIssuer t) (mt_apiServerID t) m)"

lemma round_trip_metrics:
  assumes "round_tripper_contract (mt_base t)"
  shows "\<exists>answer m'. metrics_RoundTrip lib now live1 live2 t req h m = Some ((answer, snd (mt_base t h req)), m') \<and>
    fetched answer = fetched (fst (mt_base t h req)) \<and>
    m' = (if rq_URL req = mt_jwksURL t \<and> live1 \<and> live2 then recorded_fetch lib now t (fst (mt_base t h req)) m else m)"
proof -
  obtain resp err h1 where b: "mt_base t h req = ((resp, err), h1)" by (metis surj_pair)
  show ?thesis
  proof (cases "rq_URL req = mt_jwksURL t \<and> live1")
    case False
    then show ?thesis by (auto simp: metrics_RoundTrip_def b)
  next
    case True
    show ?thesis
    proof (cases err)
      case (Some e)
      with True show ?thesis by (simp add: metrics_RoundTrip_def b fetched_def recorded_fetch_def split: option.split)
    next
      case None
      then obtain r where r: "resp = Some r"
        using assms [unfolded round_tripper_contract_def, rule_format, of h req] b by auto
      show ?thesis
      proof (cases "jr_Body r")
        case (Some content)
        with True None r show ?thesis
          by (cases content)
            (auto simp: metrics_RoundTrip_def b fetched_def recorded_fetch_def unmarshalResp_def split: option.split)
      qed (use True None r in \<open>auto simp: metrics_RoundTrip_def b fetched_def recorded_fetch_def\<close>)
    qed
  qed
qed

text \<open>
  C28: recording the metrics of a key set fetch changes nothing for the library that fetches: the round tripper sends
  what the transport below sends, its client sees the same status, content type and bytes, or sees the fetch fail
  when it would have failed anyway; and what it records is a success with the hash of exactly the bytes that were
  fetched, when they are a key set with status 200, else a failure, and nothing for other URLs or once
  the lifecycle has ended before or during the request.
\<close>

theorem jwks_metrics_are_transparent:
  assumes "round_tripper_contract (mt_base t)"
  shows "\<exists>answer m'. metrics_RoundTrip lib now live1 live2 t req h m = Some ((answer, snd (mt_base t h req)), m') \<and>
    fetched answer = fetched (fst (mt_base t h req)) \<and>
    m' = (if rq_URL req = mt_jwksURL t \<and> live1 \<and> live2 then recorded_fetch lib now t (fst (mt_base t h req)) m else m)"
  by (rule round_trip_metrics [OF assms])

definition sample_jwks_library :: jwks_library where
  "sample_jwks_library = \<lparr>jl_hex_sha256 = id, jl_unmarshal_keys = (\<lambda>body. if body = ''keys'' then None else Some (Errorf ''bad'' [])),
     jl_ParseMediaType = Some\<rparr>"

definition sample_tripper :: "nat metrics_round_tripper" where
  "sample_tripper = \<lparr>mt_base = (\<lambda>n req. ((Some \<lparr>jr_StatusCode = 200, jr_ContentType = ''application/json'',
       jr_Body = Some (Inr ''keys'')\<rparr>, None), Suc n)),
     mt_jwksURL = ''https://issuer/keys'', mt_jwtIssuer = ''https://issuer'', mt_apiServerID = ''padlok''\<rparr>"

theorem jwks_metrics_are_transparent_witness:
  "\<exists>answer m. metrics_RoundTrip sample_jwks_library 7 True True sample_tripper
       \<lparr>rq_Method = ''GET'', rq_URL = ''https://issuer/keys'', rq_Header = []\<rparr> 0
       \<lparr>jm_hashes = Map.empty, jm_timestamps = Map.empty, jm_latency = (\<lambda>_. [])\<rparr> = Some ((answer, 1), m) \<and>
     fetched answer = Some (200, ''application/json'', ''keys'') \<and>
     jm_hashes m (hash_key sample_jwks_library ''https://issuer'' ''padlok'') = Some ''sha256:keys''"
proof -
  let ?req = "\<lparr>rq_Method = ''GET'', rq_URL = ''https://issuer/keys'', rq_Header = []\<rparr>"
  let ?m = "\<lparr>jm_hashes = Map.empty, jm_timestamps = Map.empty, jm_latency = (\<lambda>_. [])\<rparr>"
  have contract: "round_tripper_contract (mt_base sample_tripper)"
    by (simp add: round_tripper_contract_def sample_tripper_def)
  obtain answer m where r: "metrics_RoundTrip sample_jwks_library 7 True True sample_tripper ?req 0 ?m
      = Some ((answer, snd (mt_base sample_tripper 0 ?req)), m)"
    "fetched answer = fetched (fst (mt_base sample_tripper 0 ?req))"
    "m = (if rq_URL ?req = mt_jwksURL sample_tripper \<and> True \<and> True
      then recorded_fetch sample_jwks_library 7 sample_tripper (fst (mt_base sample_tripper 0 ?req)) ?m else ?m)"
    using jwks_metrics_are_transparent [OF contract] by blast
  have "m = recorded_fetch sample_jwks_library 7 sample_tripper (fst (mt_base sample_tripper 0 ?req)) ?m"
    using r(3) by (simp add: sample_tripper_def)
  then have "jm_hashes m (hash_key sample_jwks_library ''https://issuer'' ''padlok'') = Some ''sha256:keys''"
    by (simp add: recorded_fetch_def fetched_def sample_tripper_def sample_jwks_library_def recordJWKSFetchKeySetSuccess_def
        recordJWKSFetchTimestamp_def setHash_def hash_key_def getHash_def)
  then show ?thesis using r(1,2) by (auto simp: fetched_def sample_tripper_def)
qed

section \<open>Deleted metrics stay deleted\<close>

definition no_metrics :: "jwks_library \<Rightarrow> string \<Rightarrow> string \<Rightarrow> jwks_metrics \<Rightarrow> bool" where
  "no_metrics lib jwtIssuer apiServerID m \<longleftrightarrow>
     jm_hashes m (hash_key lib jwtIssuer apiServerID) = None \<and>
     (\<forall>result. jm_timestamps m (result, getHash lib jwtIssuer, getHash lib apiServerID) = None)"

text \<open>The results under which times are recorded.\<close>

definition known_results :: "jwks_metrics \<Rightarrow> bool" where
  "known_results m \<longleftrightarrow> fst ` dom (jm_timestamps m) \<subseteq> {''success'', ''failure''}"

lemma recorded_fetch_known: "known_results m \<Longrightarrow> known_results (recorded_fetch lib now t answer m)"
  by (auto simp: known_results_def recorded_fetch_def recordJWKSFetchKeySetSuccess_def recordJWKSFetchKeySetFailure_def
      recordJWKSFetchTimestamp_def setHash_def image_subset_iff split: option.split prod.split if_splits)

lemma delete_no_metrics: "known_results m \<Longrightarrow> no_metrics lib iss api (DeleteJWKSFetchMetrics lib iss api m)"
  by (force simp: no_metrics_def known_results_def DeleteJWKSFetchMetrics_def deleteHash_def Let_def)

lemma recorded_fetch_other:
  assumes "no_metrics lib iss api m" and "hash_key lib (mt_jwtIssuer t) (mt_apiServerID t) \<noteq> hash_key lib iss api"
  shows "no_metrics lib iss api (recorded_fetch lib now t answer m)"
  using assms
  by (auto simp: no_metrics_def hash_key_def recorded_fetch_def recordJWKSFetchKeySetSuccess_def
      recordJWKSFetchKeySetFailure_def recordJWKSFetchTimestamp_def setHash_def split: option.split)

text \<open>A fetch that ends after the lifecycle, or that is made for another issuer, does not bring metrics back.\<close>

lemma deleted_metrics_stay_deleted:
  assumes "round_tripper_contract (mt_base t)" and "no_metrics lib iss api m"
    and "live2 \<Longrightarrow> hash_key lib (mt_jwtIssuer t) (mt_apiServerID t) \<noteq> hash_key lib iss api"
    and run: "metrics_RoundTrip lib now live1 live2 t req h m = Some (r, m')"
  shows "no_metrics lib iss api m'"
proof -
  have "m' = (if rq_URL req = mt_jwksURL t \<and> live1 \<and> live2 then recorded_fetch lib now t (fst (mt_base t h req)) m else m)"
    using round_trip_metrics [OF assms(1), of lib now live1 live2 req h m] run by auto
  then show ?thesis
    using assms(2,3) recorded_fetch_other [OF assms(2), of t now "fst (mt_base t h req)"] by presburger
qed

end
