(* ===== verification/Go_Memory.thy ===== *)
theory Go_Memory
  imports Prelude Api_Types "HOL-Library.Sublist"
begin

text \<open>
  The memory that the generated deep copies work on.  The heap is a list of allocated blocks and an
  address is the number of a block; \<open>new(T)\<close> allocates a block of one zero value and
  \<open>make([]T, n)\<close> a block of \<open>n\<close> of them.  A pointer or slice field holds \<open>None\<close> for nil or the
  address of its block (a slice is seen through its length: capacity beyond it is not reachable from
  the copies).  A struct is stored as a record whose pointer and slice fields are addresses, so
  sharing is visible, and nil and empty slices are different values.

  An operation of type \<open>'a heap_op\<close> returns its result and the new heap, or \<open>None\<close> for a
  dereference that would panic.  A view reads the value that a piece of memory stands for,
  together with the addresses it reaches.  The locale \<open>deep_copier\<close> is the contract that every
  \<open>DeepCopyInto\<close> promises; \<open>deep_element\<close> lifts it to pointers and slices of the type.
\<close>

type_synonym addr = nat
type_synonym ptr = "addr option"
type_synonym slice = "addr option"

section \<open>Structs as they lie in memory\<close>

record tls_mem =
  mtls_CertificateAuthority :: ptr

record client_credential_config_mem =
  mcc_ClientID :: string
  mcc_ClientSecret :: string
  mcc_TokenEndpoint :: string
  mcc_Scopes :: slice
  mcc_TLS :: ptr

record authentication_mem =
  mauth_Type :: ptr
  mauth_ClientCredential :: ptr

record source_url_mem =
  msurl_Hostname :: ptr
  msurl_PathExpression :: ptr

record sourced_claim_mapping_mem =
  mscm_Name :: ptr
  mscm_Expression :: ptr

record external_source_condition_mem =
  mesc_Expression :: ptr

record external_claims_source_mem =
  mecs_Authentication :: ptr
  mecs_TLS :: ptr
  mecs_URL :: ptr
  mecs_Mappings :: slice
  mecs_Conditions :: slice

record prefixed_claim_or_expression_mem =
  mpce_Claim :: string
  mpce_Prefix :: ptr
  mpce_Expression :: string

record claim_mappings_mem =
  mcm_Username :: prefixed_claim_or_expression_mem
  mcm_Groups :: prefixed_claim_or_expression_mem
  mcm_UID :: claim_or_expression
  mcm_Extra :: slice

record issuer_mem =
  missuer_URL :: string
  missuer_DiscoveryURL :: string
  missuer_CertificateAuthority :: string
  missuer_Audiences :: slice
  missuer_AudienceMatchPolicy :: string

record jwt_authenticator_mem =
  mjwt_Issuer :: ptr
  mjwt_ClaimValidationRules :: slice
  mjwt_ClaimMappings :: ptr
  mjwt_UserValidationRules :: slice
  mjwt_ExternalClaimsSources :: slice

record authentication_configuration_mem =
  mcfg_TypeMeta :: type_meta
  mcfg_JWT :: slice

text \<open>One constructor per type a block can hold.  \<open>ClaimValidationRule\<close>, \<open>ClaimOrExpression\<close>,
  \<open>ExtraMapping\<close> and \<open>UserValidationRule\<close> have only string fields: in memory they are the records
  of \<open>Api_Types\<close>.  \<open>AuthenticationType\<close> is a string type.\<close>

datatype cell =
    GString string
  | GTLS tls_mem
  | GClientCredentialConfig client_credential_config_mem
  | GAuthentication authentication_mem
  | GSourceURL source_url_mem
  | GSourcedClaimMapping sourced_claim_mapping_mem
  | GExternalSourceCondition external_source_condition_mem
  | GExternalClaimsSource external_claims_source_mem
  | GClaimValidationRule claim_validation_rule
  | GPrefixedClaimOrExpression prefixed_claim_or_expression_mem
  | GClaimOrExpression claim_or_expression
  | GExtraMapping extra_mapping
  | GUserValidationRule user_validation_rule
  | GClaimMappings claim_mappings_mem
  | GIssuer issuer_mem
  | GJWTAuthenticator jwt_authenticator_mem
  | GAuthenticationConfiguration authentication_configuration_mem

type_synonym block = "cell list"
type_synonym heap = "block list"
type_synonym 'a heap_op = "heap \<Rightarrow> ('a \<times> heap) option"

section \<open>Heap operations\<close>

definition ret :: "'a \<Rightarrow> 'a heap_op" where
  "ret x h = Some (x, h)"

definition seq :: "'a heap_op \<Rightarrow> ('a \<Rightarrow> 'b heap_op) \<Rightarrow> 'b heap_op" where
  "seq m k h = (case m h of None \<Rightarrow> None | Some (x, h') \<Rightarrow> k x h')"

text \<open>How a Go type is stored in a cell, with its zero value.\<close>

record 'a go_type =
  wrap :: "'a \<Rightarrow> cell"
  unwrap :: "cell \<Rightarrow> 'a option"
  zero_value :: 'a

definition block_at :: "heap \<Rightarrow> addr \<Rightarrow> block option" where
  "block_at h a = (if a < length h then Some (h ! a) else None)"

definition make_block :: "'a go_type \<Rightarrow> nat \<Rightarrow> addr heap_op" where
  "make_block T n h = Some (length h, h @ [replicate n (wrap T (zero_value T))])"

definition block_length :: "addr \<Rightarrow> nat heap_op" where
  "block_length a h = (case block_at h a of None \<Rightarrow> None | Some b \<Rightarrow> Some (length b, h))"

definition load :: "'a go_type \<Rightarrow> addr \<Rightarrow> nat \<Rightarrow> 'a heap_op" where
  "load T a i h =
     (case block_at h a of None \<Rightarrow> None
      | Some b \<Rightarrow> if i < length b then map_option (\<lambda>x. (x, h)) (unwrap T (b ! i)) else None)"

definition store :: "'a go_type \<Rightarrow> addr \<Rightarrow> nat \<Rightarrow> 'a \<Rightarrow> unit heap_op" where
  "store T a i x h =
     (case block_at h a of None \<Rightarrow> None
      | Some b \<Rightarrow> if i < length b then Some ((), h[a := b[i := wrap T x]]) else None)"

text \<open>The builtin \<open>copy(dst, src)\<close>: the first elements of \<open>src\<close>, as many as both slices have.\<close>

definition builtin_copy :: "addr \<Rightarrow> addr \<Rightarrow> unit heap_op" where
  "builtin_copy dst src h =
     (case (block_at h dst, block_at h src) of
        (Some d, Some s) \<Rightarrow>
          let n = min (length d) (length s) in Some ((), h[dst := take n s @ drop n d])
      | _ \<Rightarrow> None)"

section \<open>The statements that the deep copies are made of\<close>

text \<open>\<open>if in.F != nil { *out = new(T); (*in).DeepCopyInto(*out) }\<close>, which is also the body of every
  \<open>DeepCopy\<close>.  With \<open>ret\<close> for the copier it is \<open>**out = **in\<close>.\<close>

definition copy_ptr :: "'a go_type \<Rightarrow> ('a \<Rightarrow> 'a heap_op) \<Rightarrow> ptr \<Rightarrow> ptr heap_op" where
  "copy_ptr T dc p =
     (case p of None \<Rightarrow> ret None
      | Some a \<Rightarrow>
          seq (make_block T 1) (\<lambda>out.
          seq (load T a 0) (\<lambda>x.
          seq (dc x) (\<lambda>y.
          seq (store T out 0 y) (\<lambda>_. ret (Some out))))))"

text \<open>\<open>for i := range *in { (*in)[i].DeepCopyInto(&(*out)[i]) }\<close>\<close>

fun copy_each :: "'a go_type \<Rightarrow> ('a \<Rightarrow> 'a heap_op) \<Rightarrow> addr \<Rightarrow> addr \<Rightarrow> nat list \<Rightarrow> unit heap_op" where
  "copy_each T dc a out [] = ret ()"
| "copy_each T dc a out (i # is) =
     seq (load T a i) (\<lambda>x.
     seq (dc x) (\<lambda>y.
     seq (store T out i y) (\<lambda>_. copy_each T dc a out is)))"

definition copy_slice :: "'a go_type \<Rightarrow> ('a \<Rightarrow> 'a heap_op) \<Rightarrow> slice \<Rightarrow> slice heap_op" where
  "copy_slice T dc s =
     (case s of None \<Rightarrow> ret None
      | Some a \<Rightarrow>
          seq (block_length a) (\<lambda>n.
          seq (make_block T n) (\<lambda>out.
          seq (copy_each T dc a out [0..<n]) (\<lambda>_. ret (Some out)))))"

text \<open>\<open>*out = make([]T, len(*in)); copy(*out, *in)\<close>\<close>

definition copy_flat_slice :: "'a go_type \<Rightarrow> slice \<Rightarrow> slice heap_op" where
  "copy_flat_slice T s =
     (case s of None \<Rightarrow> ret None
      | Some a \<Rightarrow>
          seq (block_length a) (\<lambda>n.
          seq (make_block T n) (\<lambda>out.
          seq (builtin_copy out a) (\<lambda>_. ret (Some out)))))"

section \<open>Views\<close>

type_synonym ('a, 'v) view = "heap \<Rightarrow> 'a \<Rightarrow> ('v \<times> addr set) option"

definition view_flat :: "('a, 'a) view" where
  "view_flat h x = Some (x, {})"

definition view_ptr :: "'a go_type \<Rightarrow> ('a, 'v) view \<Rightarrow> (ptr, 'v option) view" where
  "view_ptr T vw h p =
     (case p of None \<Rightarrow> Some (None, {})
      | Some a \<Rightarrow>
          Option.bind (load T a 0 h) (\<lambda>(x, _).
          Option.bind (vw h x) (\<lambda>(v, A). Some (Some v, insert a A))))"

fun view_cells :: "'a go_type \<Rightarrow> ('a, 'v) view \<Rightarrow> heap \<Rightarrow> block \<Rightarrow> ('v list \<times> addr set) option" where
  "view_cells T vw h [] = Some ([], {})"
| "view_cells T vw h (c # cs) =
     Option.bind (unwrap T c) (\<lambda>x.
     Option.bind (vw h x) (\<lambda>(v, A).
     Option.bind (view_cells T vw h cs) (\<lambda>(vs, B). Some (v # vs, A \<union> B))))"

definition view_slice :: "'a go_type \<Rightarrow> ('a, 'v) view \<Rightarrow> (slice, 'v list) view" where
  "view_slice T vw h s =
     (case s of None \<Rightarrow> Some ([], {})
      | Some a \<Rightarrow>
          Option.bind (block_at h a) (\<lambda>b.
          Option.bind (view_cells T vw h b) (\<lambda>(vs, A). Some (vs, insert a A))))"

text \<open>In heap \<open>h'\<close>, the memory \<open>y\<close> stands for \<open>v\<close> and reaches only blocks allocated since \<open>h\<close>,
  whose own blocks are as they were.\<close>

definition fresh_copy :: "('a, 'v) view \<Rightarrow> heap \<Rightarrow> heap \<Rightarrow> 'a \<Rightarrow> 'v \<Rightarrow> bool" where
  "fresh_copy vw h h' y v \<longleftrightarrow>
     prefix h h' \<and> (\<exists>B. vw h' y = Some (v, B) \<and> B \<subseteq> {length h..<length h'})"

section \<open>Facts on blocks\<close>

lemma seq_simps [simp]:
  "m h = None \<Longrightarrow> seq m k h = None"
  "m h = Some (x, h') \<Longrightarrow> seq m k h = k x h'"
  by (simp_all add: seq_def)

lemma ret_simp [simp]: "ret x h = Some (x, h)"
  by (simp add: ret_def)

lemma block_at_bounded: "block_at h a = Some b \<Longrightarrow> a < length h"
  by (simp add: block_at_def split: if_splits)

lemma block_at_prefix: "prefix h h' \<Longrightarrow> a < length h \<Longrightarrow> block_at h' a = block_at h a"
  by (auto simp: block_at_def prefix_def nth_append)

lemma block_at_update:
  "a < length h \<Longrightarrow> block_at (h[a := b]) c = (if c = a then Some b else block_at h c)"
  by (simp add: block_at_def)

lemma prefix_update: "prefix h h' \<Longrightarrow> length h \<le> a \<Longrightarrow> prefix h (h'[a := b])"
  by (auto simp: prefix_def list_update_append)

lemma load_cong: "block_at h' a = block_at h a \<Longrightarrow>
    map_option fst (load T a i h') = map_option fst (load T a i h)"
  by (simp add: load_def option.map_comp comp_def split: option.split)

lemma load_Some_iff:
  "load T a i h = Some (x, h') \<longleftrightarrow>
     h' = h \<and> (\<exists>b. block_at h a = Some b \<and> i < length b \<and> unwrap T (b ! i) = Some x)"
  by (auto simp: load_def split: option.splits if_splits)

lemma fresh_copyI:
  "\<lbrakk>prefix h h'; vw h' y = Some (v, B); B \<subseteq> {length h..<length h'}\<rbrakk> \<Longrightarrow> fresh_copy vw h h' y v"
  by (auto simp: fresh_copy_def)

lemma fresh_copyE:
  assumes "fresh_copy vw h h' y v"
  obtains B where "prefix h h'" "vw h' y = Some (v, B)" "B \<subseteq> {length h..<length h'}"
  using assms by (auto simp: fresh_copy_def)

lemma fresh_copy_prefix: "fresh_copy vw h h' y v \<Longrightarrow> prefix h h'"
  by (simp add: fresh_copy_def)

lemma fresh_copy_since:
  assumes "fresh_copy vw h1 h2 y v" and "prefix h h1"
  shows "fresh_copy vw h h2 y v"
proof -
  obtain B where B: "prefix h1 h2" "vw h2 y = Some (v, B)" "B \<subseteq> {length h1..<length h2}"
    using assms(1) by (rule fresh_copyE)
  have "prefix h h2" using assms(2) B(1) by (rule prefix_order.trans)
  moreover have "B \<subseteq> {length h..<length h2}"
    using B(3) prefix_length_le [OF assms(2)] by auto
  ultimately show ?thesis using B(2) by (blast intro: fresh_copyI)
qed

section \<open>The contract of a deep copy\<close>

locale heap_view =
  fixes vw :: "('a, 'v) view"
  assumes frame: "\<lbrakk>vw h x = Some (v, A); \<And>a. a \<in> A \<Longrightarrow> block_at h' a = block_at h a\<rbrakk>
      \<Longrightarrow> vw h' x = Some (v, A)"
    and bounded: "\<lbrakk>vw h x = Some (v, A); a \<in> A\<rbrakk> \<Longrightarrow> a < length h"
begin

lemma frame_prefix: "\<lbrakk>vw h x = Some (v, A); prefix h h'\<rbrakk> \<Longrightarrow> vw h' x = Some (v, A)"
proof -
  assume v: "vw h x = Some (v, A)" and p: "prefix h h'"
  show "vw h' x = Some (v, A)"
    by (rule frame [OF v]) (rule block_at_prefix [OF p bounded [OF v]])
qed

lemma fresh_copy_extend:
  assumes "fresh_copy vw h h1 y v" and "prefix h1 h2"
  shows "fresh_copy vw h h2 y v"
proof -
  obtain B where B: "prefix h h1" "vw h1 y = Some (v, B)" "B \<subseteq> {length h..<length h1}"
    using assms(1) by (rule fresh_copyE)
  have "vw h2 y = Some (v, B)" using B(2) assms(2) by (rule frame_prefix)
  moreover have "B \<subseteq> {length h..<length h2}"
    using B(3) prefix_length_le [OF assms(2)] by auto
  moreover have "prefix h h2" using B(1) assms(2) by (rule prefix_order.trans)
  ultimately show ?thesis by (blast intro: fresh_copyI)
qed

end

locale deep_copier = heap_view vw for vw :: "('a, 'v) view" +
  fixes dc :: "'a \<Rightarrow> 'a heap_op"
  assumes copies: "vw h x = Some (v, A) \<Longrightarrow> \<exists>y h'. dc x h = Some (y, h') \<and> fresh_copy vw h h' y v"
begin

lemma copies_later:
  assumes "vw h x = Some (v, A)" and "prefix h h1"
  obtains y h2 where "dc x h1 = Some (y, h2)" "fresh_copy vw h h2 y v" "prefix h1 h2"
proof -
  have "vw h1 x = Some (v, A)" using assms by (rule frame_prefix)
  then obtain y h2 where c: "dc x h1 = Some (y, h2)" "fresh_copy vw h1 h2 y v"
    using copies by blast
  show thesis
    using c(1) fresh_copy_since [OF c(2) assms(2)] fresh_copy_prefix [OF c(2)] by (rule that)
qed

end

locale go_layout =
  fixes T :: "'a go_type"
  assumes unwrap_wrap: "unwrap T (wrap T x) = Some x"

locale deep_element = go_layout T + deep_copier vw dc
  for T :: "'a go_type" and vw :: "('a, 'v) view" and dc :: "'a \<Rightarrow> 'a heap_op"


section \<open>Copying through a pointer\<close>

lemma view_ptr_Some_iff:
  "view_ptr T vw h (Some a) = Some (w, C) \<longleftrightarrow>
     (\<exists>b x v A. block_at h a = Some b \<and> 0 < length b \<and> unwrap T (b ! 0) = Some x
        \<and> vw h x = Some (v, A) \<and> w = Some v \<and> C = insert a A)"
  by (auto simp: view_ptr_def bind_eq_Some_conv load_Some_iff)

lemma view_ptr_None [simp]: "view_ptr T vw h None = Some (None, {})"
  by (simp add: view_ptr_def)

context deep_element
begin

lemma heap_view_ptr: "heap_view (view_ptr T vw)"
proof
  fix h h' :: heap and p :: ptr and w C
  assume view: "view_ptr T vw h p = Some (w, C)"
    and same: "\<And>a. a \<in> C \<Longrightarrow> block_at h' a = block_at h a"
  show "view_ptr T vw h' p = Some (w, C)"
  proof (cases p)
    case None
    with view show ?thesis by simp
  next
    case (Some a)
    from view [unfolded Some view_ptr_Some_iff] obtain b x v A
      where "block_at h a = Some b" "0 < length b" "unwrap T (b ! 0) = Some x"
        "vw h x = Some (v, A)" "w = Some v" "C = insert a A" by blast
    moreover have "vw h' x = Some (v, A)"
      using calculation same by (blast intro: frame)
    ultimately show ?thesis
      using same unfolding Some view_ptr_Some_iff by fastforce
  qed
next
  fix h :: heap and p :: ptr and w C and a :: addr
  assume "view_ptr T vw h p = Some (w, C)" and "a \<in> C"
  then show "a < length h"
    by (cases p) (auto simp: view_ptr_Some_iff dest: block_at_bounded bounded)
qed

lemma copy_ptr_fresh:
  assumes "view_ptr T vw h p = Some (w, C)"
  shows "\<exists>q h'. copy_ptr T dc p h = Some (q, h') \<and> fresh_copy (view_ptr T vw) h h' q w"
proof (cases p)
  case None
  with assms show ?thesis by (auto simp: copy_ptr_def fresh_copy_def)
next
  case (Some a)
  from assms [unfolded Some view_ptr_Some_iff] obtain b x v A
    where b: "block_at h a = Some b" "0 < length b" "unwrap T (b ! 0) = Some x"
      and v: "vw h x = Some (v, A)" and w: "w = Some v" by blast
  define h1 where "h1 = h @ [[wrap T (zero_value T)]]"
  have p1: "prefix h h1" by (simp add: h1_def)
  obtain y h2 where dc: "dc x h1 = Some (y, h2)" "fresh_copy vw h1 h2 y v" "prefix h1 h2"
    using copies [OF frame_prefix [OF v p1]] by (auto dest: fresh_copy_prefix)
  obtain B where B: "vw h2 y = Some (v, B)" "B \<subseteq> {length h1..<length h2}"
    using dc(2) by (rule fresh_copyE)
  define out where "out = length h"
  define h3 where "h3 = h2[out := [wrap T y]]"
  have out: "block_at h2 out = Some [wrap T (zero_value T)]" "out < length h2"
    using block_at_prefix [OF dc(3), of out] prefix_length_le [OF dc(3)]
    by (auto simp: h1_def out_def block_at_def)
  have "copy_ptr T dc p h = Some (Some out, h3)"
    using b block_at_prefix [OF p1 block_at_bounded [OF b(1)]] dc(1) out
    by (simp add: Some copy_ptr_def seq_def make_block_def load_def store_def h1_def [symmetric]
        out_def [symmetric] h3_def)
  moreover have "view_ptr T vw h3 (Some out) = Some (w, insert out B)"
  proof -
    have "vw h3 y = Some (v, B)"
      using B out(2) by (intro frame [OF B(1)])
        (auto simp: h3_def block_at_update h1_def out_def)
    then show ?thesis
      using out(2) by (simp add: view_ptr_Some_iff h3_def block_at_update unwrap_wrap w)
  qed
  moreover have "prefix h h3"
    using prefix_order.trans [OF p1 dc(3)] by (simp add: h3_def out_def prefix_update)
  moreover have "insert out B \<subseteq> {length h..<length h3}"
    using B(2) out(2) by (auto simp: h3_def h1_def out_def)
  ultimately show ?thesis by (blast intro: fresh_copyI)
qed

end

sublocale deep_element < pointer: deep_copier "view_ptr T vw" "copy_ptr T dc"
  by (rule deep_copier.intro [OF heap_view_ptr], unfold_locales) (rule copy_ptr_fresh)

section \<open>Copying a slice element by element\<close>

lemma view_cells_append:
  "view_cells T vw h (cs @ ds) =
     Option.bind (view_cells T vw h cs) (\<lambda>(vs, A).
     Option.bind (view_cells T vw h ds) (\<lambda>(ws, B). Some (vs @ ws, A \<union> B)))"
proof (induction cs)
  case Nil
  show ?case by (cases "view_cells T vw h ds") auto
next
  case (Cons c cs)
  show ?case
    by (cases "unwrap T c"; cases "view_cells T vw h cs"; cases "view_cells T vw h ds")
      (auto simp: Cons Un_assoc split: Option.bind_split)
qed

lemma view_cells_length: "view_cells T vw h cs = Some (vs, A) \<Longrightarrow> length vs = length cs"
  by (induction cs arbitrary: vs A) (auto simp: bind_eq_Some_conv)

lemma view_cells_nth:
  assumes "view_cells T vw h cs = Some (vs, A)" and "k < length cs"
  obtains x B where "unwrap T (cs ! k) = Some x" "vw h x = Some (vs ! k, B)" "B \<subseteq> A"
  using assms
proof (induction cs arbitrary: vs A k thesis)
  case (Cons c cs)
  from Cons.prems(2) obtain x v B ws C
    where "unwrap T c = Some x" "vw h x = Some (v, B)" "view_cells T vw h cs = Some (ws, C)"
      "vs = v # ws" "A = B \<union> C" by (auto simp: bind_eq_Some_conv)
  note c = this
  show ?case
  proof (cases k)
    case 0
    with c show ?thesis by (intro Cons.prems(1) [of x B]) auto
  next
    case (Suc j)
    with Cons.prems(3) have "j < length cs" by simp
    from Cons.IH [OF _ c(3) this] obtain x' B'
      where "unwrap T (cs ! j) = Some x'" "vw h x' = Some (ws ! j, B')" "B' \<subseteq> C" by blast
    with c Suc show ?thesis by (intro Cons.prems(1) [of x' B']) auto
  qed
qed simp

lemma view_slice_Some_iff:
  "view_slice T vw h (Some a) = Some (vs, C) \<longleftrightarrow>
     (\<exists>b A. block_at h a = Some b \<and> view_cells T vw h b = Some (vs, A) \<and> C = insert a A)"
  by (auto simp: view_slice_def bind_eq_Some_conv)

lemma view_slice_None [simp]: "view_slice T vw h None = Some ([], {})"
  by (simp add: view_slice_def)

context deep_element
begin

lemma view_cells_frame:
  "\<lbrakk>view_cells T vw h cs = Some (vs, A); \<And>a. a \<in> A \<Longrightarrow> block_at h' a = block_at h a\<rbrakk>
    \<Longrightarrow> view_cells T vw h' cs = Some (vs, A)"
proof (induction cs arbitrary: vs A)
  case (Cons c cs)
  from Cons.prems(1) obtain x v B ws C
    where c: "unwrap T c = Some x" "vw h x = Some (v, B)" "view_cells T vw h cs = Some (ws, C)"
      "vs = v # ws" "A = B \<union> C" by (auto simp: bind_eq_Some_conv)
  have "vw h' x = Some (v, B)"
    using Cons.prems(2) c(5) by (intro frame [OF c(2)]) blast
  moreover have "view_cells T vw h' cs = Some (ws, C)"
    using Cons.prems(2) c(5) by (intro Cons.IH [OF c(3)]) blast
  ultimately show ?case using c by simp
qed simp

lemma view_cells_bounded:
  "view_cells T vw h cs = Some (vs, A) \<Longrightarrow> a \<in> A \<Longrightarrow> a < length h"
  by (induction cs arbitrary: vs A) (auto simp: bind_eq_Some_conv dest: bounded)

lemma heap_view_slice: "heap_view (view_slice T vw)"
proof
  fix h h' :: heap and s :: slice and vs C
  assume view: "view_slice T vw h s = Some (vs, C)"
    and same: "\<And>a. a \<in> C \<Longrightarrow> block_at h' a = block_at h a"
  show "view_slice T vw h' s = Some (vs, C)"
  proof (cases s)
    case None
    with view show ?thesis by simp
  next
    case (Some a)
    from view [unfolded Some view_slice_Some_iff] obtain b A
      where b: "block_at h a = Some b" "view_cells T vw h b = Some (vs, A)" "C = insert a A" by blast
    have "view_cells T vw h' b = Some (vs, A)"
      using same b(3) by (intro view_cells_frame [OF b(2)]) blast
    then show ?thesis
      using same b unfolding Some view_slice_Some_iff by fastforce
  qed
next
  fix h :: heap and s :: slice and vs C and a :: addr
  assume "view_slice T vw h s = Some (vs, C)" and "a \<in> C"
  then show "a < length h"
    by (cases s) (auto simp: view_slice_Some_iff dest: block_at_bounded view_cells_bounded)
qed

text \<open>After \<open>k\<close> rounds of the loop the first \<open>k\<close> cells of the new block stand for the first \<open>k\<close>
  elements, reach only younger blocks, and nothing older has changed.\<close>

definition copied_upto :: "heap \<Rightarrow> 'v list \<Rightarrow> nat \<Rightarrow> heap \<Rightarrow> bool" where
  "copied_upto h vs k h1 \<longleftrightarrow>
     prefix h h1 \<and> length h < length h1 \<and> length (h1 ! length h) = length vs \<and>
     (\<exists>B. view_cells T vw h1 (take k (h1 ! length h)) = Some (take k vs, B)
        \<and> B \<subseteq> {length h<..<length h1})"

lemma copy_each_step:
  assumes src: "block_at h a = Some cs" "view_cells T vw h cs = Some (vs, A)"
    and k: "k < length vs" and inv: "copied_upto h vs k h1"
  shows "\<exists>h2. copy_each T dc a (length h) (k # is) h1 = copy_each T dc a (length h) is h2
    \<and> copied_upto h vs (Suc k) h2"
proof -
  define out where "out = length h"
  from inv obtain B where pre: "prefix h h1" and out: "out < length h1" "length (h1 ! out) = length vs"
    and B: "view_cells T vw h1 (take k (h1 ! out)) = Some (take k vs, B)" "B \<subseteq> {out<..<length h1}"
    by (auto simp: copied_upto_def out_def)
  have "k < length cs" using k view_cells_length [OF src(2)] by simp
  then obtain x A' where x: "unwrap T (cs ! k) = Some x" "vw h x = Some (vs ! k, A')"
    using view_cells_nth [OF src(2)] by blast
  have a: "block_at h1 a = Some cs"
    using block_at_prefix [OF pre block_at_bounded [OF src(1)]] src(1) by simp
  obtain y h2 where dc: "dc x h1 = Some (y, h2)" "fresh_copy vw h1 h2 y (vs ! k)"
    using copies [OF frame_prefix [OF x(2) pre]] by blast
  obtain C where C: "prefix h1 h2" "vw h2 y = Some (vs ! k, C)" "C \<subseteq> {length h1..<length h2}"
    using dc(2) by (rule fresh_copyE)
  have out2: "block_at h2 out = Some (h1 ! out)" "out < length h2"
    using block_at_prefix [OF C(1) out(1)] out(1) prefix_length_le [OF C(1)]
    by (simp_all add: block_at_def)
  define h3 where "h3 = h2[out := (h1 ! out)[k := wrap T y]]"
  have "copy_each T dc a out (k # is) h1 = copy_each T dc a out is h3"
    using a \<open>k < length cs\<close> x(1) dc(1) out2 out k
    by (simp add: seq_def load_def store_def h3_def)
  moreover have "copied_upto h vs (Suc k) h3"
  proof -
    have old: "block_at h3 c = block_at h1 c" if "c \<in> B" for c
      using that B(2) out2(2) block_at_prefix [OF C(1), of c]
      by (auto simp: h3_def block_at_update)
    have new: "block_at h3 c = block_at h2 c" if "c \<in> C" for c
      using that C(3) out2(2) out(1) by (auto simp: h3_def block_at_update)
    have "take (Suc k) (h3 ! out) = take k (h1 ! out) @ [wrap T y]"
      using out2(2) out(2) k by (simp add: h3_def take_Suc_conv_app_nth)
    moreover have "take (Suc k) vs = take k vs @ [vs ! k]"
      using k by (simp add: take_Suc_conv_app_nth)
    ultimately have "view_cells T vw h3 (take (Suc k) (h3 ! out)) = Some (take (Suc k) vs, B \<union> C)"
      using view_cells_frame [OF B(1) old] frame [OF C(2) new]
      by (simp add: view_cells_append unwrap_wrap)
    moreover have "B \<union> C \<subseteq> {out<..<length h3}"
      using B(2) C(3) out(1) prefix_length_le [OF C(1)] by (fastforce simp: h3_def)
    moreover have "prefix h h3"
      using prefix_order.trans [OF pre C(1)] by (simp add: h3_def out_def prefix_update)
    ultimately show ?thesis
      using out2(2) out(2) by (auto simp: copied_upto_def out_def h3_def)
  qed
  ultimately show ?thesis by (auto simp: out_def)
qed

lemma copy_each_all:
  assumes src: "block_at h a = Some cs" "view_cells T vw h cs = Some (vs, A)"
  shows "k \<le> length vs \<Longrightarrow> copied_upto h vs k h1 \<Longrightarrow>
    \<exists>h2. copy_each T dc a (length h) [k..<length vs] h1 = Some ((), h2)
      \<and> copied_upto h vs (length vs) h2"
proof (induction "length vs - k" arbitrary: k h1)
  case 0
  then have "k = length vs" by simp
  with 0 show ?case by simp
next
  case (Suc m)
  then have k: "k < length vs" by simp
  obtain h2 where "copy_each T dc a (length h) (k # [Suc k..<length vs]) h1
      = copy_each T dc a (length h) [Suc k..<length vs] h2" "copied_upto h vs (Suc k) h2"
    using copy_each_step [OF src k Suc.prems(2)] by blast
  moreover have "[k..<length vs] = k # [Suc k..<length vs]" using k by (simp add: upt_rec)
  ultimately show ?case using Suc.hyps(1) [of "Suc k" h2] Suc.hyps(2) k by simp
qed

lemma copy_slice_fresh:
  assumes "view_slice T vw h s = Some (vs, C)"
  shows "\<exists>t h'. copy_slice T dc s h = Some (t, h') \<and> fresh_copy (view_slice T vw) h h' t vs"
proof (cases s)
  case None
  with assms show ?thesis by (auto simp: copy_slice_def fresh_copy_def)
next
  case (Some a)
  from assms [unfolded Some view_slice_Some_iff] obtain cs A
    where src: "block_at h a = Some cs" "view_cells T vw h cs = Some (vs, A)" by blast
  have len: "length cs = length vs" using view_cells_length [OF src(2)] by simp
  define h1 where "h1 = h @ [replicate (length vs) (wrap T (zero_value T))]"
  have "copied_upto h vs 0 h1"
    by (simp add: copied_upto_def h1_def)
  then obtain h2 where loop: "copy_each T dc a (length h) [0..<length vs] h1 = Some ((), h2)"
    and inv: "copied_upto h vs (length vs) h2"
    using copy_each_all [OF src le0] by blast
  from inv obtain B where h2: "prefix h h2" "length h < length h2" "length (h2 ! length h) = length vs"
    and B: "view_cells T vw h2 (h2 ! length h) = Some (vs, B)" "B \<subseteq> {length h<..<length h2}"
    by (auto simp: copied_upto_def)
  have "copy_slice T dc s h = Some (Some (length h), h2)"
    using src(1) loop
    by (simp add: Some copy_slice_def seq_def block_length_def make_block_def len h1_def)
  moreover have "view_slice T vw h2 (Some (length h)) = Some (vs, insert (length h) B)"
    using B(1) h2(2) by (simp add: view_slice_Some_iff block_at_def)
  moreover have "insert (length h) B \<subseteq> {length h..<length h2}"
    using B(2) h2(2) by auto
  ultimately show ?thesis using h2(1) by (blast intro: fresh_copyI)
qed

end

sublocale deep_element < slice: deep_copier "view_slice T vw" "copy_slice T dc"
  by (rule deep_copier.intro [OF heap_view_slice], unfold_locales) (rule copy_slice_fresh)

section \<open>Types without pointers\<close>

text \<open>For these \<open>*out = *in\<close> is the whole copy, and \<open>copy\<close> copies a slice of them.\<close>

locale flat_element = go_layout T for T :: "'a go_type"

sublocale flat_element < flat: deep_element T view_flat ret
  by unfold_locales (auto simp: view_flat_def fresh_copy_def)

context flat_element
begin

lemma copy_flat_slice_fresh:
  assumes "view_slice T view_flat h s = Some (vs, C)"
  shows "\<exists>t h'. copy_flat_slice T s h = Some (t, h') \<and> fresh_copy (view_slice T view_flat) h h' t vs"
proof (cases s)
  case None
  with assms show ?thesis by (auto simp: copy_flat_slice_def fresh_copy_def)
next
  case (Some a)
  from assms [unfolded Some view_slice_Some_iff] obtain cs A
    where src: "block_at h a = Some cs" "view_cells T view_flat h cs = Some (vs, A)" by blast
  define h2 where "h2 = h @ [cs]"
  have "block_at (h @ b) a = Some cs" for b
    using block_at_prefix [of h "h @ b" a] block_at_bounded [OF src(1)] src(1) by simp
  then have "copy_flat_slice T s h = Some (Some (length h), h2)"
    using src(1)
    by (simp add: Some copy_flat_slice_def seq_def block_length_def make_block_def
        builtin_copy_def h2_def) (simp add: block_at_def)
  moreover have flat: "view_cells T view_flat h2 cs = Some (vs, {})"
    using src(2) by (induction cs arbitrary: vs A) (auto simp: bind_eq_Some_conv view_flat_def)
  then have "view_slice T view_flat h2 (Some (length h)) = Some (vs, {length h})"
    by (simp add: view_slice_Some_iff block_at_def h2_def)
  moreover have "{length h} \<subseteq> {length h..<length h2}" by (simp add: h2_def)
  ultimately show ?thesis by (blast intro: fresh_copyI prefixI [OF h2_def])
qed

end

sublocale flat_element < flat_slice: deep_copier "view_slice T view_flat" "copy_flat_slice T"
  by (rule deep_copier.intro [OF flat.heap_view_slice], unfold_locales) (rule copy_flat_slice_fresh)

section \<open>Independence of a copy\<close>

definition write_blocks :: "(addr \<times> block) list \<Rightarrow> heap \<Rightarrow> heap" where
  "write_blocks ws h = foldl (\<lambda>h (a, b). h[a := b]) h ws"

lemma block_at_write_blocks:
  "a \<notin> fst ` set ws \<Longrightarrow> block_at (write_blocks ws h) a = block_at h a"
proof (induction ws arbitrary: h)
  case Nil
  show ?case by (simp add: write_blocks_def)
next
  case (Cons w ws)
  from Cons.prems have "block_at (write_blocks ws (h[fst w := snd w])) a = block_at (h[fst w := snd w]) a"
    by (intro Cons.IH) simp
  moreover have "write_blocks (w # ws) h = write_blocks ws (h[fst w := snd w])"
    by (simp add: write_blocks_def split_beta)
  ultimately show ?case
    using Cons.prems by (auto simp: block_at_def)
qed

context deep_copier
begin

lemma independent:
  assumes "vw h x = Some (v, A)"
  shows "\<exists>y h' B. dc x h = Some (y, h') \<and> vw h' x = Some (v, A) \<and> vw h' y = Some (v, B)
    \<and> A \<inter> B = {}
    \<and> (\<forall>ws. fst ` set ws \<subseteq> B \<longrightarrow> vw (write_blocks ws h') x = Some (v, A))
    \<and> (\<forall>ws. fst ` set ws \<subseteq> A \<longrightarrow> vw (write_blocks ws h') y = Some (v, B))"
proof -
  obtain y h' where c: "dc x h = Some (y, h')" "fresh_copy vw h h' y v"
    using copies [OF assms] by blast
  obtain B where B: "prefix h h'" "vw h' y = Some (v, B)" "B \<subseteq> {length h..<length h'}"
    using c(2) by (rule fresh_copyE)
  have disj: "A \<inter> B = {}" using B(3) bounded [OF assms] by fastforce
  have x': "vw h' x = Some (v, A)" using assms B(1) by (rule frame_prefix)
  have "vw (write_blocks ws h') x = Some (v, A)" if "fst ` set ws \<subseteq> B" for ws
    using that disj by (intro frame [OF x'] block_at_write_blocks) blast
  moreover have "vw (write_blocks ws h') y = Some (v, B)" if "fst ` set ws \<subseteq> A" for ws
    using that disj by (intro frame [OF B(2)] block_at_write_blocks) blast
  ultimately show ?thesis using c(1) B(2) disj x' by blast
qed

end

section \<open>Views and copies of a struct\<close>

text \<open>A struct is viewed field by field: \<open>pure_view\<close> reads what lies in the struct itself,
  \<open>field_view\<close> follows one field, \<open>and_view\<close> applies the one to the other and joins the addresses.\<close>

definition pure_view :: "('a \<Rightarrow> 'v) \<Rightarrow> ('a, 'v) view" where
  "pure_view f h m = Some (f m, {})"

definition field_view :: "('b, 'v) view \<Rightarrow> ('a \<Rightarrow> 'b) \<Rightarrow> ('a, 'v) view" where
  "field_view vw sel h m = vw h (sel m)"

definition and_view :: "('a, 'x \<Rightarrow> 'v) view \<Rightarrow> ('a, 'x) view \<Rightarrow> ('a, 'v) view" where
  "and_view vf vx h m =
     Option.bind (vf h m) (\<lambda>(f, A). Option.bind (vx h m) (\<lambda>(x, B). Some (f x, A \<union> B)))"

lemma heap_view_pure: "heap_view (pure_view f)"
  by unfold_locales (auto simp: pure_view_def)

lemma heap_view_field: "heap_view vw \<Longrightarrow> heap_view (field_view vw sel)"
proof -
  assume v: "heap_view vw"
  show ?thesis
    by (rule heap_view.intro; unfold field_view_def)
      (rule heap_view.frame [OF v], assumption, blast, rule heap_view.bounded [OF v])
qed

lemma and_view_Some_iff:
  "and_view vf vx h m = Some (v, C) \<longleftrightarrow>
     (\<exists>f A x B. vf h m = Some (f, A) \<and> vx h m = Some (x, B) \<and> v = f x \<and> C = A \<union> B)"
  by (auto simp: and_view_def bind_eq_Some_conv)

lemma pure_view_Some_iff: "pure_view f h m = Some (v, C) \<longleftrightarrow> v = f m \<and> C = {}"
  by (auto simp: pure_view_def)

lemma field_view_Some_iff: "field_view vw sel h m = Some (v, C) \<longleftrightarrow> vw h (sel m) = Some (v, C)"
  by (simp add: field_view_def)

lemma heap_view_and:
  assumes "heap_view vf" and "heap_view vx"
  shows "heap_view (and_view vf vx)"
proof -
  have "and_view vf vx h' m = Some (v, C)"
    if m: "and_view vf vx h m = Some (v, C)" and same: "\<And>a. a \<in> C \<Longrightarrow> block_at h' a = block_at h a"
    for h h' m v C
  proof -
    obtain f A x B where f: "vf h m = Some (f, A)" and x: "vx h m = Some (x, B)"
      and C: "v = f x" "C = A \<union> B"
      using m unfolding and_view_Some_iff by blast
    have "vf h' m = Some (f, A)" using same C by (intro heap_view.frame [OF assms(1) f]) blast
    moreover have "vx h' m = Some (x, B)" using same C by (intro heap_view.frame [OF assms(2) x]) blast
    ultimately show ?thesis using C unfolding and_view_Some_iff by blast
  qed
  moreover have "a < length h" if "and_view vf vx h m = Some (v, C)" and "a \<in> C" for h m v C a
    using that heap_view.bounded [OF assms(1)] heap_view.bounded [OF assms(2)]
    by (auto simp: and_view_Some_iff)
  ultimately show ?thesis by (rule heap_view.intro)
qed

lemma fresh_copy_pure:
  "fresh_copy (pure_view f) h h' y v \<longleftrightarrow> prefix h h' \<and> v = f y"
  by (auto simp: fresh_copy_def pure_view_def)

lemma fresh_copy_field:
  "fresh_copy (field_view vw sel) h h' y v \<longleftrightarrow> fresh_copy vw h h' (sel y) v"
  by (simp add: fresh_copy_def field_view_def)

lemma fresh_copy_and:
  "fresh_copy vf h h' y f \<Longrightarrow> fresh_copy vx h h' y x \<Longrightarrow> fresh_copy (and_view vf vx) h h' y (f x)"
  unfolding fresh_copy_def by (auto simp: and_view_Some_iff)

lemmas struct_view_iffs = and_view_Some_iff pure_view_Some_iff field_view_Some_iff
lemmas struct_views = heap_view_and heap_view_pure heap_view_field

lemma deep_elementI:
  assumes "go_layout T" and "heap_view vw"
    and "\<And>h x v A. vw h x = Some (v, A) \<Longrightarrow> \<exists>y h'. dc x h = Some (y, h') \<and> fresh_copy vw h h' y v"
  shows "deep_element T vw dc"
  using assms by (simp add: deep_element_def deep_copier_def deep_copier_axioms_def)

text \<open>One step of a struct's copy: the field is copied, and its copy survives what follows.\<close>

context deep_copier
begin

lemma copy_then:
  assumes "vw h x = Some (v, A)" and "prefix h h1"
    and "\<And>y h2. \<lbrakk>prefix h1 h2; prefix h h2; fresh_copy vw h h2 y v;
            \<And>h3. prefix h2 h3 \<Longrightarrow> fresh_copy vw h h3 y v\<rbrakk>
          \<Longrightarrow> \<exists>z h'. k y h2 = Some (z, h') \<and> P z h'"
  shows "\<exists>z h'. seq (dc x) k h1 = Some (z, h') \<and> P z h'"
proof -
  obtain y h2 where c: "dc x h1 = Some (y, h2)" "fresh_copy vw h h2 y v" "prefix h1 h2"
    using copies_later [OF assms(1,2)] by blast
  have "\<exists>z h'. k y h2 = Some (z, h') \<and> P z h'"
    using c(3) fresh_copy_prefix [OF c(2)] c(2) fresh_copy_extend [OF c(2)] by (rule assms(3))
  then show ?thesis using c(1) by simp
qed

end

end
