(* ===== verification/Deep_Copy.thy ===== *)
theory Deep_Copy
  imports Go_Memory
begin

text \<open>
  The deep copies that deepcopy-gen wrote for the internal types
  (\<open>pkg/apis/authentication/zz_generated.deepcopy.go\<close>), over the memory of \<open>Go_Memory\<close>.  For each
  type: how it lies in a cell, \<open>DeepCopyInto\<close> as a function from the struct read through \<open>in\<close> to the
  struct written through \<open>out\<close>, statement by statement, \<open>DeepCopy\<close> on a pointer, the view that reads
  the value of \<open>Api_Types\<close> the memory stands for, and the interpretation of the contract
  \<open>deep_element\<close>: the copy succeeds, stands for the same value, and shares no block with anything
  that existed before.
\<close>

definition T_string :: "string go_type" where
  "T_string =
     \<lparr>wrap = GString, unwrap = (\<lambda>c. case c of GString x \<Rightarrow> Some x | _ \<Rightarrow> None), zero_value = []\<rparr>"

interpretation Str: flat_element T_string
  by unfold_locales (simp add: T_string_def)

section \<open>TLS\<close>

definition T_TLS :: "tls_mem go_type" where
  "T_TLS =
     \<lparr>wrap = GTLS,
      unwrap = (\<lambda>c. case c of GTLS x \<Rightarrow> Some x | _ \<Rightarrow> None),
      zero_value = \<lparr>mtls_CertificateAuthority = None\<rparr>\<rparr>"

definition TLS_DeepCopyInto :: "tls_mem \<Rightarrow> tls_mem heap_op" where
  "TLS_DeepCopyInto i =
     seq (copy_ptr T_string ret (mtls_CertificateAuthority i)) (\<lambda>certificate_authority'.
     ret (i\<lparr>mtls_CertificateAuthority := certificate_authority'\<rparr>))"

definition TLS_DeepCopy :: "ptr \<Rightarrow> ptr heap_op" where
  "TLS_DeepCopy =
     copy_ptr T_TLS TLS_DeepCopyInto"

definition view_TLS ::
    "(tls_mem, tls) view" where
  "view_TLS =
     and_view (pure_view (\<lambda>m
         certificate_authority.
         \<lparr>tls_CertificateAuthority = certificate_authority\<rparr>))
       (field_view (view_ptr T_string view_flat) mtls_CertificateAuthority)"

interpretation TLS:
  deep_element T_TLS view_TLS TLS_DeepCopyInto
proof (rule deep_elementI)
  show "go_layout T_TLS"
    by unfold_locales (simp add: T_TLS_def)
  show "heap_view view_TLS"
    unfolding view_TLS_def
    by (intro struct_views Str.flat.heap_view_ptr)
  show "\<exists>y h'. TLS_DeepCopyInto x h = Some (y, h')
      \<and> fresh_copy view_TLS h h' y v"
    if "view_TLS h x = Some (v, A)" for h x v A
    using that
    unfolding view_TLS_def TLS_DeepCopyInto_def struct_view_iffs
    by (elim exE conjE; hypsubst)
      (rule Str.flat.pointer.copy_then, assumption, simp,
       auto intro!: fresh_copy_and simp: fresh_copy_pure fresh_copy_field)
qed

section \<open>ClientCredentialConfig\<close>

definition T_ClientCredentialConfig :: "client_credential_config_mem go_type" where
  "T_ClientCredentialConfig =
     \<lparr>wrap = GClientCredentialConfig,
      unwrap = (\<lambda>c. case c of GClientCredentialConfig x \<Rightarrow> Some x | _ \<Rightarrow> None),
      zero_value = \<lparr>mcc_ClientID = [], mcc_ClientSecret = [], mcc_TokenEndpoint = [], mcc_Scopes = None,
        mcc_TLS = None\<rparr>\<rparr>"

definition ClientCredentialConfig_DeepCopyInto ::
    "client_credential_config_mem \<Rightarrow> client_credential_config_mem heap_op" where
  "ClientCredentialConfig_DeepCopyInto i =
     seq (copy_flat_slice T_string (mcc_Scopes i)) (\<lambda>scopes'.
     seq (copy_ptr T_TLS TLS_DeepCopyInto (mcc_TLS i)) (\<lambda>tls'.
     ret (i\<lparr>mcc_Scopes := scopes', mcc_TLS := tls'\<rparr>)))"

definition ClientCredentialConfig_DeepCopy :: "ptr \<Rightarrow> ptr heap_op" where
  "ClientCredentialConfig_DeepCopy =
     copy_ptr T_ClientCredentialConfig ClientCredentialConfig_DeepCopyInto"

definition view_ClientCredentialConfig ::
    "(client_credential_config_mem, client_credential_config) view" where
  "view_ClientCredentialConfig =
     and_view (and_view (pure_view (\<lambda>m
         scopes tls.
         \<lparr>cc_ClientID = mcc_ClientID m, cc_ClientSecret = mcc_ClientSecret m,
          cc_TokenEndpoint = mcc_TokenEndpoint m, cc_Scopes = scopes, cc_TLS = tls\<rparr>))
       (field_view (view_slice T_string view_flat) mcc_Scopes))
       (field_view (view_ptr T_TLS view_TLS) mcc_TLS)"

interpretation ClientCredentialConfig:
  deep_element T_ClientCredentialConfig view_ClientCredentialConfig ClientCredentialConfig_DeepCopyInto
proof (rule deep_elementI)
  show "go_layout T_ClientCredentialConfig"
    by unfold_locales (simp add: T_ClientCredentialConfig_def)
  show "heap_view view_ClientCredentialConfig"
    unfolding view_ClientCredentialConfig_def
    by (intro struct_views Str.flat.heap_view_slice TLS.heap_view_ptr)
  show "\<exists>y h'. ClientCredentialConfig_DeepCopyInto x h = Some (y, h')
      \<and> fresh_copy view_ClientCredentialConfig h h' y v"
    if "view_ClientCredentialConfig h x = Some (v, A)" for h x v A
    using that
    unfolding view_ClientCredentialConfig_def ClientCredentialConfig_DeepCopyInto_def struct_view_iffs
    by (elim exE conjE; hypsubst)
      (rule Str.flat_slice.copy_then, assumption, simp,
       rule TLS.pointer.copy_then, assumption, assumption,
       auto intro!: fresh_copy_and simp: fresh_copy_pure fresh_copy_field)
qed

section \<open>Authentication\<close>

definition T_Authentication :: "authentication_mem go_type" where
  "T_Authentication =
     \<lparr>wrap = GAuthentication,
      unwrap = (\<lambda>c. case c of GAuthentication x \<Rightarrow> Some x | _ \<Rightarrow> None),
      zero_value = \<lparr>mauth_Type = None, mauth_ClientCredential = None\<rparr>\<rparr>"

definition Authentication_DeepCopyInto ::
    "authentication_mem \<Rightarrow> authentication_mem heap_op" where
  "Authentication_DeepCopyInto i =
     seq (copy_ptr T_string ret (mauth_Type i)) (\<lambda>type'.
     seq (copy_ptr T_ClientCredentialConfig ClientCredentialConfig_DeepCopyInto
          (mauth_ClientCredential i)) (\<lambda>client_credential'.
     ret (i\<lparr>mauth_Type := type', mauth_ClientCredential := client_credential'\<rparr>)))"

definition Authentication_DeepCopy :: "ptr \<Rightarrow> ptr heap_op" where
  "Authentication_DeepCopy =
     copy_ptr T_Authentication Authentication_DeepCopyInto"

definition view_Authentication ::
    "(authentication_mem, authentication) view" where
  "view_Authentication =
     and_view (and_view (pure_view (\<lambda>m
         type client_credential.
         \<lparr>auth_Type = type, auth_ClientCredential = client_credential\<rparr>))
       (field_view (view_ptr T_string view_flat) mauth_Type))
       (field_view (view_ptr T_ClientCredentialConfig view_ClientCredentialConfig) mauth_ClientCredential)"

interpretation Authentication:
  deep_element T_Authentication view_Authentication Authentication_DeepCopyInto
proof (rule deep_elementI)
  show "go_layout T_Authentication"
    by unfold_locales (simp add: T_Authentication_def)
  show "heap_view view_Authentication"
    unfolding view_Authentication_def
    by (intro struct_views Str.flat.heap_view_ptr ClientCredentialConfig.heap_view_ptr)
  show "\<exists>y h'. Authentication_DeepCopyInto x h = Some (y, h')
      \<and> fresh_copy view_Authentication h h' y v"
    if "view_Authentication h x = Some (v, A)" for h x v A
    using that
    unfolding view_Authentication_def Authentication_DeepCopyInto_def struct_view_iffs
    by (elim exE conjE; hypsubst)
      (rule Str.flat.pointer.copy_then, assumption, simp,
       rule ClientCredentialConfig.pointer.copy_then, assumption, assumption,
       auto intro!: fresh_copy_and simp: fresh_copy_pure fresh_copy_field)
qed

section \<open>SourceURL\<close>

definition T_SourceURL :: "source_url_mem go_type" where
  "T_SourceURL =
     \<lparr>wrap = GSourceURL,
      unwrap = (\<lambda>c. case c of GSourceURL x \<Rightarrow> Some x | _ \<Rightarrow> None),
      zero_value = \<lparr>msurl_Hostname = None, msurl_PathExpression = None\<rparr>\<rparr>"

definition SourceURL_DeepCopyInto :: "source_url_mem \<Rightarrow> source_url_mem heap_op" where
  "SourceURL_DeepCopyInto i =
     seq (copy_ptr T_string ret (msurl_Hostname i)) (\<lambda>hostname'.
     seq (copy_ptr T_string ret (msurl_PathExpression i)) (\<lambda>path_expression'.
     ret (i\<lparr>msurl_Hostname := hostname', msurl_PathExpression := path_expression'\<rparr>)))"

definition SourceURL_DeepCopy :: "ptr \<Rightarrow> ptr heap_op" where
  "SourceURL_DeepCopy =
     copy_ptr T_SourceURL SourceURL_DeepCopyInto"

definition view_SourceURL ::
    "(source_url_mem, source_url) view" where
  "view_SourceURL =
     and_view (and_view (pure_view (\<lambda>m
         hostname path_expression.
         \<lparr>surl_Hostname = hostname, surl_PathExpression = path_expression\<rparr>))
       (field_view (view_ptr T_string view_flat) msurl_Hostname))
       (field_view (view_ptr T_string view_flat) msurl_PathExpression)"

interpretation SourceURL:
  deep_element T_SourceURL view_SourceURL SourceURL_DeepCopyInto
proof (rule deep_elementI)
  show "go_layout T_SourceURL"
    by unfold_locales (simp add: T_SourceURL_def)
  show "heap_view view_SourceURL"
    unfolding view_SourceURL_def
    by (intro struct_views Str.flat.heap_view_ptr)
  show "\<exists>y h'. SourceURL_DeepCopyInto x h = Some (y, h')
      \<and> fresh_copy view_SourceURL h h' y v"
    if "view_SourceURL h x = Some (v, A)" for h x v A
    using that
    unfolding view_SourceURL_def SourceURL_DeepCopyInto_def struct_view_iffs
    by (elim exE conjE; hypsubst)
      (rule Str.flat.pointer.copy_then, assumption, simp,
       rule Str.flat.pointer.copy_then, assumption, assumption,
       auto intro!: fresh_copy_and simp: fresh_copy_pure fresh_copy_field)
qed

section \<open>SourcedClaimMapping\<close>

definition T_SourcedClaimMapping :: "sourced_claim_mapping_mem go_type" where
  "T_SourcedClaimMapping =
     \<lparr>wrap = GSourcedClaimMapping,
      unwrap = (\<lambda>c. case c of GSourcedClaimMapping x \<Rightarrow> Some x | _ \<Rightarrow> None),
      zero_value = \<lparr>mscm_Name = None, mscm_Expression = None\<rparr>\<rparr>"

definition SourcedClaimMapping_DeepCopyInto ::
    "sourced_claim_mapping_mem \<Rightarrow> sourced_claim_mapping_mem heap_op" where
  "SourcedClaimMapping_DeepCopyInto i =
     seq (copy_ptr T_string ret (mscm_Name i)) (\<lambda>name'.
     seq (copy_ptr T_string ret (mscm_Expression i)) (\<lambda>expression'.
     ret (i\<lparr>mscm_Name := name', mscm_Expression := expression'\<rparr>)))"

definition SourcedClaimMapping_DeepCopy :: "ptr \<Rightarrow> ptr heap_op" where
  "SourcedClaimMapping_DeepCopy =
     copy_ptr T_SourcedClaimMapping SourcedClaimMapping_DeepCopyInto"

definition view_SourcedClaimMapping ::
    "(sourced_claim_mapping_mem, sourced_claim_mapping) view" where
  "view_SourcedClaimMapping =
     and_view (and_view (pure_view (\<lambda>m
         name expression.
         \<lparr>scm_Name = name, scm_Expression = expression\<rparr>))
       (field_view (view_ptr T_string view_flat) mscm_Name))
       (field_view (view_ptr T_string view_flat) mscm_Expression)"

interpretation SourcedClaimMapping:
  deep_element T_SourcedClaimMapping view_SourcedClaimMapping SourcedClaimMapping_DeepCopyInto
proof (rule deep_elementI)
  show "go_layout T_SourcedClaimMapping"
    by unfold_locales (simp add: T_SourcedClaimMapping_def)
  show "heap_view view_SourcedClaimMapping"
    unfolding view_SourcedClaimMapping_def
    by (intro struct_views Str.flat.heap_view_ptr)
  show "\<exists>y h'. SourcedClaimMapping_DeepCopyInto x h = Some (y, h')
      \<and> fresh_copy view_SourcedClaimMapping h h' y v"
    if "view_SourcedClaimMapping h x = Some (v, A)" for h x v A
    using that
    unfolding view_SourcedClaimMapping_def SourcedClaimMapping_DeepCopyInto_def struct_view_iffs
    by (elim exE conjE; hypsubst)
      (rule Str.flat.pointer.copy_then, assumption, simp,
       rule Str.flat.pointer.copy_then, assumption, assumption,
       auto intro!: fresh_copy_and simp: fresh_copy_pure fresh_copy_field)
qed

section \<open>ExternalSourceCondition\<close>

definition T_ExternalSourceCondition :: "external_source_condition_mem go_type" where
  "T_ExternalSourceCondition =
     \<lparr>wrap = GExternalSourceCondition,
      unwrap = (\<lambda>c. case c of GExternalSourceCondition x \<Rightarrow> Some x | _ \<Rightarrow> None),
      zero_value = \<lparr>mesc_Expression = None\<rparr>\<rparr>"

definition ExternalSourceCondition_DeepCopyInto ::
    "external_source_condition_mem \<Rightarrow> external_source_condition_mem heap_op" where
  "ExternalSourceCondition_DeepCopyInto i =
     seq (copy_ptr T_string ret (mesc_Expression i)) (\<lambda>expression'.
     ret (i\<lparr>mesc_Expression := expression'\<rparr>))"

definition ExternalSourceCondition_DeepCopy :: "ptr \<Rightarrow> ptr heap_op" where
  "ExternalSourceCondition_DeepCopy =
     copy_ptr T_ExternalSourceCondition ExternalSourceCondition_DeepCopyInto"

definition view_ExternalSourceCondition ::
    "(external_source_condition_mem, external_source_condition) view" where
  "view_ExternalSourceCondition =
     and_view (pure_view (\<lambda>m
         expression.
         \<lparr>esc_Expression = expression\<rparr>))
       (field_view (view_ptr T_string view_flat) mesc_Expression)"

interpretation ExternalSourceCondition:
  deep_element T_ExternalSourceCondition view_ExternalSourceCondition ExternalSourceCondition_DeepCopyInto
proof (rule deep_elementI)
  show "go_layout T_ExternalSourceCondition"
    by unfold_locales (simp add: T_ExternalSourceCondition_def)
  show "heap_view view_ExternalSourceCondition"
    unfolding view_ExternalSourceCondition_def
    by (intro struct_views Str.flat.heap_view_ptr)
  show "\<exists>y h'. ExternalSourceCondition_DeepCopyInto x h = Some (y, h')
      \<and> fresh_copy view_ExternalSourceCondition h h' y v"
    if "view_ExternalSourceCondition h x = Some (v, A)" for h x v A
    using that
    unfolding view_ExternalSourceCondition_def ExternalSourceCondition_DeepCopyInto_def struct_view_iffs
    by (elim exE conjE; hypsubst)
      (rule Str.flat.pointer.copy_then, assumption, simp,
       auto intro!: fresh_copy_and simp: fresh_copy_pure fresh_copy_field)
qed

section \<open>ExternalClaimsSource\<close>

definition T_ExternalClaimsSource :: "external_claims_source_mem go_type" where
  "T_ExternalClaimsSource =
     \<lparr>wrap = GExternalClaimsSource,
      unwrap = (\<lambda>c. case c of GExternalClaimsSource x \<Rightarrow> Some x | _ \<Rightarrow> None),
      zero_value = \<lparr>mecs_Authentication = None, mecs_TLS = None, mecs_URL = None, mecs_Mappings = None,
        mecs_Conditions = None\<rparr>\<rparr>"

definition ExternalClaimsSource_DeepCopyInto ::
    "external_claims_source_mem \<Rightarrow> external_claims_source_mem heap_op" where
  "ExternalClaimsSource_DeepCopyInto i =
     seq (copy_ptr T_Authentication Authentication_DeepCopyInto
          (mecs_Authentication i)) (\<lambda>authentication'.
     seq (copy_ptr T_TLS TLS_DeepCopyInto (mecs_TLS i)) (\<lambda>tls'.
     seq (copy_ptr T_SourceURL SourceURL_DeepCopyInto (mecs_URL i)) (\<lambda>url'.
     seq (copy_slice T_SourcedClaimMapping SourcedClaimMapping_DeepCopyInto
          (mecs_Mappings i)) (\<lambda>mappings'.
     seq (copy_slice T_ExternalSourceCondition ExternalSourceCondition_DeepCopyInto
          (mecs_Conditions i)) (\<lambda>conditions'.
     ret (i\<lparr>mecs_Authentication := authentication', mecs_TLS := tls', mecs_URL := url',
         mecs_Mappings := mappings', mecs_Conditions := conditions'\<rparr>))))))"

definition ExternalClaimsSource_DeepCopy :: "ptr \<Rightarrow> ptr heap_op" where
  "ExternalClaimsSource_DeepCopy =
     copy_ptr T_ExternalClaimsSource ExternalClaimsSource_DeepCopyInto"

definition view_ExternalClaimsSource ::
    "(external_claims_source_mem, external_claims_source) view" where
  "view_ExternalClaimsSource =
     and_view (and_view (and_view (and_view (and_view (pure_view (\<lambda>m
         authentication tls url mappings conditions.
         \<lparr>ecs_Authentication = authentication, ecs_TLS = tls, ecs_URL = url,
          ecs_Mappings = mappings, ecs_Conditions = conditions\<rparr>))
       (field_view (view_ptr T_Authentication view_Authentication) mecs_Authentication))
       (field_view (view_ptr T_TLS view_TLS) mecs_TLS))
       (field_view (view_ptr T_SourceURL view_SourceURL) mecs_URL))
       (field_view (view_slice T_SourcedClaimMapping view_SourcedClaimMapping) mecs_Mappings))
       (field_view (view_slice T_ExternalSourceCondition view_ExternalSourceCondition) mecs_Conditions)"

interpretation ExternalClaimsSource:
  deep_element T_ExternalClaimsSource view_ExternalClaimsSource ExternalClaimsSource_DeepCopyInto
proof (rule deep_elementI)
  show "go_layout T_ExternalClaimsSource"
    by unfold_locales (simp add: T_ExternalClaimsSource_def)
  show "heap_view view_ExternalClaimsSource"
    unfolding view_ExternalClaimsSource_def
    by (intro struct_views Authentication.heap_view_ptr
      TLS.heap_view_ptr
      SourceURL.heap_view_ptr
      SourcedClaimMapping.heap_view_slice
      ExternalSourceCondition.heap_view_slice)
  show "\<exists>y h'. ExternalClaimsSource_DeepCopyInto x h = Some (y, h')
      \<and> fresh_copy view_ExternalClaimsSource h h' y v"
    if "view_ExternalClaimsSource h x = Some (v, A)" for h x v A
    using that
    unfolding view_ExternalClaimsSource_def ExternalClaimsSource_DeepCopyInto_def struct_view_iffs
    by (elim exE conjE; hypsubst)
      (rule Authentication.pointer.copy_then, assumption, simp,
       rule TLS.pointer.copy_then, assumption, assumption,
       rule SourceURL.pointer.copy_then, assumption, assumption,
       rule SourcedClaimMapping.slice.copy_then, assumption, assumption,
       rule ExternalSourceCondition.slice.copy_then, assumption, assumption,
       auto intro!: fresh_copy_and simp: fresh_copy_pure fresh_copy_field)
qed

section \<open>ClaimValidationRule\<close>

definition T_ClaimValidationRule :: "claim_validation_rule go_type" where
  "T_ClaimValidationRule =
     \<lparr>wrap = GClaimValidationRule,
      unwrap = (\<lambda>c. case c of GClaimValidationRule x \<Rightarrow> Some x | _ \<Rightarrow> None),
      zero_value = \<lparr>cvr_Claim = [], cvr_RequiredValue = [], cvr_Expression = [], cvr_Message = []\<rparr>\<rparr>"

definition ClaimValidationRule_DeepCopyInto ::
    "claim_validation_rule \<Rightarrow> claim_validation_rule heap_op" where
  "ClaimValidationRule_DeepCopyInto i = ret i"

definition ClaimValidationRule_DeepCopy :: "ptr \<Rightarrow> ptr heap_op" where
  "ClaimValidationRule_DeepCopy =
     copy_ptr T_ClaimValidationRule ClaimValidationRule_DeepCopyInto"

interpretation ClaimValidationRule: flat_element T_ClaimValidationRule
  by unfold_locales (simp add: T_ClaimValidationRule_def)

section \<open>PrefixedClaimOrExpression\<close>

definition T_PrefixedClaimOrExpression :: "prefixed_claim_or_expression_mem go_type" where
  "T_PrefixedClaimOrExpression =
     \<lparr>wrap = GPrefixedClaimOrExpression,
      unwrap = (\<lambda>c. case c of GPrefixedClaimOrExpression x \<Rightarrow> Some x | _ \<Rightarrow> None),
      zero_value = \<lparr>mpce_Claim = [], mpce_Prefix = None, mpce_Expression = []\<rparr>\<rparr>"

definition PrefixedClaimOrExpression_DeepCopyInto ::
    "prefixed_claim_or_expression_mem \<Rightarrow> prefixed_claim_or_expression_mem heap_op" where
  "PrefixedClaimOrExpression_DeepCopyInto i =
     seq (copy_ptr T_string ret (mpce_Prefix i)) (\<lambda>prefix'.
     ret (i\<lparr>mpce_Prefix := prefix'\<rparr>))"

definition PrefixedClaimOrExpression_DeepCopy :: "ptr \<Rightarrow> ptr heap_op" where
  "PrefixedClaimOrExpression_DeepCopy =
     copy_ptr T_PrefixedClaimOrExpression PrefixedClaimOrExpression_DeepCopyInto"

definition view_PrefixedClaimOrExpression ::
    "(prefixed_claim_or_expression_mem, prefixed_claim_or_expression) view" where
  "view_PrefixedClaimOrExpression =
     and_view (pure_view (\<lambda>m
         prefix.
         \<lparr>pce_Claim = mpce_Claim m, pce_Prefix = prefix, pce_Expression = mpce_Expression m\<rparr>))
       (field_view (view_ptr T_string view_flat) mpce_Prefix)"

interpretation PrefixedClaimOrExpression:
  deep_element T_PrefixedClaimOrExpression view_PrefixedClaimOrExpression PrefixedClaimOrExpression_DeepCopyInto
proof (rule deep_elementI)
  show "go_layout T_PrefixedClaimOrExpression"
    by unfold_locales (simp add: T_PrefixedClaimOrExpression_def)
  show "heap_view view_PrefixedClaimOrExpression"
    unfolding view_PrefixedClaimOrExpression_def
    by (intro struct_views Str.flat.heap_view_ptr)
  show "\<exists>y h'. PrefixedClaimOrExpression_DeepCopyInto x h = Some (y, h')
      \<and> fresh_copy view_PrefixedClaimOrExpression h h' y v"
    if "view_PrefixedClaimOrExpression h x = Some (v, A)" for h x v A
    using that
    unfolding view_PrefixedClaimOrExpression_def PrefixedClaimOrExpression_DeepCopyInto_def struct_view_iffs
    by (elim exE conjE; hypsubst)
      (rule Str.flat.pointer.copy_then, assumption, simp,
       auto intro!: fresh_copy_and simp: fresh_copy_pure fresh_copy_field)
qed

section \<open>ClaimOrExpression\<close>

definition T_ClaimOrExpression :: "claim_or_expression go_type" where
  "T_ClaimOrExpression =
     \<lparr>wrap = GClaimOrExpression,
      unwrap = (\<lambda>c. case c of GClaimOrExpression x \<Rightarrow> Some x | _ \<Rightarrow> None),
      zero_value = \<lparr>ce_Claim = [], ce_Expression = []\<rparr>\<rparr>"

definition ClaimOrExpression_DeepCopyInto ::
    "claim_or_expression \<Rightarrow> claim_or_expression heap_op" where
  "ClaimOrExpression_DeepCopyInto i = ret i"

definition ClaimOrExpression_DeepCopy :: "ptr \<Rightarrow> ptr heap_op" where
  "ClaimOrExpression_DeepCopy =
     copy_ptr T_ClaimOrExpression ClaimOrExpression_DeepCopyInto"

interpretation ClaimOrExpression: flat_element T_ClaimOrExpression
  by unfold_locales (simp add: T_ClaimOrExpression_def)

section \<open>ExtraMapping\<close>

definition T_ExtraMapping :: "extra_mapping go_type" where
  "T_ExtraMapping =
     \<lparr>wrap = GExtraMapping,
      unwrap = (\<lambda>c. case c of GExtraMapping x \<Rightarrow> Some x | _ \<Rightarrow> None),
      zero_value = \<lparr>em_Key = [], em_ValueExpression = []\<rparr>\<rparr>"

definition ExtraMapping_DeepCopyInto :: "extra_mapping \<Rightarrow> extra_mapping heap_op" where
  "ExtraMapping_DeepCopyInto i = ret i"

definition ExtraMapping_DeepCopy :: "ptr \<Rightarrow> ptr heap_op" where
  "ExtraMapping_DeepCopy =
     copy_ptr T_ExtraMapping ExtraMapping_DeepCopyInto"

interpretation ExtraMapping: flat_element T_ExtraMapping
  by unfold_locales (simp add: T_ExtraMapping_def)

section \<open>UserValidationRule\<close>

definition T_UserValidationRule :: "user_validation_rule go_type" where
  "T_UserValidationRule =
     \<lparr>wrap = GUserValidationRule,
      unwrap = (\<lambda>c. case c of GUserValidationRule x \<Rightarrow> Some x | _ \<Rightarrow> None),
      zero_value = \<lparr>uvr_Expression = [], uvr_Message = []\<rparr>\<rparr>"

definition UserValidationRule_DeepCopyInto ::
    "user_validation_rule \<Rightarrow> user_validation_rule heap_op" where
  "UserValidationRule_DeepCopyInto i = ret i"

definition UserValidationRule_DeepCopy :: "ptr \<Rightarrow> ptr heap_op" where
  "UserValidationRule_DeepCopy =
     copy_ptr T_UserValidationRule UserValidationRule_DeepCopyInto"

interpretation UserValidationRule: flat_element T_UserValidationRule
  by unfold_locales (simp add: T_UserValidationRule_def)

section \<open>ClaimMappings\<close>

definition T_ClaimMappings :: "claim_mappings_mem go_type" where
  "T_ClaimMappings =
     \<lparr>wrap = GClaimMappings,
      unwrap = (\<lambda>c. case c of GClaimMappings x \<Rightarrow> Some x | _ \<Rightarrow> None),
      zero_value = \<lparr>mcm_Username = zero_value T_PrefixedClaimOrExpression,
        mcm_Groups = zero_value T_PrefixedClaimOrExpression,
        mcm_UID = zero_value T_ClaimOrExpression, mcm_Extra = None\<rparr>\<rparr>"

definition ClaimMappings_DeepCopyInto ::
    "claim_mappings_mem \<Rightarrow> claim_mappings_mem heap_op" where
  "ClaimMappings_DeepCopyInto i =
     seq (PrefixedClaimOrExpression_DeepCopyInto (mcm_Username i)) (\<lambda>username'.
     seq (PrefixedClaimOrExpression_DeepCopyInto (mcm_Groups i)) (\<lambda>groups'.
     seq (copy_flat_slice T_ExtraMapping (mcm_Extra i)) (\<lambda>extra'.
     ret (i\<lparr>mcm_Username := username', mcm_Groups := groups', mcm_Extra := extra'\<rparr>))))"

definition ClaimMappings_DeepCopy :: "ptr \<Rightarrow> ptr heap_op" where
  "ClaimMappings_DeepCopy =
     copy_ptr T_ClaimMappings ClaimMappings_DeepCopyInto"

definition view_ClaimMappings ::
    "(claim_mappings_mem, claim_mappings) view" where
  "view_ClaimMappings =
     and_view (and_view (and_view (pure_view (\<lambda>m
         username groups extra.
         \<lparr>cm_Username = username, cm_Groups = groups, cm_UID = mcm_UID m, cm_Extra = extra\<rparr>))
       (field_view view_PrefixedClaimOrExpression mcm_Username))
       (field_view view_PrefixedClaimOrExpression mcm_Groups))
       (field_view (view_slice T_ExtraMapping view_flat) mcm_Extra)"

interpretation ClaimMappings:
  deep_element T_ClaimMappings view_ClaimMappings ClaimMappings_DeepCopyInto
proof (rule deep_elementI)
  show "go_layout T_ClaimMappings"
    by unfold_locales (simp add: T_ClaimMappings_def)
  show "heap_view view_ClaimMappings"
    unfolding view_ClaimMappings_def
    by (intro struct_views PrefixedClaimOrExpression.heap_view_axioms
      ExtraMapping.flat.heap_view_slice)
  show "\<exists>y h'. ClaimMappings_DeepCopyInto x h = Some (y, h')
      \<and> fresh_copy view_ClaimMappings h h' y v"
    if "view_ClaimMappings h x = Some (v, A)" for h x v A
    using that
    unfolding view_ClaimMappings_def ClaimMappings_DeepCopyInto_def struct_view_iffs
    by (elim exE conjE; hypsubst)
      (rule PrefixedClaimOrExpression.copy_then, assumption, simp,
       rule PrefixedClaimOrExpression.copy_then, assumption, assumption,
       rule ExtraMapping.flat_slice.copy_then, assumption, assumption,
       auto intro!: fresh_copy_and simp: fresh_copy_pure fresh_copy_field)
qed

section \<open>Issuer\<close>

definition T_Issuer :: "issuer_mem go_type" where
  "T_Issuer =
     \<lparr>wrap = GIssuer,
      unwrap = (\<lambda>c. case c of GIssuer x \<Rightarrow> Some x | _ \<Rightarrow> None),
      zero_value = \<lparr>missuer_URL = [], missuer_DiscoveryURL = [], missuer_CertificateAuthority = [],
        missuer_Audiences = None, missuer_AudienceMatchPolicy = []\<rparr>\<rparr>"

definition Issuer_DeepCopyInto :: "issuer_mem \<Rightarrow> issuer_mem heap_op" where
  "Issuer_DeepCopyInto i =
     seq (copy_flat_slice T_string (missuer_Audiences i)) (\<lambda>audiences'.
     ret (i\<lparr>missuer_Audiences := audiences'\<rparr>))"

definition Issuer_DeepCopy :: "ptr \<Rightarrow> ptr heap_op" where
  "Issuer_DeepCopy =
     copy_ptr T_Issuer Issuer_DeepCopyInto"

definition view_Issuer ::
    "(issuer_mem, issuer) view" where
  "view_Issuer =
     and_view (pure_view (\<lambda>m
         audiences.
         \<lparr>issuer_URL = missuer_URL m, issuer_DiscoveryURL = missuer_DiscoveryURL m,
          issuer_CertificateAuthority = missuer_CertificateAuthority m,
          issuer_Audiences = audiences,
          issuer_AudienceMatchPolicy = missuer_AudienceMatchPolicy m\<rparr>))
       (field_view (view_slice T_string view_flat) missuer_Audiences)"

interpretation Issuer:
  deep_element T_Issuer view_Issuer Issuer_DeepCopyInto
proof (rule deep_elementI)
  show "go_layout T_Issuer"
    by unfold_locales (simp add: T_Issuer_def)
  show "heap_view view_Issuer"
    unfolding view_Issuer_def
    by (intro struct_views Str.flat.heap_view_slice)
  show "\<exists>y h'. Issuer_DeepCopyInto x h = Some (y, h')
      \<and> fresh_copy view_Issuer h h' y v"
    if "view_Issuer h x = Some (v, A)" for h x v A
    using that
    unfolding view_Issuer_def Issuer_DeepCopyInto_def struct_view_iffs
    by (elim exE conjE; hypsubst)
      (rule Str.flat_slice.copy_then, assumption, simp,
       auto intro!: fresh_copy_and simp: fresh_copy_pure fresh_copy_field)
qed

section \<open>JWTAuthenticator\<close>

definition T_JWTAuthenticator :: "jwt_authenticator_mem go_type" where
  "T_JWTAuthenticator =
     \<lparr>wrap = GJWTAuthenticator,
      unwrap = (\<lambda>c. case c of GJWTAuthenticator x \<Rightarrow> Some x | _ \<Rightarrow> None),
      zero_value = \<lparr>mjwt_Issuer = None, mjwt_ClaimValidationRules = None, mjwt_ClaimMappings = None,
        mjwt_UserValidationRules = None, mjwt_ExternalClaimsSources = None\<rparr>\<rparr>"

definition JWTAuthenticator_DeepCopyInto ::
    "jwt_authenticator_mem \<Rightarrow> jwt_authenticator_mem heap_op" where
  "JWTAuthenticator_DeepCopyInto i =
     seq (copy_ptr T_Issuer Issuer_DeepCopyInto (mjwt_Issuer i)) (\<lambda>issuer'.
     seq (copy_flat_slice T_ClaimValidationRule
          (mjwt_ClaimValidationRules i)) (\<lambda>claim_validation_rules'.
     seq (copy_ptr T_ClaimMappings ClaimMappings_DeepCopyInto
          (mjwt_ClaimMappings i)) (\<lambda>claim_mappings'.
     seq (copy_flat_slice T_UserValidationRule
          (mjwt_UserValidationRules i)) (\<lambda>user_validation_rules'.
     seq (copy_slice T_ExternalClaimsSource ExternalClaimsSource_DeepCopyInto
          (mjwt_ExternalClaimsSources i)) (\<lambda>external_claims_sources'.
     ret (i\<lparr>mjwt_Issuer := issuer', mjwt_ClaimValidationRules := claim_validation_rules',
         mjwt_ClaimMappings := claim_mappings',
         mjwt_UserValidationRules := user_validation_rules',
         mjwt_ExternalClaimsSources := external_claims_sources'\<rparr>))))))"

definition JWTAuthenticator_DeepCopy :: "ptr \<Rightarrow> ptr heap_op" where
  "JWTAuthenticator_DeepCopy =
     copy_ptr T_JWTAuthenticator JWTAuthenticator_DeepCopyInto"

definition view_JWTAuthenticator ::
    "(jwt_authenticator_mem, jwt_authenticator) view" where
  "view_JWTAuthenticator =
     and_view (and_view (and_view (and_view (and_view (pure_view (\<lambda>m
         issuer claim_validation_rules claim_mappings user_validation_rules external_claims_sources.
         \<lparr>jwt_Issuer = issuer, jwt_ClaimValidationRules = claim_validation_rules,
          jwt_ClaimMappings = claim_mappings,
          jwt_UserValidationRules = user_validation_rules,
          jwt_ExternalClaimsSources = external_claims_sources\<rparr>))
       (field_view (view_ptr T_Issuer view_Issuer) mjwt_Issuer))
       (field_view (view_slice T_ClaimValidationRule view_flat) mjwt_ClaimValidationRules))
       (field_view (view_ptr T_ClaimMappings view_ClaimMappings) mjwt_ClaimMappings))
       (field_view (view_slice T_UserValidationRule view_flat) mjwt_UserValidationRules))
       (field_view (view_slice T_ExternalClaimsSource view_ExternalClaimsSource) mjwt_ExternalClaimsSources)"

interpretation JWTAuthenticator:
  deep_element T_JWTAuthenticator view_JWTAuthenticator JWTAuthenticator_DeepCopyInto
proof (rule deep_elementI)
  show "go_layout T_JWTAuthenticator"
    by unfold_locales (simp add: T_JWTAuthenticator_def)
  show "heap_view view_JWTAuthenticator"
    unfolding view_JWTAuthenticator_def
    by (intro struct_views Issuer.heap_view_ptr
      ClaimValidationRule.flat.heap_view_slice
      ClaimMappings.heap_view_ptr
      UserValidationRule.flat.heap_view_slice
      ExternalClaimsSource.heap_view_slice)
  show "\<exists>y h'. JWTAuthenticator_DeepCopyInto x h = Some (y, h')
      \<and> fresh_copy view_JWTAuthenticator h h' y v"
    if "view_JWTAuthenticator h x = Some (v, A)" for h x v A
    using that
    unfolding view_JWTAuthenticator_def JWTAuthenticator_DeepCopyInto_def struct_view_iffs
    by (elim exE conjE; hypsubst)
      (rule Issuer.pointer.copy_then, assumption, simp,
       rule ClaimValidationRule.flat_slice.copy_then, assumption, assumption,
       rule ClaimMappings.pointer.copy_then, assumption, assumption,
       rule UserValidationRule.flat_slice.copy_then, assumption, assumption,
       rule ExternalClaimsSource.slice.copy_then, assumption, assumption,
       auto intro!: fresh_copy_and simp: fresh_copy_pure fresh_copy_field)
qed

section \<open>AuthenticationConfiguration\<close>

definition T_AuthenticationConfiguration :: "authentication_configuration_mem go_type" where
  "T_AuthenticationConfiguration =
     \<lparr>wrap = GAuthenticationConfiguration,
      unwrap = (\<lambda>c. case c of GAuthenticationConfiguration x \<Rightarrow> Some x | _ \<Rightarrow> None),
      zero_value = \<lparr>mcfg_TypeMeta = \<lparr>tm_Kind = [], tm_APIVersion = []\<rparr>, mcfg_JWT = None\<rparr>\<rparr>"

definition AuthenticationConfiguration_DeepCopyInto ::
    "authentication_configuration_mem \<Rightarrow> authentication_configuration_mem heap_op" where
  "AuthenticationConfiguration_DeepCopyInto i =
     seq (copy_slice T_JWTAuthenticator JWTAuthenticator_DeepCopyInto (mcfg_JWT i)) (\<lambda>jwt'.
     ret (i\<lparr>mcfg_JWT := jwt'\<rparr>))"

definition AuthenticationConfiguration_DeepCopy :: "ptr \<Rightarrow> ptr heap_op" where
  "AuthenticationConfiguration_DeepCopy =
     copy_ptr T_AuthenticationConfiguration AuthenticationConfiguration_DeepCopyInto"

definition view_AuthenticationConfiguration ::
    "(authentication_configuration_mem, authentication_configuration) view" where
  "view_AuthenticationConfiguration =
     and_view (pure_view (\<lambda>m
         jwt.
         \<lparr>cfg_TypeMeta = mcfg_TypeMeta m, cfg_JWT = jwt\<rparr>))
       (field_view (view_slice T_JWTAuthenticator view_JWTAuthenticator) mcfg_JWT)"

interpretation AuthenticationConfiguration:
  deep_element T_AuthenticationConfiguration view_AuthenticationConfiguration AuthenticationConfiguration_DeepCopyInto
proof (rule deep_elementI)
  show "go_layout T_AuthenticationConfiguration"
    by unfold_locales (simp add: T_AuthenticationConfiguration_def)
  show "heap_view view_AuthenticationConfiguration"
    unfolding view_AuthenticationConfiguration_def
    by (intro struct_views JWTAuthenticator.heap_view_slice)
  show "\<exists>y h'. AuthenticationConfiguration_DeepCopyInto x h = Some (y, h')
      \<and> fresh_copy view_AuthenticationConfiguration h h' y v"
    if "view_AuthenticationConfiguration h x = Some (v, A)" for h x v A
    using that
    unfolding view_AuthenticationConfiguration_def AuthenticationConfiguration_DeepCopyInto_def struct_view_iffs
    by (elim exE conjE; hypsubst)
      (rule JWTAuthenticator.slice.copy_then, assumption, simp,
       auto intro!: fresh_copy_and simp: fresh_copy_pure fresh_copy_field)
qed

section \<open>The copy of a configuration\<close>

text \<open>A \<open>runtime.Object\<close> is an interface value: nil, or a pointer together with its type, which is not
  nil even when the pointer in it is.\<close>

datatype runtime_object = NilObject | ConfigurationObject ptr

definition AuthenticationConfiguration_DeepCopyObject :: "ptr \<Rightarrow> runtime_object heap_op" where
  "AuthenticationConfiguration_DeepCopyObject p =
     seq (AuthenticationConfiguration_DeepCopy p) (\<lambda>c.
     ret (if c \<noteq> None then ConfigurationObject c else NilObject))"

abbreviation view_configuration :: "(ptr, authentication_configuration option) view" where
  "view_configuration \<equiv> view_ptr T_AuthenticationConfiguration view_AuthenticationConfiguration"

lemma DeepCopyObject_of_nil:
  "AuthenticationConfiguration_DeepCopyObject None h = Some (NilObject, h)"
  by (simp add: AuthenticationConfiguration_DeepCopyObject_def AuthenticationConfiguration_DeepCopy_def
      copy_ptr_def)

lemma copies_keep_nil:
  "copy_slice T dc s h = Some (t, h') \<Longrightarrow> t = None \<longleftrightarrow> s = None"
  "copy_flat_slice T s h = Some (t, h') \<Longrightarrow> t = None \<longleftrightarrow> s = None"
  "copy_ptr T dc p h = Some (q, h') \<Longrightarrow> q = None \<longleftrightarrow> p = None"
  by (auto simp: copy_slice_def copy_flat_slice_def copy_ptr_def seq_def
      split: option.splits prod.splits)

text \<open>C11: The deep copy of a configuration never panics, stands for the same configuration and is
  independent of the original: no block is reachable from both, whatever is later written to the
  blocks of the copy leaves the original as it was, and whatever is written to the blocks of the
  original leaves the copy.  The original may share blocks within itself.\<close>

theorem deep_copy_independent:
  assumes "view_configuration h p = Some (c, A)"
  shows "\<exists>q h' B. AuthenticationConfiguration_DeepCopy p h = Some (q, h')
    \<and> view_configuration h' p = Some (c, A) \<and> view_configuration h' q = Some (c, B) \<and> A \<inter> B = {}
    \<and> (\<forall>ws. fst ` set ws \<subseteq> B \<longrightarrow> view_configuration (write_blocks ws h') p = Some (c, A))
    \<and> (\<forall>ws. fst ` set ws \<subseteq> A \<longrightarrow> view_configuration (write_blocks ws h') q = Some (c, B))"
  unfolding AuthenticationConfiguration_DeepCopy_def
  using assms by (rule AuthenticationConfiguration.pointer.independent)

text \<open>A configuration of two authenticators whose issuers are one and the same block.\<close>

definition sample_memory :: heap where
  "sample_memory =
     [[GString ''padlok''],
      [GIssuer \<lparr>missuer_URL = ''https://issuer'', missuer_DiscoveryURL = [],
         missuer_CertificateAuthority = [], missuer_Audiences = Some 0,
         missuer_AudienceMatchPolicy = []\<rparr>],
      [GJWTAuthenticator \<lparr>mjwt_Issuer = Some 1, mjwt_ClaimValidationRules = None,
         mjwt_ClaimMappings = None, mjwt_UserValidationRules = None,
         mjwt_ExternalClaimsSources = Some 3\<rparr>,
       GJWTAuthenticator \<lparr>mjwt_Issuer = Some 1, mjwt_ClaimValidationRules = None,
         mjwt_ClaimMappings = None, mjwt_UserValidationRules = None,
         mjwt_ExternalClaimsSources = None\<rparr>],
      [],
      [GAuthenticationConfiguration \<lparr>mcfg_TypeMeta = \<lparr>tm_Kind = [], tm_APIVersion = []\<rparr>,
         mcfg_JWT = Some 2\<rparr>]]"

definition sample_memory_configuration :: authentication_configuration where
  "sample_memory_configuration =
     (let iss = \<lparr>issuer_URL = ''https://issuer'', issuer_DiscoveryURL = [],
        issuer_CertificateAuthority = [], issuer_Audiences = [''padlok''],
        issuer_AudienceMatchPolicy = []\<rparr>;
        jwt = \<lparr>jwt_Issuer = Some iss, jwt_ClaimValidationRules = [], jwt_ClaimMappings = None,
          jwt_UserValidationRules = [], jwt_ExternalClaimsSources = []\<rparr>
      in \<lparr>cfg_TypeMeta = \<lparr>tm_Kind = [], tm_APIVersion = []\<rparr>, cfg_JWT = [jwt, jwt]\<rparr>)"

lemma sample_memory_viewed:
  "view_configuration sample_memory (Some 4) = Some (Some sample_memory_configuration, {0, 1, 2, 3, 4})"
  by (simp add: sample_memory_def sample_memory_configuration_def view_ptr_def view_slice_def
      view_flat_def load_def block_at_def and_view_def pure_view_def field_view_def
      T_AuthenticationConfiguration_def T_JWTAuthenticator_def T_Issuer_def T_string_def
      view_AuthenticationConfiguration_def view_JWTAuthenticator_def view_Issuer_def insert_commute Let_def)

theorem deep_copy_independent_witness:
  "\<exists>q h' B. AuthenticationConfiguration_DeepCopy (Some 4) sample_memory = Some (q, h')
    \<and> view_configuration h' q = Some (Some sample_memory_configuration, B) \<and> {0, 1, 2, 3, 4} \<inter> B = {}"
  using deep_copy_independent [OF sample_memory_viewed] by blast

end
