(* ===== verification/Deep_Copy_V1.thy ===== *)
theory Deep_Copy_V1
  imports Deep_Copy
begin

text \<open>
  The deep copies of the versioned types
  (\<open>pkg/apis/authentication/v1alpha1/zz_generated.deepcopy.go\<close>).  A versioned struct lies in memory
  exactly as its internal counterpart: the generated conversions cast pointers and slices of the one
  into the other with \<open>unsafe.Pointer\<close>.  So the two packages share the memory records and the views of
  \<open>Deep_Copy\<close>; the functions are translated again from their own file and proved to be the same,
  which hands them the contract.  The last section puts conversion and copy together: a conversion
  shares the memory of its argument, a conversion of a deep copy does not.
\<close>

definition v1_TLS_DeepCopyInto :: "tls_mem \<Rightarrow> tls_mem heap_op" where
  "v1_TLS_DeepCopyInto i =
     seq (copy_ptr T_string ret (mtls_CertificateAuthority i)) (\<lambda>certificate_authority'.
     ret (i\<lparr>mtls_CertificateAuthority := certificate_authority'\<rparr>))"

definition v1_TLS_DeepCopy :: "ptr \<Rightarrow> ptr heap_op" where
  "v1_TLS_DeepCopy =
     copy_ptr T_TLS v1_TLS_DeepCopyInto"

definition v1_ClientCredentialConfig_DeepCopyInto ::
    "client_credential_config_mem \<Rightarrow> client_credential_config_mem heap_op" where
  "v1_ClientCredentialConfig_DeepCopyInto i =
     seq (copy_flat_slice T_string (mcc_Scopes i)) (\<lambda>scopes'.
     seq (copy_ptr T_TLS v1_TLS_DeepCopyInto (mcc_TLS i)) (\<lambda>tls'.
     ret (i\<lparr>mcc_Scopes := scopes', mcc_TLS := tls'\<rparr>)))"

definition v1_ClientCredentialConfig_DeepCopy :: "ptr \<Rightarrow> ptr heap_op" where
  "v1_ClientCredentialConfig_DeepCopy =
     copy_ptr T_ClientCredentialConfig v1_ClientCredentialConfig_DeepCopyInto"

definition v1_Authentication_DeepCopyInto ::
    "authentication_mem \<Rightarrow> authentication_mem heap_op" where
  "v1_Authentication_DeepCopyInto i =
     seq (copy_ptr T_string ret (mauth_Type i)) (\<lambda>type'.
     seq (copy_ptr T_ClientCredentialConfig v1_ClientCredentialConfig_DeepCopyInto
          (mauth_ClientCredential i)) (\<lambda>client_credential'.
     ret (i\<lparr>mauth_Type := type', mauth_ClientCredential := client_credential'\<rparr>)))"

definition v1_Authentication_DeepCopy :: "ptr \<Rightarrow> ptr heap_op" where
  "v1_Authentication_DeepCopy =
     copy_ptr T_Authentication v1_Authentication_DeepCopyInto"

definition v1_SourceURL_DeepCopyInto ::
    "source_url_mem \<Rightarrow> source_url_mem heap_op" where
  "v1_SourceURL_DeepCopyInto i =
     seq (copy_ptr T_string ret (msurl_Hostname i)) (\<lambda>hostname'.
     seq (copy_ptr T_string ret (msurl_PathExpression i)) (\<lambda>path_expression'.
     ret (i\<lparr>msurl_Hostname := hostname', msurl_PathExpression := path_expression'\<rparr>)))"

definition v1_SourceURL_DeepCopy :: "ptr \<Rightarrow> ptr heap_op" where
  "v1_SourceURL_DeepCopy =
     copy_ptr T_SourceURL v1_SourceURL_DeepCopyInto"

definition v1_SourcedClaimMapping_DeepCopyInto ::
    "sourced_claim_mapping_mem \<Rightarrow> sourced_claim_mapping_mem heap_op" where
  "v1_SourcedClaimMapping_DeepCopyInto i =
     seq (copy_ptr T_string ret (mscm_Name i)) (\<lambda>name'.
     seq (copy_ptr T_string ret (mscm_Expression i)) (\<lambda>expression'.
     ret (i\<lparr>mscm_Name := name', mscm_Expression := expression'\<rparr>)))"

definition v1_SourcedClaimMapping_DeepCopy :: "ptr \<Rightarrow> ptr heap_op" where
  "v1_SourcedClaimMapping_DeepCopy =
     copy_ptr T_SourcedClaimMapping v1_SourcedClaimMapping_DeepCopyInto"

definition v1_ExternalSourceCondition_DeepCopyInto ::
    "external_source_condition_mem \<Rightarrow> external_source_condition_mem heap_op" where
  "v1_ExternalSourceCondition_DeepCopyInto i =
     seq (copy_ptr T_string ret (mesc_Expression i)) (\<lambda>expression'.
     ret (i\<lparr>mesc_Expression := expression'\<rparr>))"

definition v1_ExternalSourceCondition_DeepCopy :: "ptr \<Rightarrow> ptr heap_op" where
  "v1_ExternalSourceCondition_DeepCopy =
     copy_ptr T_ExternalSourceCondition v1_ExternalSourceCondition_DeepCopyInto"

definition v1_ExternalClaimsSource_DeepCopyInto ::
    "external_claims_source_mem \<Rightarrow> external_claims_source_mem heap_op" where
  "v1_ExternalClaimsSource_DeepCopyInto i =
     seq (copy_ptr T_Authentication v1_Authentication_DeepCopyInto
          (mecs_Authentication i)) (\<lambda>authentication'.
     seq (copy_ptr T_TLS v1_TLS_DeepCopyInto (mecs_TLS i)) (\<lambda>tls'.
     seq (copy_ptr T_SourceURL v1_SourceURL_DeepCopyInto (mecs_URL i)) (\<lambda>url'.
     seq (copy_slice T_SourcedClaimMapping v1_SourcedClaimMapping_DeepCopyInto
          (mecs_Mappings i)) (\<lambda>mappings'.
     seq (copy_slice T_ExternalSourceCondition v1_ExternalSourceCondition_DeepCopyInto
          (mecs_Conditions i)) (\<lambda>conditions'.
     ret (i\<lparr>mecs_Authentication := authentication', mecs_TLS := tls', mecs_URL := url',
         mecs_Mappings := mappings', mecs_Conditions := conditions'\<rparr>))))))"

definition v1_ExternalClaimsSource_DeepCopy :: "ptr \<Rightarrow> ptr heap_op" where
  "v1_ExternalClaimsSource_DeepCopy =
     copy_ptr T_ExternalClaimsSource v1_ExternalClaimsSource_DeepCopyInto"

definition v1_ClaimValidationRule_DeepCopyInto ::
    "claim_validation_rule \<Rightarrow> claim_validation_rule heap_op" where
  "v1_ClaimValidationRule_DeepCopyInto i = ret i"

definition v1_ClaimValidationRule_DeepCopy :: "ptr \<Rightarrow> ptr heap_op" where
  "v1_ClaimValidationRule_DeepCopy =
     copy_ptr T_ClaimValidationRule v1_ClaimValidationRule_DeepCopyInto"

definition v1_PrefixedClaimOrExpression_DeepCopyInto ::
    "prefixed_claim_or_expression_mem \<Rightarrow> prefixed_claim_or_expression_mem heap_op" where
  "v1_PrefixedClaimOrExpression_DeepCopyInto i =
     seq (copy_ptr T_string ret (mpce_Prefix i)) (\<lambda>prefix'.
     ret (i\<lparr>mpce_Prefix := prefix'\<rparr>))"

definition v1_PrefixedClaimOrExpression_DeepCopy :: "ptr \<Rightarrow> ptr heap_op" where
  "v1_PrefixedClaimOrExpression_DeepCopy =
     copy_ptr T_PrefixedClaimOrExpression v1_PrefixedClaimOrExpression_DeepCopyInto"

definition v1_ClaimOrExpression_DeepCopyInto ::
    "claim_or_expression \<Rightarrow> claim_or_expression heap_op" where
  "v1_ClaimOrExpression_DeepCopyInto i = ret i"

definition v1_ClaimOrExpression_DeepCopy :: "ptr \<Rightarrow> ptr heap_op" where
  "v1_ClaimOrExpression_DeepCopy =
     copy_ptr T_ClaimOrExpression v1_ClaimOrExpression_DeepCopyInto"

definition v1_ExtraMapping_DeepCopyInto ::
    "extra_mapping \<Rightarrow> extra_mapping heap_op" where
  "v1_ExtraMapping_DeepCopyInto i = ret i"

definition v1_ExtraMapping_DeepCopy :: "ptr \<Rightarrow> ptr heap_op" where
  "v1_ExtraMapping_DeepCopy =
     copy_ptr T_ExtraMapping v1_ExtraMapping_DeepCopyInto"

definition v1_UserValidationRule_DeepCopyInto ::
    "user_validation_rule \<Rightarrow> user_validation_rule heap_op" where
  "v1_UserValidationRule_DeepCopyInto i = ret i"

definition v1_UserValidationRule_DeepCopy :: "ptr \<Rightarrow> ptr heap_op" where
  "v1_UserValidationRule_DeepCopy =
     copy_ptr T_UserValidationRule v1_UserValidationRule_DeepCopyInto"

definition v1_ClaimMappings_DeepCopyInto ::
    "claim_mappings_mem \<Rightarrow> claim_mappings_mem heap_op" where
  "v1_ClaimMappings_DeepCopyInto i =
     seq (v1_PrefixedClaimOrExpression_DeepCopyInto (mcm_Username i)) (\<lambda>username'.
     seq (v1_PrefixedClaimOrExpression_DeepCopyInto (mcm_Groups i)) (\<lambda>groups'.
     seq (copy_flat_slice T_ExtraMapping (mcm_Extra i)) (\<lambda>extra'.
     ret (i\<lparr>mcm_Username := username', mcm_Groups := groups', mcm_Extra := extra'\<rparr>))))"

definition v1_ClaimMappings_DeepCopy :: "ptr \<Rightarrow> ptr heap_op" where
  "v1_ClaimMappings_DeepCopy =
     copy_ptr T_ClaimMappings v1_ClaimMappings_DeepCopyInto"

definition v1_Issuer_DeepCopyInto :: "issuer_mem \<Rightarrow> issuer_mem heap_op" where
  "v1_Issuer_DeepCopyInto i =
     seq (copy_flat_slice T_string (missuer_Audiences i)) (\<lambda>audiences'.
     ret (i\<lparr>missuer_Audiences := audiences'\<rparr>))"

definition v1_Issuer_DeepCopy :: "ptr \<Rightarrow> ptr heap_op" where
  "v1_Issuer_DeepCopy =
     copy_ptr T_Issuer v1_Issuer_DeepCopyInto"

definition v1_JWTAuthenticator_DeepCopyInto ::
    "jwt_authenticator_mem \<Rightarrow> jwt_authenticator_mem heap_op" where
  "v1_JWTAuthenticator_DeepCopyInto i =
     seq (copy_ptr T_Issuer v1_Issuer_DeepCopyInto (mjwt_Issuer i)) (\<lambda>issuer'.
     seq (copy_flat_slice T_ClaimValidationRule
          (mjwt_ClaimValidationRules i)) (\<lambda>claim_validation_rules'.
     seq (copy_ptr T_ClaimMappings v1_ClaimMappings_DeepCopyInto
          (mjwt_ClaimMappings i)) (\<lambda>claim_mappings'.
     seq (copy_flat_slice T_UserValidationRule
          (mjwt_UserValidationRules i)) (\<lambda>user_validation_rules'.
     seq (copy_slice T_ExternalClaimsSource v1_ExternalClaimsSource_DeepCopyInto
          (mjwt_ExternalClaimsSources i)) (\<lambda>external_claims_sources'.
     ret (i\<lparr>mjwt_Issuer := issuer', mjwt_ClaimValidationRules := claim_validation_rules',
         mjwt_ClaimMappings := claim_mappings',
         mjwt_UserValidationRules := user_validation_rules',
         mjwt_ExternalClaimsSources := external_claims_sources'\<rparr>))))))"

definition v1_JWTAuthenticator_DeepCopy :: "ptr \<Rightarrow> ptr heap_op" where
  "v1_JWTAuthenticator_DeepCopy =
     copy_ptr T_JWTAuthenticator v1_JWTAuthenticator_DeepCopyInto"

definition v1_AuthenticationConfiguration_DeepCopyInto ::
    "authentication_configuration_mem \<Rightarrow> authentication_configuration_mem heap_op" where
  "v1_AuthenticationConfiguration_DeepCopyInto i =
     seq (copy_slice T_JWTAuthenticator v1_JWTAuthenticator_DeepCopyInto (mcfg_JWT i)) (\<lambda>jwt'.
     ret (i\<lparr>mcfg_JWT := jwt'\<rparr>))"

definition v1_AuthenticationConfiguration_DeepCopy :: "ptr \<Rightarrow> ptr heap_op" where
  "v1_AuthenticationConfiguration_DeepCopy =
     copy_ptr T_AuthenticationConfiguration v1_AuthenticationConfiguration_DeepCopyInto"

section \<open>Agreement with the internal copies\<close>

named_theorems v1_copies \<open>the versioned copies are the internal ones\<close>

lemma v1_TLS [v1_copies]: "v1_TLS_DeepCopyInto = TLS_DeepCopyInto"
  by (simp add: fun_eq_iff v1_TLS_DeepCopyInto_def TLS_DeepCopyInto_def)

lemma v1_ClientCredentialConfig [v1_copies]: "v1_ClientCredentialConfig_DeepCopyInto = ClientCredentialConfig_DeepCopyInto"
  by (simp add: fun_eq_iff v1_ClientCredentialConfig_DeepCopyInto_def ClientCredentialConfig_DeepCopyInto_def v1_copies)

lemma v1_Authentication [v1_copies]: "v1_Authentication_DeepCopyInto = Authentication_DeepCopyInto"
  by (simp add: fun_eq_iff v1_Authentication_DeepCopyInto_def Authentication_DeepCopyInto_def v1_copies)

lemma v1_SourceURL [v1_copies]: "v1_SourceURL_DeepCopyInto = SourceURL_DeepCopyInto"
  by (simp add: fun_eq_iff v1_SourceURL_DeepCopyInto_def SourceURL_DeepCopyInto_def)

lemma v1_SourcedClaimMapping [v1_copies]: "v1_SourcedClaimMapping_DeepCopyInto = SourcedClaimMapping_DeepCopyInto"
  by (simp add: fun_eq_iff v1_SourcedClaimMapping_DeepCopyInto_def SourcedClaimMapping_DeepCopyInto_def)

lemma v1_ExternalSourceCondition [v1_copies]: "v1_ExternalSourceCondition_DeepCopyInto = ExternalSourceCondition_DeepCopyInto"
  by (simp add: fun_eq_iff v1_ExternalSourceCondition_DeepCopyInto_def ExternalSourceCondition_DeepCopyInto_def)

lemma v1_ExternalClaimsSource [v1_copies]: "v1_ExternalClaimsSource_DeepCopyInto = ExternalClaimsSource_DeepCopyInto"
  by (simp add: fun_eq_iff v1_ExternalClaimsSource_DeepCopyInto_def ExternalClaimsSource_DeepCopyInto_def v1_copies)

lemma v1_ClaimValidationRule [v1_copies]: "v1_ClaimValidationRule_DeepCopyInto = ClaimValidationRule_DeepCopyInto"
  by (simp add: fun_eq_iff v1_ClaimValidationRule_DeepCopyInto_def ClaimValidationRule_DeepCopyInto_def)

lemma v1_PrefixedClaimOrExpression [v1_copies]: "v1_PrefixedClaimOrExpression_DeepCopyInto = PrefixedClaimOrExpression_DeepCopyInto"
  by (simp add: fun_eq_iff v1_PrefixedClaimOrExpression_DeepCopyInto_def PrefixedClaimOrExpression_DeepCopyInto_def)

lemma v1_ClaimOrExpression [v1_copies]: "v1_ClaimOrExpression_DeepCopyInto = ClaimOrExpression_DeepCopyInto"
  by (simp add: fun_eq_iff v1_ClaimOrExpression_DeepCopyInto_def ClaimOrExpression_DeepCopyInto_def)

lemma v1_ExtraMapping [v1_copies]: "v1_ExtraMapping_DeepCopyInto = ExtraMapping_DeepCopyInto"
  by (simp add: fun_eq_iff v1_ExtraMapping_DeepCopyInto_def ExtraMapping_DeepCopyInto_def)

lemma v1_UserValidationRule [v1_copies]: "v1_UserValidationRule_DeepCopyInto = UserValidationRule_DeepCopyInto"
  by (simp add: fun_eq_iff v1_UserValidationRule_DeepCopyInto_def UserValidationRule_DeepCopyInto_def)

lemma v1_ClaimMappings [v1_copies]: "v1_ClaimMappings_DeepCopyInto = ClaimMappings_DeepCopyInto"
  by (simp add: fun_eq_iff v1_ClaimMappings_DeepCopyInto_def ClaimMappings_DeepCopyInto_def v1_copies)

lemma v1_Issuer [v1_copies]: "v1_Issuer_DeepCopyInto = Issuer_DeepCopyInto"
  by (simp add: fun_eq_iff v1_Issuer_DeepCopyInto_def Issuer_DeepCopyInto_def)

lemma v1_JWTAuthenticator [v1_copies]: "v1_JWTAuthenticator_DeepCopyInto = JWTAuthenticator_DeepCopyInto"
  by (simp add: fun_eq_iff v1_JWTAuthenticator_DeepCopyInto_def JWTAuthenticator_DeepCopyInto_def v1_copies)

lemma v1_AuthenticationConfiguration [v1_copies]: "v1_AuthenticationConfiguration_DeepCopyInto = AuthenticationConfiguration_DeepCopyInto"
  by (simp add: fun_eq_iff v1_AuthenticationConfiguration_DeepCopyInto_def AuthenticationConfiguration_DeepCopyInto_def v1_copies)

lemma v1_DeepCopy: "v1_AuthenticationConfiguration_DeepCopy = AuthenticationConfiguration_DeepCopy"
  by (simp add: v1_AuthenticationConfiguration_DeepCopy_def AuthenticationConfiguration_DeepCopy_def v1_copies)

definition v1_AuthenticationConfiguration_DeepCopyObject :: "ptr \<Rightarrow> runtime_object heap_op" where
  "v1_AuthenticationConfiguration_DeepCopyObject p =
     seq (v1_AuthenticationConfiguration_DeepCopy p) (\<lambda>c.
     ret (if c \<noteq> None then ConfigurationObject c else NilObject))"

section \<open>Conversion in memory\<close>

text \<open>\<open>Convert_v1alpha1_AuthenticationConfiguration_To_authentication_AuthenticationConfiguration\<close>
  into a new internal object: the slice of authenticators is cast, the type metadata stays zero.\<close>

definition convert_in_memory :: "ptr \<Rightarrow> ptr heap_op" where
  "convert_in_memory p =
     (case p of None \<Rightarrow> (\<lambda>h. None)
      | Some a \<Rightarrow>
          seq (make_block T_AuthenticationConfiguration 1) (\<lambda>out.
          seq (load T_AuthenticationConfiguration a 0) (\<lambda>i.
          seq (load T_AuthenticationConfiguration out 0) (\<lambda>o0.
          seq (store T_AuthenticationConfiguration out 0 (o0\<lparr>mcfg_JWT := mcfg_JWT i\<rparr>)) (\<lambda>_.
          ret (Some out))))))"

definition zero_type_meta :: type_meta where
  "zero_type_meta = \<lparr>tm_Kind = [], tm_APIVersion = []\<rparr>"

lemma convert_in_memory_result:
  assumes "view_configuration h (Some a) = Some (Some c, A)"
  shows "\<exists>h' A'. convert_in_memory (Some a) h = Some (Some (length h), h') \<and> prefix h h'
    \<and> length h' = Suc (length h) \<and> A = insert a A'
    \<and> view_configuration h' (Some (length h))
      = Some (Some (c\<lparr>cfg_TypeMeta := zero_type_meta\<rparr>), insert (length h) A')"
proof -
  let ?T = T_AuthenticationConfiguration
  obtain b i A' where b: "block_at h a = Some b" "0 < length b" "unwrap ?T (b ! 0) = Some i"
    and i: "view_AuthenticationConfiguration h i = Some (c, A')" and A: "A = insert a A'"
    using assms unfolding view_ptr_Some_iff by blast
  define h' where
    "h' = h @ [[wrap ?T (zero_value ?T\<lparr>mcfg_JWT := mcfg_JWT i\<rparr>)]]"
  have a: "block_at (h @ x) a = Some b" for x
    using block_at_prefix [of h "h @ x" a] block_at_bounded [OF b(1)] b(1) by simp
  have "convert_in_memory (Some a) h = Some (Some (length h), h')"
    using b(2,3) by (simp add: convert_in_memory_def make_block_def seq_def load_def store_def a)
      (simp add: block_at_def h'_def AuthenticationConfiguration.unwrap_wrap seq_def store_def)
  moreover have "view_AuthenticationConfiguration h' (zero_value ?T\<lparr>mcfg_JWT := mcfg_JWT i\<rparr>)
      = Some (c\<lparr>cfg_TypeMeta := zero_type_meta\<rparr>, A')"
    using i JWTAuthenticator.slice.frame_prefix [of h "mcfg_JWT i" _ _ h']
    by (auto simp: view_AuthenticationConfiguration_def struct_view_iffs h'_def zero_type_meta_def
        T_AuthenticationConfiguration_def)
  then have "view_configuration h' (Some (length h))
      = Some (Some (c\<lparr>cfg_TypeMeta := zero_type_meta\<rparr>), insert (length h) A')"
    by (auto simp: view_ptr_Some_iff h'_def block_at_def AuthenticationConfiguration.unwrap_wrap)
  ultimately show ?thesis using A by (auto simp: h'_def)
qed

text \<open>C38: Converting a versioned configuration shares its memory: apart from the new object itself,
  every block that the internal configuration reaches is one of the versioned object's.  Converting
  its deep copy gives the same internal configuration, but no block of the original is reachable
  from it and nothing written to the original changes it.\<close>

theorem conversion_shares_deep_copy_does_not:
  assumes "view_configuration h (Some a) = Some (Some c, A)"
  shows "(\<exists>h' q B. convert_in_memory (Some a) h = Some (Some q, h')
      \<and> view_configuration h' (Some q) = Some (Some (c\<lparr>cfg_TypeMeta := zero_type_meta\<rparr>), B)
      \<and> q \<notin> A \<and> B - {q} \<subseteq> A \<and> A - {a} \<subseteq> B)
    \<and> (\<exists>h' q B. seq (v1_AuthenticationConfiguration_DeepCopy (Some a)) convert_in_memory h = Some (q, h')
      \<and> view_configuration h' q = Some (Some (c\<lparr>cfg_TypeMeta := zero_type_meta\<rparr>), B) \<and> A \<inter> B = {}
      \<and> (\<forall>ws. fst ` set ws \<subseteq> A \<longrightarrow> view_configuration (write_blocks ws h') q
            = Some (Some (c\<lparr>cfg_TypeMeta := zero_type_meta\<rparr>), B)))"
  (is "?shared \<and> ?separate")
proof
  have old: "x < length h" if "x \<in> A" for x
    using AuthenticationConfiguration.pointer.bounded [OF assms that] .
  obtain h' A' where "convert_in_memory (Some a) h = Some (Some (length h), h')" "A = insert a A'"
    "view_configuration h' (Some (length h))
      = Some (Some (c\<lparr>cfg_TypeMeta := zero_type_meta\<rparr>), insert (length h) A')"
    using convert_in_memory_result [OF assms] by blast
  moreover have "length h \<notin> A" using old by blast
  ultimately show ?shared by blast
next
  obtain p h1 where copy: "AuthenticationConfiguration_DeepCopy (Some a) h = Some (p, h1)"
    and fresh: "fresh_copy view_configuration h h1 p (Some c)"
    unfolding AuthenticationConfiguration_DeepCopy_def
    using AuthenticationConfiguration.pointer.copies [OF assms] by blast
  obtain B1 where B1: "prefix h h1" "view_configuration h1 p = Some (Some c, B1)"
      "B1 \<subseteq> {length h..<length h1}" using fresh by (rule fresh_copyE)
  then obtain b where p: "p = Some b" by (cases p) auto
  obtain h2 A' where conv: "convert_in_memory p h1 = Some (Some (length h1), h2)"
    "prefix h1 h2" "B1 = insert b A'" and view: "view_configuration h2 (Some (length h1))
      = Some (Some (c\<lparr>cfg_TypeMeta := zero_type_meta\<rparr>), insert (length h1) A')"
    using convert_in_memory_result [OF B1(2) [unfolded p]] p by blast
  have disj: "A \<inter> insert (length h1) A' = {}"
    using AuthenticationConfiguration.pointer.bounded [OF assms] B1(3) conv(3)
      prefix_length_le [OF B1(1)] by fastforce
  have "view_configuration (write_blocks ws h2) (Some (length h1))
      = Some (Some (c\<lparr>cfg_TypeMeta := zero_type_meta\<rparr>), insert (length h1) A')"
    if "fst ` set ws \<subseteq> A" for ws
    using that disj
    by (intro AuthenticationConfiguration.pointer.frame [OF view] block_at_write_blocks) blast
  moreover have "seq (v1_AuthenticationConfiguration_DeepCopy (Some a)) convert_in_memory h
      = Some (Some (length h1), h2)"
    using copy conv(1) by (simp add: v1_DeepCopy)
  ultimately show ?separate using view disj by blast
qed

text \<open>The sample configuration of \<open>Deep_Copy\<close>, read as a versioned object.\<close>

theorem conversion_shares_deep_copy_does_not_witness:
  "(\<exists>h' q B. convert_in_memory (Some 4) sample_memory = Some (Some q, h')
      \<and> view_configuration h' (Some q) = Some (Some sample_memory_configuration, B)
      \<and> B - {q} \<subseteq> {0, 1, 2, 3, 4} \<and> {0, 1, 2, 3} \<subseteq> B)"
proof -
  have "sample_memory_configuration\<lparr>cfg_TypeMeta := zero_type_meta\<rparr> = sample_memory_configuration"
    by (simp add: sample_memory_configuration_def zero_type_meta_def Let_def)
  moreover have "{0, 1, 2, 3, 4} - {4} = {0, 1, 2, 3 :: addr}" by auto
  ultimately show ?thesis
    using conversion_shares_deep_copy_does_not [OF sample_memory_viewed] by auto
qed

end
