(* ===== verification/Api_Scheme.thy ===== *)
theory Api_Scheme
  imports Api_V1alpha1
begin

text \<open>
  Registration of the configuration types: \<open>register.go\<close> of the internal and of the versioned package, and
  \<open>RegisterConversions\<close> of the generated conversions.  The scheme itself belongs to apimachinery; its two
  methods that the code calls are the record \<open>scheme_lib\<close>, a parameter.  A pointer to a configuration struct
  in an \<open>interface{}\<close> is an \<open>api_object\<close>: its kind, and a value of the versioned (\<open>Inl\<close>) or of the internal
  (\<open>Inr\<close>) type of that kind.
\<close>

section \<open>Types and objects\<close>

datatype api_version = V1alpha1 | Internal

datatype api_kind =
    KAuthentication
  | KAuthenticationConfiguration
  | KClaimMappings
  | KClaimOrExpression
  | KClaimValidationRule
  | KClientCredentialConfig
  | KExternalClaimsSource
  | KExternalSourceCondition
  | KExtraMapping
  | KIssuer
  | KJWTAuthenticator
  | KPrefixedClaimOrExpression
  | KSourceURL
  | KSourcedClaimMapping
  | KTLS
  | KUserValidationRule

datatype api_object =
    ObjAuthentication "v1_authentication + authentication"
  | ObjAuthenticationConfiguration "v1_authentication_configuration + authentication_configuration"
  | ObjClaimMappings "v1_claim_mappings + claim_mappings"
  | ObjClaimOrExpression "v1_claim_or_expression + claim_or_expression"
  | ObjClaimValidationRule "v1_claim_validation_rule + claim_validation_rule"
  | ObjClientCredentialConfig "v1_client_credential_config + client_credential_config"
  | ObjExternalClaimsSource "v1_external_claims_source + external_claims_source"
  | ObjExternalSourceCondition "v1_external_source_condition + external_source_condition"
  | ObjExtraMapping "v1_extra_mapping + extra_mapping"
  | ObjIssuer "v1_issuer + issuer"
  | ObjJWTAuthenticator "v1_jwt_authenticator + jwt_authenticator"
  | ObjPrefixedClaimOrExpression "v1_prefixed_claim_or_expression + prefixed_claim_or_expression"
  | ObjSourceURL "v1_source_url + source_url"
  | ObjSourcedClaimMapping "v1_sourced_claim_mapping + sourced_claim_mapping"
  | ObjTLS "v1_tls + tls"
  | ObjUserValidationRule "v1_user_validation_rule + user_validation_rule"

text \<open>The type assertions \<open>a.(*T)\<close>, for the two packages' \<open>T\<close> at once.\<close>

definition as_Authentication :: "api_object \<Rightarrow> (v1_authentication + authentication) option" where
  "as_Authentication a = (case a of ObjAuthentication x \<Rightarrow> Some x | _ \<Rightarrow> None)"

definition as_AuthenticationConfiguration :: "api_object \<Rightarrow> (v1_authentication_configuration + authentication_configuration) option" where
  "as_AuthenticationConfiguration a = (case a of ObjAuthenticationConfiguration x \<Rightarrow> Some x | _ \<Rightarrow> None)"

definition as_ClaimMappings :: "api_object \<Rightarrow> (v1_claim_mappings + claim_mappings) option" where
  "as_ClaimMappings a = (case a of ObjClaimMappings x \<Rightarrow> Some x | _ \<Rightarrow> None)"

definition as_ClaimOrExpression :: "api_object \<Rightarrow> (v1_claim_or_expression + claim_or_expression) option" where
  "as_ClaimOrExpression a = (case a of ObjClaimOrExpression x \<Rightarrow> Some x | _ \<Rightarrow> None)"

definition as_ClaimValidationRule :: "api_object \<Rightarrow> (v1_claim_validation_rule + claim_validation_rule) option" where
  "as_ClaimValidationRule a = (case a of ObjClaimValidationRule x \<Rightarrow> Some x | _ \<Rightarrow> None)"

definition as_ClientCredentialConfig :: "api_object \<Rightarrow> (v1_client_credential_config + client_credential_config) option" where
  "as_ClientCredentialConfig a = (case a of ObjClientCredentialConfig x \<Rightarrow> Some x | _ \<Rightarrow> None)"

definition as_ExternalClaimsSource :: "api_object \<Rightarrow> (v1_external_claims_source + external_claims_source) option" where
  "as_ExternalClaimsSource a = (case a of ObjExternalClaimsSource x \<Rightarrow> Some x | _ \<Rightarrow> None)"

definition as_ExternalSourceCondition :: "api_object \<Rightarrow> (v1_external_source_condition + external_source_condition) option" where
  "as_ExternalSourceCondition a = (case a of ObjExternalSourceCondition x \<Rightarrow> Some x | _ \<Rightarrow> None)"

definition as_ExtraMapping :: "api_object \<Rightarrow> (v1_extra_mapping + extra_mapping) option" where
  "as_ExtraMapping a = (case a of ObjExtraMapping x \<Rightarrow> Some x | _ \<Rightarrow> None)"

definition as_Issuer :: "api_object \<Rightarrow> (v1_issuer + issuer) option" where
  "as_Issuer a = (case a of ObjIssuer x \<Rightarrow> Some x | _ \<Rightarrow> None)"

definition as_JWTAuthenticator :: "api_object \<Rightarrow> (v1_jwt_authenticator + jwt_authenticator) option" where
  "as_JWTAuthenticator a = (case a of ObjJWTAuthenticator x \<Rightarrow> Some x | _ \<Rightarrow> None)"

definition as_PrefixedClaimOrExpression :: "api_object \<Rightarrow> (v1_prefixed_claim_or_expression + prefixed_claim_or_expression) option" where
  "as_PrefixedClaimOrExpression a = (case a of ObjPrefixedClaimOrExpression x \<Rightarrow> Some x | _ \<Rightarrow> None)"

definition as_SourceURL :: "api_object \<Rightarrow> (v1_source_url + source_url) option" where
  "as_SourceURL a = (case a of ObjSourceURL x \<Rightarrow> Some x | _ \<Rightarrow> None)"

definition as_SourcedClaimMapping :: "api_object \<Rightarrow> (v1_sourced_claim_mapping + sourced_claim_mapping) option" where
  "as_SourcedClaimMapping a = (case a of ObjSourcedClaimMapping x \<Rightarrow> Some x | _ \<Rightarrow> None)"

definition as_TLS :: "api_object \<Rightarrow> (v1_tls + tls) option" where
  "as_TLS a = (case a of ObjTLS x \<Rightarrow> Some x | _ \<Rightarrow> None)"

definition as_UserValidationRule :: "api_object \<Rightarrow> (v1_user_validation_rule + user_validation_rule) option" where
  "as_UserValidationRule a = (case a of ObjUserValidationRule x \<Rightarrow> Some x | _ \<Rightarrow> None)"

type_synonym go_typename = "api_version \<times> api_kind"

text \<open>A registered function gets the source and the target object; its result is what the target then holds, or
  \<open>None\<close> when a type assertion panics.\<close>

type_synonym conversion_func = "api_object \<Rightarrow> api_object \<Rightarrow> api_object option"

definition to_internal ::
  "('v + 'i \<Rightarrow> api_object) \<Rightarrow> (api_object \<Rightarrow> ('v + 'i) option) \<Rightarrow> ('v \<Rightarrow> 'i \<Rightarrow> 'i) \<Rightarrow> conversion_func" where
  "to_internal obj as_type convert a b =
     (case (as_type a, as_type b) of
        (Some (Inl x), Some (Inr out)) \<Rightarrow> Some (obj (Inr (convert x out)))
      | _ \<Rightarrow> None)"

definition to_v1alpha1 ::
  "('v + 'i \<Rightarrow> api_object) \<Rightarrow> (api_object \<Rightarrow> ('v + 'i) option) \<Rightarrow> ('i \<Rightarrow> 'v \<Rightarrow> 'v) \<Rightarrow> conversion_func" where
  "to_v1alpha1 obj as_type convert a b =
     (case (as_type a, as_type b) of
        (Some (Inr x), Some (Inl out)) \<Rightarrow> Some (obj (Inl (convert x out)))
      | _ \<Rightarrow> None)"

section \<open>The scheme\<close>

record 's scheme_lib =
  sl_AddKnownTypes :: "string \<times> string \<Rightarrow> go_typename list \<Rightarrow> 's \<Rightarrow> 's"
  sl_AddGeneratedConversionFunc :: "go_typename \<Rightarrow> go_typename \<Rightarrow> conversion_func \<Rightarrow> 's \<Rightarrow> 's res"

text \<open>The entries of \<open>RegisterConversions\<close>, in the order of the source.\<close>

definition generated_conversions :: "(go_typename \<times> go_typename \<times> conversion_func) list" where
  "generated_conversions =
     [((V1alpha1, KAuthentication), (Internal, KAuthentication),
        to_internal ObjAuthentication as_Authentication
          (\<lambda>x _. Convert_v1alpha1_Authentication_To_authentication_Authentication x)),
      ((Internal, KAuthentication), (V1alpha1, KAuthentication),
        to_v1alpha1 ObjAuthentication as_Authentication
          (\<lambda>x _. Convert_authentication_Authentication_To_v1alpha1_Authentication x)),
      ((V1alpha1, KAuthenticationConfiguration), (Internal, KAuthenticationConfiguration),
        to_internal ObjAuthenticationConfiguration as_AuthenticationConfiguration
          Convert_v1alpha1_AuthenticationConfiguration_To_authentication_AuthenticationConfiguration),
      ((Internal, KAuthenticationConfiguration), (V1alpha1, KAuthenticationConfiguration),
        to_v1alpha1 ObjAuthenticationConfiguration as_AuthenticationConfiguration
          Convert_authentication_AuthenticationConfiguration_To_v1alpha1_AuthenticationConfiguration),
      ((V1alpha1, KClaimMappings), (Internal, KClaimMappings),
        to_internal ObjClaimMappings as_ClaimMappings
          (\<lambda>x _. Convert_v1alpha1_ClaimMappings_To_authentication_ClaimMappings x)),
      ((Internal, KClaimMappings), (V1alpha1, KClaimMappings),
        to_v1alpha1 ObjClaimMappings as_ClaimMappings
          (\<lambda>x _. Convert_authentication_ClaimMappings_To_v1alpha1_ClaimMappings x)),
      ((V1alpha1, KClaimOrExpression), (Internal, KClaimOrExpression),
        to_internal ObjClaimOrExpression as_ClaimOrExpression
          (\<lambda>x _. Convert_v1alpha1_ClaimOrExpression_To_authentication_ClaimOrExpression x)),
      ((Internal, KClaimOrExpression), (V1alpha1, KClaimOrExpression),
        to_v1alpha1 ObjClaimOrExpression as_ClaimOrExpression
          (\<lambda>x _. Convert_authentication_ClaimOrExpression_To_v1alpha1_ClaimOrExpression x)),
      ((V1alpha1, KClaimValidationRule), (Internal, KClaimValidationRule),
        to_internal ObjClaimValidationRule as_ClaimValidationRule
          (\<lambda>x _. Convert_v1alpha1_ClaimValidationRule_To_authentication_ClaimValidationRule x)),
      ((Internal, KClaimValidationRule), (V1alpha1, KClaimValidationRule),
        to_v1alpha1 ObjClaimValidationRule as_ClaimValidationRule
          (\<lambda>x _. Convert_authentication_ClaimValidationRule_To_v1alpha1_ClaimValidationRule x)),
      ((V1alpha1, KClientCredentialConfig), (Internal, KClientCredentialConfig),
        to_internal ObjClientCredentialConfig as_ClientCredentialConfig
          (\<lambda>x _. Convert_v1alpha1_ClientCredentialConfig_To_authentication_ClientCredentialConfig x)),
      ((Internal, KClientCredentialConfig), (V1alpha1, KClientCredentialConfig),
        to_v1alpha1 ObjClientCredentialConfig as_ClientCredentialConfig
          (\<lambda>x _. Convert_authentication_ClientCredentialConfig_To_v1alpha1_ClientCredentialConfig x)),
      ((V1alpha1, KExternalClaimsSource), (Internal, KExternalClaimsSource),
        to_internal ObjExternalClaimsSource as_ExternalClaimsSource
          (\<lambda>x _. Convert_v1alpha1_ExternalClaimsSource_To_authentication_ExternalClaimsSource x)),
      ((Internal, KExternalClaimsSource), (V1alpha1, KExternalClaimsSource),
        to_v1alpha1 ObjExternalClaimsSource as_ExternalClaimsSource
          (\<lambda>x _. Convert_authentication_ExternalClaimsSource_To_v1alpha1_ExternalClaimsSource x)),
      ((V1alpha1, KExternalSourceCondition), (Internal, KExternalSourceCondition),
        to_internal ObjExternalSourceCondition as_ExternalSourceCondition
          (\<lambda>x _. Convert_v1alpha1_ExternalSourceCondition_To_authentication_ExternalSourceCondition x)),
      ((Internal, KExternalSourceCondition), (V1alpha1, KExternalSourceCondition),
        to_v1alpha1 ObjExternalSourceCondition as_ExternalSourceCondition
          (\<lambda>x _. Convert_authentication_ExternalSourceCondition_To_v1alpha1_ExternalSourceCondition x)),
      ((V1alpha1, KExtraMapping), (Internal, KExtraMapping),
        to_internal ObjExtraMapping as_ExtraMapping
          (\<lambda>x _. Convert_v1alpha1_ExtraMapping_To_authentication_ExtraMapping x)),
      ((Internal, KExtraMapping), (V1alpha1, KExtraMapping),
        to_v1alpha1 ObjExtraMapping as_ExtraMapping
          (\<lambda>x _. Convert_authentication_ExtraMapping_To_v1alpha1_ExtraMapping x)),
      ((V1alpha1, KIssuer), (Internal, KIssuer),
        to_internal ObjIssuer as_Issuer
          (\<lambda>x _. Convert_v1alpha1_Issuer_To_authentication_Issuer x)),
      ((Internal, KIssuer), (V1alpha1, KIssuer),
        to_v1alpha1 ObjIssuer as_Issuer
          (\<lambda>x _. Convert_authentication_Issuer_To_v1alpha1_Issuer x)),
      ((V1alpha1, KJWTAuthenticator), (Internal, KJWTAuthenticator),
        to_internal ObjJWTAuthenticator as_JWTAuthenticator
          (\<lambda>x _. Convert_v1alpha1_JWTAuthenticator_To_authentication_JWTAuthenticator x)),
      ((Internal, KJWTAuthenticator), (V1alpha1, KJWTAuthenticator),
        to_v1alpha1 ObjJWTAuthenticator as_JWTAuthenticator
          (\<lambda>x _. Convert_authentication_JWTAuthenticator_To_v1alpha1_JWTAuthenticator x)),
      ((V1alpha1, KPrefixedClaimOrExpression), (Internal, KPrefixedClaimOrExpression),
        to_internal ObjPrefixedClaimOrExpression as_PrefixedClaimOrExpression
          (\<lambda>x _. Convert_v1alpha1_PrefixedClaimOrExpression_To_authentication_PrefixedClaimOrExpression x)),
      ((Internal, KPrefixedClaimOrExpression), (V1alpha1, KPrefixedClaimOrExpression),
        to_v1alpha1 ObjPrefixedClaimOrExpression as_PrefixedClaimOrExpression
          (\<lambda>x _. Convert_authentication_PrefixedClaimOrExpression_To_v1alpha1_PrefixedClaimOrExpression x)),
      ((V1alpha1, KSourceURL), (Internal, KSourceURL),
        to_internal ObjSourceURL as_SourceURL
          (\<lambda>x _. Convert_v1alpha1_SourceURL_To_authentication_SourceURL x)),
      ((Internal, KSourceURL), (V1alpha1, KSourceURL),
        to_v1alpha1 ObjSourceURL as_SourceURL
          (\<lambda>x _. Convert_authentication_SourceURL_To_v1alpha1_SourceURL x)),
      ((V1alpha1, KSourcedClaimMapping), (Internal, KSourcedClaimMapping),
        to_internal ObjSourcedClaimMapping as_SourcedClaimMapping
          (\<lambda>x _. Convert_v1alpha1_SourcedClaimMapping_To_authentication_SourcedClaimMapping x)),
      ((Internal, KSourcedClaimMapping), (V1alpha1, KSourcedClaimMapping),
        to_v1alpha1 ObjSourcedClaimMapping as_SourcedClaimMapping
          (\<lambda>x _. Convert_authentication_SourcedClaimMapping_To_v1alpha1_SourcedClaimMapping x)),
      ((V1alpha1, KTLS), (Internal, KTLS),
        to_internal ObjTLS as_TLS
          (\<lambda>x _. Convert_v1alpha1_TLS_To_authentication_TLS x)),
      ((Internal, KTLS), (V1alpha1, KTLS),
        to_v1alpha1 ObjTLS as_TLS
          (\<lambda>x _. Convert_authentication_TLS_To_v1alpha1_TLS x)),
      ((V1alpha1, KUserValidationRule), (Internal, KUserValidationRule),
        to_internal ObjUserValidationRule as_UserValidationRule
          (\<lambda>x _. Convert_v1alpha1_UserValidationRule_To_authentication_UserValidationRule x)),
      ((Internal, KUserValidationRule), (V1alpha1, KUserValidationRule),
        to_v1alpha1 ObjUserValidationRule as_UserValidationRule
          (\<lambda>x _. Convert_authentication_UserValidationRule_To_v1alpha1_UserValidationRule x))]"

fun add_conversions ::
  "'s scheme_lib \<Rightarrow> (go_typename \<times> go_typename \<times> conversion_func) list \<Rightarrow> 's \<Rightarrow> 's res" where
  "add_conversions lib [] s = Inr s"
| "add_conversions lib ((a, b, f) # entries) s =
     (case sl_AddGeneratedConversionFunc lib a b f s of
        Inl err \<Rightarrow> Inl err
      | Inr s' \<Rightarrow> add_conversions lib entries s')"

definition RegisterConversions :: "'s scheme_lib \<Rightarrow> 's \<Rightarrow> 's res" where
  "RegisterConversions lib s = add_conversions lib generated_conversions s"

definition GroupName :: string where
  "GroupName = ''padlok.everettraven.github.io''"

definition internal_SchemeGroupVersion :: "string \<times> string" where
  "internal_SchemeGroupVersion = (GroupName, ''__internal'')"

definition v1alpha1_SchemeGroupVersion :: "string \<times> string" where
  "v1alpha1_SchemeGroupVersion = (GroupName, ''v1alpha1'')"

text \<open>\<open>Resource\<close>: the group and the resource.\<close>

definition internal_Resource :: "string \<Rightarrow> string \<times> string" where
  "internal_Resource resource = (fst internal_SchemeGroupVersion, resource)"

definition v1alpha1_Resource :: "string \<Rightarrow> string \<times> string" where
  "v1alpha1_Resource resource = (fst v1alpha1_SchemeGroupVersion, resource)"

definition internal_addKnownTypes :: "'s scheme_lib \<Rightarrow> 's \<Rightarrow> 's res" where
  "internal_addKnownTypes lib s =
     Inr (sl_AddKnownTypes lib internal_SchemeGroupVersion [(Internal, KAuthenticationConfiguration)] s)"

definition v1alpha1_addKnownTypes :: "'s scheme_lib \<Rightarrow> 's \<Rightarrow> 's res" where
  "v1alpha1_addKnownTypes lib s =
     Inr (sl_AddKnownTypes lib v1alpha1_SchemeGroupVersion [(V1alpha1, KAuthenticationConfiguration)] s)"

text \<open>\<open>SchemeBuilder.AddToScheme\<close> applies the functions of the builder in turn until one fails.  The builder of the
  versioned package has two functions in \<open>register.go\<close>, and the \<open>init\<close> function of the generated conversions
  registers the third.\<close>

fun AddToScheme :: "('s \<Rightarrow> 's res) list \<Rightarrow> 's \<Rightarrow> 's res" where
  "AddToScheme [] s = Inr s"
| "AddToScheme (f # builder) s = (case f s of Inl err \<Rightarrow> Inl err | Inr s' \<Rightarrow> AddToScheme builder s')"

definition internal_Install :: "'s scheme_lib \<Rightarrow> 's \<Rightarrow> 's res" where
  "internal_Install lib = AddToScheme [internal_addKnownTypes lib]"

definition v1alpha1_Install :: "'s scheme_lib \<Rightarrow> 's \<Rightarrow> 's res" where
  "v1alpha1_Install lib =
     AddToScheme ([internal_Install lib, v1alpha1_addKnownTypes lib] @ [RegisterConversions lib])"

section \<open>What is registered\<close>

text \<open>What apimachinery documents of a scheme, in terms of the functions that look things up in it.\<close>

locale scheme_laws =
  fixes lib :: "'s scheme_lib"
    and known :: "'s \<Rightarrow> (string \<times> string) \<Rightarrow> go_typename set"
    and conversion :: "'s \<Rightarrow> go_typename \<Rightarrow> go_typename \<Rightarrow> conversion_func option"
  assumes known_added: "known (sl_AddKnownTypes lib gv ts s) gv' = known s gv' \<union> (if gv' = gv then set ts else {})"
    and known_kept: "conversion (sl_AddKnownTypes lib gv ts s) = conversion s"
    and conversion_added: "sl_AddGeneratedConversionFunc lib a b f s = Inr s' \<Longrightarrow>
      conversion s' a' b' = (if (a', b') = (a, b) then Some f else conversion s a' b')"
    and conversion_kept: "sl_AddGeneratedConversionFunc lib a b f s = Inr s' \<Longrightarrow> known s' = known s"
begin

lemma add_conversions_all:
  "add_conversions lib entries s = Inr s' \<Longrightarrow> known s' = known s \<and>
     conversion s' a b = (case map_of (rev (map (\<lambda>(x, y, f). ((x, y), f)) entries)) (a, b) of
        None \<Rightarrow> conversion s a b | Some f \<Rightarrow> Some f)"
proof (induction entries arbitrary: s)
  case (Cons e entries)
  obtain x y f where e: "e = (x, y, f)" by (cases e)
  with Cons.prems obtain s1 where s1: "sl_AddGeneratedConversionFunc lib x y f s = Inr s1"
    "add_conversions lib entries s1 = Inr s'" by (auto split: sum.splits)
  from Cons.IH [OF s1(2)] conversion_added [OF s1(1)] conversion_kept [OF s1(1)] show ?case
    by (auto simp: e map_add_def split: option.split)
qed simp

lemma installed:
  assumes "v1alpha1_Install lib s = Inr s'"
  shows "(Internal, KAuthenticationConfiguration) \<in> known s' internal_SchemeGroupVersion"
    and "(V1alpha1, KAuthenticationConfiguration) \<in> known s' v1alpha1_SchemeGroupVersion"
    and "map_of (rev (map (\<lambda>(x, y, f). ((x, y), f)) generated_conversions)) (a, b) = Some f \<Longrightarrow>
      conversion s' a b = Some f"
proof -
  define s2 where "s2 = sl_AddKnownTypes lib v1alpha1_SchemeGroupVersion [(V1alpha1, KAuthenticationConfiguration)]
     (sl_AddKnownTypes lib internal_SchemeGroupVersion [(Internal, KAuthenticationConfiguration)] s)"
  have r: "add_conversions lib generated_conversions s2 = Inr s'"
    using assms by (simp add: v1alpha1_Install_def internal_Install_def internal_addKnownTypes_def
        v1alpha1_addKnownTypes_def RegisterConversions_def s2_def split: sum.splits)
  note all = add_conversions_all [OF r]
  show "(Internal, KAuthenticationConfiguration) \<in> known s' internal_SchemeGroupVersion"
    and "(V1alpha1, KAuthenticationConfiguration) \<in> known s' v1alpha1_SchemeGroupVersion"
    using all by (simp_all add: s2_def known_added)
  show "conversion s' a b = Some f"
    if "map_of (rev (map (\<lambda>(x, y, f). ((x, y), f)) generated_conversions)) (a, b) = Some f"
    using all that by simp
qed

end

text \<open>A plain scheme: a set of types for each group version, and a map of functions.\<close>

record plain_scheme =
  ps_known :: "string \<times> string \<Rightarrow> go_typename set"
  ps_conversion :: "go_typename \<Rightarrow> go_typename \<Rightarrow> conversion_func option"

definition plain_lib :: "plain_scheme scheme_lib" where
  "plain_lib = \<lparr>
     sl_AddKnownTypes = (\<lambda>gv ts s. s\<lparr>ps_known := (ps_known s)(gv := ps_known s gv \<union> set ts)\<rparr>),
     sl_AddGeneratedConversionFunc = (\<lambda>a b f s.
       Inr (s\<lparr>ps_conversion := (ps_conversion s)(a := (ps_conversion s a)(b \<mapsto> f))\<rparr>))\<rparr>"

interpretation plain_scheme: scheme_laws plain_lib ps_known ps_conversion
  by unfold_locales (auto simp: plain_lib_def split: if_splits)

section \<open>The registered conversions are inverse\<close>

definition version_of :: "'v + 'i \<Rightarrow> api_version" where
  "version_of x = (case x of Inl _ \<Rightarrow> V1alpha1 | Inr _ \<Rightarrow> Internal)"

fun object_type :: "api_object \<Rightarrow> go_typename" where
  "object_type (ObjAuthentication x) = (version_of x, KAuthentication)"
| "object_type (ObjAuthenticationConfiguration x) = (version_of x, KAuthenticationConfiguration)"
| "object_type (ObjClaimMappings x) = (version_of x, KClaimMappings)"
| "object_type (ObjClaimOrExpression x) = (version_of x, KClaimOrExpression)"
| "object_type (ObjClaimValidationRule x) = (version_of x, KClaimValidationRule)"
| "object_type (ObjClientCredentialConfig x) = (version_of x, KClientCredentialConfig)"
| "object_type (ObjExternalClaimsSource x) = (version_of x, KExternalClaimsSource)"
| "object_type (ObjExternalSourceCondition x) = (version_of x, KExternalSourceCondition)"
| "object_type (ObjExtraMapping x) = (version_of x, KExtraMapping)"
| "object_type (ObjIssuer x) = (version_of x, KIssuer)"
| "object_type (ObjJWTAuthenticator x) = (version_of x, KJWTAuthenticator)"
| "object_type (ObjPrefixedClaimOrExpression x) = (version_of x, KPrefixedClaimOrExpression)"
| "object_type (ObjSourceURL x) = (version_of x, KSourceURL)"
| "object_type (ObjSourcedClaimMapping x) = (version_of x, KSourcedClaimMapping)"
| "object_type (ObjTLS x) = (version_of x, KTLS)"
| "object_type (ObjUserValidationRule x) = (version_of x, KUserValidationRule)"

definition conversion_table :: "go_typename \<times> go_typename \<Rightarrow> conversion_func option" where
  "conversion_table = map_of (rev (map (\<lambda>(x, y, f). ((x, y), f)) generated_conversions))"

lemmas conversion_table_entries = conversion_table_def [unfolded generated_conversions_def, simplified]

lemmas as_type_defs = as_Authentication_def as_AuthenticationConfiguration_def as_ClaimMappings_def as_ClaimOrExpression_def as_ClaimValidationRule_def as_ClientCredentialConfig_def as_ExternalClaimsSource_def as_ExternalSourceCondition_def as_ExtraMapping_def as_Issuer_def as_JWTAuthenticator_def as_PrefixedClaimOrExpression_def as_SourceURL_def as_SourcedClaimMapping_def as_TLS_def as_UserValidationRule_def

lemma version_of_cases:
  "version_of x = V1alpha1 \<longleftrightarrow> (\<exists>v. x = Inl v)" "version_of x = Internal \<longleftrightarrow> (\<exists>i. x = Inr i)"
  by (auto simp: version_of_def split: sum.splits)

lemma conversion_table_simps:
  "conversion_table ((V1alpha1, k), (Internal, k)) \<noteq> None"
  "conversion_table ((Internal, k), (V1alpha1, k)) \<noteq> None"
  by (cases k; simp add: conversion_table_entries)+

lemma object_type_iff:
  "object_type x = (v, KAuthentication) \<longleftrightarrow> (\<exists>t. x = ObjAuthentication t \<and> version_of t = v)"
  "object_type x = (v, KAuthenticationConfiguration) \<longleftrightarrow> (\<exists>t. x = ObjAuthenticationConfiguration t \<and> version_of t = v)"
  "object_type x = (v, KClaimMappings) \<longleftrightarrow> (\<exists>t. x = ObjClaimMappings t \<and> version_of t = v)"
  "object_type x = (v, KClaimOrExpression) \<longleftrightarrow> (\<exists>t. x = ObjClaimOrExpression t \<and> version_of t = v)"
  "object_type x = (v, KClaimValidationRule) \<longleftrightarrow> (\<exists>t. x = ObjClaimValidationRule t \<and> version_of t = v)"
  "object_type x = (v, KClientCredentialConfig) \<longleftrightarrow> (\<exists>t. x = ObjClientCredentialConfig t \<and> version_of t = v)"
  "object_type x = (v, KExternalClaimsSource) \<longleftrightarrow> (\<exists>t. x = ObjExternalClaimsSource t \<and> version_of t = v)"
  "object_type x = (v, KExternalSourceCondition) \<longleftrightarrow> (\<exists>t. x = ObjExternalSourceCondition t \<and> version_of t = v)"
  "object_type x = (v, KExtraMapping) \<longleftrightarrow> (\<exists>t. x = ObjExtraMapping t \<and> version_of t = v)"
  "object_type x = (v, KIssuer) \<longleftrightarrow> (\<exists>t. x = ObjIssuer t \<and> version_of t = v)"
  "object_type x = (v, KJWTAuthenticator) \<longleftrightarrow> (\<exists>t. x = ObjJWTAuthenticator t \<and> version_of t = v)"
  "object_type x = (v, KPrefixedClaimOrExpression) \<longleftrightarrow> (\<exists>t. x = ObjPrefixedClaimOrExpression t \<and> version_of t = v)"
  "object_type x = (v, KSourceURL) \<longleftrightarrow> (\<exists>t. x = ObjSourceURL t \<and> version_of t = v)"
  "object_type x = (v, KSourcedClaimMapping) \<longleftrightarrow> (\<exists>t. x = ObjSourcedClaimMapping t \<and> version_of t = v)"
  "object_type x = (v, KTLS) \<longleftrightarrow> (\<exists>t. x = ObjTLS t \<and> version_of t = v)"
  "object_type x = (v, KUserValidationRule) \<longleftrightarrow> (\<exists>t. x = ObjUserValidationRule t \<and> version_of t = v)"
  by (cases x; auto)+

text \<open>The generated functions do not touch the type meta of a configuration: the target keeps its own.\<close>

definition with_type_meta_of :: "api_object \<Rightarrow> api_object \<Rightarrow> api_object" where
  "with_type_meta_of out x =
     (case (as_AuthenticationConfiguration out, as_AuthenticationConfiguration x) of
        (Some (Inl t), Some (Inl c)) \<Rightarrow> ObjAuthenticationConfiguration (Inl (c\<lparr>v1_cfg_TypeMeta := v1_cfg_TypeMeta t\<rparr>))
      | (Some (Inr t), Some (Inr c)) \<Rightarrow> ObjAuthenticationConfiguration (Inr (c\<lparr>cfg_TypeMeta := cfg_TypeMeta t\<rparr>))
      | _ \<Rightarrow> x)"

lemmas conversion_roundtrips = auth_conv.roundtrips cm_conv.roundtrips ce_conv.roundtrips cvr_conv.roundtrips cc_conv.roundtrips
  ecs_conv.roundtrips esc_conv.roundtrips em_conv.roundtrips issuer_conv.roundtrips jwt_conv.roundtrips pce_conv.roundtrips
  surl_conv.roundtrips scm_conv.roundtrips tls_conv.roundtrips uvr_conv.roundtrips

lemmas conversion_functions = conversion_table_entries to_internal_def to_v1alpha1_def as_type_defs with_type_meta_of_def
  Convert_v1alpha1_AuthenticationConfiguration_To_authentication_AuthenticationConfiguration_def
  Convert_authentication_AuthenticationConfiguration_To_v1alpha1_AuthenticationConfiguration_def

lemma table_roundtrip:
  assumes "object_type x = (V1alpha1, k)" and "object_type y = (Internal, k)"
    and "object_type out = (V1alpha1, k)" and "object_type out' = (Internal, k)"
  shows "\<exists>f g x' y'. conversion_table ((V1alpha1, k), (Internal, k)) = Some f \<and>
    conversion_table ((Internal, k), (V1alpha1, k)) = Some g \<and>
    f x out' = Some x' \<and> object_type x' = (Internal, k) \<and> g x' out = Some (with_type_meta_of out x) \<and>
    g y out = Some y' \<and> object_type y' = (V1alpha1, k) \<and> f y' out' = Some (with_type_meta_of out' y)"
  using assms
  by (cases k; clarsimp simp: object_type_iff version_of_cases;
      simp add: conversion_functions version_of_cases conversion_roundtrips del: map_map)

text \<open>
  C37: once the versioned package is installed in a scheme, the scheme knows the configuration in both versions and converts
  every object of one of the sixteen types in either direction without loss: the object that a conversion gives, converted into any other
  object of the first version, makes that the first object, except that a configuration as a whole keeps the type meta of its target.
\<close>

theorem installed_conversions_roundtrip:
  assumes "scheme_laws lib known conversion" and "v1alpha1_Install lib s = Inr s'"
    and "object_type x = (V1alpha1, k)" and "object_type y = (Internal, k)"
    and "object_type out = (V1alpha1, k)" and "object_type out' = (Internal, k)"
  shows "(Internal, KAuthenticationConfiguration) \<in> known s' internal_SchemeGroupVersion \<and>
    (V1alpha1, KAuthenticationConfiguration) \<in> known s' v1alpha1_SchemeGroupVersion \<and>
    (\<exists>f g x' y'. conversion s' (V1alpha1, k) (Internal, k) = Some f \<and> conversion s' (Internal, k) (V1alpha1, k) = Some g \<and>
      f x out' = Some x' \<and> object_type x' = (Internal, k) \<and> g x' out = Some (with_type_meta_of out x) \<and>
      g y out = Some y' \<and> object_type y' = (V1alpha1, k) \<and> f y' out' = Some (with_type_meta_of out' y))"
proof -
  note inst = scheme_laws.installed [OF assms(1,2)]
  have conv: "conversion_table (a, b) = Some f \<Longrightarrow> conversion s' a b = Some f" for a b f
    using inst(3) by (simp add: conversion_table_def)
  from table_roundtrip [OF assms(3-6)] inst(1,2) show ?thesis
    by (elim exE conjE) (intro conjI exI; (assumption | erule conv))
qed

definition empty_plain_scheme :: plain_scheme where
  "empty_plain_scheme = \<lparr>ps_known = (\<lambda>_. {}), ps_conversion = (\<lambda>_ _. None)\<rparr>"

lemma plain_install: "\<exists>s'. v1alpha1_Install plain_lib s = Inr s'"
proof -
  have "\<exists>s'. add_conversions plain_lib entries s = Inr s'" for entries s
    by (induction plain_lib entries s rule: add_conversions.induct) (simp_all add: plain_lib_def)
  then show ?thesis
    by (simp add: v1alpha1_Install_def internal_Install_def internal_addKnownTypes_def v1alpha1_addKnownTypes_def
        RegisterConversions_def split: sum.split) (metis sum.distinct(1))
qed

text \<open>TLS settings converted to the internal version and back into empty ones.\<close>

theorem installed_conversions_roundtrip_witness:
  "\<exists>s' f g x'. v1alpha1_Install plain_lib empty_plain_scheme = Inr s' \<and>
    ps_conversion s' (V1alpha1, KTLS) (Internal, KTLS) = Some f \<and> ps_conversion s' (Internal, KTLS) (V1alpha1, KTLS) = Some g \<and>
    f (ObjTLS (Inl \<lparr>v1_tls_CertificateAuthority = Some ''PEM''\<rparr>)) (ObjTLS (Inr \<lparr>tls_CertificateAuthority = None\<rparr>)) = Some x' \<and>
    g x' (ObjTLS (Inl \<lparr>v1_tls_CertificateAuthority = None\<rparr>)) = Some (ObjTLS (Inl \<lparr>v1_tls_CertificateAuthority = Some ''PEM''\<rparr>))"
proof -
  let ?x = "ObjTLS (Inl \<lparr>v1_tls_CertificateAuthority = Some ''PEM''\<rparr>)"
  let ?out = "ObjTLS (Inl \<lparr>v1_tls_CertificateAuthority = None\<rparr>)" and ?out' = "ObjTLS (Inr \<lparr>tls_CertificateAuthority = None\<rparr>)"
  obtain s' where s': "v1alpha1_Install plain_lib empty_plain_scheme = Inr s'" using plain_install by blast
  have "object_type ?x = (V1alpha1, KTLS)" "object_type ?out' = (Internal, KTLS)" "object_type ?out = (V1alpha1, KTLS)"
    by (simp_all add: version_of_def)
  moreover have "with_type_meta_of ?out ?x = ?x" by (simp add: with_type_meta_of_def as_AuthenticationConfiguration_def)
  ultimately show ?thesis
    using installed_conversions_roundtrip [OF plain_scheme.scheme_laws_axioms s', of ?x KTLS ?out' ?out ?out'] s' by auto
qed

end
