(* ===== verification/Spec2Isabelle.thy ===== *)
theory Spec2Isabelle
  imports Program Concurrent_Requests Expression_Types Cel_Base Jwks_Metrics Deep_Copy_V1 Api_Scheme
begin

text \<open>
  Padlok is a webhook token authenticator for Kubernetes.  The API server posts a TokenReview; padlok
  verifies the JWT in it with the OIDC authenticator of the API server, of which it keeps a fork,
  enriches the claims from external HTTP sources, maps them to a user and answers with the
  reviewed token.  Its configuration file is watched and reloaded while it runs.

  \<^bold>\<open>Parts and theories.\<close>  From the data to the server:

  \<^item> Prelude: errors as values (\<open>error\<close>, \<open>'a res\<close>), field errors and paths, error propagation
    (\<open>bind_res\<close>, \<open>map_res\<close>), the loops of the validators (\<open>concat_idx\<close>, \<open>scan_idx\<close>) with the contracts
    \<open>seen_scan\<close> and \<open>emit_scan\<close>.
  \<^item> Go_Text, Go_Json, Go_Url, Go_Regexp: what the code uses of \<open>strings\<close>, \<open>unicode/utf8\<close>, \<open>strconv\<close>,
    \<open>encoding/base64\<close>, \<open>encoding/json\<close>, \<open>net/url\<close> and \<open>regexp\<close>.
  \<^item> Api_Types and Api_V1alpha1: the types of \<open>pkg/apis/authentication\<close> and of its version v1alpha1, and
    the generated conversions (\<open>zz_generated.conversion.go\<close>); the contract \<open>mutual_inverse\<close>.
  \<^item> Api_Scheme: \<open>register.go\<close> of both packages and \<open>RegisterConversions\<close>; the contract \<open>scheme_laws\<close>.
  \<^item> Go_Memory: a heap of blocks, pointers and slices as addresses, views that read what memory stands for, and
    the contract \<open>deep_copier\<close>; Deep_Copy and Deep_Copy_V1: the generated deep copies (\<open>zz_generated.deepcopy.go\<close>) on it.
  \<^item> Api_Conversion: the conversion to the types of the API server (\<open>conversion/conversion.go\<close>).
  \<^item> Cel: accessors, compiler wrapper and mappers of CEL expressions (\<open>pkg/cel\<close> and
    \<open>externalclaims/cel\<close>); cel-go is the parameter \<open>cel_engine\<close>.
  \<^item> Http: requests, transports, redirects and the environment; all that is sent is a history of events.
  \<^item> Token_Getters: \<open>externalclaims/tokengetters\<close>; the contract \<open>access_token_getter\<close>.
  \<^item> Oidc_Claims, Oidc_Verify, Oidc_Authenticator: \<open>oidc.go\<close> and \<open>oidc_patch.go\<close> of the fork: claims, their expansion
    (contract \<open>expander_invariant\<close>), distributed claims, verification, \<open>AuthenticateToken\<close> (contract \<open>token_authenticator\<close>).
  \<^item> Cel_Escaping and Lazy_Claims: \<open>escaping.go\<close> and \<open>lazy.go\<close> of the fork and the unescaping wrappers of \<open>oidc.go\<close>, by
    which an expression reads the claims; they justify that Cel shows a program the claims as a map.
  \<^item> Cel_Versions and Cel_Base: the versions that guard options and expressions, the options of \<open>environment/base.go\<close> and the
    table in which it keeps the base environments it has made.
  \<^item> Cel_Environments: \<open>types.go\<close> and \<open>environment.go\<close> of the fork's \<open>pkg/cel\<close>, \<open>compile.go\<close>, \<open>compile_patch.go\<close> and padlok's
    \<open>compiler.go\<close>: the environments of the three variables, which give the engine that Cel takes as a parameter.
  \<^item> Claims_Resolver: \<open>externalclaims/resolver/resolver.go\<close>, one external source.
  \<^item> Apiserver_Validation, Padlok_Validation, Validation_Paths: the two \<open>validation.go\<close>.
  \<^item> Expression_Types: the type safety of rules and conditions.
  \<^item> Oidc_New: \<open>New\<close> of the fork and the initialisation of an authenticator, as a step relation.
  \<^item> Padlok_Oidc: \<open>pkg/oidc/oidc.go\<close>, from a padlok configuration to an authenticator of the fork.
  \<^item> Token_Union: \<open>token/union/union.go\<close> and the instrumented authenticator of \<open>metrics.go\<close>.
  \<^item> Jwks_Metrics: the tables and latencies of \<open>metrics.go\<close>, their registration and collection, and the round tripper of
    \<open>oidc.go\<close> that fills them.
  \<^item> Configurator: \<open>configurator.go\<close> and \<open>jwt.go\<close>, loading and reloading, as a step relation.
  \<^item> Configurator_Spec: its abstract specification, the register of the content loaded last, which a content becomes when validation accepts
    it and its authenticators can be built at that time.
  \<^item> File_Watcher: \<open>watchuntil.go\<close>, the loop that calls the configurator's handler (contract \<open>event_handler\<close>), with what the
    library holds a watch of.
  \<^item> Webhook_Server: \<open>authenticate.go\<close>, \<open>server.go\<close>; Program: \<open>run.go\<close>, \<open>root.go\<close> and \<open>main.go\<close>, the whole
    program, whose end is a relation: the server, the goroutine of the configurator and signals race to end it.
  \<^item> Concurrent_Requests: requests that are under way while the file is reloaded and authenticators are initialised.

  Sample_Environment holds the concrete environment at which the properties are applied.

  \<^bold>\<open>How the parts interact.\<close>  \<open>handleConfigChange\<close> reads and validates a file, builds one authenticator for each
  of its entries (\<open>padlok_New\<close>, \<open>k8soidc_New\<close>), cancels the previous ones and stores the union of the new ones.
  \<open>ServeHTTP\<close> asks the stored union; each authenticator checks the issuer, calls its
  verifier, runs its expanders (\<open>ExpandClaims\<close>) and maps the claims.  In the background every
  authenticator polls its provider until it has a verifier.  State is passed explicitly; the two background
  activities are the inductive relations \<open>init_step\<close> and \<open>config_reachable\<close> (\<open>config_trace\<close> with the files seen), whose steps may come in any order
  and with any input from outside.  A request reads the union in use when it begins and is answered by it when it ends;
  \<open>serving_trace\<close> lets reloads and initialisations come in between.

  \<^bold>\<open>What is shown.\<close>
  End to end, an authenticated review is only sent for a token of an entry of the content of the file loaded last,
  for one of its audiences (Program), and exactly when the server replies with one (Webhook_Server).  Of the configurator: its invariant, that a failed reload keeps what
  is in use, exactly when a valid file is loaded (its token endpoints must answer), that no configuration makes it panic, that at most
  one authenticator answers a token; that it refines the register of the content loaded last, on its own and under
  its file watcher, which never loses the file.  Of a request under way: it is judged by the content in use when it began.
  Of an authenticator: exactly when it is built, when a token is accepted and as whom, that
  it is ready when it says so, that it initialises once its provider answers, that it enforces the configured audiences and claims.
  Of the expansion: it never fails, is gated by its conditions, changes only the claims it names, what it sends and to
  whom, exactly which values of a source are read back.  Of validation: what an accepted configuration satisfies, host names (of
  any length) and client credentials exactly, that the compiled mapper is the configuration, that accepted rules evaluate to booleans, that sources that are
  accepted can be built.  Of expressions: escaping of field names is undone by unescaping, the lazily decoded claims refine the
  plain map, escaped names reach every nested field, what iterating over the claims gives, an
  expression sees its own variable only, an expression compiles the same whatever was compiled before, and the declared type of the
  user is that of its value.  Of the metrics: the round tripper changes nothing
  for its client and records what was fetched.  Of the configuration types: the registered conversions are inverse in both directions, into any target, a deep copy
  stands for the same value and shares no memory with its original.

  \<^bold>\<open>Bounds.\<close>  No definition runs on fuel.  The recursion of \<open>follow_redirects\<close> is on the number of redirects that
  \<open>http.Client\<close> still follows, nine at first; loops over text decrease its length.  Integers of the code are lengths and
  limits far below their width, so that they are natural numbers here.

  \<^bold>\<open>Parameters.\<close>  Code that is not in the repository is an argument: the network and the OAuth2 token source, cel-go,
  go-oidc, PEM parsing, parsing of IP literals, SHA-256, the YAML decoder, the codec of TokenReviews, the TLS tables, the scheme
  of apimachinery; what fsnotify and the ticker deliver is the input of the watcher's loop.  What a property
  assumes of them is a premise: hashes are not empty, domain-prefixed paths do not depend on
  the field path, the PEM parsers agree, encoded reviews show whether they are authenticated, contents that were
  read do not collide under SHA-256, extending a CEL environment declares the variables given and undeclared ones do not compile, compiled expressions of type bool give bools, a
  scheme returns what was added to it, the maps and lists of cel-go are read as such.

  \<^bold>\<open>Not modelled.\<close>  Log lines; the buckets in which latencies are counted; what the options of the base CEL environment mean to
  cel-go; the time between ticks of the watcher; which of the ends of the process comes first;
  the limit that \<open>encoding/json\<close> puts on nesting; capacities of slices beyond their length; the parsing of flags, which is cobra's; the parts of the forked
  packages that padlok does not call.
\<close>

end
